(* ===== verification/Protocol.thy ===== *)
theory Protocol
  imports Prelude
begin

text \<open>
  The wire vocabulary of \<open>src/src/protocol.rs\<close>: the packet envelope, the signaling envelope and
  its message kinds, the genesis advertisement, and the subprotocol list of the egress WebSocket
  handshake with the check that keeps a remote-supplied session identifier from adding entries
  to that list. JSON text and base64 are the serde and base64 crates; the parts of the source
  that call them take them as arguments.
\<close>

section \<open>Constants and messages\<close>

definition PROTOCOL_VERSION :: string where
  [wire_consts]: "PROTOCOL_VERSION = ''v2.3.0''"

definition SUBPROTOCOL_MAGIC_COOKIE :: string where
  [wire_consts]: "SUBPROTOCOL_MAGIC_COOKIE = ''un80und3d''"

definition VERSION_HEADER :: string where
  [wire_consts]: "VERSION_HEADER = ''X-BF-Version''"

record UnboundedPacket =
  source_addr :: string
  packet_payload :: bytes

definition UnboundedPacket_new :: "string \<Rightarrow> bytes \<Rightarrow> UnboundedPacket" where
  "UnboundedPacket_new source payload = \<lparr>source_addr = source, packet_payload = payload\<rparr>"

datatype SignalMessageType = Genesis | Offer | Answer | Ice

text \<open>The discriminants of the \<open>repr(u8)\<close> enum, as the cast \<open>kind as u8\<close> reads them.\<close>

fun kind_as_u8 :: "SignalMessageType \<Rightarrow> u8" where
  "kind_as_u8 Genesis = 0"
| "kind_as_u8 Offer = 1"
| "kind_as_u8 Answer = 2"
| "kind_as_u8 Ice = 3"

record SignalMessage =
  reply_to :: string
  kind :: SignalMessageType
  signal_payload :: string

text \<open>\<open>decode_payload\<close> runs the JSON decoder of the caller's type on the payload text.\<close>

definition decode_payload :: "(string \<Rightarrow> 'je + 'a) \<Rightarrow> SignalMessage \<Rightarrow> 'je + 'a" where
  "decode_payload from_str m = from_str (signal_payload m)"

record Endpoint =
  host :: string
  distance :: u32

record PathAssertion =
  allow :: "Endpoint list option"
  deny :: "Endpoint list option"
  jit_unavailable :: bool

definition all_hosts_on_request :: PathAssertion where
  "all_hosts_on_request =
     \<lparr>allow = Some [\<lparr>host = ''$'', distance = 1\<rparr>], deny = None, jit_unavailable = False\<rparr>"

record GenesisMessage =
  path_assertion :: PathAssertion

section \<open>Subprotocol negotiation\<close>

definition egress_subprotocols :: "string \<Rightarrow> string \<Rightarrow> string list" where
  "egress_subprotocols csid version = [SUBPROTOCOL_MAGIC_COOKIE, csid, version]"

definition parse_egress_subprotocols :: "string list \<Rightarrow> (string \<times> string) option" where
  "parse_egress_subprotocols values =
     (if length values \<noteq> 3 then None else Some (values ! 1, values ! 2))"

definition is_subprotocol_token :: "string \<Rightarrow> bool" where
  "is_subprotocol_token value \<longleftrightarrow>
     value \<noteq> [] \<and> list_all (\<lambda>b. is_ascii_graphic b \<and> b \<noteq> 44) (str_bytes value)"

section \<open>Base64 payloads\<close>

text \<open>
  The module \<open>base64_payload\<close>: the serializer writes the encoded text, the deserializer reads a
  string and decodes it, turning a decoding error into a deserializer error.
\<close>

definition base64_serialize :: "(bytes \<Rightarrow> string) \<Rightarrow> (string \<Rightarrow> 'o) \<Rightarrow> bytes \<Rightarrow> 'o" where
  "base64_serialize encode serialize_str bs = serialize_str (encode bs)"

definition base64_deserialize ::
    "(string \<Rightarrow> 'be + bytes) \<Rightarrow> ('be \<Rightarrow> 'de) \<Rightarrow> ('d \<Rightarrow> 'de + string) \<Rightarrow> 'd \<Rightarrow> 'de + bytes" where
  "base64_deserialize decode custom string_deserialize d =
     and_then (string_deserialize d) (\<lambda>encoded. map_err custom (decode encoded))"

section \<open>The subprotocol header\<close>

text \<open>
  What the receiver of a \<open>Sec-WebSocket-Protocol\<close> header makes of it: a comma-separated list
  whose entries lose surrounding blanks and tabs. This is the reading the handshake relies on;
  it is a specification, not code of the repository.
\<close>

definition is_ows :: "char \<Rightarrow> bool" where
  "is_ows c \<longleftrightarrow> c = CHR '' '' \<or> c = CHR 0x09"

definition header_tokens :: "string \<Rightarrow> string list" where
  "header_tokens h = map (trim_matches is_ows) (split_on CHR '','' h)"

lemma token_char:
  assumes "is_subprotocol_token s" and "c \<in> set s"
  shows "c \<noteq> CHR '',''" and "\<not> is_ows c"
proof -
  from assms have "is_ascii_graphic (char_byte c) \<and> char_byte c \<noteq> 44"
    by (auto simp: is_subprotocol_token_def str_bytes_def list_all_iff)
  then show "c \<noteq> CHR '',''" and "\<not> is_ows c"
    by (auto simp: is_ascii_graphic_def char_byte_def is_ows_def)
qed

lemma token_not_Nil: "is_subprotocol_token s \<Longrightarrow> s \<noteq> []"
  by (simp add: is_subprotocol_token_def)

lemma token_no_comma: "is_subprotocol_token s \<Longrightarrow> CHR '','' \<notin> set s"
  using token_char(1) by blast

lemma trim_token: "is_subprotocol_token s \<Longrightarrow> trim_matches is_ows s = s"
  by (rule trim_matches_id) (auto simp: token_not_Nil token_char(2))

lemma trim_space_token: "is_subprotocol_token s \<Longrightarrow> trim_matches is_ows (CHR '' '' # s) = s"
  by (simp add: trim_matches_Cons is_ows_def [of "CHR '' ''"] trim_token)

lemma header_tokens_single: "is_subprotocol_token s \<Longrightarrow> header_tokens s = [s]"
  by (simp add: header_tokens_def split_on_free token_no_comma trim_token)

lemma header_tokens_join:
  "list_all is_subprotocol_token (t # ts) \<Longrightarrow> header_tokens (str_join '', '' (t # ts)) = t # ts"
proof -
  have "map (trim_matches is_ows) (split_on CHR '','' (CHR '' '' # str_join '', '' (t # ts)))
      = t # ts" if "list_all is_subprotocol_token (t # ts)" for t ts
    using that
  proof (induction ts arbitrary: t)
    case Nil
    then show ?case by (simp add: split_on_free token_no_comma trim_space_token)
  next
    case (Cons u us)
    then have "CHR '','' \<notin> set (CHR '' '' # t)"
      using token_no_comma by auto
    from split_on_append [OF this, of "CHR '' '' # str_join '', '' (u # us)"] Cons
    show ?case by (simp add: trim_space_token del: split_on.simps)
  qed
  then show "list_all is_subprotocol_token (t # ts) \<Longrightarrow> ?thesis"
    by (cases ts)
      (auto simp: header_tokens_def token_no_comma trim_token split_on_append split_on_free
        simp del: split_on.simps)
qed

lemma wire_tokens [simp]:
  "is_subprotocol_token SUBPROTOCOL_MAGIC_COOKIE" "is_subprotocol_token PROTOCOL_VERSION"
  by (simp_all add: wire_consts is_subprotocol_token_def str_bytes_def char_byte_def
      is_ascii_graphic_def)

section \<open>Properties\<close>

text \<open>
  C5. A session identifier cannot add subprotocols. When the identifier and the version pass
  \<open>is_subprotocol_token\<close>, the receiver of the header line that joins \<open>egress_subprotocols\<close> with
  a comma and a blank reads back exactly the three values that were sent, and
  \<open>parse_egress_subprotocols\<close> finds the identifier and the version in them.
\<close>

theorem subprotocol_header_no_injection:
  assumes "is_subprotocol_token csid" and "is_subprotocol_token version"
  shows "header_tokens (str_join '', '' (egress_subprotocols csid version)) =
      egress_subprotocols csid version
    \<and> parse_egress_subprotocols (header_tokens (str_join '', '' (egress_subprotocols csid version))) =
      Some (csid, version)"
proof -
  have "header_tokens (str_join '', '' (egress_subprotocols csid version)) =
      egress_subprotocols csid version"
    unfolding egress_subprotocols_def by (rule header_tokens_join) (simp add: assms)
  then show ?thesis by (simp add: parse_egress_subprotocols_def egress_subprotocols_def)
qed

theorem subprotocol_header_no_injection_witness:
  "is_subprotocol_token ''a1B2/c3+d4='' \<and>
   header_tokens (str_join '', '' (egress_subprotocols ''a1B2/c3+d4='' PROTOCOL_VERSION)) =
     [''un80und3d'', ''a1B2/c3+d4='', ''v2.3.0'']"
proof -
  have h: "is_subprotocol_token ''a1B2/c3+d4=''"
    by (simp add: is_subprotocol_token_def str_bytes_def char_byte_def is_ascii_graphic_def)
  then show ?thesis
    using subprotocol_header_no_injection [OF h wire_tokens(2)]
    by (simp add: egress_subprotocols_def wire_consts)
qed

end
