(* ===== verification/Channel.thy ===== *)
theory Channel
  imports Prelude
begin

text \<open>
  The bounded channel of the tokio crate, \<open>tokio::sync::mpsc\<close>, as the components use it. The
  crate is not part of the repository: the definitions of the components take the operations of
  a channel as an argument of type \<open>mpsc_ops\<close>, and the locale \<open>bounded_mpsc\<close> states what the
  crate documents of them. The first-in first-out list channel at the end of the theory satisfies
  the documented behaviour.
\<close>

section \<open>Operations\<close>

datatype try_send_result = SendOk | SendFull | SendClosed

text \<open>
  One value of type \<open>'c\<close> is a channel with everything that its handles share. A \<open>Sender\<close> that is
  cloned or dropped, and a \<open>Receiver\<close> that is dropped, are operations on it.
\<close>

record ('c, 'a) mpsc_ops =
  channel :: "nat \<Rightarrow> 'c"
  chan_try_send :: "'c \<Rightarrow> 'a \<Rightarrow> 'c \<times> try_send_result"
  chan_poll_recv :: "'c \<Rightarrow> 'c \<times> 'a option poll"
  chan_clone_tx :: "'c \<Rightarrow> 'c"
  chan_drop_tx :: "'c \<Rightarrow> 'c"
  chan_drop_rx :: "'c \<Rightarrow> 'c"
  queued :: "'c \<Rightarrow> 'a list"
  max_capacity :: "'c \<Rightarrow> nat"
  senders :: "'c \<Rightarrow> nat"
  rx_alive :: "'c \<Rightarrow> bool"

text \<open>
  The last four fields observe a channel: the messages it holds, the capacity it was created
  with, the number of its senders, and whether its receiver exists. No definition that models
  code of the repository uses them.
\<close>

section \<open>Documented behaviour\<close>

locale bounded_mpsc =
  fixes ops :: "('c, 'a) mpsc_ops"
  assumes channel_spec:
      "queued ops (channel ops n) = []" "max_capacity ops (channel ops n) = n"
      "senders ops (channel ops n) = 1" "rx_alive ops (channel ops n)"
    and try_send_closed:
      "\<not> rx_alive ops c \<Longrightarrow> snd (chan_try_send ops c a) = SendClosed"
    and try_send_full:
      "rx_alive ops c \<Longrightarrow> max_capacity ops c \<le> length (queued ops c) \<Longrightarrow>
         snd (chan_try_send ops c a) = SendFull"
    and try_send_ok:
      "rx_alive ops c \<Longrightarrow> length (queued ops c) < max_capacity ops c \<Longrightarrow>
         snd (chan_try_send ops c a) = SendOk"
    and queued_try_send:
      "queued ops (fst (chan_try_send ops c a)) =
         (if snd (chan_try_send ops c a) = SendOk then queued ops c @ [a] else queued ops c)"
    and try_send_frame:
      "max_capacity ops (fst (chan_try_send ops c a)) = max_capacity ops c"
      "senders ops (fst (chan_try_send ops c a)) = senders ops c"
      "rx_alive ops (fst (chan_try_send ops c a)) = rx_alive ops c"
    and poll_recv_some:
      "queued ops c = a # q \<Longrightarrow> snd (chan_poll_recv ops c) = Ready (Some a)"
      "queued ops c = a # q \<Longrightarrow> queued ops (fst (chan_poll_recv ops c)) = q"
    and poll_recv_none:
      "queued ops c = [] \<Longrightarrow> senders ops c = 0 \<Longrightarrow> snd (chan_poll_recv ops c) = Ready None"
    and poll_recv_pending:
      "queued ops c = [] \<Longrightarrow> 0 < senders ops c \<Longrightarrow> snd (chan_poll_recv ops c) = Pending"
    and queued_poll_recv_empty:
      "queued ops c = [] \<Longrightarrow> queued ops (fst (chan_poll_recv ops c)) = []"
    and poll_recv_frame:
      "max_capacity ops (fst (chan_poll_recv ops c)) = max_capacity ops c"
      "senders ops (fst (chan_poll_recv ops c)) = senders ops c"
      "rx_alive ops (fst (chan_poll_recv ops c)) = rx_alive ops c"
    and clone_tx_spec:
      "queued ops (chan_clone_tx ops c) = queued ops c"
      "max_capacity ops (chan_clone_tx ops c) = max_capacity ops c"
      "senders ops (chan_clone_tx ops c) = Suc (senders ops c)"
      "rx_alive ops (chan_clone_tx ops c) = rx_alive ops c"
    and drop_tx_spec:
      "queued ops (chan_drop_tx ops c) = queued ops c"
      "max_capacity ops (chan_drop_tx ops c) = max_capacity ops c"
      "senders ops (chan_drop_tx ops c) = senders ops c - 1"
      "rx_alive ops (chan_drop_tx ops c) = rx_alive ops c"
    and drop_rx_spec:
      "max_capacity ops (chan_drop_rx ops c) = max_capacity ops c"
      "senders ops (chan_drop_rx ops c) = senders ops c"
      "\<not> rx_alive ops (chan_drop_rx ops c)"
begin

lemmas mpsc_simps [simp] =
  channel_spec try_send_frame poll_recv_frame clone_tx_spec drop_tx_spec drop_rx_spec

lemma try_send_result:
  "snd (chan_try_send ops c a) =
     (if \<not> rx_alive ops c then SendClosed
      else if length (queued ops c) < max_capacity ops c then SendOk else SendFull)"
  by (simp add: try_send_closed try_send_full try_send_ok)

lemma queued_try_send_if:
  "queued ops (fst (chan_try_send ops c a)) =
     (if rx_alive ops c \<and> length (queued ops c) < max_capacity ops c
      then queued ops c @ [a] else queued ops c)"
  by (simp add: queued_try_send try_send_result)

lemma poll_recv_result:
  "snd (chan_poll_recv ops c) =
     (case queued ops c of
        a # q \<Rightarrow> Ready (Some a)
      | [] \<Rightarrow> if senders ops c = 0 then Ready None else Pending)"
  by (simp add: poll_recv_some poll_recv_none poll_recv_pending split: list.split)

lemma queued_poll_recv: "queued ops (fst (chan_poll_recv ops c)) = tl (queued ops c)"
  by (cases "queued ops c") (simp_all add: poll_recv_some queued_poll_recv_empty)

lemma try_send_bounded:
  "length (queued ops c) \<le> max_capacity ops c \<Longrightarrow>
     length (queued ops (fst (chan_try_send ops c a))) \<le> max_capacity ops c"
  by (simp add: queued_try_send_if)

text \<open>A channel whose sender its own holder keeps never reports the end of the stream.\<close>

lemma poll_recv_not_ended: "0 < senders ops c \<Longrightarrow> snd (chan_poll_recv ops c) \<noteq> Ready None"
  by (simp add: poll_recv_result split: list.split)

end

section \<open>The list channel\<close>

record 'a list_chan =
  lc_items :: "'a list"
  lc_cap :: nat
  lc_senders :: nat
  lc_rx :: bool

definition list_try_send :: "'a list_chan \<Rightarrow> 'a \<Rightarrow> 'a list_chan \<times> try_send_result" where
  "list_try_send c a =
     (if \<not> lc_rx c then (c, SendClosed)
      else if length (lc_items c) < lc_cap c then (c\<lparr>lc_items := lc_items c @ [a]\<rparr>, SendOk)
      else (c, SendFull))"

definition list_poll_recv :: "'a list_chan \<Rightarrow> 'a list_chan \<times> 'a option poll" where
  "list_poll_recv c =
     (case lc_items c of
        a # q \<Rightarrow> (c\<lparr>lc_items := q\<rparr>, Ready (Some a))
      | [] \<Rightarrow> (c, if lc_senders c = 0 then Ready None else Pending))"

definition list_mpsc :: "('a list_chan, 'a) mpsc_ops" where
  "list_mpsc =
     \<lparr>channel = (\<lambda>n. \<lparr>lc_items = [], lc_cap = n, lc_senders = 1, lc_rx = True\<rparr>),
      chan_try_send = list_try_send,
      chan_poll_recv = list_poll_recv,
      chan_clone_tx = (\<lambda>c. c\<lparr>lc_senders := Suc (lc_senders c)\<rparr>),
      chan_drop_tx = (\<lambda>c. c\<lparr>lc_senders := lc_senders c - 1\<rparr>),
      chan_drop_rx = (\<lambda>c. c\<lparr>lc_rx := False\<rparr>),
      queued = lc_items, max_capacity = lc_cap, senders = lc_senders, rx_alive = lc_rx\<rparr>"

lemmas list_mpsc_defs = list_mpsc_def list_try_send_def list_poll_recv_def

interpretation list_chan: bounded_mpsc list_mpsc
  by unfold_locales (auto simp: list_mpsc_defs split: list.splits)

section \<open>The unbounded channel\<close>

text \<open>
  \<open>tokio::sync::mpsc::unbounded_channel\<close> as the supervisor pool uses it: a send always enters the
  queue while the receiver exists, and \<open>try_recv\<close> takes the oldest message.
\<close>

record ('c, 'a) unbounded_ops =
  unbounded_channel :: 'c
  u_send :: "'c \<Rightarrow> 'a \<Rightarrow> 'c"
  u_try_recv :: "'c \<Rightarrow> 'c \<times> 'a option"
  u_queued :: "'c \<Rightarrow> 'a list"

locale unbounded_mpsc =
  fixes uo :: "('c, 'a) unbounded_ops"
  assumes u_queued_new: "u_queued uo (unbounded_channel uo) = []"
    and u_queued_send: "u_queued uo (u_send uo c a) = u_queued uo c @ [a]"
    and u_recv_empty: "u_queued uo c = [] \<Longrightarrow> snd (u_try_recv uo c) = None"
    and u_recv_some: "u_queued uo c = a # q \<Longrightarrow> snd (u_try_recv uo c) = Some a"
    and u_queued_recv: "u_queued uo (fst (u_try_recv uo c)) = tl (u_queued uo c)"
begin

lemma u_try_recv_result:
  "snd (u_try_recv uo c) = (case u_queued uo c of [] \<Rightarrow> None | a # q \<Rightarrow> Some a)"
  by (simp add: u_recv_empty u_recv_some split: list.split)

end

definition list_unbounded :: "('a list, 'a) unbounded_ops" where
  "list_unbounded =
     \<lparr>unbounded_channel = [], u_send = (\<lambda>c a. c @ [a]),
      u_try_recv = (\<lambda>c. case c of [] \<Rightarrow> ([], None) | a # q \<Rightarrow> (q, Some a)), u_queued = id\<rparr>"

interpretation list_unbounded: unbounded_mpsc list_unbounded
  by unfold_locales (simp_all add: list_unbounded_def split: list.splits)

end
