(* ===== verification/Virtual_Udp.thy ===== *)
theory Virtual_Udp
  imports Channel
begin

text \<open>
  The virtual UDP socket of \<open>src/src/virtual_udp.rs\<close>: one socket that outlives the peer paths
  that carry its datagrams. The socket owns the receive queue and a routing table from remote
  addresses to the senders of the paths' outgoing queues; every path owns the receiver of its
  queue. A sender in the routing table and a sender in a path are equal when they belong to the
  same channel, so the outgoing channels live in a heap and handles are their indices.
\<close>

section \<open>State\<close>

definition DEFAULT_QUEUE_CAPACITY :: nat where
  "DEFAULT_QUEUE_CAPACITY = 4096"

definition DEFAULT_PATH_MTU :: nat where
  "DEFAULT_PATH_MTU = 1452"

datatype PathReceiveError = Oversize nat nat | QueueFull | Closed

record ReceivedDatagram =
  remote :: SocketAddr
  payload :: bytes

text \<open>
  \<open>incoming\<close> is the channel behind \<open>incoming_tx\<close> and \<open>incoming_rx\<close>; \<open>routes\<close> maps a remote to
  the index of the channel whose sender the table holds; \<open>chans\<close> holds the outgoing channels
  made so far.
\<close>

record ('ci, 'co) VirtualUdpSocket =
  local_addr :: SocketAddr
  mtu :: nat
  incoming :: 'ci
  routes :: "(SocketAddr, nat) mapping"
  chans :: "'co list"

text \<open>A path: the index stands for both \<open>outgoing_tx\<close> and \<open>outgoing\<close>.\<close>

record VirtualPath =
  path_remote :: SocketAddr
  path_mtu :: nat
  outgoing :: nat

type_synonym 'ci in_ops = "('ci, ReceivedDatagram) mpsc_ops"
type_synonym 'co out_ops = "('co, bytes) mpsc_ops"

definition on_chan :: "nat \<Rightarrow> ('co \<Rightarrow> 'co) \<Rightarrow> ('ci, 'co) VirtualUdpSocket \<Rightarrow> ('ci, 'co) VirtualUdpSocket" where
  "on_chan i f s = s\<lparr>chans := (chans s)[i := f (chans s ! i)]\<rparr>"

section \<open>Operations\<close>

text \<open>A failed \<open>assert!\<close> is \<open>None\<close>.\<close>

definition with_options ::
    "'ci in_ops \<Rightarrow> SocketAddr \<Rightarrow> nat \<Rightarrow> nat \<Rightarrow> ('ci, 'co) VirtualUdpSocket option" where
  "with_options mi addr m queue_capacity =
     (if \<not> m > 0 then None
      else if \<not> queue_capacity > 0 then None
      else Some \<lparr>local_addr = addr, mtu = m, incoming = channel mi queue_capacity,
                 routes = Mapping.empty, chans = []\<rparr>)"

definition VirtualUdpSocket_new ::
    "'ci in_ops \<Rightarrow> SocketAddr \<Rightarrow> ('ci, 'co) VirtualUdpSocket option" where
  "VirtualUdpSocket_new mi addr = with_options mi addr DEFAULT_PATH_MTU DEFAULT_QUEUE_CAPACITY"

text \<open>
  The table keeps one sender of the new channel and the path another; the sender that
  \<open>HashMap::insert\<close> displaces is dropped.
\<close>

definition add_path ::
    "'ci in_ops \<Rightarrow> 'co out_ops \<Rightarrow> ('ci, 'co) VirtualUdpSocket \<Rightarrow> SocketAddr \<Rightarrow> nat
       \<Rightarrow> (('ci, 'co) VirtualUdpSocket \<times> VirtualPath) option" where
  "add_path mi mo s rem queue_capacity =
     (if \<not> queue_capacity > 0 then None
      else
        let i = length (chans s);
            s1 = s\<lparr>chans := chans s @ [chan_clone_tx mo (channel mo queue_capacity)]\<rparr>;
            s2 = (case Mapping.lookup (routes s1) rem of
                    None \<Rightarrow> s1
                  | Some old \<Rightarrow> on_chan old (chan_drop_tx mo) s1);
            s3 = s2\<lparr>routes := Mapping.update rem i (routes s2)\<rparr>
        in Some (s3\<lparr>incoming := chan_clone_tx mi (incoming s3)\<rparr>,
                 \<lparr>path_remote = rem, path_mtu = mtu s, outgoing = i\<rparr>))"

definition path_count :: "('ci, 'co) VirtualUdpSocket \<Rightarrow> nat" where
  "path_count s = Mapping.size (routes s)"

definition remote_addr :: "VirtualPath \<Rightarrow> SocketAddr" where
  "remote_addr p = path_remote p"

definition try_receive ::
    "'ci in_ops \<Rightarrow> ('ci, 'co) VirtualUdpSocket \<Rightarrow> VirtualPath \<Rightarrow> bytes
       \<Rightarrow> ('ci, 'co) VirtualUdpSocket \<times> (PathReceiveError + unit)" where
  "try_receive mi s p data =
     (if length data > path_mtu p then (s, Inl (Oversize (length data) (path_mtu p)))
      else case chan_try_send mi (incoming s) \<lparr>remote = path_remote p, payload = data\<rparr> of
        (c, r) \<Rightarrow> (s\<lparr>incoming := c\<rparr>,
                   case r of SendOk \<Rightarrow> Inr () | SendFull \<Rightarrow> Inl QueueFull | SendClosed \<Rightarrow> Inl Closed))"

text \<open>One poll of the future of \<open>next_outgoing\<close>.\<close>

definition next_outgoing ::
    "'co out_ops \<Rightarrow> ('ci, 'co) VirtualUdpSocket \<Rightarrow> VirtualPath
       \<Rightarrow> ('ci, 'co) VirtualUdpSocket \<times> bytes option poll" where
  "next_outgoing mo s p =
     (case chan_poll_recv mo (chans s ! outgoing p) of
        (c, r) \<Rightarrow> (on_chan (outgoing p) (\<lambda>_. c) s, r))"

text \<open>
  \<open>Drop::drop\<close>, given whether \<open>socket.upgrade()\<close> succeeds, and then the drop of the fields
  \<open>incoming\<close>, \<open>outgoing_tx\<close> and \<open>outgoing\<close>.
\<close>

definition drop_route ::
    "'co out_ops \<Rightarrow> bool \<Rightarrow> ('ci, 'co) VirtualUdpSocket \<Rightarrow> VirtualPath \<Rightarrow> ('ci, 'co) VirtualUdpSocket" where
  "drop_route mo upgraded s p =
     (if \<not> upgraded then s
      else case Mapping.lookup (routes s) (path_remote p) of
        None \<Rightarrow> s
      | Some current \<Rightarrow>
          if current = outgoing p
          then on_chan current (chan_drop_tx mo) (s\<lparr>routes := Mapping.delete (path_remote p) (routes s)\<rparr>)
          else s)"

definition drop_path ::
    "'ci in_ops \<Rightarrow> 'co out_ops \<Rightarrow> bool \<Rightarrow> ('ci, 'co) VirtualUdpSocket \<Rightarrow> VirtualPath
       \<Rightarrow> ('ci, 'co) VirtualUdpSocket" where
  "drop_path mi mo upgraded s p =
     (let s1 = drop_route mo upgraded s p;
          s2 = s1\<lparr>incoming := chan_drop_tx mi (incoming s1)\<rparr>
      in on_chan (outgoing p) (\<lambda>c. chan_drop_rx mo (chan_drop_tx mo c)) s2)"

section \<open>The asynchronous UDP socket interface\<close>

datatype io_error = InvalidInput nat nat | BrokenPipe

definition poll_writable :: "(io_error + unit) poll" where
  "poll_writable = Ready (Inr ())"

record Transmit =
  destination :: SocketAddr
  contents :: bytes

text \<open>The sender found in the table is cloned, used once and dropped.\<close>

definition try_send ::
    "'co out_ops \<Rightarrow> ('ci, 'co) VirtualUdpSocket \<Rightarrow> Transmit
       \<Rightarrow> ('ci, 'co) VirtualUdpSocket \<times> (io_error + unit)" where
  "try_send mo s transmit =
     (if length (contents transmit) > mtu s
      then (s, Inl (InvalidInput (length (contents transmit)) (mtu s)))
      else case Mapping.lookup (routes s) (destination transmit) of
        Some route \<Rightarrow>
          (on_chan route
             (\<lambda>c. chan_drop_tx mo (fst (chan_try_send mo (chan_clone_tx mo c) (contents transmit)))) s,
           Inr ())
      | None \<Rightarrow> (s, Inr ()))"

record RecvMeta =
  meta_addr :: SocketAddr
  meta_len :: nat
  meta_stride :: nat
  meta_ecn :: "u8 option"
  meta_dst_ip :: "IpAddr option"

definition poll_recv ::
    "'ci in_ops \<Rightarrow> ('ci, 'co) VirtualUdpSocket \<Rightarrow> bytes list \<Rightarrow> RecvMeta list
       \<Rightarrow> ('ci, 'co) VirtualUdpSocket \<times> bytes list \<times> RecvMeta list \<times> (io_error + nat) poll" where
  "poll_recv mi s bufs meta =
     (if bufs = [] \<or> meta = [] then (s, bufs, meta, Ready (Inr 0))
      else case chan_poll_recv mi (incoming s) of
        (c, Ready (Some datagram)) \<Rightarrow>
          (let len = min (length (payload datagram)) (length (bufs ! 0))
           in (s\<lparr>incoming := c\<rparr>,
               bufs[0 := take len (payload datagram) @ drop len (bufs ! 0)],
               meta[0 := \<lparr>meta_addr = remote datagram, meta_len = len, meta_stride = len,
                          meta_ecn = None, meta_dst_ip = Some (addr_ip (local_addr s))\<rparr>],
               Ready (Inr 1)))
      | (c, Ready None) \<Rightarrow> (s\<lparr>incoming := c\<rparr>, bufs, meta, Ready (Inl BrokenPipe))
      | (c, Pending) \<Rightarrow> (s\<lparr>incoming := c\<rparr>, bufs, meta, Pending))"

definition socket_local_addr :: "('ci, 'co) VirtualUdpSocket \<Rightarrow> io_error + SocketAddr" where
  "socket_local_addr s = Inr (local_addr s)"

definition may_fragment :: "('ci, 'co) VirtualUdpSocket \<Rightarrow> bool" where
  "may_fragment s = False"

section \<open>The owners of a socket\<close>

text \<open>
  A socket is used by the QUIC endpoint (\<open>try_send\<close>, \<open>poll_recv\<close>) and by one task per peer path
  (\<open>add_path\<close>, \<open>try_receive\<close>, \<open>next_outgoing\<close>, and the drop at the end of the task). Every
  operation takes the lock of the table or of the queue, so an execution is a sequence of
  operations in any order. The state is the socket and the paths that exist.
\<close>

type_synonym ('ci, 'co) vudp = "('ci, 'co) VirtualUdpSocket \<times> VirtualPath list"

inductive vudp_step :: "'ci in_ops \<Rightarrow> 'co out_ops \<Rightarrow> ('ci, 'co) vudp \<Rightarrow> ('ci, 'co) vudp \<Rightarrow> bool"
  for mi :: "'ci in_ops" and mo :: "'co out_ops" where
  step_add: "add_path mi mo s a cap = Some (s', p) \<Longrightarrow> vudp_step mi mo (s, ps) (s', ps @ [p])"
| step_receive: "p \<in> set ps \<Longrightarrow> vudp_step mi mo (s, ps) (fst (try_receive mi s p data), ps)"
| step_next: "p \<in> set ps \<Longrightarrow> vudp_step mi mo (s, ps) (fst (next_outgoing mo s p), ps)"
| step_drop: "vudp_step mi mo (s, ps @ p # qs) (drop_path mi mo True s p, ps @ qs)"
| step_send: "vudp_step mi mo (s, ps) (fst (try_send mo s t), ps)"
| step_recv: "vudp_step mi mo (s, ps) (fst (poll_recv mi s bufs meta), ps)"

inductive vudp_reach :: "'ci in_ops \<Rightarrow> 'co out_ops \<Rightarrow> ('ci, 'co) vudp \<Rightarrow> bool"
  for mi :: "'ci in_ops" and mo :: "'co out_ops" where
  reach_new: "with_options mi a m cap = Some s \<Longrightarrow> vudp_reach mi mo (s, [])"
| reach_step: "vudp_reach mi mo st \<Longrightarrow> vudp_step mi mo st st' \<Longrightarrow> vudp_reach mi mo st'"

text \<open>
  The invariant: paths have channels of their own with a live receiver, whose senders are the
  one of the path and, while it is the route of its remote, the one in the table; the table
  holds senders of existing paths only, filed under their remotes; the receive queue is open and
  has the socket and every path as senders; queues respect their capacity and the MTU.
\<close>

definition routed :: "('ci, 'co) VirtualUdpSocket \<Rightarrow> VirtualPath \<Rightarrow> bool" where
  "routed s p \<longleftrightarrow> Mapping.lookup (routes s) (path_remote p) = Some (outgoing p)"

definition chan_ok :: "'co out_ops \<Rightarrow> nat \<Rightarrow> 'co \<Rightarrow> bool" where
  "chan_ok mo m c \<longleftrightarrow>
     length (queued mo c) \<le> max_capacity mo c \<and> (\<forall>d \<in> set (queued mo c). length d \<le> m)"

definition path_ok :: "'co out_ops \<Rightarrow> ('ci, 'co) VirtualUdpSocket \<Rightarrow> VirtualPath \<Rightarrow> bool" where
  "path_ok mo s p \<longleftrightarrow>
     outgoing p < length (chans s) \<and> path_mtu p = mtu s \<and>
     rx_alive mo (chans s ! outgoing p) \<and>
     senders mo (chans s ! outgoing p) = (if routed s p then 2 else 1) \<and>
     chan_ok mo (mtu s) (chans s ! outgoing p)"

definition routes_ok :: "('ci, 'co) VirtualUdpSocket \<Rightarrow> VirtualPath list \<Rightarrow> bool" where
  "routes_ok s ps \<longleftrightarrow>
     finite (Mapping.keys (routes s)) \<and>
     (\<forall>a i. Mapping.lookup (routes s) a = Some i \<longrightarrow>
        (\<exists>p \<in> set ps. outgoing p = i \<and> path_remote p = a))"

definition incoming_ok :: "'ci in_ops \<Rightarrow> nat \<Rightarrow> nat \<Rightarrow> 'ci \<Rightarrow> bool" where
  "incoming_ok mi m n c \<longleftrightarrow>
     rx_alive mi c \<and> senders mi c = Suc n \<and> length (queued mi c) \<le> max_capacity mi c \<and>
     (\<forall>d \<in> set (queued mi c). length (payload d) \<le> m)"

fun vudp_wf :: "'ci in_ops \<Rightarrow> 'co out_ops \<Rightarrow> ('ci, 'co) vudp \<Rightarrow> bool" where
  "vudp_wf mi mo (s, ps) \<longleftrightarrow>
     distinct (map outgoing ps) \<and> (\<forall>p \<in> set ps. path_ok mo s p) \<and> routes_ok s ps \<and>
     incoming_ok mi (mtu s) (length ps) (incoming s)"

section \<open>The switch\<close>

text \<open>
  The abstract contract of the socket: a lossy datagram switch. It has one bounded ingress queue
  and, for every address that a path serves, one bounded egress queue; what does not fit is lost.
  Paths, channels and handles are gone.
\<close>

record switch =
  sw_mtu :: nat
  sw_cap :: nat
  sw_in :: "ReceivedDatagram list"
  sw_out :: "SocketAddr \<rightharpoonup> bytes list \<times> nat"

definition sw_connect :: "SocketAddr \<Rightarrow> nat \<Rightarrow> switch \<Rightarrow> switch" where
  "sw_connect a cap w = w\<lparr>sw_out := (sw_out w)(a \<mapsto> ([], cap))\<rparr>"

definition sw_disconnect :: "SocketAddr \<Rightarrow> switch \<Rightarrow> switch" where
  "sw_disconnect a w = w\<lparr>sw_out := (sw_out w)(a := None)\<rparr>"

definition sw_ingress :: "SocketAddr \<Rightarrow> bytes \<Rightarrow> switch \<Rightarrow> switch" where
  "sw_ingress a d w =
     (if length d \<le> sw_mtu w \<and> length (sw_in w) < sw_cap w
      then w\<lparr>sw_in := sw_in w @ [\<lparr>remote = a, payload = d\<rparr>]\<rparr> else w)"

definition sw_deliver :: "switch \<Rightarrow> switch" where
  "sw_deliver w = w\<lparr>sw_in := tl (sw_in w)\<rparr>"

definition sw_egress :: "SocketAddr \<Rightarrow> bytes \<Rightarrow> switch \<Rightarrow> switch" where
  "sw_egress a d w =
     (if length d \<le> sw_mtu w
      then w\<lparr>sw_out := (sw_out w)(a :=
             map_option (\<lambda>(q, n). (if length q < n then q @ [d] else q, n)) (sw_out w a))\<rparr>
      else w)"

definition sw_take :: "SocketAddr \<Rightarrow> switch \<Rightarrow> switch" where
  "sw_take a w = w\<lparr>sw_out := (sw_out w)(a := map_option (apfst tl) (sw_out w a))\<rparr>"

definition abs_switch :: "'ci in_ops \<Rightarrow> 'co out_ops \<Rightarrow> ('ci, 'co) VirtualUdpSocket \<Rightarrow> switch" where
  "abs_switch mi mo s =
     \<lparr>sw_mtu = mtu s, sw_cap = max_capacity mi (incoming s), sw_in = queued mi (incoming s),
      sw_out = (\<lambda>a. map_option (\<lambda>i. (queued mo (chans s ! i), max_capacity mo (chans s ! i)))
                  (Mapping.lookup (routes s) a))\<rparr>"

lemmas switch_defs = sw_connect_def sw_disconnect_def sw_ingress_def sw_deliver_def sw_egress_def
  sw_take_def abs_switch_def

section \<open>A sample socket\<close>

text \<open>
  A socket over the list channel at 100.64.0.1:7000, a path to 100.64.0.2:443, and the
  replacement of that path. The examples below evaluate the operations on them.
\<close>

definition sample_remote :: SocketAddr where
  "sample_remote = SocketAddrV4 0x64400002 443"

definition sample_socket :: "(ReceivedDatagram list_chan, bytes list_chan) VirtualUdpSocket" where
  "sample_socket = the (VirtualUdpSocket_new list_mpsc (SocketAddrV4 0x64400001 7000))"

definition sample_path :: "(ReceivedDatagram list_chan, bytes list_chan) VirtualUdpSocket \<times> VirtualPath" where
  "sample_path = the (add_path list_mpsc list_mpsc sample_socket sample_remote 8)"

section \<open>Basic facts\<close>

lemma on_chan_frame [simp]:
  "local_addr (on_chan i f s) = local_addr s" "mtu (on_chan i f s) = mtu s"
  "incoming (on_chan i f s) = incoming s" "routes (on_chan i f s) = routes s"
  "length (chans (on_chan i f s)) = length (chans s)"
  by (simp_all add: on_chan_def)

lemma chans_on_chan:
  "j < length (chans s) \<Longrightarrow>
     chans (on_chan i f s) ! j = (if i = j then f (chans s ! j) else chans s ! j)"
  by (auto simp: on_chan_def nth_list_update)

lemma routed_on_chan [simp]: "routed (on_chan i f s) p = routed s p"
  by (simp add: routed_def)

lemma lookup_delete': "Mapping.lookup (Mapping.delete k m) k' = (if k = k' then None else Mapping.lookup m k')"
  by simp

lemma routes_ok_route:
  assumes "routes_ok s ps" "distinct (map outgoing ps)" "p \<in> set ps"
    and "Mapping.lookup (routes s) a = Some (outgoing p)"
  shows "a = path_remote p"
proof -
  from assms(1,4) obtain q where q: "q \<in> set ps" "outgoing q = outgoing p" "path_remote q = a"
    by (auto simp: routes_ok_def)
  with assms(2,3) have "q = p" by (auto simp: distinct_map inj_on_def)
  with q show ?thesis by simp
qed

text \<open>A change of one path's channel that keeps its handles and its bounds keeps every path.\<close>

lemma path_ok_on_chan:
  assumes "path_ok mo s p"
    and "i = outgoing p \<Longrightarrow> rx_alive mo (f (chans s ! i))"
    and "i = outgoing p \<Longrightarrow> senders mo (f (chans s ! i)) = senders mo (chans s ! i)"
    and "i = outgoing p \<Longrightarrow> chan_ok mo (mtu s) (f (chans s ! i))"
  shows "path_ok mo (on_chan i f s) p"
  using assms by (cases "i = outgoing p") (auto simp: path_ok_def chans_on_chan)

lemma add_path_SomeD:
  assumes "add_path mi mo s a cap = Some (s', p)"
  shows "0 < cap" "p = \<lparr>path_remote = a, path_mtu = mtu s, outgoing = length (chans s)\<rparr>"
    "routes s' = Mapping.update a (length (chans s)) (routes s)"
    "incoming s' = chan_clone_tx mi (incoming s)" "mtu s' = mtu s" "local_addr s' = local_addr s"
    "length (chans s') = Suc (length (chans s))"
    "chans s' ! length (chans s) =
       (if Mapping.lookup (routes s) a = Some (length (chans s))
        then chan_drop_tx mo (chan_clone_tx mo (channel mo cap))
        else chan_clone_tx mo (channel mo cap))"
    "j < length (chans s) \<Longrightarrow> chans s' ! j =
       (if Mapping.lookup (routes s) a = Some j then chan_drop_tx mo (chans s ! j) else chans s ! j)"
  using assms
  by (auto simp: add_path_def Let_def chans_on_chan nth_append split: if_splits option.splits)

section \<open>Every operation keeps the invariant\<close>

locale socket_channels = inc: bounded_mpsc mi + out: bounded_mpsc mo
  for mi :: "'ci in_ops" and mo :: "'co out_ops"
begin

lemma with_options_wf: "with_options mi a m cap = Some s \<Longrightarrow> vudp_wf mi mo (s, [])"
  by (auto simp: with_options_def routes_ok_def incoming_ok_def split: if_splits)

lemma add_path_wf:
  assumes add: "add_path mi mo s a cap = Some (s', p)" and wf: "vudp_wf mi mo (s, ps)"
  shows "vudp_wf mi mo (s', ps @ [p])"
proof -
  note S = add_path_SomeD [OF add]
  have bound: "outgoing q < length (chans s)" if "q \<in> set ps" for q
    using wf that by (auto simp: path_ok_def)
  have fresh: "Mapping.lookup (routes s) b \<noteq> Some (length (chans s))" for b
    using wf bound by (fastforce simp: routes_ok_def)
  have "path_ok mo s' q" if q: "q \<in> set ps" for q
  proof -
    from wf q have ok: "path_ok mo s q" by simp
    have r: "a = path_remote q" if "Mapping.lookup (routes s) a = Some (outgoing q)"
      using wf q that by (auto intro: routes_ok_route)
    have "routed s' q \<longleftrightarrow> path_remote q \<noteq> a \<and> routed s q"
      using bound [OF q] by (auto simp: routed_def S(3) lookup_update')
    moreover have "routed s q" if "Mapping.lookup (routes s) a = Some (outgoing q)"
      using r [OF that] that by (simp add: routed_def)
    ultimately show ?thesis
      using ok r bound [OF q] by (auto simp: path_ok_def S chan_ok_def routed_def)
  qed
  moreover have "path_ok mo s' p"
    using fresh by (simp add: path_ok_def S chan_ok_def routed_def)
  moreover have "routes_ok s' (ps @ [p])"
    using wf by (auto simp: routes_ok_def S lookup_update')
  moreover have "distinct (map outgoing (ps @ [p]))"
    using wf bound by (fastforce simp: S(2))
  ultimately show ?thesis
    using wf by (auto simp: S incoming_ok_def)
qed

lemma try_receive_wf:
  assumes "p \<in> set ps" "vudp_wf mi mo (s, ps)"
  shows "vudp_wf mi mo (fst (try_receive mi s p data), ps)"
  using assms
  by (auto simp: try_receive_def incoming_ok_def path_ok_def routed_def routes_ok_def
      inc.queued_try_send_if split: prod.splits if_splits
      dest!: arg_cong [of "chan_try_send mi (incoming s) _" _ fst])

lemma next_outgoing_wf:
  assumes "p \<in> set ps" "vudp_wf mi mo (s, ps)"
  shows "vudp_wf mi mo (fst (next_outgoing mo s p), ps)"
proof -
  let ?c = "fst (chan_poll_recv mo (chans s ! outgoing p))"
  have "fst (next_outgoing mo s p) = on_chan (outgoing p) (\<lambda>_. ?c) s"
    by (simp add: next_outgoing_def split: prod.splits)
  moreover from assms have "path_ok mo s p" by simp
  then have "rx_alive mo ?c" "senders mo ?c = senders mo (chans s ! outgoing p)"
    "chan_ok mo (mtu s) ?c"
    by (auto simp: path_ok_def chan_ok_def out.queued_poll_recv dest: in_set_tl)
  ultimately show ?thesis
    using assms(2) by (auto simp: routes_ok_def intro!: path_ok_on_chan)
qed

lemma drop_route_frame [simp]:
  "mtu (drop_route mo u s p) = mtu s" "incoming (drop_route mo u s p) = incoming s"
  "length (chans (drop_route mo u s p)) = length (chans s)"
  by (simp_all add: drop_route_def split: option.split)

lemma routes_drop_route:
  "routes (drop_route mo True s p) =
     (if routed s p then Mapping.delete (path_remote p) (routes s) else routes s)"
  by (auto simp: drop_route_def routed_def split: option.splits)

lemma chans_drop_route:
  "j < length (chans s) \<Longrightarrow> chans (drop_route mo True s p) ! j =
     (if routed s p \<and> j = outgoing p then chan_drop_tx mo (chans s ! j) else chans s ! j)"
  by (auto simp: drop_route_def routed_def chans_on_chan on_chan_def nth_list_update
      split: option.splits)

lemma drop_path_frame [simp]:
  "mtu (drop_path mi mo u s p) = mtu s"
  "incoming (drop_path mi mo u s p) = chan_drop_tx mi (incoming s)"
  "length (chans (drop_path mi mo u s p)) = length (chans s)"
  "routes (drop_path mi mo u s p) = routes (drop_route mo u s p)"
  by (simp_all add: drop_path_def Let_def)

lemma chans_drop_path:
  "j < length (chans s) \<Longrightarrow> j \<noteq> outgoing p \<Longrightarrow> chans (drop_path mi mo True s p) ! j = chans s ! j"
  by (simp add: drop_path_def Let_def chans_on_chan chans_drop_route)

lemma drop_path_wf:
  assumes wf: "vudp_wf mi mo (s, ps @ p # qs)"
  shows "vudp_wf mi mo (drop_path mi mo True s p, ps @ qs)"
proof -
  let ?s = "drop_path mi mo True s p"
  from wf have other: "outgoing q \<noteq> outgoing p" if "q \<in> set (ps @ qs)" for q
    using that by (auto simp: rev_image_eqI)
  have same: "routed ?s q \<longleftrightarrow> routed s q" if "q \<in> set (ps @ qs)" for q
    using other [OF that] by (auto simp: routed_def routes_drop_route lookup_delete')
  have "path_ok mo ?s q" if q: "q \<in> set (ps @ qs)" for q
  proof -
    from wf q have "path_ok mo s q" by auto
    with other [OF q] same [OF q] show ?thesis
      by (simp add: path_ok_def chans_drop_path)
  qed
  moreover have "\<exists>q \<in> set (ps @ qs). outgoing q = i \<and> path_remote q = a"
    if look: "Mapping.lookup (routes ?s) a = Some i" for a i
  proof -
    from look have old: "Mapping.lookup (routes s) a = Some i"
      and new: "routed s p \<Longrightarrow> a \<noteq> path_remote p"
      by (auto simp: routes_drop_route lookup_delete' split: if_splits)
    from wf have "routes_ok s (ps @ p # qs)" by simp
    with old obtain q where q: "q \<in> set (ps @ p # qs)" "outgoing q = i" "path_remote q = a"
      unfolding routes_ok_def by blast
    with old new have "q \<noteq> p" by (auto simp: routed_def)
    with q show ?thesis by auto
  qed
  then have "routes_ok ?s (ps @ qs)"
    using wf by (auto simp: routes_ok_def routes_drop_route)
  ultimately show ?thesis
    using wf by (auto simp: incoming_ok_def)
qed

lemma try_send_chan:
  "mtu s < length (contents t) \<or> Mapping.lookup (routes s) (destination t) = None
     \<Longrightarrow> fst (try_send mo s t) = s"
  "length (contents t) \<le> mtu s \<Longrightarrow> Mapping.lookup (routes s) (destination t) = Some i
     \<Longrightarrow> fst (try_send mo s t) =
       on_chan i (\<lambda>c. chan_drop_tx mo (fst (chan_try_send mo (chan_clone_tx mo c) (contents t)))) s"
  by (auto simp: try_send_def)

lemma queued_route_send:
  "queued mo (chan_drop_tx mo (fst (chan_try_send mo (chan_clone_tx mo c) d))) =
     (if rx_alive mo c \<and> length (queued mo c) < max_capacity mo c
      then queued mo c @ [d] else queued mo c)"
  by (simp add: out.queued_try_send_if)

lemma try_send_wf:
  assumes wf: "vudp_wf mi mo (s, ps)"
  shows "vudp_wf mi mo (fst (try_send mo s t), ps)"
proof (cases "mtu s < length (contents t) \<or> Mapping.lookup (routes s) (destination t) = None")
  case True
  with wf show ?thesis by (simp add: try_send_chan)
next
  case False
  then obtain i where i: "Mapping.lookup (routes s) (destination t) = Some i"
    and len: "length (contents t) \<le> mtu s" by auto
  have "path_ok mo (fst (try_send mo s t)) p" if "p \<in> set ps" for p
  proof -
    from wf that have ok: "path_ok mo s p" by simp
    show ?thesis
      unfolding try_send_chan(2) [OF len i]
      by (rule path_ok_on_chan) (use ok len in \<open>auto simp: path_ok_def chan_ok_def out.queued_try_send_if split: if_splits\<close>)
  qed
  with wf show ?thesis by (auto simp: try_send_chan(2) [OF len i] routes_ok_def)
qed

lemma poll_recv_cases:
  "fst (poll_recv mi s bufs meta) =
     (if bufs = [] \<or> meta = [] then s
      else s\<lparr>incoming := fst (chan_poll_recv mi (incoming s))\<rparr>)"
  by (simp add: poll_recv_def Let_def split: prod.split poll.split option.split)

lemma poll_recv_wf:
  assumes "vudp_wf mi mo (s, ps)"
  shows "vudp_wf mi mo (fst (poll_recv mi s bufs meta), ps)"
  using assms
  by (auto simp: poll_recv_cases path_ok_def routed_def routes_ok_def incoming_ok_def
      inc.queued_poll_recv dest: in_set_tl)

lemmas step_wf_intros =
  add_path_wf try_receive_wf next_outgoing_wf drop_path_wf try_send_wf poll_recv_wf

lemma vudp_step_wf: "vudp_step mi mo st st' \<Longrightarrow> vudp_wf mi mo st \<Longrightarrow> vudp_wf mi mo st'"
  by (induction rule: vudp_step.induct) (rule step_wf_intros; assumption)+

lemma vudp_reach_wf: "vudp_reach mi mo st \<Longrightarrow> vudp_wf mi mo st"
  by (induction rule: vudp_reach.induct) (blast intro: with_options_wf vudp_step_wf)+

section \<open>Every operation refines the switch\<close>

lemma route_bound: "vudp_wf mi mo (s, ps) \<Longrightarrow> Mapping.lookup (routes s) a = Some i \<Longrightarrow> i < length (chans s)"
  by (force simp: routes_ok_def path_ok_def)

lemma route_unique:
  assumes "vudp_wf mi mo (s, ps)" "Mapping.lookup (routes s) a = Some i" "Mapping.lookup (routes s) b = Some i"
  shows "a = b"
proof -
  from assms(1,2) obtain p where "p \<in> set ps" "outgoing p = i"
    by (simp add: routes_ok_def) blast
  with assms have "a = path_remote p" "b = path_remote p"
    by (auto intro!: routes_ok_route [of s ps p])
  then show ?thesis by simp
qed

lemma route_alive:
  "vudp_wf mi mo (s, ps) \<Longrightarrow> Mapping.lookup (routes s) a = Some i \<Longrightarrow> rx_alive mo (chans s ! i)"
  by (auto simp: routes_ok_def path_ok_def)

lemma add_path_refines:
  assumes add: "add_path mi mo s a cap = Some (s', p)" and wf: "vudp_wf mi mo (s, ps)"
  shows "abs_switch mi mo s' = sw_connect a cap (abs_switch mi mo s)"
proof -
  note S = add_path_SomeD [OF add]
  have "Mapping.lookup (routes s) a \<noteq> Some (length (chans s))"
    using route_bound [OF wf] by auto
  then show ?thesis
    using route_bound [OF wf]
    by (auto simp: switch_defs S lookup_update' intro!: ext map_option_eqI)
qed

lemma try_receive_refines:
  assumes "p \<in> set ps" "vudp_wf mi mo (s, ps)"
  shows "abs_switch mi mo (fst (try_receive mi s p d)) = sw_ingress (path_remote p) d (abs_switch mi mo s)"
  using assms
  by (auto simp: try_receive_def switch_defs path_ok_def incoming_ok_def inc.queued_try_send_if
      split: prod.splits if_splits dest!: arg_cong [of "chan_try_send mi (incoming s) _" _ fst])

text \<open>A change of the channel of one route shows at its address only.\<close>

lemma abs_switch_on_chan:
  assumes wf: "vudp_wf mi mo (s, ps)" and i: "Mapping.lookup (routes s) a = Some i"
    and cap: "max_capacity mo (f (chans s ! i)) = max_capacity mo (chans s ! i)"
  shows "abs_switch mi mo (on_chan i f s) =
    (abs_switch mi mo s)\<lparr>sw_out := (sw_out (abs_switch mi mo s))
       (a \<mapsto> (queued mo (f (chans s ! i)), max_capacity mo (chans s ! i)))\<rparr>"
proof -
  have "Mapping.lookup (routes s) b \<noteq> Some i" if "b \<noteq> a" for b
    using route_unique [OF wf _ i] that by blast
  then show ?thesis
    using i cap route_bound [OF wf]
    by (auto simp: abs_switch_def chans_on_chan intro!: ext map_option_eqI)
qed

lemma next_outgoing_refines:
  assumes p: "p \<in> set ps" and wf: "vudp_wf mi mo (s, ps)"
  shows "abs_switch mi mo (fst (next_outgoing mo s p)) =
    (if routed s p then sw_take (path_remote p) (abs_switch mi mo s) else abs_switch mi mo s)"
proof -
  let ?c = "fst (chan_poll_recv mo (chans s ! outgoing p))"
  have eq: "fst (next_outgoing mo s p) = on_chan (outgoing p) (\<lambda>_. ?c) s"
    by (simp add: next_outgoing_def split: prod.splits)
  show ?thesis
  proof (cases "routed s p")
    case True
    then have r: "Mapping.lookup (routes s) (path_remote p) = Some (outgoing p)"
      by (simp add: routed_def)
    show ?thesis
      unfolding eq using True
      by (simp add: abs_switch_on_chan [OF wf r] out.queued_poll_recv sw_take_def)
        (simp add: abs_switch_def r)
  next
    case False
    then have "Mapping.lookup (routes s) a \<noteq> Some (outgoing p)" for a
      using wf p routes_ok_route [of s ps p a] by (auto simp: routed_def)
    then show ?thesis
      unfolding eq using False route_bound [OF wf]
      by (auto simp: abs_switch_def chans_on_chan intro!: ext map_option_eqI)
  qed
qed

lemma drop_path_refines:
  assumes p: "p \<in> set ps" and wf: "vudp_wf mi mo (s, ps)"
  shows "abs_switch mi mo (drop_path mi mo True s p) =
    (if routed s p then sw_disconnect (path_remote p) (abs_switch mi mo s) else abs_switch mi mo s)"
proof -
  have "i \<noteq> outgoing p"
    if "Mapping.lookup (routes s) a = Some i" "routed s p \<Longrightarrow> a \<noteq> path_remote p" for a i
    using that wf p routes_ok_route [of s ps p a] by (auto simp: routed_def)
  then show ?thesis
    using route_bound [OF wf]
    by (auto simp: switch_defs routes_drop_route lookup_delete' chans_drop_path
        intro!: ext map_option_eqI)
qed

lemma try_send_refines:
  assumes wf: "vudp_wf mi mo (s, ps)"
  shows "abs_switch mi mo (fst (try_send mo s t)) =
    sw_egress (destination t) (contents t) (abs_switch mi mo s)"
proof (cases "mtu s < length (contents t) \<or> Mapping.lookup (routes s) (destination t) = None")
  case True
  then have "fst (try_send mo s t) = s" by (rule try_send_chan(1))
  with True show ?thesis by (auto simp: switch_defs)
next
  case False
  then obtain i where i: "Mapping.lookup (routes s) (destination t) = Some i"
    and len: "length (contents t) \<le> mtu s" by auto
  let ?f = "\<lambda>c. chan_drop_tx mo (fst (chan_try_send mo (chan_clone_tx mo c) (contents t)))"
  have "max_capacity mo (?f (chans s ! i)) = max_capacity mo (chans s ! i)" by simp
  note eq = abs_switch_on_chan [OF wf i, of ?f, OF this]
  show ?thesis
    unfolding try_send_chan(2) [OF len i] eq
    unfolding sw_egress_def abs_switch_def
    using route_alive [OF wf i] len i by (simp add: out.queued_try_send_if)
qed

lemma poll_recv_refines:
  "abs_switch mi mo (fst (poll_recv mi s bufs meta)) =
    (if bufs = [] \<or> meta = [] then abs_switch mi mo s else sw_deliver (abs_switch mi mo s))"
  by (simp add: poll_recv_cases switch_defs inc.queued_poll_recv)

end

interpretation list_socket: socket_channels list_mpsc list_mpsc
  by unfold_locales

lemma sample_socket_new: "VirtualUdpSocket_new list_mpsc (SocketAddrV4 0x64400001 7000) = Some sample_socket"
  by (simp add: sample_socket_def VirtualUdpSocket_new_def with_options_def DEFAULT_PATH_MTU_def
      DEFAULT_QUEUE_CAPACITY_def)

lemma sample_reach: "vudp_reach list_mpsc list_mpsc (sample_socket, [])"
  using sample_socket_new unfolding VirtualUdpSocket_new_def by (rule reach_new)

lemma sample_add_path:
  "add_path list_mpsc list_mpsc sample_socket sample_remote 8 = Some (fst sample_path, snd sample_path)"
  by (simp add: sample_path_def add_path_def Let_def)

lemma sample_path_reach: "vudp_reach list_mpsc list_mpsc (fst sample_path, [snd sample_path])"
  using reach_step [OF sample_reach step_add [OF sample_add_path]] by simp

lemmas sample_defs = sample_path_def sample_socket_def sample_remote_def VirtualUdpSocket_new_def
  with_options_def add_path_def DEFAULT_PATH_MTU_def DEFAULT_QUEUE_CAPACITY_def list_mpsc_defs
  on_chan_def

lemma sample_path_remote: "path_remote (snd sample_path) = sample_remote"
  using add_path_SomeD(2) [OF sample_add_path] by simp

lemma socket_channelsI: "bounded_mpsc mi \<Longrightarrow> bounded_mpsc mo \<Longrightarrow> socket_channels mi mo"
  by (rule socket_channels.intro)

section \<open>Properties\<close>

text \<open>
  C1. The socket implements the switch. In every reachable state of a socket over channels that
  behave as documented, each operation of a path task or of the QUIC endpoint, seen through
  \<open>abs_switch\<close>, is the switch operation it stands for: adding a path connects its address, a
  datagram from a path enters the ingress queue tagged with the path's address, taking an
  outgoing datagram and dropping a path act on the path's address while the path is its route
  and on nothing otherwise, a transmit goes to the queue of its destination, a poll delivers the
  oldest ingress datagram.
\<close>

theorem socket_refines_switch:
  assumes "bounded_mpsc mi" and "bounded_mpsc mo" and "vudp_reach mi mo (s, ps)"
  shows "(\<forall>a cap s' p. add_path mi mo s a cap = Some (s', p) \<longrightarrow>
            abs_switch mi mo s' = sw_connect a cap (abs_switch mi mo s))
    \<and> (\<forall>p \<in> set ps. \<forall>d.
          abs_switch mi mo (fst (try_receive mi s p d)) =
            sw_ingress (path_remote p) d (abs_switch mi mo s)
        \<and> abs_switch mi mo (fst (next_outgoing mo s p)) =
            (if routed s p then sw_take (path_remote p) (abs_switch mi mo s) else abs_switch mi mo s)
        \<and> abs_switch mi mo (drop_path mi mo True s p) =
            (if routed s p then sw_disconnect (path_remote p) (abs_switch mi mo s)
             else abs_switch mi mo s))
    \<and> (\<forall>t. abs_switch mi mo (fst (try_send mo s t)) =
          sw_egress (destination t) (contents t) (abs_switch mi mo s))
    \<and> (\<forall>bufs meta. bufs \<noteq> [] \<and> meta \<noteq> [] \<longrightarrow>
          abs_switch mi mo (fst (poll_recv mi s bufs meta)) = sw_deliver (abs_switch mi mo s))"
proof -
  note sc = socket_channelsI [OF assms(1,2)]
  note wf = socket_channels.vudp_reach_wf [OF sc assms(3)]
  show ?thesis
    using socket_channels.add_path_refines [OF sc _ wf] socket_channels.try_receive_refines [OF sc _ wf]
      socket_channels.next_outgoing_refines [OF sc _ wf] socket_channels.drop_path_refines [OF sc _ wf]
      socket_channels.try_send_refines [OF sc wf] socket_channels.poll_recv_refines [OF sc]
    by simp
qed

theorem socket_refines_switch_witness:
  "abs_switch list_mpsc list_mpsc
     (fst (try_receive list_mpsc (fst sample_path) (snd sample_path) [1, 2, 3])) =
   sw_ingress sample_remote [1, 2, 3] (abs_switch list_mpsc list_mpsc (fst sample_path))"
  using socket_refines_switch [OF list_chan.bounded_mpsc_axioms list_chan.bounded_mpsc_axioms
      sample_path_reach] sample_path_remote
  by simp

text \<open>
  C2. The socket survives the loss of its paths. In every reachable state, whatever paths came
  and went, a poll of the receive queue never reports an error: with the queue empty it is
  pending, otherwise it yields exactly the oldest datagram, with the address of the path that
  brought it, its length capped by the buffer, and all of its bytes when the buffer has the size
  of the path MTU.
\<close>

theorem poll_recv_delivers_oldest:
  assumes "bounded_mpsc mi" and "bounded_mpsc mo" and "vudp_reach mi mo (s, ps)"
    and "poll_recv mi s (buf # bufs) (m # ms) = (s', bufs', ms', r)"
  shows "case queued mi (incoming s) of
      [] \<Rightarrow> r = Pending \<and> bufs' = buf # bufs \<and> ms' = m # ms
    | d # q \<Rightarrow> r = Ready (Inr 1) \<and> queued mi (incoming s') = q
        \<and> meta_addr (hd ms') = remote d
        \<and> meta_len (hd ms') = min (length (payload d)) (length buf)
        \<and> take (meta_len (hd ms')) (hd bufs') = take (length buf) (payload d)
        \<and> (mtu s \<le> length buf \<longrightarrow> take (meta_len (hd ms')) (hd bufs') = payload d)"
proof -
  note sc = socket_channelsI [OF assms(1,2)]
  have "incoming_ok mi (mtu s) (length ps) (incoming s)"
    using socket_channels.vudp_reach_wf [OF sc assms(3)] by simp
  then have ok: "0 < senders mi (incoming s)" "\<forall>d \<in> set (queued mi (incoming s)). length (payload d) \<le> mtu s"
    by (simp_all add: incoming_ok_def)
  obtain c pr where cr: "chan_poll_recv mi (incoming s) = (c, pr)" by fastforce
  show ?thesis
    using assms(4) ok cr bounded_mpsc.poll_recv_result [OF assms(1), of "incoming s"]
      bounded_mpsc.queued_poll_recv [OF assms(1), of "incoming s"]
    by (cases "queued mi (incoming s)") (auto simp: poll_recv_def Let_def min_def)
qed

theorem poll_recv_delivers_oldest_witness:
  "\<exists>s' b m. poll_recv list_mpsc (fst (try_receive list_mpsc (fst sample_path) (snd sample_path) [1, 2, 3]))
     [replicate 1452 0] [\<lparr>meta_addr = sample_remote, meta_len = 0, meta_stride = 0, meta_ecn = None, meta_dst_ip = None\<rparr>]
     = (s', [b], [m], Ready (Inr 1)) \<and> take (meta_len m) b = [1, 2, 3] \<and> meta_addr m = sample_remote"
proof -
  let ?s = "fst (try_receive list_mpsc (fst sample_path) (snd sample_path) [1, 2, 3])"
  let ?p = "poll_recv list_mpsc ?s [replicate 1452 0]
     [\<lparr>meta_addr = sample_remote, meta_len = 0, meta_stride = 0, meta_ecn = None, meta_dst_ip = None\<rparr>]"
  obtain s' bs ms r where eq: "?p = (s', bs, ms, r)" by (metis prod_cases4)
  have reach: "vudp_reach list_mpsc list_mpsc (?s, [snd sample_path])"
    by (rule reach_step [OF sample_path_reach]) (rule step_receive, simp)
  have q: "queued list_mpsc (incoming ?s) = [\<lparr>remote = sample_remote, payload = [1, 2, 3]\<rparr>]"
    and m: "mtu ?s = 1452"
    by (simp_all add: try_receive_def sample_defs Let_def)
  have "length bs = 1 \<and> length ms = 1"
    using eq by (auto simp: poll_recv_def Let_def split: if_splits prod.splits poll.splits option.splits)
  then obtain b m where "bs = [b]" "ms = [m]" by (metis One_nat_def length_0_conv length_Suc_conv)
  with poll_recv_delivers_oldest [OF list_chan.bounded_mpsc_axioms list_chan.bounded_mpsc_axioms reach eq]
  show ?thesis using eq q m by (auto simp: numeral_3_eq_3)
qed

text \<open>
  C3. A replacement path survives the drop of the path it replaces. When a path is added at the
  remote of a path that still exists and the old path is dropped afterwards, the route of the
  remote is the new path's, and a transmit of at most the path MTU to that remote ends up in the
  new path's queue.
\<close>

theorem replacement_survives_drop:
  assumes "bounded_mpsc mi" and "bounded_mpsc mo" and "vudp_reach mi mo (s, ps)"
    and "old \<in> set ps" and add: "add_path mi mo s (path_remote old) cap = Some (s', new)"
    and "destination t = path_remote old" and "length (contents t) \<le> mtu s"
  shows "routed (drop_path mi mo True s' old) new
    \<and> queued mo (chans (fst (try_send mo (drop_path mi mo True s' old) t)) ! outgoing new) = [contents t]"
proof -
  note sc = socket_channelsI [OF assms(1,2)]
  note wf = socket_channels.vudp_reach_wf [OF sc assms(3)]
  note wf' = socket_channels.add_path_wf [OF sc add wf]
  note S = add_path_SomeD [OF add]
  let ?d = "drop_path mi mo True s' old"
  from wf assms(4) have lt: "outgoing old < outgoing new"
    by (auto simp: path_ok_def S(2))
  then have "\<not> routed s' old" by (simp add: routed_def S)
  then have route: "Mapping.lookup (routes ?d) (path_remote old) = Some (outgoing new)"
    by (simp add: socket_channels.drop_path_frame [OF sc] socket_channels.routes_drop_route [OF sc] S)
  have c: "chans ?d ! outgoing new = chans s' ! outgoing new"
    using lt by (intro socket_channels.chans_drop_path [OF sc]) (auto simp: S)
  have free: "Mapping.lookup (routes s) (path_remote old) \<noteq> Some (length (chans s))"
    using socket_channels.route_bound [OF sc wf] by auto
  have "queued mo (chans ?d ! outgoing new) = []" "max_capacity mo (chans ?d ! outgoing new) = cap"
    "rx_alive mo (chans ?d ! outgoing new)" "outgoing new < length (chans ?d)"
    using free unfolding c
    by (simp_all add: S bounded_mpsc.mpsc_simps [OF assms(2)] socket_channels.drop_path_frame [OF sc])
  then show ?thesis
    using route S(1,2) assms(6,7)
    by (simp add: routed_def socket_channels.try_send_chan(2) [OF sc, where i = "outgoing new"] S
        socket_channels.drop_path_frame [OF sc] chans_on_chan socket_channels.queued_route_send [OF sc])
qed

theorem replacement_survives_drop_witness:
  "\<exists>s' new. add_path list_mpsc list_mpsc (fst sample_path) sample_remote 8 = Some (s', new)
     \<and> routed (drop_path list_mpsc list_mpsc True s' (snd sample_path)) new
     \<and> queued list_mpsc (chans (fst (try_send list_mpsc (drop_path list_mpsc list_mpsc True s' (snd sample_path))
           \<lparr>destination = sample_remote, contents = [7]\<rparr>)) ! outgoing new) = [[7]]"
proof -
  obtain s' new where
    add: "add_path list_mpsc list_mpsc (fst sample_path) (path_remote (snd sample_path)) 8 = Some (s', new)"
    by (simp add: add_path_def Let_def)
  have "mtu (fst sample_path) = 1452" by (simp add: sample_defs Let_def)
  then show ?thesis
    using add replacement_survives_drop [OF list_chan.bounded_mpsc_axioms list_chan.bounded_mpsc_axioms
        sample_path_reach, of "snd sample_path" 8 s' new "\<lparr>destination = sample_remote, contents = [7]\<rparr>"]
    by (simp add: sample_path_remote)
qed

text \<open>
  A transmit reaches one path at most. In every reachable state a transmit changes the queue
  of a path only if the path is the route of the destination; it then appends the datagram when
  it respects the MTU and the queue has room, and loses it otherwise. A datagram within the MTU
  is never reported as an error, with or without a route.
\<close>

lemma try_send_reaches_route_only:
  assumes "bounded_mpsc mi" and "bounded_mpsc mo" and "vudp_reach mi mo (s, ps)" and "p \<in> set ps"
  shows "let c = chans s ! outgoing p; c' = chans (fst (try_send mo s t)) ! outgoing p in
    queued mo c' =
      (if routed s p \<and> path_remote p = destination t \<and> length (contents t) \<le> mtu s
          \<and> length (queued mo c) < max_capacity mo c
       then queued mo c @ [contents t] else queued mo c)
    \<and> (length (contents t) \<le> mtu s \<longleftrightarrow> snd (try_send mo s t) = Inr ())"
proof -
  note sc = socket_channelsI [OF assms(1,2)]
  note wf = socket_channels.vudp_reach_wf [OF sc assms(3)]
  from wf assms(4) have ok: "path_ok mo s p" by simp
  have res: "length (contents t) \<le> mtu s \<longleftrightarrow> snd (try_send mo s t) = Inr ()"
    by (auto simp: try_send_def split: option.split)
  show ?thesis
  proof (cases "mtu s < length (contents t) \<or> Mapping.lookup (routes s) (destination t) = None")
    case True
    then show ?thesis
      using res by (auto simp: socket_channels.try_send_chan(1) [OF sc] routed_def)
  next
    case False
    then obtain i where i: "Mapping.lookup (routes s) (destination t) = Some i"
      and len: "length (contents t) \<le> mtu s" by auto
    have "i = outgoing p \<longleftrightarrow> routed s p \<and> path_remote p = destination t"
      using i wf assms(4) routes_ok_route [of s ps p "destination t"] by (auto simp: routed_def)
    then show ?thesis
      using ok res len
      by (auto simp: socket_channels.try_send_chan(2) [OF sc len i] chans_on_chan path_ok_def
          socket_channels.queued_route_send [OF sc])
  qed
qed

lemma try_send_reaches_route_only_witness:
  "let c = chans (fst sample_path) ! outgoing (snd sample_path);
       c' = chans (fst (try_send list_mpsc (fst sample_path) \<lparr>destination = sample_remote, contents = [7]\<rparr>))
              ! outgoing (snd sample_path)
   in queued list_mpsc c = [] \<and> queued list_mpsc c' = [[7]]"
proof -
  have "routed (fst sample_path) (snd sample_path)" "mtu (fst sample_path) = 1452"
    "queued list_mpsc (chans (fst sample_path) ! outgoing (snd sample_path)) = []"
    "max_capacity list_mpsc (chans (fst sample_path) ! outgoing (snd sample_path)) = 8"
    by (simp_all add: routed_def sample_defs Let_def)
  then show ?thesis
    using try_send_reaches_route_only [OF list_chan.bounded_mpsc_axioms list_chan.bounded_mpsc_axioms
        sample_path_reach, of "snd sample_path" "\<lparr>destination = sample_remote, contents = [7]\<rparr>"]
    by (simp add: Let_def sample_path_remote)
qed

text \<open>
  C4. The invariant of the socket. Every reachable state is well formed: each path has its own
  channel with a live receiver; the routing table leads to existing paths only, filed under their
  remotes; the receive queue is open with one sender per path beside the socket's own; no queue
  exceeds its capacity and no queued datagram exceeds the MTU.
\<close>

theorem socket_invariant:
  assumes "bounded_mpsc mi" and "bounded_mpsc mo" and "vudp_reach mi mo st"
  shows "vudp_wf mi mo st"
  using socket_channels.vudp_reach_wf [OF socket_channelsI [OF assms(1,2)] assms(3)] .

theorem socket_invariant_witness:
  "vudp_wf list_mpsc list_mpsc (fst sample_path, [snd sample_path])"
  using socket_invariant [OF list_chan.bounded_mpsc_axioms list_chan.bounded_mpsc_axioms sample_path_reach] .

end
