(* ===== verification/Relay.thy ===== *)
theory Relay
  imports Prelude
begin

text \<open>
  The packet relay of \<open>src/src/relay.rs\<close> and the interface it runs over. A transport has a state
  and the two methods of the trait \<open>DatagramTransport\<close>; its state holds what the awaited receive
  calls will yield, so that a receive that completes is a function of the state. Which of the two
  receives of the \<open>select!\<close> completes next is not determined by the program: the loop takes the
  sequence of these outcomes as an argument, and the future that loses a \<open>select!\<close> leaves its
  transport unchanged.
\<close>

section \<open>The transport interface\<close>

record ('t, 'x) transport =
  send_packet :: "'t \<Rightarrow> bytes \<Rightarrow> 't \<times> ('x + unit)"
  recv_packet :: "'t \<Rightarrow> 't \<times> ('x + bytes option)"

datatype RelayEnd = PeerClosed | EgressClosed

datatype ('p, 'e) RelayError = Peer 'p | Egress 'e

section \<open>The relay loop\<close>

datatype ready_branch = PeerReady | EgressReady

text \<open>
  The result is the state of both transports and what the loop returned, \<open>None\<close> while it is
  still waiting in the \<open>select!\<close> when the outcomes end.
\<close>

fun relay ::
    "('p, 'x) transport \<Rightarrow> ('e, 'y) transport \<Rightarrow> ready_branch list \<Rightarrow> 'p \<Rightarrow> 'e
       \<Rightarrow> 'p \<times> 'e \<times> (('x, 'y) RelayError + RelayEnd) option" where
  "relay tp te [] p e = (p, e, None)"
| "relay tp te (PeerReady # rs) p e =
     (case recv_packet tp p of
        (p1, Inl x) \<Rightarrow> (p1, e, Some (Inl (Peer x)))
      | (p1, Inr None) \<Rightarrow> (p1, e, Some (Inr PeerClosed))
      | (p1, Inr (Some packet)) \<Rightarrow>
          (case send_packet te e packet of
             (e1, Inl y) \<Rightarrow> (p1, e1, Some (Inl (Egress y)))
           | (e1, Inr done) \<Rightarrow> relay tp te rs p1 e1))"
| "relay tp te (EgressReady # rs) p e =
     (case recv_packet te e of
        (e1, Inl y) \<Rightarrow> (p, e1, Some (Inl (Egress y)))
      | (e1, Inr None) \<Rightarrow> (p, e1, Some (Inr EgressClosed))
      | (e1, Inr (Some packet)) \<Rightarrow>
          (case send_packet tp p packet of
             (p1, Inl x) \<Rightarrow> (p1, e1, Some (Inl (Peer x)))
           | (p1, Inr done) \<Rightarrow> relay tp te rs p1 e1))"

text \<open>
  What an end of the relay says about packets: a packet is lost only when its own send failed,
  which the error names, and a side that is reported as closed has nothing left to deliver.
\<close>

fun relay_loss ::
    "(('x, 'y) RelayError + RelayEnd) option \<Rightarrow> bytes list \<Rightarrow> bytes list \<Rightarrow> bytes list \<Rightarrow> bytes list \<Rightarrow> bool" where
  "relay_loss None up_lost up_left down_lost down_left \<longleftrightarrow> up_lost = [] \<and> down_lost = []"
| "relay_loss (Some (Inr PeerClosed)) up_lost up_left down_lost down_left \<longleftrightarrow>
     up_lost = [] \<and> up_left = [] \<and> down_lost = []"
| "relay_loss (Some (Inr EgressClosed)) up_lost up_left down_lost down_left \<longleftrightarrow>
     up_lost = [] \<and> down_left = [] \<and> down_lost = []"
| "relay_loss (Some (Inl (Peer x))) up_lost up_left down_lost down_left \<longleftrightarrow>
     up_lost = [] \<and> (length down_lost = 1 \<or> down_lost = [] \<and> up_left = [])"
| "relay_loss (Some (Inl (Egress y))) up_lost up_left down_lost down_left \<longleftrightarrow>
     down_lost = [] \<and> (length up_lost = 1 \<or> up_lost = [] \<and> down_left = [])"

section \<open>The contract of a transport\<close>

text \<open>
  \<open>inbox\<close> is what a transport will deliver before its stream ends or fails, \<open>outbox\<close> what it has
  accepted for sending. A receive takes the head of the inbox, a send appends to the outbox or
  fails without effect.
\<close>

locale packet_transport =
  fixes tr :: "('t, 'x) transport"
    and inbox :: "'t \<Rightarrow> bytes list"
    and outbox :: "'t \<Rightarrow> bytes list"
  assumes recv_some: "recv_packet tr t = (t', Inr (Some d)) \<Longrightarrow> inbox t = d # inbox t'"
    and recv_none: "recv_packet tr t = (t', Inr None) \<Longrightarrow> inbox t = []"
    and recv_err: "recv_packet tr t = (t', Inl x) \<Longrightarrow> inbox t = []"
    and recv_outbox: "recv_packet tr t = (t', r) \<Longrightarrow> outbox t' = outbox t"
    and send_ok: "send_packet tr t d = (t', Inr u) \<Longrightarrow> outbox t' = outbox t @ [d]"
    and send_err: "send_packet tr t d = (t', Inl x) \<Longrightarrow> outbox t' = outbox t"
    and send_inbox: "send_packet tr t d = (t', r') \<Longrightarrow> inbox t' = inbox t"

text \<open>
  What the library below a transport promises of its sending side: a send that succeeds appends
  one message, a send that fails appends none.
\<close>

locale message_sink =
  fixes sink_send :: "'k \<Rightarrow> 'm \<Rightarrow> 'k \<times> ('x + unit)"
    and sunk :: "'k \<Rightarrow> 'm list"
  assumes sink_ok: "sink_send k m = (k', Inr u) \<Longrightarrow> sunk k' = sunk k @ [m]"
    and sink_err: "sink_send k m = (k', Inl x) \<Longrightarrow> sunk k' = sunk k"

text \<open>A sink that accepts a fixed number of messages and then fails.\<close>

definition budget_send :: "'m list \<times> nat \<Rightarrow> 'm \<Rightarrow> ('m list \<times> nat) \<times> (string + unit)" where
  "budget_send k m =
     (case k of (ms, n) \<Rightarrow>
        (case n of 0 \<Rightarrow> ((ms, 0), Inl ''sink closed'') | Suc n' \<Rightarrow> ((ms @ [m], n'), Inr ())))"

interpretation budget_sink: message_sink budget_send fst
  by unfold_locales (auto simp: budget_send_def split: prod.splits nat.splits)

section \<open>The relay over two transports\<close>

locale relay_pair =
  peer: packet_transport tp pin pout + egress: packet_transport te ein eout
  for tp :: "('p, 'x) transport" and pin pout
    and te :: "('e, 'y) transport" and ein eout
begin

lemmas peer_recv = peer.recv_some peer.recv_none peer.recv_err peer.recv_outbox

lemmas egress_recv = egress.recv_some egress.recv_none egress.recv_err egress.recv_outbox

lemmas peer_send = peer.send_ok peer.send_err peer.send_inbox

lemmas egress_send = egress.send_ok egress.send_err egress.send_inbox

definition accounted :: "'p \<Rightarrow> 'e \<Rightarrow> 'p \<Rightarrow> 'e \<Rightarrow> (('x, 'y) RelayError + RelayEnd) option \<Rightarrow> bool" where
  "accounted p e p' e' r \<longleftrightarrow>
     (\<exists>up up_lost up_left down down_lost down_left.
       pin p = up @ up_lost @ up_left \<and> eout e' = eout e @ up \<and>
       ein e = down @ down_lost @ down_left \<and> pout p' = pout p @ down \<and>
       (r = None \<longrightarrow> up_left = pin p' \<and> down_left = ein e') \<and>
       relay_loss r up_lost up_left down_lost down_left)"

lemma accountedI:
  assumes "pin p = up @ ul @ pl" "eout e' = eout e @ up" "ein e = down @ dl @ el" "pout p' = pout p @ down"
    and "r = None \<Longrightarrow> pl = pin p' \<and> el = ein e'" "relay_loss r ul pl dl el"
  shows "accounted p e p' e' r"
  unfolding accounted_def using assms by fast

lemma accounted_up:
  assumes "accounted p1 e1 p' e' r" and "pin p = d # pin p1" "pout p1 = pout p"
    and "eout e1 = eout e @ [d]" "ein e1 = ein e"
  shows "accounted p e p' e' r"
proof -
  from assms(1) obtain up ul pl down dl el where
    "pin p1 = up @ ul @ pl" "eout e' = eout e1 @ up" "ein e1 = down @ dl @ el" "pout p' = pout p1 @ down"
    "r = None \<longrightarrow> pl = pin p' \<and> el = ein e'" "relay_loss r ul pl dl el"
    unfolding accounted_def by blast
  with assms(2-) show ?thesis
    by (intro accountedI [where up = "d # up" and ul = ul and pl = pl and down = down and dl = dl and el = el]) simp_all
qed

lemma accounted_down:
  assumes "accounted p1 e1 p' e' r" and "ein e = d # ein e1" "eout e1 = eout e"
    and "pout p1 = pout p @ [d]" "pin p1 = pin p"
  shows "accounted p e p' e' r"
proof -
  from assms(1) obtain up ul pl down dl el where
    "pin p1 = up @ ul @ pl" "eout e' = eout e1 @ up" "ein e1 = down @ dl @ el" "pout p' = pout p1 @ down"
    "r = None \<longrightarrow> pl = pin p' \<and> el = ein e'" "relay_loss r ul pl dl el"
    unfolding accounted_def by blast
  with assms(2-) show ?thesis
    by (intro accountedI [where up = up and ul = ul and pl = pl and down = "d # down" and dl = dl and el = el]) simp_all
qed

lemma accounted_stop:
  assumes "pin p = ul @ pl" "eout e' = eout e" "ein e = dl @ el" "pout p' = pout p"
    and "relay_loss (Some r) ul pl dl el"
  shows "accounted p e p' e' (Some r)"
  by (rule accountedI [where up = "[]" and ul = ul and pl = pl and down = "[]" and dl = dl and el = el])
    (use assms in simp_all)

lemma peer_ready_accounted:
  assumes IH: "\<And>p e. relay tp te rs p e = (p', e', r) \<Longrightarrow> accounted p e p' e' r"
    and run: "relay tp te (PeerReady # rs) p e = (p', e', r)"
  shows "accounted p e p' e' r"
proof (cases "recv_packet tp p")
  case (Pair p1 rr)
  note rcv = Pair
  consider (stop) "\<nexists>d. rr = Inr (Some d)" | (packet) d where "rr = Inr (Some d)" by blast
  then show ?thesis
  proof cases
    case stop
    then show ?thesis
      using rcv run
      by (cases rr; cases "projr rr")
        (auto intro!: accounted_stop [where ul = "[]" and pl = "[]" and dl = "[]"] dest: peer_recv)
  next
    case packet
    obtain e1 rs1 where snd: "send_packet te e d = (e1, rs1)" by fastforce
    show ?thesis
    proof (cases rs1)
      case (Inl y)
      then have eqs: "p' = p1" "e' = e1" "r = Some (Inl (Egress y))"
        using run rcv packet snd by auto
      show ?thesis
        unfolding eqs
        by (rule accounted_stop [where ul = "[d]" and dl = "[]"])
          (use rcv packet snd Inl in \<open>auto dest: peer_recv egress_send\<close>)
    next
      case (Inr u)
      then have "accounted p1 e1 p' e' r" using run rcv packet snd by (auto intro: IH)
      then show ?thesis
        by (rule accounted_up [where d = d]) (use rcv packet snd Inr in \<open>auto dest: peer_recv egress_send\<close>)
    qed
  qed
qed

lemma egress_ready_accounted:
  assumes IH: "\<And>p e. relay tp te rs p e = (p', e', r) \<Longrightarrow> accounted p e p' e' r"
    and run: "relay tp te (EgressReady # rs) p e = (p', e', r)"
  shows "accounted p e p' e' r"
proof (cases "recv_packet te e")
  case (Pair e1 rr)
  note rcv = Pair
  consider (stop) "\<nexists>d. rr = Inr (Some d)" | (packet) d where "rr = Inr (Some d)" by blast
  then show ?thesis
  proof cases
    case stop
    then show ?thesis
      using rcv run
      by (cases rr; cases "projr rr")
        (auto intro!: accounted_stop [where ul = "[]" and dl = "[]" and el = "[]"] dest: egress_recv)
  next
    case packet
    obtain p1 rs1 where snd: "send_packet tp p d = (p1, rs1)" by fastforce
    show ?thesis
    proof (cases rs1)
      case (Inl x)
      then have eqs: "p' = p1" "e' = e1" "r = Some (Inl (Peer x))"
        using run rcv packet snd by auto
      show ?thesis
        unfolding eqs
        by (rule accounted_stop [where ul = "[]" and dl = "[d]"])
          (use rcv packet snd Inl in \<open>auto dest: egress_recv peer_send\<close>)
    next
      case (Inr u)
      then have "accounted p1 e1 p' e' r" using run rcv packet snd by (auto intro: IH)
      then show ?thesis
        by (rule accounted_down [where d = d]) (use rcv packet snd Inr in \<open>auto dest: egress_recv peer_send\<close>)
    qed
  qed
qed

text \<open>
  By induction on the outcomes of the \<open>select!\<close>: what left the peer's inbox entered the egress
  outbox, in order, up to one packet whose send failed, and the same the other way.
\<close>

lemma relay_accounted: "relay tp te rs p e = (p', e', r) \<Longrightarrow> accounted p e p' e' r"
proof (induction rs arbitrary: p e)
  case Nil
  then show ?case
    by (intro accountedI [where up = "[]" and ul = "[]" and down = "[]" and dl = "[]"]) auto
next
  case (Cons b rs)
  from Cons.IH Cons.prems show ?case
    by (cases b) (blast intro: peer_ready_accounted egress_ready_accounted)+
qed

text \<open>The relay cannot outlive the stream of a side whose receives keep completing.\<close>

lemma peer_ready_decreases:
  assumes "relay tp te (PeerReady # rs) p e = (p', e', None)"
  shows "\<exists>p1 e1. relay tp te rs p1 e1 = (p', e', None) \<and> length (pin p) = Suc (length (pin p1))"
  using assms
  by (auto split: prod.splits sum.splits option.splits dest: peer.recv_some intro!: exI)

lemma egress_ready_keeps:
  assumes "relay tp te (EgressReady # rs) p e = (p', e', None)"
  shows "\<exists>p1 e1. relay tp te rs p1 e1 = (p', e', None) \<and> pin p1 = pin p"
  using assms
  by (auto split: prod.splits sum.splits option.splits dest: peer.send_inbox)

lemma relay_waiting_bound:
  "relay tp te rs p e = (p', e', None) \<Longrightarrow> count_list rs PeerReady \<le> length (pin p)"
proof (induction rs arbitrary: p e)
  case Nil
  then show ?case by simp
next
  case (Cons b rs)
  show ?case
  proof (cases b)
    case PeerReady
    with Cons.prems peer_ready_decreases obtain p1 e1 where
      "relay tp te rs p1 e1 = (p', e', None)" "length (pin p) = Suc (length (pin p1))" by blast
    with Cons.IH [of p1 e1] PeerReady show ?thesis by simp
  next
    case EgressReady
    with Cons.prems egress_ready_keeps obtain p1 e1 where
      "relay tp te rs p1 e1 = (p', e', None)" "pin p1 = pin p" by blast
    with Cons.IH [of p1 e1] EgressReady show ?thesis by simp
  qed
qed

end

section \<open>A transport over lists\<close>

text \<open>
  The channel transport of the repository's tests: what it receives is given, what it sends is
  recorded.
\<close>

record list_transport =
  lt_in :: "bytes list"
  lt_out :: "bytes list"

definition list_tr :: "(list_transport, string) transport" where
  "list_tr =
     \<lparr>send_packet = (\<lambda>t d. (t\<lparr>lt_out := lt_out t @ [d]\<rparr>, Inr ())),
      recv_packet = (\<lambda>t. case lt_in t of [] \<Rightarrow> (t, Inr None) | d # ds \<Rightarrow> (t\<lparr>lt_in := ds\<rparr>, Inr (Some d)))\<rparr>"

interpretation list_transport: packet_transport list_tr lt_in lt_out
  by unfold_locales (auto simp: list_tr_def split: list.splits)

section \<open>Properties\<close>

text \<open>
  C6. The relay neither invents, duplicates, reorders nor silently drops packets. Over transports
  that keep their contract, whatever the order in which the two receives complete, the packets
  the egress accepted are a prefix of what the peer delivered, and the other way round; a packet
  is lost only when its own send failed, which is the error the relay returns; a side is reported
  as closed only after all of its packets were forwarded.
\<close>

theorem relay_conserves_packets:
  assumes "packet_transport tp pin pout" and "packet_transport te ein eout"
    and "relay tp te rs p e = (p', e', r)"
  shows "\<exists>up up_lost up_left down down_lost down_left.
       pin p = up @ up_lost @ up_left \<and> eout e' = eout e @ up \<and>
       ein e = down @ down_lost @ down_left \<and> pout p' = pout p @ down \<and>
       (r = None \<longrightarrow> up_left = pin p' \<and> down_left = ein e') \<and>
       relay_loss r up_lost up_left down_lost down_left"
proof -
  have pair: "relay_pair tp pin pout te ein eout"
    using assms(1,2) by (rule relay_pair.intro)
  show ?thesis
    using relay_pair.relay_accounted [OF pair assms(3)] unfolding relay_pair.accounted_def [OF pair] .
qed

theorem relay_conserves_packets_witness:
  "\<exists>p' e'. relay list_tr list_tr [PeerReady, EgressReady, PeerReady, PeerReady]
       \<lparr>lt_in = [[1], [2]], lt_out = []\<rparr> \<lparr>lt_in = [[3], [4]], lt_out = []\<rparr> = (p', e', Some (Inr PeerClosed))
     \<and> lt_out e' = [[1], [2]] \<and> (\<exists>down rest. [[3], [4]] = down @ rest \<and> lt_out p' = down)"
proof -
  obtain p' e' r where run: "relay list_tr list_tr [PeerReady, EgressReady, PeerReady, PeerReady]
      \<lparr>lt_in = [[1], [2]], lt_out = []\<rparr> \<lparr>lt_in = [[3], [4]], lt_out = []\<rparr> = (p', e', r)"
    by (metis prod_cases3)
  then have r: "r = Some (Inr PeerClosed)" by (simp add: list_tr_def)
  from relay_conserves_packets [OF list_transport.packet_transport_axioms
      list_transport.packet_transport_axioms run] r
  have "lt_out e' = [[1], [2]] \<and> (\<exists>down rest. [[3], [4]] = down @ rest \<and> lt_out p' = down)"
    by auto
  then show ?thesis using run r by blast
qed

text \<open>
  C7. The relay ends with its peer. It is still waiting only as long as the peer's receives
  completed at most as often as the peer had packets: once the peer's stream is exhausted, the
  next completed receive of the peer ends the relay, however busy the egress side is.
\<close>

theorem relay_ends_with_peer:
  assumes "packet_transport tp pin pout" and "packet_transport te ein eout"
    and "length (pin p) < count_list rs PeerReady"
  shows "\<exists>p' e' r. relay tp te rs p e = (p', e', Some r)"
proof -
  have pair: "relay_pair tp pin pout te ein eout"
    using assms(1,2) by (rule relay_pair.intro)
  obtain p' e' r where run: "relay tp te rs p e = (p', e', r)" by (metis prod_cases3)
  then have "r \<noteq> None"
    using relay_pair.relay_waiting_bound [OF pair, of rs p e p' e'] assms(3) by fastforce
  with run show ?thesis by auto
qed

theorem relay_ends_with_peer_witness:
  "\<exists>p' e' r. relay list_tr list_tr [EgressReady, PeerReady, PeerReady]
       \<lparr>lt_in = [[1]], lt_out = []\<rparr> \<lparr>lt_in = [[3], [4]], lt_out = []\<rparr> = (p', e', Some r)"
  by (rule relay_ends_with_peer [OF list_transport.packet_transport_axioms
        list_transport.packet_transport_axioms]) simp

end
