(* ===== verification/Egress_Tunnel.thy ===== *)
theory Egress_Tunnel
  imports Protocol Relay
begin

text \<open>
  The egress tunnel of \<open>src/src/egress.rs\<close>: the WebSocket handshake that carries the consumer
  session identifier as a subprotocol, and the binary packet tunnel behind it. The WebSocket
  library (tungstenite, http) is an argument of the definitions. The receiving side of a socket is
  the list of the items its stream yields before it ends; the sending side is an operation of the
  library on a state of its own.
\<close>

section \<open>Types\<close>

definition DEFAULT_EGRESS_CONNECT_TIMEOUT :: duration where
  "DEFAULT_EGRESS_CONNECT_TIMEOUT = from_secs 10"

text \<open>The error of \<open>HeaderValue::from_str\<close> carries no data.\<close>

datatype InvalidHeaderValue = InvalidHeaderValue

datatype 'w EgressError =
    Request 'w
  | Header InvalidHeaderValue
  | WebSocket 'w
  | ConnectTimeout duration
  | MissingSubprotocol
  | UnexpectedSubprotocol string
  | InvalidConsumerSessionId string
  | TextMessage

datatype Message =
    Text string
  | Binary bytes
  | Ping bytes
  | Pong bytes
  | Close
  | Frame bytes

record ('k, 'w) EgressTunnel =
  ws_stream :: "('w + Message) list"
  ws_sink :: 'k

text \<open>
  What the handshake calls: \<open>into_client_request\<close>, \<open>HeaderValue::from_str\<close>, the insertion into
  the header map, \<open>connect_async\<close> under \<open>timeout\<close> (\<open>None\<close> when the timeout elapsed; otherwise its
  error, or the socket with the subprotocol header of the response), and \<open>HeaderValue::to_str\<close>.
\<close>

record ('r, 'v, 'k, 'w) ws_library =
  into_client_request :: "string \<Rightarrow> 'w + 'r"
  header_from_str :: "string \<Rightarrow> InvalidHeaderValue + 'v"
  insert_header :: "'r \<Rightarrow> string \<Rightarrow> 'v \<Rightarrow> 'r"
  connect_async :: "duration \<Rightarrow> 'r \<Rightarrow> ('w + ('k, 'w) EgressTunnel \<times> 'v option) option"
  header_to_str :: "'v \<Rightarrow> string option"

definition SEC_WEBSOCKET_PROTOCOL :: string where
  "SEC_WEBSOCKET_PROTOCOL = ''sec-websocket-protocol''"

section \<open>The handshake\<close>

definition check_selected ::
    "('r, 'v, 'k, 'w) ws_library \<Rightarrow> ('k, 'w) EgressTunnel \<Rightarrow> 'v option
       \<Rightarrow> 'w EgressError + ('k, 'w) EgressTunnel" where
  "check_selected ws socket response =
     and_then (ok_or response MissingSubprotocol) (\<lambda>v.
     and_then (ok_or (header_to_str ws v) (UnexpectedSubprotocol ''non-ASCII'')) (\<lambda>selected.
       if selected \<noteq> SUBPROTOCOL_MAGIC_COOKIE then Inl (UnexpectedSubprotocol selected)
       else Inr socket))"

definition connect_with_timeout ::
    "('r, 'v, 'k, 'w) ws_library \<Rightarrow> string \<Rightarrow> string \<Rightarrow> duration
       \<Rightarrow> 'w EgressError + ('k, 'w) EgressTunnel" where
  "connect_with_timeout ws url csid connect_timeout =
     (if \<not> is_subprotocol_token csid then Inl (InvalidConsumerSessionId csid)
      else
        and_then (map_err Request (into_client_request ws url)) (\<lambda>request.
        let protocols = str_join '', '' (egress_subprotocols csid PROTOCOL_VERSION) in
        and_then (map_err Header (header_from_str ws protocols)) (\<lambda>value.
        case connect_async ws connect_timeout (insert_header ws request SEC_WEBSOCKET_PROTOCOL value) of
          None \<Rightarrow> Inl (ConnectTimeout connect_timeout)
        | Some (Inl err) \<Rightarrow> Inl (WebSocket err)
        | Some (Inr (socket, response)) \<Rightarrow> check_selected ws socket response)))"

definition egress_connect ::
    "('r, 'v, 'k, 'w) ws_library \<Rightarrow> string \<Rightarrow> string \<Rightarrow> 'w EgressError + ('k, 'w) EgressTunnel" where
  "egress_connect ws url csid = connect_with_timeout ws url csid DEFAULT_EGRESS_CONNECT_TIMEOUT"

section \<open>The tunnel\<close>

definition egress_send ::
    "('k \<Rightarrow> Message \<Rightarrow> 'k \<times> ('w + unit)) \<Rightarrow> ('k, 'w) EgressTunnel \<Rightarrow> bytes
       \<Rightarrow> ('k, 'w) EgressTunnel \<times> ('w EgressError + unit)" where
  "egress_send ws_send t packet =
     (case ws_send (ws_sink t) (Binary packet) of
        (k, r) \<Rightarrow> (t\<lparr>ws_sink := k\<rparr>, map_err WebSocket r))"

text \<open>The receive loop, over the items that the stream yields.\<close>

fun recv_loop :: "('w + Message) list \<Rightarrow> ('w + Message) list \<times> ('w EgressError + bytes option)" where
  "recv_loop [] = ([], Inr None)"
| "recv_loop (Inl err # ms) = (ms, Inl (WebSocket err))"
| "recv_loop (Inr (Binary packet) # ms) = (ms, Inr (Some packet))"
| "recv_loop (Inr (Ping d) # ms) = recv_loop ms"
| "recv_loop (Inr (Pong d) # ms) = recv_loop ms"
| "recv_loop (Inr Close # ms) = (ms, Inr None)"
| "recv_loop (Inr (Text d) # ms) = (ms, Inl TextMessage)"
| "recv_loop (Inr (Frame d) # ms) = recv_loop ms"

definition egress_recv ::
    "('k, 'w) EgressTunnel \<Rightarrow> ('k, 'w) EgressTunnel \<times> ('w EgressError + bytes option)" where
  "egress_recv t = (case recv_loop (ws_stream t) of (ms, r) \<Rightarrow> (t\<lparr>ws_stream := ms\<rparr>, r))"

text \<open>\<open>close\<close> consumes the tunnel.\<close>

definition egress_close :: "('k \<Rightarrow> 'k \<times> ('w + unit)) \<Rightarrow> ('k, 'w) EgressTunnel \<Rightarrow> 'w EgressError + unit" where
  "egress_close ws_close t = map_err WebSocket (snd (ws_close (ws_sink t)))"

text \<open>The transport: boxing an error keeps it.\<close>

definition egress_transport ::
    "('k \<Rightarrow> Message \<Rightarrow> 'k \<times> ('w + unit)) \<Rightarrow> (('k, 'w) EgressTunnel, 'w EgressError) transport" where
  "egress_transport ws_send =
     \<lparr>send_packet = egress_send ws_send, recv_packet = egress_recv\<rparr>"

section \<open>The tunnel keeps the contract of a transport\<close>

text \<open>
  The packets a stream delivers: its binary messages up to the first error, text message, close
  or end. Control messages and raw frames are skipped.
\<close>

fun stream_packets :: "('w + Message) list \<Rightarrow> bytes list" where
  "stream_packets (Inr (Binary packet) # ms) = packet # stream_packets ms"
| "stream_packets (Inr (Ping d) # ms) = stream_packets ms"
| "stream_packets (Inr (Pong d) # ms) = stream_packets ms"
| "stream_packets (Inr (Frame d) # ms) = stream_packets ms"
| "stream_packets ms = []"

definition egress_inbox :: "('k, 'w) EgressTunnel \<Rightarrow> bytes list" where
  "egress_inbox t = stream_packets (ws_stream t)"

fun binary_payload :: "Message \<Rightarrow> bytes option" where
  "binary_payload (Binary packet) = Some packet"
| "binary_payload m = None"

definition egress_outbox :: "('k \<Rightarrow> Message list) \<Rightarrow> ('k, 'w) EgressTunnel \<Rightarrow> bytes list" where
  "egress_outbox sunk t = List.map_filter binary_payload (sunk (ws_sink t))"

lemma recv_loop_packets:
  "recv_loop ms = (ms', Inr (Some d)) \<Longrightarrow> stream_packets ms = d # stream_packets ms'"
  "recv_loop ms = (ms', Inr None) \<Longrightarrow> stream_packets ms = []"
  "recv_loop ms = (ms', Inl err) \<Longrightarrow> stream_packets ms = []"
  by (induction ms rule: recv_loop.induct) auto

locale websocket_sink = message_sink ws_send sunk
  for ws_send :: "'k \<Rightarrow> Message \<Rightarrow> 'k \<times> ('w + unit)" and sunk :: "'k \<Rightarrow> Message list"

sublocale websocket_sink \<subseteq>
  tunnel: packet_transport "egress_transport ws_send" egress_inbox "egress_outbox sunk"
proof unfold_locales
  fix t t' :: "('k, 'w) EgressTunnel" and d :: bytes and r and x :: "'w EgressError" and u :: unit and r'
  note defs = egress_transport_def egress_recv_def egress_send_def egress_inbox_def egress_outbox_def
  show "recv_packet (egress_transport ws_send) t = (t', Inr (Some d)) \<Longrightarrow>
      egress_inbox t = d # egress_inbox t'"
    by (auto simp: defs recv_loop_packets(1) split: prod.splits)
  show "recv_packet (egress_transport ws_send) t = (t', Inr None) \<Longrightarrow> egress_inbox t = []"
    by (auto simp: defs recv_loop_packets(2) split: prod.splits)
  show "recv_packet (egress_transport ws_send) t = (t', Inl x) \<Longrightarrow> egress_inbox t = []"
    by (auto simp: defs recv_loop_packets(3) split: prod.splits)
  show "recv_packet (egress_transport ws_send) t = (t', r) \<Longrightarrow> egress_outbox sunk t' = egress_outbox sunk t"
    by (auto simp: defs split: prod.splits)
  show "send_packet (egress_transport ws_send) t d = (t', Inr u) \<Longrightarrow>
      egress_outbox sunk t' = egress_outbox sunk t @ [d]"
    by (auto simp: defs map_filter_simps split: prod.splits dest!: sink_ok)
  show "send_packet (egress_transport ws_send) t d = (t', Inl x) \<Longrightarrow>
      egress_outbox sunk t' = egress_outbox sunk t"
    by (auto simp: defs map_err_Inl_iff split: prod.splits dest!: sink_err)
  show "send_packet (egress_transport ws_send) t d = (t', r') \<Longrightarrow> egress_inbox t' = egress_inbox t"
    by (auto simp: defs split: prod.splits)
qed

interpretation budget_ws: websocket_sink budget_send fst
  by unfold_locales

section \<open>Properties\<close>

lemma check_selected_Inr:
  "check_selected ws socket response = Inr t \<longleftrightarrow>
     t = socket \<and> (\<exists>v. response = Some v \<and> header_to_str ws v = Some SUBPROTOCOL_MAGIC_COOKIE)"
  by (cases response) (auto simp: check_selected_def and_then_Inr_iff)

lemma connect_with_timeout_InrE:
  assumes "connect_with_timeout ws url csid d = Inr t"
  obtains req sent_value v where "is_subprotocol_token csid" "into_client_request ws url = Inr req"
    "header_from_str ws (str_join '', '' (egress_subprotocols csid PROTOCOL_VERSION)) = Inr sent_value"
    "connect_async ws d (insert_header ws req SEC_WEBSOCKET_PROTOCOL sent_value) = Some (Inr (t, Some v))"
    "header_to_str ws v = Some SUBPROTOCOL_MAGIC_COOKIE"
proof -
  from assms obtain req sent_value where A: "is_subprotocol_token csid" "into_client_request ws url = Inr req"
    "header_from_str ws (str_join '', '' (egress_subprotocols csid PROTOCOL_VERSION)) = Inr sent_value"
    by (auto simp: connect_with_timeout_def Let_def and_then_Inr_iff split: if_splits)
  show thesis
  proof (cases "connect_async ws d (insert_header ws req SEC_WEBSOCKET_PROTOCOL sent_value)")
    case None
    with assms A show thesis by (simp add: connect_with_timeout_def)
  next
    case (Some r)
    with assms A show thesis
      by (cases r) (auto simp: connect_with_timeout_def check_selected_Inr intro: that)
  qed
qed

text \<open>A library whose handshake succeeds when the request carries a subprotocol list.\<close>

definition sample_ws :: "((string \<times> string) list, string, Message list \<times> nat, string) ws_library" where
  "sample_ws =
     \<lparr>into_client_request = (\<lambda>url. if url = [] then Inl ''empty url'' else Inr [(''host'', url)]),
      header_from_str = Inr,
      insert_header = (\<lambda>r k v. r @ [(k, v)]),
      connect_async = (\<lambda>d r. Some (Inr (\<lparr>ws_stream = [], ws_sink = ([], 8)\<rparr>,
         map_option (\<lambda>v. hd (header_tokens v)) (map_of r SEC_WEBSOCKET_PROTOCOL)))),
      header_to_str = Some\<rparr>"

text \<open>
  C8. The handshake carries the session identifier as one token. A session identifier that is not
  a subprotocol token is refused before anything is sent; and when \<open>connect\<close> returns a tunnel,
  the library was asked to connect with a subprotocol header whose entries are exactly the
  magic cookie, the session identifier and the protocol version, and the server selected the
  magic cookie.
\<close>

theorem egress_connect_handshake:
  "(\<not> is_subprotocol_token csid \<longrightarrow> egress_connect ws url csid = Inl (InvalidConsumerSessionId csid))
   \<and> (egress_connect ws url csid = Inr t \<longrightarrow>
       (\<exists>req line sent_value selected.
          into_client_request ws url = Inr req \<and> header_from_str ws line = Inr sent_value
          \<and> connect_async ws (from_secs 10) (insert_header ws req SEC_WEBSOCKET_PROTOCOL sent_value) =
              Some (Inr (t, Some selected))
          \<and> header_to_str ws selected = Some SUBPROTOCOL_MAGIC_COOKIE
          \<and> header_tokens line = [SUBPROTOCOL_MAGIC_COOKIE, csid, PROTOCOL_VERSION]))"
proof (intro conjI impI)
  assume "\<not> is_subprotocol_token csid"
  then show "egress_connect ws url csid = Inl (InvalidConsumerSessionId csid)"
    by (simp add: egress_connect_def connect_with_timeout_def)
next
  let ?line = "str_join '', '' (egress_subprotocols csid PROTOCOL_VERSION)"
  assume ok: "egress_connect ws url csid = Inr t"
  then have "is_subprotocol_token csid"
    by (simp add: egress_connect_def connect_with_timeout_def split: if_splits)
  then have "header_tokens ?line = [SUBPROTOCOL_MAGIC_COOKIE, csid, PROTOCOL_VERSION]"
    unfolding egress_subprotocols_def by (intro header_tokens_join) simp
  with ok show "\<exists>req line sent_value selected.
          into_client_request ws url = Inr req \<and> header_from_str ws line = Inr sent_value
          \<and> connect_async ws (from_secs 10) (insert_header ws req SEC_WEBSOCKET_PROTOCOL sent_value) =
              Some (Inr (t, Some selected))
          \<and> header_to_str ws selected = Some SUBPROTOCOL_MAGIC_COOKIE
          \<and> header_tokens line = [SUBPROTOCOL_MAGIC_COOKIE, csid, PROTOCOL_VERSION]"
    unfolding egress_connect_def DEFAULT_EGRESS_CONNECT_TIMEOUT_def
    by (elim connect_with_timeout_InrE) blast
qed

theorem egress_connect_handshake_witness:
  "egress_connect sample_ws ''ws://x/ws'' ''csid, un80und3d'' = Inl (InvalidConsumerSessionId ''csid, un80und3d'')
   \<and> (\<exists>t line. egress_connect sample_ws ''ws://x/ws'' ''abc'' = Inr t
       \<and> header_tokens line = [''un80und3d'', ''abc'', ''v2.3.0''])"
proof -
  have bad: "\<not> is_subprotocol_token ''csid, un80und3d''" and good: "is_subprotocol_token ''abc''"
    by (simp_all add: is_subprotocol_token_def str_bytes_def char_byte_def is_ascii_graphic_def)
  have "egress_connect sample_ws ''ws://x/ws'' ''abc'' = Inr \<lparr>ws_stream = [], ws_sink = ([], 8)\<rparr>"
    using good header_tokens_join [of SUBPROTOCOL_MAGIC_COOKIE "[''abc'', PROTOCOL_VERSION]"]
    by (simp add: egress_connect_def connect_with_timeout_def sample_ws_def check_selected_def
        SEC_WEBSOCKET_PROTOCOL_def egress_subprotocols_def)
  with bad egress_connect_handshake [of "''csid, un80und3d''" sample_ws "''ws://x/ws''" undefined]
    egress_connect_handshake [of "''abc''" sample_ws "''ws://x/ws''" "\<lparr>ws_stream = [], ws_sink = ([], 8)\<rparr>"]
  show ?thesis by (auto simp: wire_consts)
qed

end
