(* ===== verification/Rtc.thy ===== *)
theory Rtc
  imports Channel Relay "HOL-Library.Sublist" "HOL-Library.Multiset"
begin

text \<open>
  The WebRTC adapter of \<open>src/src/rtc.rs\<close>: the API settings with the randomised DTLS ClientHello,
  the parameters of the data channel, and \<open>WebRtcDatagrams\<close>, which turns the callbacks of a data
  channel into a bounded queue of events that the relay reads. The WebRTC crate, the random
  permutation of the rand crate and the tokio channel are arguments.
\<close>

section \<open>Settings\<close>

definition DATA_CHANNEL_LABEL :: string where
  [wire_consts]: "DATA_CHANNEL_LABEL = ''data''"

definition DEFAULT_DATA_CHANNEL_QUEUE :: nat where
  "DEFAULT_DATA_CHANNEL_QUEUE = 4096"

datatype NetworkType = Udp4 | Udp6

text \<open>
  A ClientHello message: the two lists that the hook reads and writes; everything else in the
  message is the extension part of the record.
\<close>

record ('c, 'x) ClientHello =
  cipher_suites :: "'c list"
  extensions :: "'x list"

record ('c, 'x, 'z) SettingEngine =
  network_types :: "NetworkType list"
  client_hello_hook :: "(('c, 'x, 'z) ClientHello_scheme \<Rightarrow> ('c, 'x, 'z) ClientHello_scheme) option"

definition dtls_hook ::
    "('c list \<Rightarrow> 'c list) \<Rightarrow> ('x list \<Rightarrow> 'x list)
       \<Rightarrow> ('c, 'x, 'z) ClientHello_scheme \<Rightarrow> ('c, 'x, 'z) ClientHello_scheme" where
  "dtls_hook shuffle_suites shuffle_extensions hello =
     (let hello1 = hello\<lparr>cipher_suites := shuffle_suites (cipher_suites hello)\<rparr>
      in hello1\<lparr>extensions := shuffle_extensions (extensions hello1)\<rparr>)"

text \<open>
  \<open>build_api_with_options\<close>: registering codecs and interceptors may fail; the settings are built
  and handed to the API builder.
\<close>

record ('m, 'i, 'c, 'x, 'z, 'api, 'w) rtc_library =
  media_engine_default :: 'm
  register_default_codecs :: "'m \<Rightarrow> 'w + 'm"
  register_default_interceptors :: "'m \<Rightarrow> 'w + 'i \<times> 'm"
  api_build :: "'m \<Rightarrow> 'i \<Rightarrow> ('c, 'x, 'z) SettingEngine \<Rightarrow> 'api"

definition build_api_with_options ::
    "('m, 'i, 'c, 'x, 'z, 'api, 'w) rtc_library \<Rightarrow> ('c list \<Rightarrow> 'c list) \<Rightarrow> ('x list \<Rightarrow> 'x list)
       \<Rightarrow> bool \<Rightarrow> bool \<Rightarrow> 'w + 'api" where
  "build_api_with_options lib shuffle_suites shuffle_extensions enable_ipv6 randomize_dtls =
     and_then (register_default_codecs lib (media_engine_default lib)) (\<lambda>media_engine.
     and_then (register_default_interceptors lib media_engine) (\<lambda>(registry, media_engine1).
       let network = [Udp4] @ (if enable_ipv6 then [Udp6] else []);
           settings = \<lparr>network_types = network,
             client_hello_hook =
               (if randomize_dtls then Some (dtls_hook shuffle_suites shuffle_extensions) else None)\<rparr>
       in Inr (api_build lib media_engine1 registry settings)))"

definition build_api where
  "build_api lib shuffle_suites shuffle_extensions =
     build_api_with_options lib shuffle_suites shuffle_extensions False True"

definition build_api_with_ipv6 where
  "build_api_with_ipv6 lib shuffle_suites shuffle_extensions enable_ipv6 =
     build_api_with_options lib shuffle_suites shuffle_extensions enable_ipv6 True"

text \<open>The parameters of a data channel that the code sets; the others keep their defaults.\<close>

record RTCDataChannelInit =
  ordered :: "bool option"
  max_retransmits :: "u16 option"

definition create_unreliable_data_channel ::
    "('p \<Rightarrow> string \<Rightarrow> RTCDataChannelInit option \<Rightarrow> 'w + 'ch) \<Rightarrow> 'p \<Rightarrow> 'w + 'ch" where
  "create_unreliable_data_channel create_data_channel connection =
     create_data_channel connection DATA_CHANNEL_LABEL
       (Some \<lparr>ordered = Some False, max_retransmits = Some 0\<rparr>)"

section \<open>Datagrams of a data channel\<close>

datatype 'w WebRtcDatagramError = DcTextMessage | DcWebRtc 'w

type_synonym 'w rtc_result = "'w WebRtcDatagramError + bytes option"

datatype ChannelEvent = Packet bytes | TextEvent | ClosedEvent

text \<open>
  The data channel \<open>dc\<close>, the event queue, and the number of detached tasks that wait to put the
  close event into a full queue.
\<close>

record ('k, 'c) WebRtcDatagrams =
  dc :: 'k
  events :: 'c
  close_tasks :: nat

type_synonym 'c ev_ops = "('c, ChannelEvent) mpsc_ops"

definition WebRtcDatagrams_with_capacity ::
    "'c ev_ops \<Rightarrow> 'k \<Rightarrow> nat \<Rightarrow> ('k, 'c) WebRtcDatagrams option" where
  "WebRtcDatagrams_with_capacity mc ch capacity =
     (if \<not> capacity > 0 then None
      else Some \<lparr>dc = ch, events = chan_clone_tx mc (channel mc capacity), close_tasks = 0\<rparr>)"

definition WebRtcDatagrams_new :: "'c ev_ops \<Rightarrow> 'k \<Rightarrow> ('k, 'c) WebRtcDatagrams option" where
  "WebRtcDatagrams_new mc ch = WebRtcDatagrams_with_capacity mc ch DEFAULT_DATA_CHANNEL_QUEUE"

definition on_message ::
    "'c ev_ops \<Rightarrow> bool \<Rightarrow> bytes \<Rightarrow> ('k, 'c) WebRtcDatagrams \<Rightarrow> ('k, 'c) WebRtcDatagrams" where
  "on_message mc is_string data d =
     (let event = (if is_string then TextEvent else Packet data)
      in d\<lparr>events := fst (chan_try_send mc (events d) event)\<rparr>)"

text \<open>A failed \<open>try_send\<close> of the close event detaches a task that sends it.\<close>

definition on_close :: "'c ev_ops \<Rightarrow> ('k, 'c) WebRtcDatagrams \<Rightarrow> ('k, 'c) WebRtcDatagrams" where
  "on_close mc d =
     (case chan_try_send mc (events d) ClosedEvent of
        (c, r) \<Rightarrow> d\<lparr>events := c, close_tasks := close_tasks d + (if r \<noteq> SendOk then 1 else 0)\<rparr>)"

text \<open>
  One poll of a detached task: \<open>send(..).await\<close> completes when the queue takes the event or is
  closed, and stays pending while it is full.
\<close>

definition poll_close_task :: "'c ev_ops \<Rightarrow> ('k, 'c) WebRtcDatagrams \<Rightarrow> ('k, 'c) WebRtcDatagrams" where
  "poll_close_task mc d =
     (if close_tasks d = 0 then d
      else case chan_try_send mc (events d) ClosedEvent of
        (c, SendFull) \<Rightarrow> d
      | (c, r) \<Rightarrow> d\<lparr>events := c, close_tasks := close_tasks d - 1\<rparr>)"

definition rtc_send ::
    "('k \<Rightarrow> bytes \<Rightarrow> 'k \<times> ('w + unit)) \<Rightarrow> ('k, 'c) WebRtcDatagrams \<Rightarrow> bytes
       \<Rightarrow> ('k, 'c) WebRtcDatagrams \<times> ('w WebRtcDatagramError + unit)" where
  "rtc_send dc_send d packet =
     (case dc_send (dc d) packet of (k, r) \<Rightarrow> (d\<lparr>dc := k\<rparr>, map_err DcWebRtc r))"

text \<open>The match on the event that \<open>events.recv().await\<close> yields.\<close>

fun event_result :: "ChannelEvent option \<Rightarrow> 'w rtc_result" where
  "event_result (Some (Packet packet)) = Inr (Some packet)"
| "event_result (Some TextEvent) = Inl DcTextMessage"
| "event_result (Some ClosedEvent) = Inr None"
| "event_result None = Inr None"

definition rtc_recv ::
    "('c \<Rightarrow> 'c \<times> ChannelEvent option) \<Rightarrow> ('k, 'c) WebRtcDatagrams
       \<Rightarrow> ('k, 'c) WebRtcDatagrams \<times> ('w rtc_result)" where
  "rtc_recv ev_recv d = (case ev_recv (events d) of (c, e) \<Rightarrow> (d\<lparr>events := c\<rparr>, event_result e))"

definition rtc_transport ::
    "('k \<Rightarrow> bytes \<Rightarrow> 'k \<times> ('w + unit)) \<Rightarrow> ('c \<Rightarrow> 'c \<times> ChannelEvent option)
       \<Rightarrow> (('k, 'c) WebRtcDatagrams, 'w WebRtcDatagramError) transport" where
  "rtc_transport dc_send ev_recv = \<lparr>send_packet = rtc_send dc_send, recv_packet = rtc_recv ev_recv\<rparr>"

section \<open>The queue between the callbacks and the relay\<close>

text \<open>
  The callbacks, the detached tasks and the polls of the relay's receive run in any order.
  A poll of the receive that completes reports the event that the match in \<^const>\<open>rtc_recv\<close> sees.
\<close>

datatype dc_step = OnMessage bool bytes | OnClose | PollCloseTask | PollRecv

fun dc_do ::
    "'c ev_ops \<Rightarrow> dc_step \<Rightarrow> ('k, 'c) WebRtcDatagrams
       \<Rightarrow> ('k, 'c) WebRtcDatagrams \<times> ChannelEvent option list" where
  "dc_do mc (OnMessage is_string data) d = (on_message mc is_string data d, [])"
| "dc_do mc OnClose d = (on_close mc d, [])"
| "dc_do mc PollCloseTask d = (poll_close_task mc d, [])"
| "dc_do mc PollRecv d =
     (case chan_poll_recv mc (events d) of
        (c, Pending) \<Rightarrow> (d\<lparr>events := c\<rparr>, [])
      | (c, Ready e) \<Rightarrow> (d\<lparr>events := c\<rparr>, [e]))"

fun dc_run ::
    "'c ev_ops \<Rightarrow> dc_step list \<Rightarrow> ('k, 'c) WebRtcDatagrams
       \<Rightarrow> ('k, 'c) WebRtcDatagrams \<times> ChannelEvent option list" where
  "dc_run mc [] d = (d, [])"
| "dc_run mc (s # ss) d =
     (case dc_do mc s d of (d1, es) \<Rightarrow>
        (case dc_run mc ss d1 of (d2, es') \<Rightarrow> (d2, es @ es')))"

fun arrivals :: "dc_step list \<Rightarrow> ChannelEvent list" where
  "arrivals [] = []"
| "arrivals (OnMessage is_string data # ss) = (if is_string then TextEvent else Packet data) # arrivals ss"
| "arrivals (s # ss) = arrivals ss"

text \<open>The events of a queue that carry data.\<close>

abbreviation data_events :: "ChannelEvent list \<Rightarrow> ChannelEvent list" where
  "data_events es \<equiv> filter (\<lambda>e. e \<noteq> ClosedEvent) es"

fun received_data :: "ChannelEvent option list \<Rightarrow> ChannelEvent list" where
  "received_data [] = []"
| "received_data (Some e # rs) = data_events [e] @ received_data rs"
| "received_data (None # rs) = received_data rs"

lemma received_data_append [simp]: "received_data (rs @ rs') = received_data rs @ received_data rs'"
  by (induction rs rule: received_data.induct) simp_all

lemma dc_run_append:
  "dc_run mc (ss @ ts) d =
     (case dc_run mc ss d of (d1, rs) \<Rightarrow> (case dc_run mc ts d1 of (d2, rs') \<Rightarrow> (d2, rs @ rs')))"
  by (induction ss arbitrary: d) (simp_all split: prod.splits)

lemma dc_run_ConsE:
  assumes "dc_run mc (s # ss) d = (d', rs)"
  obtains d1 rs1 rs2 where "dc_do mc s d = (d1, rs1)" "dc_run mc ss d1 = (d', rs2)" "rs = rs1 @ rs2"
  using assms by (auto split: prod.splits)

lemma arrivals_Cons: "arrivals (s # ss) = arrivals [s] @ arrivals ss"
  by (cases s) simp_all

text \<open>The channel of events under the documented behaviour of the bounded channel.\<close>

locale event_queue = bounded_mpsc mc for mc :: "('c, ChannelEvent) mpsc_ops"
begin

text \<open>The receiver exists while the adapter does, and the callbacks keep their senders.\<close>

definition live :: "('k, 'c) WebRtcDatagrams \<Rightarrow> bool" where
  "live d \<longleftrightarrow> rx_alive mc (events d) \<and> 0 < senders mc (events d) \<and>
     0 < max_capacity mc (events d) \<and> length (queued mc (events d)) \<le> max_capacity mc (events d)"

definition has_close :: "('k, 'c) WebRtcDatagrams \<Rightarrow> bool" where
  "has_close d \<longleftrightarrow> ClosedEvent \<in> set (queued mc (events d)) \<or> 0 < close_tasks d"

lemma live_new:
  "WebRtcDatagrams_with_capacity mc ch capacity = Some d \<Longrightarrow> live d \<and> queued mc (events d) = [] \<and>
     max_capacity mc (events d) = capacity"
  by (auto simp: WebRtcDatagrams_with_capacity_def live_def split: if_splits)

lemma on_message_frame:
  "live d \<Longrightarrow> live (on_message mc b x d) \<and> close_tasks (on_message mc b x d) = close_tasks d \<and>
     max_capacity mc (events (on_message mc b x d)) = max_capacity mc (events d)"
  by (simp add: on_message_def live_def Let_def try_send_bounded)

lemma on_message_queued:
  "live d \<Longrightarrow> queued mc (events (on_message mc b x d)) =
     queued mc (events d) @
       (if length (queued mc (events d)) < max_capacity mc (events d)
        then [if b then TextEvent else Packet x] else [])"
  by (simp add: on_message_def live_def Let_def queued_try_send_if)

lemma on_close_frame:
  "live d \<Longrightarrow> live (on_close mc d) \<and> has_close (on_close mc d) \<and>
     max_capacity mc (events (on_close mc d)) = max_capacity mc (events d)"
  by (auto simp: on_close_def live_def has_close_def try_send_result queued_try_send_if case_prod_beta)

lemma on_close_queued:
  "live d \<Longrightarrow> queued mc (events (on_close mc d)) =
     queued mc (events d) @
       (if length (queued mc (events d)) < max_capacity mc (events d) then [ClosedEvent] else [])"
  by (simp add: on_close_def live_def queued_try_send_if case_prod_beta)

lemma poll_close_task_eq:
  "live d \<Longrightarrow> poll_close_task mc d =
     (if close_tasks d = 0 \<or> max_capacity mc (events d) \<le> length (queued mc (events d)) then d
      else d\<lparr>events := fst (chan_try_send mc (events d) ClosedEvent), close_tasks := close_tasks d - 1\<rparr>)"
  using try_send_result [of "events d" ClosedEvent]
  by (auto simp: poll_close_task_def live_def split: prod.split try_send_result.split)

lemma poll_close_task_frame:
  "live d \<Longrightarrow> live (poll_close_task mc d) \<and>
     max_capacity mc (events (poll_close_task mc d)) = max_capacity mc (events d)"
  by (simp add: poll_close_task_eq) (simp add: live_def try_send_bounded)

lemma poll_close_task_queued:
  "live d \<Longrightarrow> queued mc (events (poll_close_task mc d)) =
     queued mc (events d) @
       (if 0 < close_tasks d \<and> length (queued mc (events d)) < max_capacity mc (events d)
        then [ClosedEvent] else [])"
  by (simp add: poll_close_task_eq) (auto simp: live_def queued_try_send_if)

lemma poll_close_task_keeps_close: "live d \<Longrightarrow> has_close d \<Longrightarrow> has_close (poll_close_task mc d)"
  by (simp add: poll_close_task_eq) (auto simp: live_def has_close_def queued_try_send_if)

lemma recv_frame:
  "live d \<Longrightarrow> live (d\<lparr>events := fst (chan_poll_recv mc (events d))\<rparr>)"
  by (auto simp: live_def queued_poll_recv)

lemma dc_do_recv:
  "live d \<Longrightarrow> dc_do mc PollRecv d =
     (d\<lparr>events := fst (chan_poll_recv mc (events d))\<rparr>,
      case queued mc (events d) of [] \<Rightarrow> [] | e # es \<Rightarrow> [Some e])"
  using poll_recv_result [of "events d"]
  by (auto simp: live_def split: prod.split poll.split list.splits)

declare dc_do.simps(4) [simp del]

lemma dc_do_live:
  "live d \<Longrightarrow> live (fst (dc_do mc s d)) \<and>
     max_capacity mc (events (fst (dc_do mc s d))) = max_capacity mc (events d)"
  by (cases s) (simp_all add: on_message_frame on_close_frame poll_close_task_frame dc_do_recv
      recv_frame)

lemma dc_run_live:
  "live d \<Longrightarrow> live (fst (dc_run mc ss d)) \<and>
     max_capacity mc (events (fst (dc_run mc ss d))) = max_capacity mc (events d)"
proof (induction ss arbitrary: d)
  case (Cons s ss)
  with dc_do_live [of d s] Cons.IH [of "fst (dc_do mc s d)"] show ?case by (simp add: case_prod_beta)
qed simp

text \<open>A step keeps the close event unless it hands it to the reader.\<close>

lemma dc_do_keeps_close:
  assumes "live d" "has_close d" and "Some ClosedEvent \<notin> set (snd (dc_do mc s d))"
  shows "has_close (fst (dc_do mc s d))"
proof (cases s)
  case (OnMessage b x)
  with assms show ?thesis by (auto simp: has_close_def on_message_frame on_message_queued)
next
  case PollRecv
  with assms show ?thesis
    by (cases "queued mc (events d)")
      (auto simp: has_close_def dc_do_recv queued_poll_recv)
qed (use assms in \<open>simp_all add: on_close_frame poll_close_task_keeps_close\<close>)

lemma dc_run_keeps_close:
  "live d \<Longrightarrow> has_close d \<Longrightarrow> Some ClosedEvent \<notin> set (snd (dc_run mc ss d)) \<Longrightarrow>
     live (fst (dc_run mc ss d)) \<and> has_close (fst (dc_run mc ss d))"
proof (induction ss arbitrary: d)
  case (Cons s ss)
  let ?d1 = "fst (dc_do mc s d)"
  from Cons.prems have "Some ClosedEvent \<notin> set (snd (dc_do mc s d))" "Some ClosedEvent \<notin> set (snd (dc_run mc ss ?d1))"
    by (simp_all add: case_prod_beta)
  with Cons.prems dc_do_live [of d s] dc_do_keeps_close [of d s] Cons.IH [of ?d1]
  show ?case by (simp add: case_prod_beta)
qed simp

text \<open>
  What the reader got, and what is still queued, is a subsequence of what was queued and what
  arrived; it is all of it when the queue never fills.
\<close>

lemma dc_do_data:
  assumes "live d" and "dc_do mc s d = (d1, rs)"
  shows "subseq (received_data rs @ data_events (queued mc (events d1)))
           (data_events (queued mc (events d)) @ data_events (arrivals [s]))"
proof (cases s)
  case PollRecv
  with assms show ?thesis
    by (cases "queued mc (events d)")
      (auto simp: dc_do_recv queued_poll_recv)
qed (use assms in \<open>auto simp: on_message_queued on_close_queued poll_close_task_queued\<close>)

lemma dc_run_data:
  "live d \<Longrightarrow> dc_run mc ss d = (d', rs) \<Longrightarrow>
     subseq (received_data rs @ data_events (queued mc (events d')))
       (data_events (queued mc (events d)) @ data_events (arrivals ss))"
proof (induction ss arbitrary: d rs)
  case (Cons s ss)
  from Cons.prems(2) obtain d1 rs1 rs2 where d1: "dc_do mc s d = (d1, rs1)"
    and d2: "dc_run mc ss d1 = (d', rs2)" and rs: "rs = rs1 @ rs2" by (rule dc_run_ConsE)
  have "live d1" using dc_do_live [of d s] Cons.prems d1 by simp
  from Cons.IH [OF this d2] have
    "subseq (received_data rs1 @ received_data rs2 @ data_events (queued mc (events d')))
       (received_data rs1 @ data_events (queued mc (events d1)) @ data_events (arrivals ss))"
    by (rule list_emb_append_mono [OF subseq_order.order_refl])
  also have "subseq (received_data rs1 @ data_events (queued mc (events d1)) @ data_events (arrivals ss))
      ((data_events (queued mc (events d)) @ data_events (arrivals [s])) @ data_events (arrivals ss))"
    using list_emb_append_mono [OF dc_do_data [OF Cons.prems(1) d1] subseq_order.order_refl] by simp
  finally show ?case by (simp only: rs arrivals_Cons [of s ss] received_data_append filter_append append_assoc)
qed simp

lemma dc_do_lossless:
  assumes "live d" and "dc_do mc s d = (d1, rs)" and "length (queued mc (events d)) < max_capacity mc (events d)"
  shows "received_data rs @ data_events (queued mc (events d1)) =
           data_events (queued mc (events d)) @ data_events (arrivals [s])"
    and "length (queued mc (events d1)) \<le> Suc (length (queued mc (events d)))"
  using assms
  by (cases s; cases "queued mc (events d)";
      auto simp: dc_do_recv queued_poll_recv on_message_queued on_close_queued poll_close_task_queued
       )+

lemma dc_run_lossless:
  "live d \<Longrightarrow> dc_run mc ss d = (d', rs) \<Longrightarrow>
     length (queued mc (events d)) + length ss \<le> max_capacity mc (events d) \<Longrightarrow>
     received_data rs @ data_events (queued mc (events d')) =
       data_events (queued mc (events d)) @ data_events (arrivals ss)"
proof (induction ss arbitrary: d rs)
  case (Cons s ss)
  from Cons.prems(2) obtain d1 rs1 rs2 where d1: "dc_do mc s d = (d1, rs1)"
    and d2: "dc_run mc ss d1 = (d', rs2)" and rs: "rs = rs1 @ rs2" by (rule dc_run_ConsE)
  note step = dc_do_lossless [OF Cons.prems(1) d1]
  have "live d1" "max_capacity mc (events d1) = max_capacity mc (events d)"
    using dc_do_live [of d s] Cons.prems d1 by simp_all
  with Cons.IH [OF _ d2] Cons.prems(3) step(2) have
    "received_data rs2 @ data_events (queued mc (events d')) =
       data_events (queued mc (events d1)) @ data_events (arrivals ss)" by simp
  with step(1) Cons.prems(3) show ?case unfolding rs arrivals_Cons [of s ss] by simp
qed simp

text \<open>Alternating polls of the reader and of the detached task drain the queue up to the close event.\<close>

lemma drain_round:
  assumes "live d"
  shows "\<exists>d1. live d1 \<and>
     (\<forall>ss. dc_run mc ([PollRecv, PollCloseTask] @ ss) d =
       (case dc_run mc ss d1 of (d2, rs) \<Rightarrow>
          (d2, (case queued mc (events d) of [] \<Rightarrow> [] | e # es \<Rightarrow> [Some e]) @ rs))) \<and>
     queued mc (events d1) = tl (queued mc (events d)) @
       (if 0 < close_tasks d \<and> length (tl (queued mc (events d))) < max_capacity mc (events d)
        then [ClosedEvent] else [])"
proof -
  let ?d = "d\<lparr>events := fst (chan_poll_recv mc (events d))\<rparr>"
  have "live ?d" using assms by (rule recv_frame)
  with assms show ?thesis
    by (intro exI [of _ "poll_close_task mc ?d"])
      (simp add: dc_do_recv poll_close_task_frame poll_close_task_queued queued_poll_recv case_prod_beta)
qed

lemma drain_queued_close:
  "live d \<Longrightarrow> queued mc (events d) = xs @ ClosedEvent # ys \<Longrightarrow> length xs < n \<Longrightarrow>
     Some ClosedEvent \<in> set (snd (dc_run mc (concat (replicate n [PollRecv, PollCloseTask])) d))"
proof (induction n arbitrary: d xs ys)
  case (Suc n)
  obtain d1 where d1: "live d1"
    "dc_run mc ([PollRecv, PollCloseTask] @ concat (replicate n [PollRecv, PollCloseTask])) d =
       (case dc_run mc (concat (replicate n [PollRecv, PollCloseTask])) d1 of (d2, rs) \<Rightarrow>
          (d2, (case queued mc (events d) of [] \<Rightarrow> [] | e # es \<Rightarrow> [Some e]) @ rs))"
    "\<exists>zs. queued mc (events d1) = tl (queued mc (events d)) @ zs"
    using drain_round [OF Suc.prems(1)] by metis
  show ?case
  proof (cases xs)
    case Nil
    with Suc.prems d1 show ?thesis by (simp add: case_prod_beta)
  next
    case (Cons x xs')
    with d1(3) Suc.prems(2) obtain zs where "queued mc (events d1) = xs' @ ClosedEvent # ys @ zs" by auto
    with Suc.IH [OF d1(1) this] Cons Suc.prems d1(2) show ?thesis by (simp add: case_prod_beta)
  qed
qed simp

lemma drain_close:
  assumes "live d" "has_close d"
  shows "Some ClosedEvent \<in> set (snd (dc_run mc
    (concat (replicate (length (queued mc (events d)) + 2) [PollRecv, PollCloseTask])) d))"
proof (cases "ClosedEvent \<in> set (queued mc (events d))")
  case True
  then obtain xs ys where "queued mc (events d) = xs @ ClosedEvent # ys" by (auto simp: in_set_conv_decomp)
  with assms show ?thesis by (intro drain_queued_close) auto
next
  case False
  let ?n = "Suc (length (queued mc (events d)))"
  from drain_round [OF assms(1)] obtain d1 where d1: "live d1"
    "\<And>ss. dc_run mc ([PollRecv, PollCloseTask] @ ss) d =
       (case dc_run mc ss d1 of (d2, rs) \<Rightarrow>
          (d2, (case queued mc (events d) of [] \<Rightarrow> [] | e # es \<Rightarrow> [Some e]) @ rs))"
    "queued mc (events d1) = tl (queued mc (events d)) @
       (if 0 < close_tasks d \<and> length (tl (queued mc (events d))) < max_capacity mc (events d)
        then [ClosedEvent] else [])" by blast
  have "0 < close_tasks d \<and> length (tl (queued mc (events d))) < max_capacity mc (events d)"
    using False assms by (auto simp: live_def has_close_def)
  with d1(3) have q1: "queued mc (events d1) = tl (queued mc (events d)) @ ClosedEvent # []" by simp
  from drain_queued_close [OF d1(1) q1, of ?n]
  have "Some ClosedEvent \<in> set (snd (dc_run mc (concat (replicate ?n [PollRecv, PollCloseTask])) d1))" by simp
  then show ?thesis
    using d1(2) [of "concat (replicate ?n [PollRecv, PollCloseTask])"] by (simp add: case_prod_beta)
qed

end

interpretation list_events: event_queue list_mpsc
  by unfold_locales

section \<open>The data channel as a transport\<close>

text \<open>
  What the adapter relies on: the data channel takes one message per successful send, and the
  stream of events that \<open>events.recv().await\<close> yields is consumed in order.
\<close>

fun event_packets :: "ChannelEvent list \<Rightarrow> bytes list" where
  "event_packets (Packet d # es) = d # event_packets es"
| "event_packets _ = []"

locale data_channel = message_sink dc_send sunk
  for dc_send :: "'k \<Rightarrow> bytes \<Rightarrow> 'k \<times> ('w + unit)" and sunk :: "'k \<Rightarrow> bytes list" +
  fixes ev_recv :: "'c \<Rightarrow> 'c \<times> ChannelEvent option"
    and ev_stream :: "'c \<Rightarrow> ChannelEvent list"
  assumes ev_some: "ev_recv c = (c', Some e) \<Longrightarrow> ev_stream c = e # ev_stream c'"
    and ev_none: "ev_recv c = (c', None) \<Longrightarrow> ev_stream c = []"

lemma event_result_cases:
  "event_result e = Inr (Some d) \<longleftrightarrow> e = Some (Packet d)"
  "event_result e = Inr None \<longleftrightarrow> e = None \<or> e = Some ClosedEvent"
  "event_result e = Inl x \<longleftrightarrow> e = Some TextEvent \<and> x = DcTextMessage"
  by (cases e rule: event_result.cases; auto)+

sublocale data_channel \<subseteq>
  datagrams: packet_transport "rtc_transport dc_send ev_recv"
    "\<lambda>d. event_packets (ev_stream (events d))" "\<lambda>d. sunk (dc d)"
  by unfold_locales
    (auto simp: rtc_transport_def rtc_recv_def rtc_send_def event_result_cases map_err_Inl_iff
      split: prod.splits dest: ev_some ev_none sink_ok sink_err)

fun list_recv :: "'a list \<Rightarrow> 'a list \<times> 'a option" where
  "list_recv [] = ([], None)"
| "list_recv (x # xs) = (xs, Some x)"

interpretation budget_dc: data_channel budget_send fst list_recv id
proof unfold_locales
  fix c c' :: "ChannelEvent list" and e
  show "list_recv c = (c', Some e) \<Longrightarrow> id c = e # id c'" by (cases c) simp_all
  show "list_recv c = (c', None) \<Longrightarrow> id c = []" by (cases c) simp_all
qed

section \<open>Properties\<close>

lemma arrivals_data [simp]: "data_events (arrivals ss) = arrivals ss"
  by (induction ss rule: arrivals.induct) auto

text \<open>
  C9. The close signal of a data channel is delivered. However the callbacks, the detached tasks
  and the relay's receives interleave after the close callback ran, as long as the relay has not
  seen the close event, a reader that goes on receiving, with the detached task polled in
  between, sees it after at most two more receives than there are events in the queue; a full
  queue does not lose it.
\<close>

theorem close_signal_delivered:
  assumes "bounded_mpsc mc"
    and "WebRtcDatagrams_with_capacity mc ch capacity = Some d0"
    and "dc_run mc before d0 = (d1, es1)"
    and "dc_run mc after (on_close mc d1) = (d2, es2)" and "Some ClosedEvent \<notin> set es2"
  shows "Some ClosedEvent \<in> set (snd (dc_run mc
    (concat (replicate (length (queued mc (events d2)) + 2) [PollRecv, PollCloseTask])) d2))"
proof -
  have q: "event_queue mc" using assms(1) by (rule event_queue.intro)
  have "event_queue.live mc d1"
    using event_queue.live_new [OF q assms(2)] event_queue.dc_run_live [OF q, of d0 before] assms(3) by simp
  then have "event_queue.live mc (on_close mc d1) \<and> event_queue.has_close mc (on_close mc d1)"
    using event_queue.on_close_frame [OF q] by blast
  then have "event_queue.live mc d2 \<and> event_queue.has_close mc d2"
    using event_queue.dc_run_keeps_close [OF q, of "on_close mc d1" after] assms(4,5) by simp
  then show ?thesis using event_queue.drain_close [OF q] by blast
qed

theorem close_signal_delivered_witness:
  "\<exists>d1 d2 es1 es2.
     dc_run list_mpsc [OnMessage False [1], OnMessage False [2]]
       (the (WebRtcDatagrams_with_capacity list_mpsc () 2)) = (d1, es1) \<and>
     dc_run list_mpsc [PollCloseTask, PollRecv, OnMessage False [3]] (on_close list_mpsc d1) = (d2, es2) \<and>
     close_tasks d2 = 1 \<and> queued list_mpsc (events d2) = [Packet [2], Packet [3]] \<and>
     Some ClosedEvent \<in> set (snd (dc_run list_mpsc
       (concat (replicate (length (queued list_mpsc (events d2)) + 2) [PollRecv, PollCloseTask])) d2))"
proof -
  let ?d0 = "the (WebRtcDatagrams_with_capacity list_mpsc () 2)"
  obtain d1 es1 where r1: "dc_run list_mpsc [OnMessage False [1], OnMessage False [2]] ?d0 = (d1, es1)"
    by fastforce
  obtain d2 es2 where r2: "dc_run list_mpsc [PollCloseTask, PollRecv, OnMessage False [3]] (on_close list_mpsc d1) = (d2, es2)"
    by fastforce
  note defs = list_mpsc_defs on_message_def on_close_def poll_close_task_def
    WebRtcDatagrams_with_capacity_def dc_do.simps(4)
  have new: "WebRtcDatagrams_with_capacity list_mpsc () 2 = Some ?d0" by (simp add: WebRtcDatagrams_with_capacity_def)
  have es: "close_tasks d2 = 1" "queued list_mpsc (events d2) = [Packet [2], Packet [3]]" "es2 = [Some (Packet [1])]"
    using r1 r2 by (auto simp: defs)
  then show ?thesis
    using r1 r2 close_signal_delivered [OF list_chan.bounded_mpsc_axioms new r1 r2] by auto
qed




definition sample_rtc :: "(unit, unit, nat, nat, string, unit \<times> unit \<times> (nat, nat, string) SettingEngine, string) rtc_library" where
  "sample_rtc = \<lparr>media_engine_default = (), register_default_codecs = Inr,
     register_default_interceptors = (\<lambda>m. Inr ((), m)), api_build = (\<lambda>m i s. (m, i, s))\<rparr>"


end
