(* ===== verification/Consumer_Path.thy ===== *)
theory Consumer_Path
  imports Protocol Virtual_Udp Relay
begin

text \<open>
  The task that carries one peer path of a consumer, \<open>src/src/consumer_path.rs\<close>: the allocator
  of synthetic addresses and the loop between a peer transport and a path of the virtual UDP
  socket. The decoder of packets (the JSON crate) is an argument. The socket is shared with the
  QUIC endpoint and with the tasks of other paths, whose operations run between two turns of the
  loop.
\<close>

section \<open>Synthetic addresses\<close>

definition CGNAT_BASE :: u32 where
  "CGNAT_BASE = u32_from_be_bytes 100 64 0 0"

definition CGNAT_HOSTS :: u32 where
  "CGNAT_HOSTS = push_bit 22 1"

definition FIRST_PATH_HOST :: u32 where
  "FIRST_PATH_HOST = 2"

definition SYNTHETIC_PATH_PORT :: u16 where
  "SYNTHETIC_PATH_PORT = 443"

record SyntheticPathAllocator =
  next_host :: u32

datatype ('x, 'j) ConsumerPathError =
    Transport 'x
  | Decode 'j
  | SourceChanged string string
  | EmptySource
  | Receive PathReceiveError
  | AddressSpaceExhausted

datatype ConsumerPathEnd = PathPeerClosed | SocketClosed | PathCancelled

definition SyntheticPathAllocator_new :: SyntheticPathAllocator where
  "SyntheticPathAllocator_new = \<lparr>next_host = FIRST_PATH_HOST\<rparr>"

text \<open>
  \<open>AtomicU32::fetch_update\<close>: the update is atomic, and the result is the previous value.
\<close>

definition fetch_update :: "('v \<Rightarrow> 'v option) \<Rightarrow> 'v \<Rightarrow> 'v \<times> ('v + 'v)" where
  "fetch_update f v = (case f v of Some v' \<Rightarrow> (v', Inr v) | None \<Rightarrow> (v, Inl v))"

definition allocate ::
    "SyntheticPathAllocator \<Rightarrow> SyntheticPathAllocator \<times> (('x, 'j) ConsumerPathError + SocketAddr)" where
  "allocate a =
     (case fetch_update (\<lambda>current. if current < CGNAT_HOSTS then Some (current + 1) else None)
        (next_host a) of
        (h, r) \<Rightarrow>
          (a\<lparr>next_host := h\<rparr>,
           and_then (map_err (\<lambda>_. AddressSpaceExhausted) r) (\<lambda>host.
             Inr (SocketAddr_new (IpV4 (CGNAT_BASE + host)) SYNTHETIC_PATH_PORT))))"

text \<open>The results of a number of calls, by any tasks that share the allocator.\<close>

fun allocations :: "nat \<Rightarrow> SyntheticPathAllocator \<Rightarrow> (('x, 'j) ConsumerPathError + SocketAddr) list" where
  "allocations 0 a = []"
| "allocations (Suc n) a = (case allocate a of (a', r) \<Rightarrow> r # allocations n a')"

section \<open>The path task\<close>

record 'p path_task =
  task_path :: VirtualPath
  task_source :: "string option"
  task_peer :: 'p

text \<open>The check of the identity of a packet against the one the path started with.\<close>

definition admit_source ::
    "string option \<Rightarrow> UnboundedPacket \<Rightarrow> ('x, 'j) ConsumerPathError + string option" where
  "admit_source source packet =
     (if source_addr packet = [] then Inl EmptySource
      else case source of
        Some expected \<Rightarrow>
          if expected \<noteq> source_addr packet then Inl (SourceChanged expected (source_addr packet))
          else Inr source
      | None \<Rightarrow> Inr (Some (source_addr packet)))"

definition path_deliver ::
    "'ci in_ops \<Rightarrow> ('ci, 'co) VirtualUdpSocket \<Rightarrow> VirtualPath \<Rightarrow> bytes
       \<Rightarrow> ('ci, 'co) VirtualUdpSocket \<times> (('x, 'j) ConsumerPathError + ConsumerPathEnd) option" where
  "path_deliver mi s path data =
     (case try_receive mi s path data of
        (s', Inr done) \<Rightarrow> (s', None)
      | (s', Inl QueueFull) \<Rightarrow> (s', None)
      | (s', Inl Closed) \<Rightarrow> (s', Some (Inr SocketClosed))
      | (s', Inl (Oversize n m)) \<Rightarrow> (s', Some (Inl (Receive (Oversize n m)))))"

text \<open>
  One turn of the loop for the branch that the \<open>select!\<close> took: the new state and, when the task
  returns, its result. The branch of \<open>next_outgoing\<close> whose poll is pending changes nothing.
\<close>

datatype path_branch = CancelledBranch | PeerBranch | OutgoingBranch

type_synonym ('ci, 'co, 'p, 'x, 'j) path_turn =
  "('ci, 'co) VirtualUdpSocket \<times> 'p path_task \<times> (('x, 'j) ConsumerPathError + ConsumerPathEnd) option"

fun path_turn ::
    "'ci in_ops \<Rightarrow> 'co out_ops \<Rightarrow> (bytes \<Rightarrow> 'j + UnboundedPacket) \<Rightarrow> ('p, 'x) transport
       \<Rightarrow> path_branch \<Rightarrow> ('ci, 'co) VirtualUdpSocket \<Rightarrow> 'p path_task \<Rightarrow> ('ci, 'co, 'p, 'x, 'j) path_turn" where
  "path_turn mi mo decode tp CancelledBranch s t = (s, t, Some (Inr PathCancelled))"
| "path_turn mi mo decode tp PeerBranch s t =
     (case recv_packet tp (task_peer t) of
        (peer, Inl x) \<Rightarrow> (s, t\<lparr>task_peer := peer\<rparr>, Some (Inl (Transport x)))
      | (peer, Inr None) \<Rightarrow> (s, t\<lparr>task_peer := peer\<rparr>, Some (Inr PathPeerClosed))
      | (peer, Inr (Some raw)) \<Rightarrow>
          (case decode raw of
             Inl j \<Rightarrow> (s, t\<lparr>task_peer := peer\<rparr>, Some (Inl (Decode j)))
           | Inr packet \<Rightarrow>
               (case admit_source (task_source t) packet of
                  Inl e \<Rightarrow> (s, t\<lparr>task_peer := peer\<rparr>, Some (Inl e))
                | Inr source \<Rightarrow>
                    (case path_deliver mi s (task_path t) (packet_payload packet) of
                       (s', r) \<Rightarrow> (s', t\<lparr>task_peer := peer, task_source := source\<rparr>, r)))))"
| "path_turn mi mo decode tp OutgoingBranch s t =
     (case next_outgoing mo s (task_path t) of
        (s', Pending) \<Rightarrow> (s', t, None)
      | (s', Ready None) \<Rightarrow> (s', t, Some (Inr SocketClosed))
      | (s', Ready (Some packet)) \<Rightarrow>
          (case send_packet tp (task_peer t) packet of
             (peer, Inl x) \<Rightarrow> (s', t\<lparr>task_peer := peer\<rparr>, Some (Inl (Transport x)))
           | (peer, Inr done) \<Rightarrow> (s', t\<lparr>task_peer := peer\<rparr>, None)))"

text \<open>
  The loop over what happens: a turn of its own, or an operation of another owner of the socket.
\<close>

datatype ('ci, 'co) path_event = Select path_branch | Others "('ci, 'co) VirtualUdpSocket \<Rightarrow> ('ci, 'co) VirtualUdpSocket"

fun path_loop ::
    "'ci in_ops \<Rightarrow> 'co out_ops \<Rightarrow> (bytes \<Rightarrow> 'j + UnboundedPacket) \<Rightarrow> ('p, 'x) transport
       \<Rightarrow> ('ci, 'co) path_event list \<Rightarrow> ('ci, 'co) VirtualUdpSocket \<Rightarrow> 'p path_task
       \<Rightarrow> ('ci, 'co, 'p, 'x, 'j) path_turn" where
  "path_loop mi mo decode tp [] s t = (s, t, None)"
| "path_loop mi mo decode tp (Others f # es) s t = path_loop mi mo decode tp es (f s) t"
| "path_loop mi mo decode tp (Select b # es) s t =
     (case path_turn mi mo decode tp b s t of
        (s', t', None) \<Rightarrow> path_loop mi mo decode tp es s' t'
      | (s', t', Some r) \<Rightarrow> (s', t', Some r))"

text \<open>
  The whole task; \<open>None\<close> when \<open>add_path\<close> panics. The path is dropped when the task returns, and
  the task holds an \<open>Arc\<close> of the socket until then, so the upgrade in the drop succeeds.
\<close>

definition run_consumer_path ::
    "'ci in_ops \<Rightarrow> 'co out_ops \<Rightarrow> (bytes \<Rightarrow> 'j + UnboundedPacket) \<Rightarrow> ('p, 'x) transport
       \<Rightarrow> ('ci, 'co) path_event list \<Rightarrow> ('ci, 'co) VirtualUdpSocket \<Rightarrow> SocketAddr \<Rightarrow> nat \<Rightarrow> 'p
       \<Rightarrow> ('ci, 'co, 'p, 'x, 'j) path_turn option" where
  "run_consumer_path mi mo decode tp es s rem queue_capacity peer =
     (case add_path mi mo s rem queue_capacity of
        None \<Rightarrow> None
      | Some (s1, path) \<Rightarrow>
          (case path_loop mi mo decode tp es s1 \<lparr>task_path = path, task_source = None, task_peer = peer\<rparr> of
             (s2, t, None) \<Rightarrow> Some (s2, t, None)
           | (s2, t, Some r) \<Rightarrow> Some (drop_path mi mo True s2 path, t, Some r)))"

section \<open>Facts on the allocator\<close>

lemma cgnat_values [simp]: "CGNAT_BASE = 0x64400000" "CGNAT_HOSTS = 0x400000" "unat CGNAT_HOSTS = 4194304"
  by (simp_all add: CGNAT_BASE_def CGNAT_HOSTS_def u32_from_be_bytes_def push_bit_eq_mult)

lemma allocate_free:
  assumes "unat (next_host a) < 4194304"
  shows "allocate a = (\<lparr>next_host = next_host a + 1\<rparr>,
      Inr (SocketAddrV4 (CGNAT_BASE + next_host a) SYNTHETIC_PATH_PORT))"
    and "unat (next_host a + 1) = Suc (unat (next_host a))"
    and "unat (CGNAT_BASE + next_host a) = 0x64400000 + unat (next_host a)"
proof -
  from assms have "next_host a < CGNAT_HOSTS" by (simp add: word_less_nat_alt)
  then show "allocate a = (\<lparr>next_host = next_host a + 1\<rparr>,
      Inr (SocketAddrV4 (CGNAT_BASE + next_host a) SYNTHETIC_PATH_PORT))"
    by (cases a) (simp add: allocate_def fetch_update_def)
  show "unat (next_host a + 1) = Suc (unat (next_host a))"
    using assms by (simp add: unat_word_ariths)
  show "unat (CGNAT_BASE + next_host a) = 0x64400000 + unat (next_host a)"
    using assms by (simp add: unat_word_ariths)
qed

lemma allocate_exhausted:
  assumes "4194304 \<le> unat (next_host a)"
  shows "allocate a = (a, Inl AddressSpaceExhausted)"
proof -
  from assms have "\<not> next_host a < CGNAT_HOSTS" by (simp add: word_less_nat_alt)
  then show ?thesis by (cases a) (simp add: allocate_def fetch_update_def)
qed

lemma allocations_length [simp]: "length (allocations n a) = n"
  by (induction n arbitrary: a) (simp_all split: prod.split)

text \<open>The number of a host address is its position after the base, so results are in order.\<close>

lemma allocations_nth:
  "i < n \<Longrightarrow> unat (next_host a) \<le> 4194304 \<Longrightarrow>
     allocations n a ! i =
       (if unat (next_host a) + i < 4194304
        then Inr (SocketAddrV4 (of_nat (0x64400000 + unat (next_host a) + i)) SYNTHETIC_PATH_PORT)
        else Inl AddressSpaceExhausted)"
proof (induction n arbitrary: a i)
  case (Suc n)
  show ?case
  proof (cases "unat (next_host a) < 4194304")
    case True
    note A = allocate_free [OF True]
    have "of_nat (0x64400000 + unat (next_host a)) = CGNAT_BASE + next_host a" by simp
    then show ?thesis
      using A(2) Suc.IH [of "i - 1" "\<lparr>next_host = next_host a + 1\<rparr>"] Suc.prems True
      by (cases i) (auto simp: A(1))
  next
    case False
    then show ?thesis
      using Suc.IH [of "i - 1" a] Suc.prems by (cases i) (auto simp: allocate_exhausted)
  qed
qed simp

section \<open>What a path carries\<close>

text \<open>
  The packets that a running path has taken from its peer: all of them decode, bear the same
  non-empty identity, and fit the path MTU.
\<close>

definition carried :: "(bytes \<Rightarrow> 'j + UnboundedPacket) \<Rightarrow> nat \<Rightarrow> string option \<Rightarrow> bytes list \<Rightarrow> bool" where
  "carried decode m source ds \<longleftrightarrow>
     (source = None \<longleftrightarrow> ds = []) \<and>
     (\<forall>d \<in> set ds. \<exists>packet. decode d = Inr packet \<and> source = Some (source_addr packet) \<and>
        source_addr packet \<noteq> [] \<and> length (packet_payload packet) \<le> m)"

text \<open>What the end of a path says about what its peer delivered next.\<close>

fun path_verdict ::
    "(bytes \<Rightarrow> 'j + UnboundedPacket) \<Rightarrow> nat \<Rightarrow> string option \<Rightarrow> bytes list
       \<Rightarrow> ('x, 'j) ConsumerPathError + ConsumerPathEnd \<Rightarrow> bool" where
  "path_verdict decode m source rest (Inr SocketClosed) \<longleftrightarrow> False"
| "path_verdict decode m source rest (Inr PathPeerClosed) \<longleftrightarrow> rest = []"
| "path_verdict decode m source rest (Inr PathCancelled) \<longleftrightarrow> True"
| "path_verdict decode m source rest (Inl (Transport x)) \<longleftrightarrow> True"
| "path_verdict decode m source rest (Inl AddressSpaceExhausted) \<longleftrightarrow> False"
| "path_verdict decode m source rest (Inl (Decode j)) \<longleftrightarrow> (\<exists>d ds. rest = d # ds \<and> decode d = Inl j)"
| "path_verdict decode m source rest (Inl EmptySource) \<longleftrightarrow>
     (\<exists>d ds packet. rest = d # ds \<and> decode d = Inr packet \<and> source_addr packet = [])"
| "path_verdict decode m source rest (Inl (SourceChanged expected actual)) \<longleftrightarrow>
     (\<exists>d ds packet. rest = d # ds \<and> decode d = Inr packet \<and> source_addr packet = actual \<and>
        source = Some expected \<and> actual \<noteq> expected)"
| "path_verdict decode m source rest (Inl (Receive e)) \<longleftrightarrow>
     (\<exists>d ds packet. rest = d # ds \<and> decode d = Inr packet \<and> m < length (packet_payload packet) \<and>
        e = Oversize (length (packet_payload packet)) m)"

text \<open>
  The other owners of the socket: each of their operations leads from a reachable state that has
  the path to a reachable state that still has it.
\<close>

definition others_ok :: "'ci in_ops \<Rightarrow> 'co out_ops \<Rightarrow> VirtualPath \<Rightarrow> ('ci, 'co) path_event list \<Rightarrow> bool" where
  "others_ok mi mo path es \<longleftrightarrow>
     (\<forall>f s ps. Others f \<in> set es \<and> vudp_reach mi mo (s, ps) \<and> path \<in> set ps \<longrightarrow>
        (\<exists>ps'. vudp_reach mi mo (f s, ps') \<and> path \<in> set ps'))"

lemma admit_source_Inr:
  "admit_source source packet = Inr source' \<longleftrightarrow>
     source_addr packet \<noteq> [] \<and> source' = Some (source_addr packet) \<and> (source = None \<or> source = source')"
  by (auto simp: admit_source_def split: option.splits)

lemma admit_source_Inl:
  "admit_source source packet = Inl e \<longleftrightarrow>
     source_addr packet = [] \<and> e = EmptySource \<or>
     source_addr packet \<noteq> [] \<and>
       (\<exists>expected. source = Some expected \<and> expected \<noteq> source_addr packet \<and>
          e = SourceChanged expected (source_addr packet))"
  by (auto simp: admit_source_def split: option.splits)

lemma carried_snoc:
  assumes "carried decode m source ds" and "decode d = Inr packet"
    and "admit_source source packet = Inr source'" and "length (packet_payload packet) \<le> m"
  shows "carried decode m source' (ds @ [d])"
  using assms by (auto simp: carried_def admit_source_Inr)

locale path_environment = socket_channels mi mo + peer: packet_transport tp inbox outbox
  for mi :: "'ci in_ops" and mo :: "'co out_ops" and tp :: "('p, 'x) transport" and inbox outbox +
  fixes decode :: "bytes \<Rightarrow> 'j + UnboundedPacket"
begin

lemma path_present:
  assumes "vudp_reach mi mo (s, ps)" "path \<in> set ps"
  shows "path_mtu path = mtu s" "rx_alive mi (incoming s)" "0 < senders mo (chans s ! outgoing path)"
  using vudp_reach_wf [OF assms(1)] assms(2) by (auto simp: path_ok_def incoming_ok_def)

lemma path_deliver_result:
  assumes "vudp_reach mi mo (s, ps)" "path \<in> set ps"
  shows "path_deliver mi s path data =
    (fst (try_receive mi s path data),
     if mtu s < length data then Some (Inl (Receive (Oversize (length data) (mtu s)))) else None)"
  using path_present [OF assms]
    inc.try_send_result [of "incoming s" "\<lparr>remote = path_remote path, payload = data\<rparr>"]
  by (auto simp: path_deliver_def try_receive_def case_prod_beta)

lemma next_outgoing_not_ended:
  assumes "vudp_reach mi mo (s, ps)" "path \<in> set ps"
  shows "snd (next_outgoing mo s path) \<noteq> Ready None"
  using path_present(3) [OF assms] out.poll_recv_not_ended [of "chans s ! outgoing path"]
  by (auto simp: next_outgoing_def split: prod.splits)

lemma turn_reach:
  assumes "vudp_reach mi mo (s, ps)" "task_path t \<in> set ps" and "path_turn mi mo decode tp b s t = (s', t', r)"
  shows "vudp_reach mi mo (s', ps) \<and> task_path t' = task_path t"
proof -
  have "s' = s \<or> (\<exists>d. s' = fst (try_receive mi s (task_path t) d)) \<or> s' = fst (next_outgoing mo s (task_path t))"
    using assms(3)
    by (cases b)
      (auto simp: path_deliver_result [OF assms(1,2)] split: prod.splits sum.splits option.splits poll.splits)
  moreover have "task_path t' = task_path t"
    using assms(3) by (cases b) (auto split: prod.splits sum.splits option.splits poll.splits)
  ultimately show ?thesis
    using assms(1,2) by (auto intro: reach_step step_receive step_next)
qed

lemma peer_turn:
  assumes "vudp_reach mi mo (s, ps)" "task_path t \<in> set ps"
    and "path_turn mi mo decode tp PeerBranch s t = (s', t', r)"
  shows "case r of
      None \<Rightarrow> \<exists>d packet. inbox (task_peer t) = d # inbox (task_peer t') \<and> decode d = Inr packet \<and>
        admit_source (task_source t) packet = (Inr (task_source t') :: ('x, 'j) ConsumerPathError + _) \<and>
        length (packet_payload packet) \<le> path_mtu (task_path t) \<and>
        s' = fst (try_receive mi s (task_path t) (packet_payload packet))
    | Some v \<Rightarrow> path_verdict decode (path_mtu (task_path t)) (task_source t) (inbox (task_peer t)) v"
proof (cases "recv_packet tp (task_peer t)")
  case (Pair q rr)
  note rcv = Pair
  have none: ?thesis if "\<nexists>d. rr = Inr (Some d)"
    using that rcv assms(3) by (cases rr; cases "projr rr") (auto dest: peer.recv_none)
  have some: ?thesis if "rr = Inr (Some d)" for d
  proof -
    have box: "inbox (task_peer t) = d # inbox q" using rcv that by (auto dest: peer.recv_some)
    show ?thesis
    proof (cases "decode d")
      case (Inl j)
      with rcv that box assms(3) show ?thesis by auto
    next
      case (Inr packet)
      note dec = Inr
      show ?thesis
      proof (cases "admit_source (task_source t) packet :: ('x, 'j) ConsumerPathError + string option")
        case (Inl e)
        with rcv that box dec assms(3) show ?thesis by (auto simp: admit_source_Inl)
      next
        case (Inr source)
        with rcv that box dec assms(3) path_present(1) [OF assms(1,2)] show ?thesis
          by (auto simp: path_deliver_result [OF assms(1,2)] split: if_splits)
      qed
    qed
  qed
  from none some show ?thesis by blast
qed

lemma other_turn:
  assumes "vudp_reach mi mo (s, ps)" "task_path t \<in> set ps" "b \<noteq> PeerBranch"
    and "path_turn mi mo decode tp b s t = (s', t', r)"
  shows "case r of
      None \<Rightarrow> inbox (task_peer t') = inbox (task_peer t) \<and> task_source t' = task_source t
    | Some v \<Rightarrow> path_verdict decode m (task_source t) (inbox (task_peer t)) v"
  using assms(3,4) next_outgoing_not_ended [OF assms(1,2)]
  by (cases b)
    (auto split: prod.splits poll.splits option.splits sum.splits dest: peer.send_inbox)

lemma turn_carries:
  assumes "vudp_reach mi mo (s, ps)" "task_path t \<in> set ps"
    and "path_turn mi mo decode tp b s t = (s', t', r)"
    and "carried decode (path_mtu (task_path t)) (task_source t) ds0"
  shows "case r of
      None \<Rightarrow> \<exists>ds. inbox (task_peer t) = ds @ inbox (task_peer t') \<and>
        carried decode (path_mtu (task_path t)) (task_source t') (ds0 @ ds)
    | Some v \<Rightarrow> path_verdict decode (path_mtu (task_path t)) (task_source t) (inbox (task_peer t)) v"
proof (cases "b = PeerBranch")
  case True
  with peer_turn [OF assms(1,2)] assms(3) have turn: "case r of
      None \<Rightarrow> \<exists>d packet. inbox (task_peer t) = d # inbox (task_peer t') \<and> decode d = Inr packet \<and>
        admit_source (task_source t) packet = (Inr (task_source t') :: ('x, 'j) ConsumerPathError + _) \<and>
        length (packet_payload packet) \<le> path_mtu (task_path t) \<and>
        s' = fst (try_receive mi s (task_path t) (packet_payload packet))
    | Some v \<Rightarrow> path_verdict decode (path_mtu (task_path t)) (task_source t) (inbox (task_peer t)) v"
    by blast
  show ?thesis
  proof (cases r)
    case None
    with turn obtain d packet where "inbox (task_peer t) = [d] @ inbox (task_peer t')" "decode d = Inr packet"
      "admit_source (task_source t) packet = (Inr (task_source t') :: ('x, 'j) ConsumerPathError + _)"
      "length (packet_payload packet) \<le> path_mtu (task_path t)" by auto
    with carried_snoc [OF assms(4)] None show ?thesis by (auto simp del: append.simps)
  qed (use turn in simp)
next
  case False
  from other_turn [OF assms(1,2) this assms(3), of "path_mtu (task_path t)"] assms(4)
  show ?thesis by (auto split: option.splits)
qed

definition loop_account ::
    "'p path_task \<Rightarrow> bytes list \<Rightarrow> 'p path_task \<Rightarrow> (('x, 'j) ConsumerPathError + ConsumerPathEnd) option \<Rightarrow> bool" where
  "loop_account t ds0 t' r \<longleftrightarrow>
     (\<exists>ds rest source. inbox (task_peer t) = ds @ rest \<and>
       carried decode (path_mtu (task_path t)) source (ds0 @ ds) \<and>
       (case r of None \<Rightarrow> rest = inbox (task_peer t') \<and> source = task_source t'
        | Some v \<Rightarrow> path_verdict decode (path_mtu (task_path t)) source rest v))"

lemma loop_account_stop:
  assumes "carried decode (path_mtu (task_path t)) (task_source t) ds0"
    and "case r of None \<Rightarrow> t' = t
         | Some v \<Rightarrow> path_verdict decode (path_mtu (task_path t)) (task_source t) (inbox (task_peer t)) v"
  shows "loop_account t ds0 t' r"
  unfolding loop_account_def
  by (rule exI [of _ "[]"], rule exI [of _ "inbox (task_peer t)"], rule exI [of _ "task_source t"])
    (use assms in \<open>simp split: option.splits\<close>)

lemma loop_account_turn:
  assumes "loop_account t1 (ds0 @ ds1) t' r" "task_path t1 = task_path t"
    and "inbox (task_peer t) = ds1 @ inbox (task_peer t1)"
  shows "loop_account t ds0 t' r"
proof -
  from assms(1) obtain ds rest source where "inbox (task_peer t1) = ds @ rest"
    "carried decode (path_mtu (task_path t1)) source ((ds0 @ ds1) @ ds)"
    "case r of None \<Rightarrow> rest = inbox (task_peer t') \<and> source = task_source t'
        | Some v \<Rightarrow> path_verdict decode (path_mtu (task_path t1)) source rest v"
    unfolding loop_account_def by blast
  with assms(2,3) show ?thesis
    unfolding loop_account_def
    by - (rule exI [of _ "ds1 @ ds"], rule exI [of _ rest], rule exI [of _ source], simp split: option.splits)
qed

text \<open>The loop, by induction on what happens, whatever the other owners do in between.\<close>

lemma path_loop_carries:
  assumes "path_loop mi mo decode tp es s t = (s', t', r)"
    and "vudp_reach mi mo (s, ps)" "task_path t \<in> set ps" "others_ok mi mo (task_path t) es"
    and "carried decode (path_mtu (task_path t)) (task_source t) ds0"
  shows "(\<exists>ps'. vudp_reach mi mo (s', ps') \<and> task_path t \<in> set ps') \<and> loop_account t ds0 t' r"
  using assms
proof (induction es arbitrary: s t ps ds0)
  case Nil
  then show ?case by (auto intro: loop_account_stop)
next
  case (Cons e es)
  have ok: "others_ok mi mo (task_path t) es" using Cons.prems(4) by (auto simp: others_ok_def)
  show ?case
  proof (cases e)
    case (Others f)
    with Cons.prems(2-4) obtain ps' where "vudp_reach mi mo (f s, ps')" "task_path t \<in> set ps'"
      unfolding others_ok_def by fastforce
    with Cons.IH [OF _ _ _ ok Cons.prems(5)] Cons.prems(1) Others show ?thesis by simp
  next
    case (Select b)
    obtain s1 t1 r1 where turn: "path_turn mi mo decode tp b s t = (s1, t1, r1)" by (metis prod_cases3)
    note reach = turn_reach [OF Cons.prems(2,3) turn]
    note carry = turn_carries [OF Cons.prems(2,3) turn Cons.prems(5)]
    show ?thesis
    proof (cases r1)
      case None
      with carry obtain ds1 where ds1: "inbox (task_peer t) = ds1 @ inbox (task_peer t1)"
        "carried decode (path_mtu (task_path t1)) (task_source t1) (ds0 @ ds1)" using reach by auto
      have "path_loop mi mo decode tp es s1 t1 = (s', t', r)" using Cons.prems(1) Select turn None by simp
      from Cons.IH [OF this _ _ _ ds1(2), of ps] reach Cons.prems(3) ok ds1(1) show ?thesis
        by (auto intro: loop_account_turn)
    next
      case (Some v)
      then have "s' = s1" "t' = t1" "r = Some v" using Cons.prems(1) Select turn by simp_all
      with reach Cons.prems(3,5) carry Some show ?thesis by (auto intro: loop_account_stop)
    qed
  qed
qed

end

interpretation list_path: path_environment list_mpsc list_mpsc list_tr lt_in lt_out decode for decode
  by unfold_locales

section \<open>Properties\<close>

text \<open>The address 100.64.0.2 plus \<open>i\<close>.\<close>

definition path_ip :: "nat \<Rightarrow> u32" where
  "path_ip i = of_nat (0x64400002 + i)"

lemma path_ip_unat: "i < 4194302 \<Longrightarrow> unat (path_ip i) = 0x64400002 + i"
  unfolding path_ip_def by (simp only: unat_of_nat) simp

lemma path_ip_inj:
  assumes "i < 4194302" "j < 4194302" "path_ip i = path_ip j"
  shows "i = j"
proof -
  have "0x64400002 + i = 0x64400002 + j"
    using path_ip_unat [OF assms(1)] path_ip_unat [OF assms(2)] unfolding assms(3) by (rule subst)
  then show ?thesis by (rule add_left_imp_eq)
qed

lemma path_ip_net:
  assumes "i < 4194302"
  shows "drop_bit 22 (path_ip i) = drop_bit 22 CGNAT_BASE" and "CGNAT_BASE + 1 < path_ip i"
proof -
  from assms have "(0x64400002 + i) div 2 ^ 22 = 401" by (intro div_nat_eqI) simp_all
  then have "drop_bit 22 (0x64400002 + i) = drop_bit 22 (unat (0x64400000::u32))"
    by (simp only: drop_bit_nat_def) simp
  then show "drop_bit 22 (path_ip i) = drop_bit 22 CGNAT_BASE"
    by (simp only: word_unat_eq_iff unat_drop_bit_eq path_ip_unat [OF assms] cgnat_values)
  show "CGNAT_BASE + 1 < path_ip i"
    by (simp only: word_less_nat_alt path_ip_unat [OF assms] cgnat_values) simp
qed

lemma allocations_from_new:
  assumes "i < n"
  shows "allocations n SyntheticPathAllocator_new ! i =
    (if i < 4194302 then Inr (SocketAddrV4 (path_ip i) 443) else Inl AddressSpaceExhausted)"
proof -
  have host: "unat (next_host SyntheticPathAllocator_new) = 2"
    by (simp add: SyntheticPathAllocator_new_def FIRST_PATH_HOST_def)
  have bounds: "(2::nat) \<le> 4194304" "2 + i < 4194304 \<longleftrightarrow> i < 4194302" by simp_all
  have ip: "(of_nat (0x64400000 + 2 + i) :: u32) = path_ip i" by (simp add: path_ip_def)
  show ?thesis
    using allocations_nth [OF assms, of SyntheticPathAllocator_new]
    by (simp only: host bounds ip SYNTHETIC_PATH_PORT_def simp_thms True_implies_equals)
qed

lemma allocations_Inr:
  assumes "i < n" "allocations n SyntheticPathAllocator_new ! i = Inr a"
  shows "i < 4194302" and "a = SocketAddrV4 (path_ip i) 443"
  using assms(2) unfolding allocations_from_new [OF assms(1)]
  by (simp_all only: sum.inject sum.distinct split: if_splits)

text \<open>
  C12. Synthetic addresses are never handed out twice and never leave 100.64.0.0/10. However many
  allocations are made, the \<open>i\<close>-th one yields 100.64.0.2 plus \<open>i\<close> with port 443, computed
  without wrap-around, until 100.127.255.255; after that every allocation is refused.
\<close>

theorem allocator_addresses:
  fixes rs :: "(('x, 'j) ConsumerPathError + SocketAddr) list"
  assumes "rs = allocations n SyntheticPathAllocator_new"
  shows "(\<forall>i < n. rs ! i = (if i < 4194302 then Inr (SocketAddrV4 (path_ip i) 443)
                           else Inl AddressSpaceExhausted))
    \<and> (\<forall>i j a. i < j \<and> j < n \<and> rs ! i = Inr a \<longrightarrow> rs ! j \<noteq> Inr a)
    \<and> (\<forall>i < min n 4194302. unat (path_ip i) = 0x64400002 + i \<and>
          drop_bit 22 (path_ip i) = drop_bit 22 CGNAT_BASE \<and> CGNAT_BASE + 1 < path_ip i)"
proof -
  have "rs ! i = (if i < 4194302 then Inr (SocketAddrV4 (path_ip i) 443) else Inl AddressSpaceExhausted)"
    if "i < n" for i
    unfolding assms using that by (rule allocations_from_new)
  moreover have "rs ! j \<noteq> Inr a" if "i < j" "j < n" "rs ! i = Inr a" for i j a
  proof
    assume eq: "rs ! j = Inr a"
    note i = allocations_Inr [OF less_trans [OF that(1,2)] that(3) [unfolded assms]]
    note j = allocations_Inr [OF that(2) eq [unfolded assms]]
    from i(2) j(2) have "path_ip i = path_ip j" by (simp only: SocketAddr.inject)
    with i(1) j(1) have "i = j" by (rule path_ip_inj)
    with \<open>i < j\<close> show False by blast
  qed
  moreover have "unat (path_ip i) = 0x64400002 + i \<and>
      drop_bit 22 (path_ip i) = drop_bit 22 CGNAT_BASE \<and> CGNAT_BASE + 1 < path_ip i"
    if "i < min n 4194302" for i
  proof -
    from that have "i < 4194302" by (rule less_le_trans) (rule min.cobounded2)
    then show ?thesis by (intro conjI path_ip_unat path_ip_net)
  qed
  ultimately show ?thesis by blast
qed

theorem allocator_addresses_witness:
  "allocations 3 SyntheticPathAllocator_new ! 2 =
     (Inr (SocketAddrV4 0x64400004 443) :: (string, string) ConsumerPathError + SocketAddr)"
proof -
  have "allocations 3 SyntheticPathAllocator_new ! 2 =
     (Inr (SocketAddrV4 (path_ip 2) 443) :: (string, string) ConsumerPathError + SocketAddr)"
    using allocator_addresses [OF refl, of 3, THEN conjunct1, rule_format, of 2] by simp
  then show ?thesis by (simp add: path_ip_def)
qed

text \<open>
  C13. A path carries one peer. Whatever the QUIC endpoint and other paths do with the socket and
  in whatever order the branches of the loop are taken, the packets a path took from its peer
  all decode, bear one non-empty identity and fit the MTU; when the task returns, its result
  names what stopped it: the peer's stream ended, a transport failed, it was cancelled, or the
  next packet did not decode, had no identity, had another identity than the first one, or was
  too large. The task never reports a closed socket, and its path is gone from the socket.
\<close>

theorem consumer_path_one_peer:
  assumes "bounded_mpsc mi" and "bounded_mpsc mo" and "packet_transport tp inbox outbox"
    and "vudp_reach mi mo (s, ps)" and "add_path mi mo s rem cap = Some (s1, path)"
    and "others_ok mi mo path es"
    and "run_consumer_path mi mo decode tp es s rem cap peer = Some (s', t', r)"
  shows "(\<exists>ds rest source. inbox peer = ds @ rest \<and> carried decode (mtu s) source ds \<and>
       (case r of None \<Rightarrow> rest = inbox (task_peer t')
        | Some v \<Rightarrow> path_verdict decode (mtu s) source rest v)) \<and>
    (\<exists>ps'. vudp_reach mi mo (s', ps') \<and> (path \<in> set ps' \<longleftrightarrow> r = None)) \<and>
    (r \<noteq> None \<longrightarrow> \<not> routed s' path)"
proof -
  note env = path_environment.intro [OF socket_channelsI [OF assms(1,2)] assms(3)]
  note sc = socket_channelsI [OF assms(1,2)]
  let ?t = "\<lparr>task_path = path, task_source = None, task_peer = peer\<rparr>"
  obtain s2 where loop: "path_loop mi mo decode tp es s1 ?t = (s2, t', r)"
    and s': "s' = (if r = None then s2 else drop_path mi mo True s2 path)"
    using assms(5,7) by (auto simp: run_consumer_path_def split: prod.splits option.splits)
  have reach: "vudp_reach mi mo (s1, ps @ [path])"
    using assms(4,5) by (blast intro: reach_step step_add)
  have m: "path_mtu path = mtu s" using add_path_SomeD(2) [OF assms(5)] by simp
  obtain ps' where ps': "vudp_reach mi mo (s2, ps')" "path \<in> set ps'"
    and acc: "path_environment.loop_account inbox decode ?t [] t' r"
    using path_environment.path_loop_carries [OF env loop reach, of "[]"] assms(6)
    by (auto simp: carried_def)
  obtain as bs where split: "ps' = as @ path # bs" using ps'(2) by (auto simp: in_set_conv_decomp)
  have gone: "vudp_reach mi mo (drop_path mi mo True s2 path, as @ bs)"
    using ps'(1) unfolding split by (rule reach_step) (rule step_drop)
  have "path \<notin> set (as @ bs)"
    using socket_channels.vudp_reach_wf [OF sc ps'(1)] by (auto simp: split)
  moreover have "\<not> routed (drop_path mi mo True s2 path) path"
    by (simp add: routed_def socket_channels.drop_path_frame [OF sc] socket_channels.routes_drop_route [OF sc])
  ultimately have "(\<exists>ps'. vudp_reach mi mo (s', ps') \<and> (path \<in> set ps' \<longleftrightarrow> r = None)) \<and>
      (r \<noteq> None \<longrightarrow> \<not> routed s' path)"
    using ps' gone s' by (cases "r = None") auto
  moreover have "\<exists>ds rest source. inbox peer = ds @ rest \<and> carried decode (mtu s) source ds \<and>
       (case r of None \<Rightarrow> rest = inbox (task_peer t')
        | Some v \<Rightarrow> path_verdict decode (mtu s) source rest v)"
    using acc unfolding path_environment.loop_account_def [OF env] by (cases r) (auto simp: m)
  ultimately show ?thesis by blast
qed

text \<open>A peer format for the examples: one byte of identity, then the payload.\<close>

definition sample_decode :: "bytes \<Rightarrow> string + UnboundedPacket" where
  "sample_decode d =
     (case d of [] \<Rightarrow> Inl ''EOF while parsing''
      | b # data \<Rightarrow> Inr \<lparr>source_addr = (if b = 0 then ''one'' else ''two''), packet_payload = data\<rparr>)"

definition sample_events :: "(ReceivedDatagram list_chan, bytes list_chan) path_event list" where
  "sample_events =
     [Select PeerBranch, Others (\<lambda>s. fst (try_send list_mpsc s \<lparr>destination = sample_remote, contents = [7]\<rparr>)),
      Select OutgoingBranch, Select PeerBranch]"

lemma sample_events_ok: "others_ok list_mpsc list_mpsc path sample_events"
  unfolding others_ok_def
proof (intro allI impI)
  fix f s ps
  assume A: "Others f \<in> set sample_events \<and> vudp_reach list_mpsc list_mpsc (s, ps) \<and> path \<in> set ps"
  then have "f = (\<lambda>s. fst (try_send list_mpsc s \<lparr>destination = sample_remote, contents = [7]\<rparr>))"
    by (simp add: sample_events_def)
  with A show "\<exists>ps'. vudp_reach list_mpsc list_mpsc (f s, ps') \<and> path \<in> set ps'"
    by (blast intro: reach_step step_send)
qed

theorem consumer_path_one_peer_witness:
  "\<exists>s' t'. run_consumer_path list_mpsc list_mpsc sample_decode list_tr sample_events sample_socket sample_remote 8
       \<lparr>lt_in = [[0, 1], [1, 2]], lt_out = []\<rparr> = Some (s', t', Some (Inl (SourceChanged ''one'' ''two'')))
     \<and> lt_out (task_peer t') = [[7]] \<and> \<not> routed s' (snd sample_path)"
proof -
  let ?peer = "\<lparr>lt_in = [[0, 1], [1, 2]], lt_out = []\<rparr>"
  let ?run = "run_consumer_path list_mpsc list_mpsc sample_decode list_tr sample_events sample_socket sample_remote 8 ?peer"
  obtain s' t' r where run: "?run = Some (s', t', r)"
    by (cases ?run) (auto simp: run_consumer_path_def add_path_def Let_def split: prod.splits option.splits)
  have "r = Some (Inl (SourceChanged ''one'' ''two'')) \<and> lt_out (task_peer t') = [[7]]"
    using run by (auto simp: run_consumer_path_def sample_events_def sample_decode_def list_tr_def
        path_deliver_def admit_source_def try_receive_def try_send_def next_outgoing_def sample_defs Let_def)
  with run consumer_path_one_peer [OF list_chan.bounded_mpsc_axioms list_chan.bounded_mpsc_axioms
      list_transport.packet_transport_axioms sample_reach sample_add_path sample_events_ok run]
  show ?thesis by auto
qed

lemma outgoing_turn:
  assumes "bounded_mpsc mi" and "bounded_mpsc mo" and "packet_transport tp inbox outbox"
    and "vudp_reach mi mo (s, ps)" and "task_path t \<in> set ps"
    and "path_turn mi mo decode tp OutgoingBranch s t = (s', t', None)"
  shows "\<exists>ds. length ds \<le> 1 \<and>
    queued mo (chans s ! outgoing (task_path t)) = ds @ queued mo (chans s' ! outgoing (task_path t)) \<and>
    outbox (task_peer t') = outbox (task_peer t) @ ds \<and> inbox (task_peer t') = inbox (task_peer t) \<and>
    abs_switch mi mo s' = (if routed s (task_path t)
      then sw_take (path_remote (task_path t)) (abs_switch mi mo s) else abs_switch mi mo s)"
proof -
  note env = path_environment.intro [OF socket_channelsI [OF assms(1,2)] assms(3)]
  note sc = socket_channelsI [OF assms(1,2)]
  note wf = socket_channels.vudp_reach_wf [OF sc assms(4)]
  let ?path = "task_path t"
  let ?c = "chans s ! outgoing ?path"
  have bound: "outgoing ?path < length (chans s)" using wf assms(5) by (auto simp: path_ok_def)
  have eq: "next_outgoing mo s ?path =
      (on_chan (outgoing ?path) (\<lambda>_. fst (chan_poll_recv mo ?c)) s, snd (chan_poll_recv mo ?c))"
    by (simp add: next_outgoing_def case_prod_beta)
  have s': "s' = fst (next_outgoing mo s ?path)"
    using assms(6) by (auto split: prod.splits sum.splits option.splits poll.splits)
  have q: "queued mo (chans s' ! outgoing ?path) = tl (queued mo ?c)"
    using bound by (simp add: s' eq chans_on_chan bounded_mpsc.queued_poll_recv [OF assms(2)])
  note refine = socket_channels.next_outgoing_refines [OF sc assms(5) wf]
  have "\<exists>ds. length ds \<le> 1 \<and> queued mo ?c = ds @ tl (queued mo ?c) \<and>
      outbox (task_peer t') = outbox (task_peer t) @ ds \<and> inbox (task_peer t') = inbox (task_peer t)"
  proof (cases "queued mo ?c")
    case Nil
    then have "snd (chan_poll_recv mo ?c) = Pending"
      using path_environment.path_present(3) [OF env assms(4,5)]
      by (simp add: bounded_mpsc.poll_recv_result [OF assms(2)])
    with assms(6) Nil show ?thesis by (simp add: eq)
  next
    case (Cons a q)
    then have ready: "snd (chan_poll_recv mo ?c) = Ready (Some a)"
      by (simp add: bounded_mpsc.poll_recv_result [OF assms(2)])
    obtain peer u where "send_packet tp (task_peer t) a = (peer, Inr u)" "task_peer t' = peer"
      using assms(6) ready by (auto simp: eq split: prod.splits sum.splits)
    with Cons packet_transport.send_ok [OF assms(3)] packet_transport.send_inbox [OF assms(3)]
    show ?thesis by (intro exI [of _ "[a]"]) simp
  qed
  then show ?thesis using refine q by (auto simp: s')
qed

text \<open>
  C14. A turn of the path task is an operation of the switch. In every reachable state, a turn after
  which the task goes on either takes one packet from the peer and offers its payload to the
  ingress queue under the path's address, or takes at most one datagram from the path's queue
  and hands it to the peer; it leaves everything else as it is.
\<close>

theorem path_turn_refines_switch:
  assumes "bounded_mpsc mi" and "bounded_mpsc mo" and "packet_transport tp inbox outbox"
    and "vudp_reach mi mo (s, ps)" and "task_path t \<in> set ps"
    and "path_turn mi mo decode tp b s t = (s', t', None)"
  shows "case b of
      CancelledBranch \<Rightarrow> False
    | PeerBranch \<Rightarrow> \<exists>d packet. inbox (task_peer t) = d # inbox (task_peer t') \<and> decode d = Inr packet \<and>
        outbox (task_peer t') = outbox (task_peer t) \<and>
        abs_switch mi mo s' =
          sw_ingress (path_remote (task_path t)) (packet_payload packet) (abs_switch mi mo s)
    | OutgoingBranch \<Rightarrow> \<exists>ds. length ds \<le> 1 \<and>
        queued mo (chans s ! outgoing (task_path t)) = ds @ queued mo (chans s' ! outgoing (task_path t)) \<and>
        outbox (task_peer t') = outbox (task_peer t) @ ds \<and> inbox (task_peer t') = inbox (task_peer t) \<and>
        abs_switch mi mo s' = (if routed s (task_path t)
          then sw_take (path_remote (task_path t)) (abs_switch mi mo s) else abs_switch mi mo s)"
proof -
  note env = path_environment.intro [OF socket_channelsI [OF assms(1,2)] assms(3)]
  note sc = socket_channelsI [OF assms(1,2)]
  note wf = socket_channels.vudp_reach_wf [OF sc assms(4)]
  show ?thesis
  proof (cases b)
    case CancelledBranch
    with assms(6) show ?thesis by simp
  next
    case PeerBranch
    have "outbox (task_peer t') = outbox (task_peer t)"
      using assms(6) PeerBranch packet_transport.recv_outbox [OF assms(3)]
      by (fastforce split: prod.splits sum.splits option.splits)
    with path_environment.peer_turn [OF env assms(4,5)] assms(6) PeerBranch
      socket_channels.try_receive_refines [OF sc assms(5) wf] show ?thesis by fastforce
  next
    case OutgoingBranch
    from outgoing_turn [OF assms(1-5) assms(6) [unfolded OutgoingBranch]] OutgoingBranch show ?thesis by simp
  qed
qed

theorem path_turn_refines_switch_witness:
  "\<exists>s' t'. path_turn list_mpsc list_mpsc sample_decode list_tr PeerBranch (fst sample_path)
       \<lparr>task_path = snd sample_path, task_source = None, task_peer = \<lparr>lt_in = [[0, 1]], lt_out = []\<rparr>\<rparr>
       = (s', t', None) \<and> lt_in (task_peer t') = [] \<and>
     abs_switch list_mpsc list_mpsc s' =
       sw_ingress sample_remote [1] (abs_switch list_mpsc list_mpsc (fst sample_path))"
proof -
  let ?t = "\<lparr>task_path = snd sample_path, task_source = None, task_peer = \<lparr>lt_in = [[0, 1]], lt_out = []\<rparr>\<rparr>"
  obtain s' t' r where turn: "path_turn list_mpsc list_mpsc sample_decode list_tr PeerBranch (fst sample_path) ?t = (s', t', r)"
    by (metis prod_cases3)
  have r: "r = None"
    using turn by (auto simp: sample_decode_def list_tr_def path_deliver_def admit_source_def try_receive_def
        sample_defs Let_def)
  show ?thesis
    using turn path_turn_refines_switch [OF list_chan.bounded_mpsc_axioms list_chan.bounded_mpsc_axioms
        list_transport.packet_transport_axioms sample_path_reach, of ?t sample_decode PeerBranch s' t']
    by (auto simp: r sample_path_remote sample_decode_def)
qed

end
