(* ===== verification/Format.thy ===== *)
theory Format
  imports Prelude
begin

text \<open>
  The formatting of the standard library as the sources use it: \<open>Display\<close> of integers, \<open>Debug\<close> of
  durations, addresses, options and strings, all without width or precision. \<open>plain\<close> text has no
  control characters, so that it stays on its line.
\<close>

unbundle bit_operations_syntax

section \<open>Numbers\<close>

text \<open>The decimal digits that \<open>to_string\<close> prints for an unsigned integer.\<close>

fun dec_string :: "nat \<Rightarrow> string" where
  "dec_string n = (if n < 10 then [char_of (48 + n)] else dec_string (n div 10) @ [char_of (48 + n mod 10)])"

definition hex_digit :: "nat \<Rightarrow> char" where
  "hex_digit n = (if n < 10 then char_of (48 + n) else char_of (87 + n))"

fun hex_string :: "nat \<Rightarrow> string" where
  "hex_string n = (if n < 16 then [hex_digit n] else hex_string (n div 16) @ [hex_digit (n mod 16)])"

declare dec_string.simps [simp del] hex_string.simps [simp del]

text \<open>\<open>{:#04x}\<close> of a byte.\<close>

definition hex_byte :: "u8 \<Rightarrow> string" where
  "hex_byte b = ''0x'' @ [hex_digit (unat b div 16), hex_digit (unat b mod 16)]"

section \<open>Durations\<close>

text \<open>
  The digits behind the point: at most nine, until nothing is left. The micro sign has two bytes.
\<close>

fun fraction_digits :: "nat \<Rightarrow> nat \<Rightarrow> nat \<Rightarrow> string" where
  "fraction_digits 0 fraction divisor = []"
| "fraction_digits (Suc k) fraction divisor =
     (if fraction > 0
      then char_of (48 + fraction div divisor) # fraction_digits k (fraction mod divisor) (divisor div 10)
      else [])"

definition fmt_decimal :: "nat \<Rightarrow> nat \<Rightarrow> nat \<Rightarrow> string \<Rightarrow> string" where
  "fmt_decimal whole fraction divisor suffix =
     (let digits = fraction_digits 9 fraction divisor
      in dec_string whole @ (if digits = [] then [] else CHR ''.'' # digits) @ suffix)"

definition duration_debug :: "duration \<Rightarrow> string" where
  "duration_debug d =
     (let secs = d div 1000000000; nanos = d mod 1000000000 in
      if secs > 0 then fmt_decimal secs nanos 100000000 ''s''
      else if nanos \<ge> 1000000 then fmt_decimal (nanos div 1000000) (nanos mod 1000000) 100000 ''ms''
      else if nanos \<ge> 1000 then fmt_decimal (nanos div 1000) (nanos mod 1000) 100 [CHR 0xC2, CHR 0xB5, CHR ''s'']
      else fmt_decimal nanos 0 1 ''ns'')"

section \<open>Addresses\<close>

definition ipv4_display :: "u32 \<Rightarrow> string" where
  "ipv4_display ip = str_join ''.'' (map (dec_string \<circ> unat) (u32_to_be_bytes ip))"

definition segments :: "128 word \<Rightarrow> u16 list" where
  "segments ip = map (\<lambda>i. ucast (drop_bit (16 * i) ip)) (rev [0..<8])"

text \<open>
  The longest run of zero segments, the first of several: its start and length. The arguments are
  the position, the current run and the longest one so far.
\<close>

fun longest_zeros :: "nat \<Rightarrow> nat \<times> nat \<Rightarrow> nat \<times> nat \<Rightarrow> u16 list \<Rightarrow> nat \<times> nat" where
  "longest_zeros i current longest [] = longest"
| "longest_zeros i (start, len) longest (s # ss) =
     (if s = 0
      then let current = (if len = 0 then i else start, len + 1)
           in longest_zeros (i + 1) current (if snd current > snd longest then current else longest) ss
      else longest_zeros (i + 1) (0, 0) longest ss)"

definition fmt_subslice :: "u16 list \<Rightarrow> string" where
  "fmt_subslice chunk = str_join '':'' (map (hex_string \<circ> unat) chunk)"

text \<open>An address that embeds an IPv4 address ends in its dotted form.\<close>

definition ipv6_display :: "128 word \<Rightarrow> string" where
  "ipv6_display ip =
     (if drop_bit 32 ip = 0xFFFF then ''::ffff:'' @ ipv4_display (ucast ip)
      else
        let ss = segments ip; (start, len) = longest_zeros 0 (0, 0) (0, 0) ss
        in if len > 1 then fmt_subslice (take start ss) @ ''::'' @ fmt_subslice (drop (start + len) ss)
           else fmt_subslice ss)"

fun socket_addr_debug :: "SocketAddr \<Rightarrow> string" where
  "socket_addr_debug (SocketAddrV4 ip port) = ipv4_display ip @ '':'' @ dec_string (unat port)"
| "socket_addr_debug (SocketAddrV6 ip port flow scope) =
     ''['' @ ipv6_display ip @ (if scope = 0 then [] else ''%'' @ dec_string (unat scope)) @ '']:'' @
     dec_string (unat port)"

section \<open>Options and strings\<close>

fun option_debug :: "('a \<Rightarrow> string) \<Rightarrow> 'a option \<Rightarrow> string" where
  "option_debug f None = ''None''"
| "option_debug f (Some x) = ''Some('' @ f x @ '')''"

text \<open>
  \<open>Debug\<close> of a string escapes the characters that do not print. Which characters beyond ASCII print
  is a table of the Unicode standard and an argument, \<open>prints\<close>, of the scalar value. The text is
  read in UTF-8: a byte that starts a character, and the bytes from 128 to 191 that continue it.
\<close>

definition is_continuation :: "char \<Rightarrow> bool" where
  "is_continuation c \<longleftrightarrow> 128 \<le> (of_char c :: nat) \<and> (of_char c :: nat) < 192"

definition scalar_value :: "char \<Rightarrow> string \<Rightarrow> nat" where
  "scalar_value c cs =
     (let lead = of_char c;
          start = (if lead < 224 then lead mod 32 else if lead < 240 then lead mod 16 else lead mod 8)
      in fold (\<lambda>d v. v * 64 + of_char d mod 64) cs start)"

definition unicode_escape :: "nat \<Rightarrow> string" where
  "unicode_escape v = [CHR 0x5C, CHR ''u'', CHR 0x7B] @ hex_string v @ [CHR 0x7D]"

definition escape_ascii :: "char \<Rightarrow> string" where
  "escape_ascii c =
     (let v = of_char c in
      if v = 0 then [CHR 0x5C, CHR ''0'']
      else if v = 9 then [CHR 0x5C, CHR ''t'']
      else if v = 10 then [CHR 0x5C, CHR ''n'']
      else if v = 13 then [CHR 0x5C, CHR ''r'']
      else if v = 34 \<or> v = 92 then [CHR 0x5C, c]
      else if v < 32 \<or> v = 127 then unicode_escape v
      else [c])"

definition escape_wide :: "(nat \<Rightarrow> bool) \<Rightarrow> char \<Rightarrow> string \<Rightarrow> string" where
  "escape_wide prints c cs = (let v = scalar_value c cs in if prints v then c # cs else unicode_escape v)"

function escape_text :: "(nat \<Rightarrow> bool) \<Rightarrow> string \<Rightarrow> string" where
  "escape_text prints [] = []"
| "escape_text prints (c # cs) =
     (if (of_char c :: nat) < 128 then escape_ascii c @ escape_text prints cs
      else escape_wide prints c (takeWhile is_continuation cs) @ escape_text prints (dropWhile is_continuation cs))"
  by pat_completeness auto

termination escape_text
  by (relation "measure (length \<circ> snd)") (auto simp: less_Suc_eq_le length_dropWhile_le)

definition str_debug :: "(nat \<Rightarrow> bool) \<Rightarrow> string \<Rightarrow> string" where
  "str_debug prints s = [CHR 0x22] @ escape_text prints s @ [CHR 0x22]"

section \<open>Plain text\<close>

definition plain_char :: "char \<Rightarrow> bool" where
  "plain_char c \<longleftrightarrow> 32 \<le> (of_char c :: nat) \<and> (of_char c :: nat) \<noteq> 127"

definition plain :: "string \<Rightarrow> bool" where
  "plain s \<longleftrightarrow> list_all plain_char s"

named_theorems plain_text \<open>texts without control characters\<close>

lemma plain_simps [simp]:
  "plain []" "plain (c # cs) \<longleftrightarrow> plain_char c \<and> plain cs" "plain (s @ t) \<longleftrightarrow> plain s \<and> plain t"
  by (simp_all add: plain_def)

lemma plain_no_newline: "plain s \<Longrightarrow> CHR 0x0A \<notin> set s \<and> CHR 0x0D \<notin> set s"
  by (auto simp: plain_def list_all_iff plain_char_def)

lemma plain_char_of: "32 \<le> n \<Longrightarrow> n < 127 \<Longrightarrow> plain_char (char_of (n :: nat))"
  by (simp add: plain_char_def)

lemma plain_join: "plain sep \<Longrightarrow> list_all plain ts \<Longrightarrow> plain (str_join sep ts)"
  by (induction ts rule: induct_list012) simp_all

lemma dec_string_plain [plain_text]: "plain (dec_string n)"
proof (induction n rule: dec_string.induct)
  case (1 n)
  then show ?case by (subst dec_string.simps) (auto simp: plain_char_of)
qed

lemma hex_digit_plain: "n < 16 \<Longrightarrow> plain_char (hex_digit n)"
  by (simp add: hex_digit_def plain_char_of)

lemma hex_string_plain [plain_text]: "plain (hex_string n)"
proof (induction n rule: hex_string.induct)
  case (1 n)
  then show ?case by (subst hex_string.simps) (auto simp: hex_digit_plain)
qed

lemma hex_byte_plain [plain_text]: "plain (hex_byte b)"
proof -
  have "unat b < 256" using unsigned_less [of b] by simp
  then have "unat b div 16 < 16" "unat b mod 16 < 16" by (auto simp: less_mult_imp_div_less)
  then show ?thesis by (simp add: hex_byte_def hex_digit_plain) (simp add: plain_char_def)
qed

text \<open>The fraction stays below ten times its divisor, so that every digit is one.\<close>

lemma fraction_digits_plain: "fraction < 10 ^ Suc j \<Longrightarrow> plain (fraction_digits k fraction (10 ^ j))"
proof (induction k arbitrary: fraction j)
  case (Suc k)
  have digit: "fraction div 10 ^ j < 10" using Suc.prems by (simp add: less_mult_imp_div_less)
  have "plain (fraction_digits k (fraction mod 10 ^ j) (10 ^ j div 10))"
  proof (cases j)
    case 0
    then show ?thesis by (cases k) simp_all
  next
    case (Suc i)
    then show ?thesis using Suc.IH [of "fraction mod 10 ^ j" i] by simp
  qed
  with digit show ?case by (simp add: plain_char_of)
qed simp

lemma fmt_decimal_plain: "fraction < 10 ^ Suc j \<Longrightarrow> divisor = 10 ^ j \<Longrightarrow> plain suffix \<Longrightarrow> plain (fmt_decimal whole fraction divisor suffix)"
  by (simp add: fmt_decimal_def dec_string_plain fraction_digits_plain Let_def plain_char_def)

lemma duration_debug_plain [plain_text]: "plain (duration_debug d)"
  by (simp add: duration_debug_def Let_def plain_char_def fmt_decimal_plain [of _ 8 100000000] fmt_decimal_plain [of _ 5 100000]
      fmt_decimal_plain [of _ 2 100] fmt_decimal_plain [of _ 0 "Suc 0"])

lemma ipv4_display_plain [plain_text]: "plain (ipv4_display ip)"
  unfolding ipv4_display_def by (intro plain_join) (simp_all add: list_all_iff dec_string_plain plain_char_def)

lemma fmt_subslice_plain [plain_text]: "plain (fmt_subslice ss)"
  unfolding fmt_subslice_def by (intro plain_join) (simp_all add: list_all_iff hex_string_plain plain_char_def)

lemma ipv6_display_plain [plain_text]: "plain (ipv6_display ip)"
  by (simp add: ipv6_display_def Let_def plain_text plain_char_def split: prod.split)

lemma socket_addr_debug_plain [plain_text]: "plain (socket_addr_debug a)"
  by (cases a) (simp_all add: plain_text plain_char_def)

lemma option_debug_plain: "(\<And>x. plain (f x)) \<Longrightarrow> plain (option_debug f v)"
  by (cases v) (simp_all add: plain_char_def)

text \<open>A character beyond ASCII has no control bytes, and the others are escaped.\<close>

lemma unicode_escape_plain: "plain (unicode_escape v)"
  by (simp add: unicode_escape_def hex_string_plain plain_char_def)

lemma escape_ascii_plain: "(of_char c :: nat) < 128 \<Longrightarrow> plain (escape_ascii c)"
  by (simp add: escape_ascii_def unicode_escape_plain Let_def) (auto simp: plain_char_def)

lemma continuation_plain: "plain (takeWhile is_continuation cs)"
  by (induction cs) (auto simp: is_continuation_def plain_char_def)

lemma escape_text_plain: "plain (escape_text prints s)"
proof (induction prints s rule: escape_text.induct)
  case (2 prints c cs)
  have "plain (escape_wide prints c (takeWhile is_continuation cs))" if "\<not> (of_char c :: nat) < 128"
    using that by (simp add: escape_wide_def Let_def unicode_escape_plain continuation_plain plain_char_def)
  with 2 show ?case by (simp add: escape_ascii_plain)
qed simp

lemma str_debug_plain [plain_text]: "plain (str_debug prints s)"
  by (simp add: str_debug_def escape_text_plain plain_char_def)

section \<open>Examples\<close>

lemma fraction_digits_numeral [simp]:
  "fraction_digits (numeral k) fraction divisor =
     (if fraction > 0
      then char_of (48 + fraction div divisor) # fraction_digits (pred_numeral k) (fraction mod divisor) (divisor div 10)
      else [])"
  by (simp add: numeral_eq_Suc)

lemma duration_debug_examples:
  "duration_debug (from_millis 1500) = ''1.5s''" "duration_debug (from_millis 12) = ''12ms''"
  "duration_debug 0 = ''0ns''" "duration_debug (from_secs 30) = ''30s''"
  by (simp_all add: duration_debug_def fmt_decimal_def from_millis_def from_secs_def Let_def dec_string.simps char_of_def bit_0)

lemma address_examples:
  "socket_addr_debug (SocketAddrV4 0x64400002 1) = ''100.64.0.2:1''"
  "socket_addr_debug (SocketAddrV6 0x20010DB8000000000000000000000001 443 0 0) = ''[2001:db8::1]:443''"
  "ipv6_display 0 = ''::''"
  by (simp_all add: ipv4_display_def ipv6_display_def segments_def fmt_subslice_def u32_to_be_bytes_def Let_def
      dec_string.simps hex_string.simps hex_digit_def char_of_def bit_0 upt_rec)

lemma str_debug_example: "str_debug prints [CHR ''a'', CHR 0x0A, CHR 0x22] = [CHR 0x22, CHR ''a'', CHR 0x5C, CHR ''n'', CHR 0x5C, CHR 0x22, CHR 0x22]"
  by (simp add: str_debug_def escape_ascii_def)

end
