(* ===== verification/Signaling.thy ===== *)
theory Signaling
  imports Protocol Format
begin

text \<open>
  The client of the signaling server Freddie, \<open>src/src/signaling.rs\<close>: message exchanges and the
  stream of newline-delimited advertisements. The HTTP client and the JSON decoder are arguments;
  a response has a status and a body that arrives in chunks of any size.
\<close>

section \<open>Types\<close>

definition DEFAULT_CONNECT_TIMEOUT :: duration where
  [rust_std]: "DEFAULT_CONNECT_TIMEOUT = from_secs 10"

datatype ('u, 'q, 'j) SignalingError =
    InvalidEndpoint 'u
  | NativeTransport 'q
  | SignalTransport string
  | ProtocolVersion string
  | RecipientGone
  | Http u16
  | SignalDecode 'j

text \<open>
  The HTTP library: building a client, parsing an endpoint, the two requests, and a response's
  status, whole body and next chunk.
\<close>

record ('c, 'e, 'u, 'q, 'r) http_library =
  client_build :: "duration \<Rightarrow> 'q + 'c"
  url_parse :: "string \<Rightarrow> 'u + 'e"
  http_post :: "'c \<Rightarrow> 'e \<Rightarrow> string \<times> string \<Rightarrow> (string \<times> string) list \<Rightarrow> 'q + 'r"
  http_get :: "'c \<Rightarrow> 'e \<Rightarrow> string \<times> string \<Rightarrow> 'q + 'r"
  resp_status :: "'r \<Rightarrow> u16"
  resp_bytes :: "'r \<Rightarrow> 'q + bytes"
  resp_chunk :: "'r \<Rightarrow> 'r \<times> ('q + bytes option)"

record ('c, 'e) FreddieClient =
  client :: 'c
  endpoint :: 'e
  version :: string

record 'r AdvertisementStream =
  response :: 'r
  buffered :: bytes

text \<open>The traits that the peer proxy and the consumer are written against.\<close>

record ('s, 'x) Signaler =
  exchange_op :: "'s \<Rightarrow> string \<Rightarrow> SignalMessageType \<Rightarrow> string \<Rightarrow> 'x + SignalMessage option"

record ('s, 'x, 'a) ConsumerSignaler = "('s, 'x) Signaler" +
  advertisements_op :: "'s \<Rightarrow> 'x + 'a"

section \<open>The client\<close>

definition with_client ::
    "('c, 'e, 'u, 'q, 'r) http_library \<Rightarrow> 'c \<Rightarrow> string \<Rightarrow> string
       \<Rightarrow> ('u, 'q, 'j) SignalingError + ('c, 'e) FreddieClient" where
  "with_client lib c url ver =
     and_then (map_err InvalidEndpoint (url_parse lib url)) (\<lambda>e.
       Inr \<lparr>client = c, endpoint = e, version = ver\<rparr>)"

definition FreddieClient_new ::
    "('c, 'e, 'u, 'q, 'r) http_library \<Rightarrow> string
       \<Rightarrow> ('u, 'q, 'j) SignalingError + ('c, 'e) FreddieClient" where
  "FreddieClient_new lib url =
     and_then (map_err NativeTransport (client_build lib DEFAULT_CONNECT_TIMEOUT)) (\<lambda>c.
       with_client lib c url PROTOCOL_VERSION)"

definition blank :: "bytes \<Rightarrow> bool" where
  "blank body \<longleftrightarrow> list_all is_ascii_whitespace body"

definition exchange ::
    "('c, 'e, 'u, 'q, 'r) http_library \<Rightarrow> (bytes \<Rightarrow> 'j + SignalMessage) \<Rightarrow> ('c, 'e) FreddieClient
       \<Rightarrow> string \<Rightarrow> SignalMessageType \<Rightarrow> string \<Rightarrow> ('u, 'q, 'j) SignalingError + SignalMessage option" where
  "exchange lib from_slice f send_to knd data =
     and_then (map_err NativeTransport
         (http_post lib (client f) (endpoint f) (VERSION_HEADER, version f)
            [(''data'', data), (''send-to'', send_to), (''type'', dec_string (unat (kind_as_u8 knd)))]))
       (\<lambda>resp.
         let status = resp_status lib resp in
         if status = 418 then Inl (ProtocolVersion (version f))
         else if status = 404 then Inl RecipientGone
         else if status \<noteq> 200 then Inl (Http status)
         else and_then (map_err NativeTransport (resp_bytes lib resp)) (\<lambda>body.
           if blank body then Inr None
           else and_then (map_err SignalDecode (from_slice body)) (\<lambda>m. Inr (Some m))))"

definition exchange_json ::
    "('c, 'e, 'u, 'q, 'r) http_library \<Rightarrow> (bytes \<Rightarrow> 'j + SignalMessage) \<Rightarrow> ('t \<Rightarrow> 'j + string)
       \<Rightarrow> ('c, 'e) FreddieClient \<Rightarrow> string \<Rightarrow> SignalMessageType \<Rightarrow> 't
       \<Rightarrow> ('u, 'q, 'j) SignalingError + SignalMessage option" where
  "exchange_json lib from_slice to_json f send_to knd data =
     and_then (map_err SignalDecode (to_json data)) (\<lambda>text. exchange lib from_slice f send_to knd text)"

definition advertisements ::
    "('c, 'e, 'u, 'q, 'r) http_library \<Rightarrow> ('c, 'e) FreddieClient
       \<Rightarrow> ('u, 'q, 'j) SignalingError + 'r AdvertisementStream" where
  "advertisements lib f =
     and_then (map_err NativeTransport (http_get lib (client f) (endpoint f) (VERSION_HEADER, version f)))
       (\<lambda>resp.
         let status = resp_status lib resp in
         if status = 200 then Inr \<lparr>response = resp, buffered = []\<rparr>
         else if status = 418 then Inl (ProtocolVersion (version f))
         else Inl (Http status))"

definition freddie_signaler ::
    "('c, 'e, 'u, 'q, 'r) http_library \<Rightarrow> (bytes \<Rightarrow> 'j + SignalMessage)
       \<Rightarrow> (('c, 'e) FreddieClient, ('u, 'q, 'j) SignalingError, 'r AdvertisementStream) ConsumerSignaler" where
  "freddie_signaler lib from_slice =
     \<lparr>exchange_op = exchange lib from_slice, advertisements_op = advertisements lib\<rparr>"

section \<open>The stream of advertisements\<close>

type_synonym ('r, 'u, 'q, 'j) next_result =
  "'r AdvertisementStream \<times> (('u, 'q, 'j) SignalingError + SignalMessage option)"

text \<open>\<open>Iterator::position\<close>.\<close>

fun position :: "('a \<Rightarrow> bool) \<Rightarrow> 'a list \<Rightarrow> nat option" where
  "position P [] = None"
| "position P (x # xs) = (if P x then Some 0 else map_option Suc (position P xs))"

text \<open>
  \<open>AdvertisementStream::next\<close>. The loop ends only if the body does; \<open>None\<close> is the loop that does
  not return.
\<close>

partial_function (option) advertisement_next ::
    "('r \<Rightarrow> 'r \<times> ('q + bytes option)) \<Rightarrow> (bytes \<Rightarrow> 'j + SignalMessage) \<Rightarrow> 'r AdvertisementStream
       \<Rightarrow> ('r, 'u, 'q, 'j) next_result option" where
  "advertisement_next chunk from_slice s =
     (case position (\<lambda>b. b = 10) (buffered s) of
        Some newline \<Rightarrow>
          (let line = take newline (buffered s);
               s1 = s\<lparr>buffered := drop (newline + 1) (buffered s)\<rparr>
           in if blank line then advertisement_next chunk from_slice s1
              else Some (s1, and_then (map_err SignalDecode (from_slice line)) (\<lambda>m. Inr (Some m))))
      | None \<Rightarrow>
          (case chunk (response s) of
             (r, Inl q) \<Rightarrow> Some (s\<lparr>response := r\<rparr>, Inl (NativeTransport q))
           | (r, Inr (Some c)) \<Rightarrow> advertisement_next chunk from_slice (s\<lparr>response := r, buffered := buffered s @ c\<rparr>)
           | (r, Inr None) \<Rightarrow>
               if blank (buffered s) then Some (s\<lparr>response := r\<rparr>, Inr None)
               else Some (s\<lparr>response := r, buffered := []\<rparr>,
                      and_then (map_err SignalDecode (from_slice (buffered s))) (\<lambda>m. Inr (Some m)))))"

section \<open>A chunked body\<close>

lemma position_Some:
  "position P xs = Some n \<Longrightarrow>
     n < length xs \<and> P (xs ! n) \<and> (\<forall>x \<in> set (take n xs). \<not> P x) \<and> xs = take n xs @ xs ! n # drop (Suc n) xs"
proof (induction xs arbitrary: n)
  case (Cons x xs)
  then show ?case by (cases n) (auto split: if_splits)
qed simp

lemma position_None: "position P xs = None \<longleftrightarrow> (\<forall>x \<in> set xs. \<not> P x)"
  by (induction xs) auto

lemma blank_Nil [simp]: "blank []"
  by (simp add: blank_def)

text \<open>
  What the HTTP client promises of a response: its body is a sequence of chunks that either ends
  or fails; the end is final.
\<close>

locale chunked_body =
  fixes chunk :: "'r \<Rightarrow> 'r \<times> ('q + bytes option)"
    and body_chunks :: "'r \<Rightarrow> bytes list"
    and body_error :: "'r \<Rightarrow> 'q option"
  assumes chunk_some: "chunk r = (r', Inr (Some c)) \<Longrightarrow>
      body_chunks r = c # body_chunks r' \<and> body_error r' = body_error r"
    and chunk_end: "chunk r = (r', Inr None) \<Longrightarrow>
      body_chunks r = [] \<and> body_error r = None \<and> body_chunks r' = [] \<and> body_error r' = None"
    and chunk_err: "chunk r = (r', Inl q) \<Longrightarrow> body_chunks r = [] \<and> body_error r = Some q"
begin

text \<open>
  The lines that a stream still has to deliver. The last piece has no newline: it counts as a
  line when the body ends there, and not when the body breaks off.
\<close>

definition pending :: "'r AdvertisementStream \<Rightarrow> bytes list" where
  "pending s =
     (let pieces = split_on 10 (buffered s @ concat (body_chunks (response s)))
      in filter (\<lambda>l. \<not> blank l) (if body_error (response s) = None then pieces else butlast pieces))"

lemma pending_line:
  assumes "position (\<lambda>b. b = 10) (buffered s) = Some n"
  shows "pending s = (if blank (take n (buffered s)) then [] else [take n (buffered s)]) @
    pending (s\<lparr>buffered := drop (Suc n) (buffered s)\<rparr>)"
proof -
  note p = position_Some [OF assms]
  then have "split_on 10 (buffered s @ concat (body_chunks (response s))) =
      take n (buffered s) # split_on 10 (drop (Suc n) (buffered s) @ concat (body_chunks (response s)))"
    using split_on_append [of 10 "take n (buffered s)"] by (metis append_Cons append_assoc)
  then show ?thesis by (simp add: pending_def Let_def)
qed

lemma pending_chunk:
  assumes "chunk (response s) = (r, Inr (Some c))"
  shows "pending (s\<lparr>response := r, buffered := buffered s @ c\<rparr>) = pending s"
  using chunk_some [OF assms] by (simp add: pending_def)

lemma pending_last:
  assumes "position (\<lambda>b. b = 10) (buffered s) = None" "body_chunks (response s) = []"
  shows "pending s = (if body_error (response s) = None \<and> \<not> blank (buffered s) then [buffered s] else [])"
  using assms by (auto simp: pending_def position_None split_on_free)

definition delivers ::
    "(bytes \<Rightarrow> 'j + SignalMessage) \<Rightarrow> 'r AdvertisementStream
       \<Rightarrow> ('r, 'u, 'q, 'j) next_result \<Rightarrow> bool" where
  "delivers from_slice s res \<longleftrightarrow>
     (case pending s of
        line # lines \<Rightarrow>
          snd res = and_then (map_err SignalDecode (from_slice line)) (\<lambda>m. Inr (Some m)) \<and>
          pending (fst res) = lines \<and> body_error (response (fst res)) = body_error (response s)
      | [] \<Rightarrow>
          (case body_error (response s) of
             None \<Rightarrow> snd res = Inr None \<and> pending (fst res) = [] \<and> body_error (response (fst res)) = None
           | Some q \<Rightarrow> snd res = Inl (NativeTransport q)))"

lemma delivers_step:
  fixes from_slice :: "bytes \<Rightarrow> 'j + SignalMessage"
  assumes "\<exists>res :: ('r, 'u, 'q, 'j) next_result.
      advertisement_next chunk from_slice s' = Some res \<and> delivers from_slice s' res"
    and "advertisement_next chunk from_slice s =
      (advertisement_next chunk from_slice s' :: ('r, 'u, 'q, 'j) next_result option)"
    and "pending s = pending s'" "body_error (response s) = body_error (response s')"
  shows "\<exists>res :: ('r, 'u, 'q, 'j) next_result.
      advertisement_next chunk from_slice s = Some res \<and> delivers from_slice s res"
  using assms(1) unfolding delivers_def assms(2-4) .

lemma next_at_end:
  assumes "position (\<lambda>b. b = 10) (buffered s) = None" "\<nexists>r c. chunk (response s) = (r, Inr (Some c))"
  shows "\<exists>res. advertisement_next chunk from_slice s = Some res \<and> delivers from_slice s res"
proof (cases "chunk (response s)")
  case (Pair r x)
  show ?thesis
  proof (cases x)
    case (Inl q)
    with chunk_err Pair pending_last [OF assms(1)] show ?thesis
      by (subst advertisement_next.simps) (simp add: assms(1) delivers_def)
  next
    case (Inr y)
    with assms(2) Pair have c: "chunk (response s) = (r, Inr None)" by (cases y) auto
    note fin = chunk_end [OF c]
    have "pending (s\<lparr>response := r\<rparr>) = pending s" "pending (s\<lparr>response := r, buffered := []\<rparr>) = []"
      using fin by (simp_all add: pending_def)
    with fin c pending_last [OF assms(1)] assms(1) show ?thesis
      by (subst advertisement_next.simps) (simp add: delivers_def)
  qed
qed

text \<open>
  The loop returns, by induction on what is left of the body and then of the buffer, and it
  delivers the next line.
\<close>

lemma next_delivers:
  "\<exists>res :: ('r, 'u, 'q, 'j) next_result. advertisement_next chunk from_slice s = Some res \<and> delivers from_slice s res"
proof (induction s rule: wf_induct_rule [OF wf_measures
      [of "[\<lambda>s. length (body_chunks (response s)), \<lambda>s. length (buffered s)]"]])
  case (1 s)
  show ?case
  proof (cases "position (\<lambda>b. b = 10) (buffered s)")
    case (Some n)
    let ?s = "s\<lparr>buffered := drop (Suc n) (buffered s)\<rparr>"
    note line = pending_line [OF Some]
    show ?thesis
    proof (cases "blank (take n (buffered s))")
      case True
      have "\<exists>res :: ('r, 'u, 'q, 'j) next_result. advertisement_next chunk from_slice ?s = Some res \<and> delivers from_slice ?s res"
        using position_Some [OF Some, THEN conjunct1] by (intro 1) simp
      then show ?thesis
      proof (rule delivers_step)
        show "advertisement_next chunk from_slice s =
            (advertisement_next chunk from_slice ?s :: ('r, 'u, 'q, 'j) next_result option)"
          using True Some by (subst advertisement_next.simps) (simp add: Let_def)
      qed (use line True in simp_all)
    next
      case False
      with line Some show ?thesis
        by (subst advertisement_next.simps) (simp add: Let_def delivers_def)
    qed
  next
    case None
    show ?thesis
    proof (cases "\<exists>r c. chunk (response s) = (r, Inr (Some c))")
      case True
      then obtain r c where c: "chunk (response s) = (r, Inr (Some c))" by blast
      let ?s = "s\<lparr>response := r, buffered := buffered s @ c\<rparr>"
      have "\<exists>res :: ('r, 'u, 'q, 'j) next_result. advertisement_next chunk from_slice ?s = Some res \<and> delivers from_slice ?s res"
        using chunk_some [OF c] by (intro 1) simp
      then show ?thesis
      proof (rule delivers_step)
        show "advertisement_next chunk from_slice s =
            (advertisement_next chunk from_slice ?s :: ('r, 'u, 'q, 'j) next_result option)"
          using None c by (subst advertisement_next.simps) simp
      qed (use pending_chunk [OF c] chunk_some [OF c] in simp_all)
    qed (use None next_at_end in blast)
  qed
qed

end

text \<open>The results of a number of calls of \<open>next\<close>.\<close>

fun next_results ::
    "('r \<Rightarrow> 'r \<times> ('q + bytes option)) \<Rightarrow> (bytes \<Rightarrow> 'j + SignalMessage) \<Rightarrow> nat \<Rightarrow> 'r AdvertisementStream
       \<Rightarrow> (('u, 'q, 'j) SignalingError + SignalMessage option) list option" where
  "next_results chunk from_slice 0 s = Some []"
| "next_results chunk from_slice (Suc n) s =
     (case advertisement_next chunk from_slice s of
        None \<Rightarrow> None
      | Some (s', r) \<Rightarrow> map_option (Cons r) (next_results chunk from_slice n s'))"

definition decoded_line ::
    "(bytes \<Rightarrow> 'j + SignalMessage) \<Rightarrow> bytes \<Rightarrow> ('u, 'q, 'j) SignalingError + SignalMessage option" where
  "decoded_line from_slice line = and_then (map_err SignalDecode (from_slice line)) (\<lambda>m. Inr (Some m))"

context chunked_body
begin

lemma next_results_pending:
  "body_error (response s) = None \<Longrightarrow>
     next_results chunk from_slice n s =
       Some (map (decoded_line from_slice) (take n (pending s)) @
             replicate (n - length (pending s)) (Inr None :: ('u, 'q, 'j) SignalingError + _))"
proof (induction n arbitrary: s)
  case (Suc n)
  obtain res :: "('r, 'u, 'q, 'j) next_result" where
    res: "advertisement_next chunk from_slice s = Some res" "delivers from_slice s res"
    using next_delivers by blast
  with Suc.prems Suc.IH [of "fst res"] show ?case
    by (cases "pending s") (auto simp: delivers_def decoded_line_def split: prod.splits)
qed simp

text \<open>A body that breaks off delivers its complete lines and then the transport error.\<close>

lemma next_results_broken:
  "body_error (response s) = Some q \<Longrightarrow> n \<le> length (pending s) \<Longrightarrow>
     next_results chunk from_slice (Suc n) s =
       Some (map (decoded_line from_slice) (take n (pending s)) @
             [if n = length (pending s) then (Inl (NativeTransport q) :: ('u, 'q, 'j) SignalingError + _)
              else decoded_line from_slice (pending s ! n)])"
proof (induction n arbitrary: s)
  case 0
  obtain res :: "('r, 'u, 'q, 'j) next_result" where
    res: "advertisement_next chunk from_slice s = Some res" "delivers from_slice s res"
    using next_delivers by blast
  with 0 show ?case
    by (cases "pending s") (auto simp: delivers_def decoded_line_def split: prod.splits)
next
  case (Suc n)
  obtain res :: "('r, 'u, 'q, 'j) next_result" where
    res: "advertisement_next chunk from_slice s = Some res" "delivers from_slice s res"
    using next_delivers by blast
  obtain line lines where "pending s = line # lines" using Suc.prems(2) by (cases "pending s") auto
  with res Suc.prems Suc.IH [of "fst res"] show ?case
    by (auto simp: delivers_def decoded_line_def split: prod.splits)
qed

end

text \<open>A response over a list of what its chunk calls yield.\<close>

fun list_chunk :: "('q + bytes) list \<Rightarrow> ('q + bytes) list \<times> ('q + bytes option)" where
  "list_chunk [] = ([], Inr None)"
| "list_chunk (Inr c # cs) = (cs, Inr (Some c))"
| "list_chunk (Inl q # cs) = (cs, Inl q)"

fun list_body :: "('q + bytes) list \<Rightarrow> bytes list" where
  "list_body (Inr c # cs) = c # list_body cs"
| "list_body _ = []"

fun list_body_error :: "('q + bytes) list \<Rightarrow> 'q option" where
  "list_body_error [] = None"
| "list_body_error (Inr c # cs) = list_body_error cs"
| "list_body_error (Inl q # cs) = Some q"

interpretation list_response: chunked_body list_chunk list_body list_body_error
proof unfold_locales
  fix r r' :: "('q + bytes) list" and c q
  show "list_chunk r = (r', Inr (Some c)) \<Longrightarrow> list_body r = c # list_body r' \<and> list_body_error r' = list_body_error r"
    by (cases r rule: list_chunk.cases) auto
  show "list_chunk r = (r', Inr None) \<Longrightarrow>
      list_body r = [] \<and> list_body_error r = None \<and> list_body r' = [] \<and> list_body_error r' = None"
    by (cases r rule: list_chunk.cases) auto
  show "list_chunk r = (r', Inl q) \<Longrightarrow> list_body r = [] \<and> list_body_error r = Some q"
    by (cases r rule: list_chunk.cases) auto
qed

section \<open>Properties\<close>

text \<open>
  C25. The advertisements of a stream do not depend on how its body is cut into chunks. Whatever
  the chunks, every call of \<open>next\<close> on a new stream returns, the calls yield the non-blank lines
  of the whole body in order, each through the JSON decoder and the last one with or without its
  newline, and then report the end for ever.
\<close>

theorem advertisements_chunk_independent:
  assumes "chunked_body (resp_chunk lib) chunks err"
    and "advertisements lib f = Inr s" and "err (response s) = None"
  shows "next_results (resp_chunk lib) from_slice n s =
    (let lines = filter (\<lambda>l. \<not> blank l) (split_on 10 (concat (chunks (response s))))
     in Some (map (decoded_line from_slice) (take n lines) @ replicate (n - length lines) (Inr None)))"
proof -
  have "buffered s = []"
    using assms(2) by (auto simp: advertisements_def and_then_Inr_iff Let_def split: if_splits)
  then show ?thesis
    using chunked_body.next_results_pending [OF assms(1,3)] assms(3)
    by (simp add: chunked_body.pending_def [OF assms(1)] Let_def)
qed

text \<open>
  A server for the examples: it answers a post with the status it finds in the \<open>data\<close> field's
  length and a get with a body in three chunks.
\<close>

type_synonym sample_response = "u16 \<times> (string + bytes) list"

definition sample_http :: "(unit, string, string, string, sample_response) http_library" where
  "sample_http =
     \<lparr>client_build = (\<lambda>_. Inr ()), url_parse = Inr,
      http_post = (\<lambda>_ _ _ form. Inr (if map snd form = [''x'', ''genesis'', ''0''] then 200 else 404, [Inr [65]])),
      http_get = (\<lambda>_ _ _. Inr (200, [Inr [65], Inr [10, 10, 66], Inr [67]])),
      resp_status = fst, resp_bytes = (\<lambda>r. Inr (concat (list_body (snd r)))),
      resp_chunk = (\<lambda>(st, cs). case list_chunk cs of (cs', r) \<Rightarrow> ((st, cs'), r))\<rparr>"

definition sample_message :: "bytes \<Rightarrow> string + SignalMessage" where
  "sample_message d = Inr \<lparr>reply_to = replicate (length d) (CHR ''x''), kind = Genesis, signal_payload = []\<rparr>"

interpretation sample_response: chunked_body "resp_chunk sample_http" "list_body \<circ> snd" "list_body_error \<circ> snd"
  by unfold_locales
    (auto simp: sample_http_def split: prod.splits
      dest: list_response.chunk_some list_response.chunk_end list_response.chunk_err)

theorem advertisements_chunk_independent_witness:
  "\<exists>s. advertisements sample_http \<lparr>client = (), endpoint = [], version = []\<rparr>
       = (Inr s :: (string, string, string) SignalingError + _) \<and>
     next_results (resp_chunk sample_http) sample_message 3 s =
       Some [Inr (Some \<lparr>reply_to = ''x'', kind = Genesis, signal_payload = []\<rparr>),
             Inr (Some \<lparr>reply_to = ''xx'', kind = Genesis, signal_payload = []\<rparr>),
             (Inr None :: (string, string, string) SignalingError + _)]"
proof -
  obtain s where s: "advertisements sample_http \<lparr>client = (), endpoint = [], version = []\<rparr>
       = (Inr s :: (string, string, string) SignalingError + _)"
    and r: "response s = (200, [Inr [65], Inr [10, 10, 66], Inr [67]])"
    by (simp add: advertisements_def sample_http_def)
  have lines: "filter (\<lambda>l. \<not> blank l) (split_on 10 (concat ((list_body \<circ> snd) (response s)))) = [[65], [66, 67]]"
    by (simp add: r blank_def is_ascii_whitespace_def)
  have "next_results (resp_chunk sample_http) sample_message 3 s =
      Some (map (decoded_line sample_message) [[65], [66, 67]] @ [Inr None :: (string, string, string) SignalingError + _])"
    using advertisements_chunk_independent [OF sample_response.chunked_body_axioms s, of sample_message 3]
    unfolding Let_def lines by (simp add: r)
  with s show ?thesis by (simp add: decoded_line_def sample_message_def)
qed



end
