(* ===== verification/Peer_Types.thy ===== *)
theory Peer_Types
  imports Protocol Relay
begin

text \<open>
  The data that the peer proxy (\<open>src/src/peer_proxy.rs\<close>) and its supervisor
  (\<open>src/src/supervisor.rs\<close>) exchange: the modules refer to each other, so their types come first.
  The error types of the libraries are type arguments.
\<close>

section \<open>Peer connections\<close>

text \<open>The states of a peer connection, as the WebRTC crate names them.\<close>

datatype RTCPeerConnectionState =
  StateUnspecified | StateNew | StateConnecting | StateConnected | StateDisconnected | StateFailed | StateClosed

definition is_terminal_peer_state :: "RTCPeerConnectionState \<Rightarrow> bool" where
  "is_terminal_peer_state state \<longleftrightarrow> state \<in> {StateDisconnected, StateFailed, StateClosed}"

definition is_disconnect_state :: "RTCPeerConnectionState \<Rightarrow> bool" where
  "is_disconnect_state state = is_terminal_peer_state state"

lemmas peer_state_defs = is_terminal_peer_state_def is_disconnect_state_def

section \<open>Peer proxy\<close>

record 'sg PeerProxyConfig =
  signaler :: 'sg
  egress_url :: string
  stun_urls :: "string list"
  nat_timeout :: duration
  cfg_enable_ipv6 :: bool
  cfg_randomize_dtls :: bool

record PeerProxyOutcome =
  outcome_session_id :: string
  relay_end :: RelayEnd
  outcome_relay_duration :: duration

text \<open>
  \<open>'s\<close> stands for the signaling error, \<open>'w\<close> for the error of the WebRTC crate, \<open>'j\<close> for the JSON
  error, \<open>'e\<close> for the egress error and \<open>'r\<close> for the relay error.
\<close>

datatype ('s, 'w, 'j, 'e, 'r) PeerProxyError =
    SignalingFailed 's
  | WebRtcFailed 'w
  | DecodeFailed string 'j
  | MissingResponse string
  | UnexpectedSignal SignalMessageType SignalMessageType
  | MissingConsumerSessionId
  | InvalidSessionId
  | InvalidIceCandidate 'w
  | NatTimeout
  | DataChannelClosed
  | PeerConnectionEnded RTCPeerConnectionState
  | EgressFailed 'e
  | RelayFailed duration 'r
  | SessionCancelled

fun error_relay_duration :: "('s, 'w, 'j, 'e, 'r) PeerProxyError \<Rightarrow> duration option" where
  "error_relay_duration (RelayFailed d r) = Some d"
| "error_relay_duration _ = None"

definition expect_signal ::
    "SignalMessage \<Rightarrow> SignalMessageType \<Rightarrow> ('s, 'w, 'j, 'e, 'r) PeerProxyError + unit" where
  "expect_signal signal expected =
     (if kind signal = expected then Inr () else Inl (UnexpectedSignal expected (kind signal)))"

section \<open>Supervisor\<close>

record SupervisorSummary =
  attempts :: u64
  completed_sessions :: u64
  failed_attempts :: u64

datatype SupervisorEvent =
    AttemptStarted u64
  | PeerConnected string "SocketAddr option"
  | PeerDisconnected string
  | SessionEnded u64 PeerProxyOutcome duration duration
  | AttemptFailed u64 string duration duration
  | Stopped SupervisorSummary

end
