(* ===== verification/Supervisor.thy ===== *)
theory Supervisor
  imports Peer_Types Channel
begin

text \<open>
  The supervisor of \<open>src/src/supervisor.rs\<close>: it runs peer proxy sessions one after another with
  a jittered exponential backoff, counts them, reports events, and forwards the events of a pool
  of workers. What a session returns, how long it took, the clock, and when the cancellation
  token is found cancelled are given per attempt.
\<close>

unbundle bit_operations_syntax

section \<open>Delays\<close>

definition nonzero :: "duration \<Rightarrow> duration" where
  "nonzero d = (if d = 0 then from_millis 1 else d)"

text \<open>\<open>now\<close> is the number of nanoseconds since the epoch, cast to 64 bits.\<close>

definition entropy :: "nat \<Rightarrow> u64 \<Rightarrow> u64" where
  "entropy now attempt = word_of_nat now XOR (attempt * 0x9e3779b97f4a7c15)"

definition jittered :: "duration \<Rightarrow> u64 \<Rightarrow> duration" where
  "jittered base e =
     (let percent = 80 + e mod 41;
          nanos = min (base * unat percent) (2 ^ 128 - 1) div 100
      in min nanos (2 ^ 64 - 1))"

section \<open>One worker\<close>

record 'pc SupervisorConfig =
  peer_proxy :: 'pc
  initial_backoff :: duration
  max_backoff :: duration
  stable_session :: duration

text \<open>
  What one turn of the loop finds: whether the token is cancelled before the attempt, the events
  that the session sends and its result, its duration, whether the token is cancelled when it
  returns, the clock, and whether the token is cancelled before the sleep ends.
\<close>

record 'x attempt_env =
  cancelled_before :: bool
  session_events :: "SupervisorEvent list"
  session_result :: "'x + PeerProxyOutcome"
  elapsed :: duration
  cancelled_after :: bool
  clock :: nat
  cancelled_in_sleep :: bool

type_synonym ('s, 'w, 'j, 'e, 'r) attempt = "('s, 'w, 'j, 'e, 'r) PeerProxyError attempt_env"

text \<open>The optional event sender: \<open>None\<close>, or what has been sent through it.\<close>

type_synonym event_sink = "SupervisorEvent list option"

definition emit :: "event_sink \<Rightarrow> SupervisorEvent \<Rightarrow> event_sink" where
  "emit es event = map_option (\<lambda>sent. sent @ [event]) es"

record supervision =
  backoff :: duration
  summary :: SupervisorSummary
  sink :: event_sink

definition SupervisorSummary_default :: SupervisorSummary where
  "SupervisorSummary_default = \<lparr>attempts = 0, completed_sessions = 0, failed_attempts = 0\<rparr>"

definition is_stable :: "'pc SupervisorConfig \<Rightarrow> ('s, 'w, 'j, 'e, 'r) PeerProxyError + PeerProxyOutcome \<Rightarrow> bool" where
  "is_stable config result =
     (let relay_duration = (case result of
            Inr outcome \<Rightarrow> Some (outcome_relay_duration outcome)
          | Inl error \<Rightarrow> error_relay_duration error)
      in case relay_duration of Some d \<Rightarrow> d \<ge> stable_session config | None \<Rightarrow> False)"

text \<open>
  One turn of the loop; the second component tells whether it leaves the loop. \<open>error_text\<close> is
  the \<open>Display\<close> form of an error.
\<close>

definition supervise_turn ::
    "'pc SupervisorConfig \<Rightarrow> (('s, 'w, 'j, 'e, 'r) PeerProxyError \<Rightarrow> string) \<Rightarrow> ('s, 'w, 'j, 'e, 'r) attempt
       \<Rightarrow> supervision \<Rightarrow> supervision \<times> bool" where
  "supervise_turn config error_text a st =
     (if cancelled_before a then (st, True)
      else
        let initial = nonzero (initial_backoff config);
            maximum = max (max_backoff config) initial;
            summary1 = (summary st)\<lparr>attempts := attempts (summary st) + 1\<rparr>;
            attempt = attempts summary1;
            sink1 = map_option (\<lambda>sent. sent @ session_events a) (emit (sink st) (AttemptStarted attempt));
            result = session_result a
        in if is_err result \<and> cancelled_after a
           then (st\<lparr>summary := summary1, sink := sink1\<rparr>, True)
           else
             let stable = is_stable config result;
                 backoff1 = (if stable then initial else backoff st);
                 retry_in = min (jittered backoff1 (entropy (clock a) attempt)) maximum;
                 (summary2, event) = (case result of
                    Inr outcome \<Rightarrow>
                      (summary1\<lparr>completed_sessions := completed_sessions summary1 + 1\<rparr>,
                       SessionEnded attempt outcome (elapsed a) retry_in)
                  | Inl error \<Rightarrow>
                      (summary1\<lparr>failed_attempts := failed_attempts summary1 + 1\<rparr>,
                       AttemptFailed attempt (error_text error) (elapsed a) retry_in));
                 backoff2 = (if \<not> stable then min (duration_saturating_mul backoff1 2) maximum else backoff1)
             in (\<lparr>backoff = backoff2, summary = summary2, sink = emit sink1 event\<rparr>, cancelled_in_sleep a))"

text \<open>The loop over what its turns find; it is still running when this list ends.\<close>

fun supervise_loop ::
    "'pc SupervisorConfig \<Rightarrow> (('s, 'w, 'j, 'e, 'r) PeerProxyError \<Rightarrow> string) \<Rightarrow> ('s, 'w, 'j, 'e, 'r) attempt list
       \<Rightarrow> supervision \<Rightarrow> supervision \<times> bool" where
  "supervise_loop config error_text [] st = (st, False)"
| "supervise_loop config error_text (a # as) st =
     (case supervise_turn config error_text a st of
        (st', True) \<Rightarrow> (st', True)
      | (st', False) \<Rightarrow> supervise_loop config error_text as st')"

definition supervision_start :: "'pc SupervisorConfig \<Rightarrow> event_sink \<Rightarrow> supervision" where
  "supervision_start config es =
     \<lparr>backoff = nonzero (initial_backoff config), summary = SupervisorSummary_default, sink = es\<rparr>"

definition supervise_with ::
    "'pc SupervisorConfig \<Rightarrow> (('s, 'w, 'j, 'e, 'r) PeerProxyError \<Rightarrow> string) \<Rightarrow> ('s, 'w, 'j, 'e, 'r) attempt list
       \<Rightarrow> event_sink \<Rightarrow> event_sink \<times> SupervisorSummary option" where
  "supervise_with config error_text as es =
     (case supervise_loop config error_text as (supervision_start config es) of
        (st, True) \<Rightarrow> (emit (sink st) (Stopped (summary st)), Some (summary st))
      | (st, False) \<Rightarrow> (sink st, None))"

section \<open>Bounds of the delays\<close>

lemma unat_percent: "unat (80 + e mod 41 :: u64) = 80 + unat e mod 41"
proof -
  have "unat (e mod 41) = unat e mod 41" by (simp add: unat_mod)
  moreover have "unat e mod 41 < 41" by simp
  ultimately show ?thesis by (subst unat_plus_if') auto
qed

lemma jittered_bounds:
  assumes "base \<le> DURATION_MAX"
  shows "min (base * 80 div 100) (2 ^ 64 - 1) \<le> jittered base e" and "jittered base e \<le> base * 120 div 100"
proof -
  let ?p = "80 + unat e mod 41"
  have p: "80 \<le> ?p" "?p \<le> 120" using mod_less_divisor [of 41 "unat e"] by simp_all
  have "base * ?p \<le> DURATION_MAX * 120" using assms p(2) by (intro mult_le_mono) 
  also have "\<dots> \<le> 2 ^ 128 - 1" by (simp add: DURATION_MAX_def)
  finally have eq: "jittered base e = min (base * ?p div 100) (2 ^ 64 - 1)"
    by (simp add: jittered_def unat_percent Let_def min_absorb1)
  show "min (base * 80 div 100) (2 ^ 64 - 1) \<le> jittered base e"
    unfolding eq using p(1) by (intro min.mono div_le_mono mult_le_mono) simp_all
  show "jittered base e \<le> base * 120 div 100"
    unfolding eq using p(2) by (intro min.coboundedI1 div_le_mono mult_le_mono) simp_all
qed

section \<open>The backoff\<close>

definition first_delay :: "'pc SupervisorConfig \<Rightarrow> duration" where
  "first_delay config = nonzero (initial_backoff config)"

definition delay_cap :: "'pc SupervisorConfig \<Rightarrow> duration" where
  "delay_cap config = max (max_backoff config) (first_delay config)"

text \<open>The delay after a sequence of attempts, of which the last \<open>k\<close> were unstable.\<close>

definition unstable_run :: "bool list \<Rightarrow> nat" where
  "unstable_run stables = length (takeWhile Not (rev stables))"

definition expected_backoff :: "'pc SupervisorConfig \<Rightarrow> nat \<Rightarrow> duration" where
  "expected_backoff config k = min (first_delay config * 2 ^ k) (delay_cap config)"

definition attempt_stable :: "'pc SupervisorConfig \<Rightarrow> ('s, 'w, 'j, 'e, 'r) attempt \<Rightarrow> bool" where
  "attempt_stable config a = is_stable config (session_result a)"

lemma unstable_run_simps [simp]:
  "unstable_run [] = 0" "unstable_run (ss @ [True]) = 0" "unstable_run (ss @ [False]) = Suc (unstable_run ss)"
  by (simp_all add: unstable_run_def)

lemma expected_backoff_0 [simp]: "expected_backoff config 0 = first_delay config"
  by (simp add: expected_backoff_def delay_cap_def)

lemma expected_backoff_le: "expected_backoff config k \<le> delay_cap config"
  by (simp add: expected_backoff_def)

lemma expected_backoff_Suc:
  assumes "delay_cap config \<le> DURATION_MAX"
  shows "min (duration_saturating_mul (expected_backoff config k) 2) (delay_cap config) =
    expected_backoff config (Suc k)"
  using assms by (auto simp: expected_backoff_def duration_saturating_mul_def min_def)

lemma delay_cap_max:
  assumes "initial_backoff config \<le> DURATION_MAX" "max_backoff config \<le> DURATION_MAX"
  shows "delay_cap config \<le> DURATION_MAX"
  using assms by (simp add: delay_cap_def first_delay_def nonzero_def from_millis_def DURATION_MAX_def)

text \<open>The end of an attempt that the supervisor reports.\<close>

definition retry_delay :: "'pc SupervisorConfig \<Rightarrow> ('s, 'w, 'j, 'e, 'r) attempt \<Rightarrow> supervision \<Rightarrow> duration" where
  "retry_delay config a st =
     min (jittered (if attempt_stable config a then first_delay config else backoff st)
            (entropy (clock a) (attempts (summary st) + 1)))
       (delay_cap config)"

definition end_event ::
    "'pc SupervisorConfig \<Rightarrow> (('s, 'w, 'j, 'e, 'r) PeerProxyError \<Rightarrow> string) \<Rightarrow> ('s, 'w, 'j, 'e, 'r) attempt
       \<Rightarrow> supervision \<Rightarrow> SupervisorEvent" where
  "end_event config error_text a st =
     (case session_result a of
        Inr outcome \<Rightarrow> SessionEnded (attempts (summary st) + 1) outcome (elapsed a) (retry_delay config a st)
      | Inl error \<Rightarrow> AttemptFailed (attempts (summary st) + 1) (error_text error) (elapsed a) (retry_delay config a st))"

text \<open>An attempt that ends with an error after the cancellation is abandoned.\<close>

definition abandoned :: "('s, 'w, 'j, 'e, 'r) attempt \<Rightarrow> bool" where
  "abandoned a \<longleftrightarrow> is_err (session_result a) \<and> cancelled_after a"

lemma turn_not_started: "cancelled_before a \<Longrightarrow> supervise_turn config error_text a st = (st, True)"
  by (simp add: supervise_turn_def)

lemma turn_abandoned:
  "\<not> cancelled_before a \<Longrightarrow> abandoned a \<Longrightarrow> supervise_turn config error_text a st =
     (st\<lparr>summary := (summary st)\<lparr>attempts := attempts (summary st) + 1\<rparr>,
         sink := map_option (\<lambda>sent. sent @ [AttemptStarted (attempts (summary st) + 1)] @ session_events a) (sink st)\<rparr>,
      True)"
  by (simp add: supervise_turn_def abandoned_def emit_def option.map_comp comp_def Let_def)

lemma turn_reported:
  "\<not> cancelled_before a \<Longrightarrow> \<not> abandoned a \<Longrightarrow> supervise_turn config error_text a st =
     (\<lparr>backoff = (if attempt_stable config a then first_delay config
                  else min (duration_saturating_mul (backoff st) 2) (delay_cap config)),
       summary = (let s = (summary st)\<lparr>attempts := attempts (summary st) + 1\<rparr> in
         if is_err (session_result a) then s\<lparr>failed_attempts := failed_attempts s + 1\<rparr>
         else s\<lparr>completed_sessions := completed_sessions s + 1\<rparr>),
       sink = map_option (\<lambda>sent. sent @ [AttemptStarted (attempts (summary st) + 1)] @ session_events a @
                [end_event config error_text a st]) (sink st)\<rparr>,
      cancelled_in_sleep a)"
  by (simp add: supervise_turn_def abandoned_def emit_def option.map_comp comp_def Let_def
      attempt_stable_def end_event_def retry_delay_def first_delay_def delay_cap_def split: sum.split)

lemmas supervise_turns = turn_not_started turn_abandoned turn_reported

lemma turn_running:
  assumes "supervise_turn config error_text a st = (st', False)"
  shows "\<not> cancelled_before a" "\<not> abandoned a"
  using assms by (cases "cancelled_before a"; cases "abandoned a"; simp add: supervise_turns)+

lemma supervise_loop_append:
  "supervise_loop config error_text (as @ bs) st =
     (case supervise_loop config error_text as st of
        (st', True) \<Rightarrow> (st', True)
      | (st', False) \<Rightarrow> supervise_loop config error_text bs st')"
  by (induction as arbitrary: st) (auto split: prod.splits bool.splits)

text \<open>While the supervisor runs, its backoff and its attempt counter follow the attempts.\<close>

lemma supervise_loop_backoff:
  assumes "delay_cap config \<le> DURATION_MAX"
    and "supervise_loop config error_text as (supervision_start config es) = (st, False)"
  shows "backoff st = expected_backoff config (unstable_run (map (attempt_stable config) as)) \<and>
    attempts (summary st) = of_nat (length as)"
  using assms(2)
proof (induction as arbitrary: st rule: rev_induct)
  case Nil
  then show ?case
    by (auto simp: supervision_start_def SupervisorSummary_default_def first_delay_def)
next
  case (snoc a as)
  from snoc.prems obtain st1 where st1: "supervise_loop config error_text as (supervision_start config es) = (st1, False)"
    and turn: "supervise_turn config error_text a st1 = (st, False)"
    by (auto simp: supervise_loop_append split: prod.splits bool.splits)
  note running = turn_running [OF turn]
  from snoc.IH [OF st1] turn show ?case
    by (cases "attempt_stable config a")
      (auto simp: turn_reported [OF running] expected_backoff_Suc [OF assms(1)] Let_def)
qed

section \<open>The event log\<close>

fun started_attempts :: "SupervisorEvent list \<Rightarrow> u64 list" where
  "started_attempts [] = []"
| "started_attempts (AttemptStarted i # es) = i # started_attempts es"
| "started_attempts (_ # es) = started_attempts es"

fun is_ended :: "SupervisorEvent \<Rightarrow> bool" where
  "is_ended (SessionEnded i outcome d r) = True"
| "is_ended _ = False"

fun is_failed :: "SupervisorEvent \<Rightarrow> bool" where
  "is_failed (AttemptFailed i t d r) = True"
| "is_failed _ = False"

fun is_peer_event :: "SupervisorEvent \<Rightarrow> bool" where
  "is_peer_event (PeerConnected i a) = True"
| "is_peer_event (PeerDisconnected i) = True"
| "is_peer_event _ = False"

fun is_stopped :: "SupervisorEvent \<Rightarrow> bool" where
  "is_stopped (Stopped s) = True"
| "is_stopped _ = False"

abbreviation ended_count :: "SupervisorEvent list \<Rightarrow> nat" where
  "ended_count es \<equiv> length (filter is_ended es)"

abbreviation failed_count :: "SupervisorEvent list \<Rightarrow> nat" where
  "failed_count es \<equiv> length (filter is_failed es)"

lemma started_attempts_append [simp]: "started_attempts (es @ fs) = started_attempts es @ started_attempts fs"
  by (induction es rule: started_attempts.induct) simp_all

lemma peer_events_log:
  assumes "list_all is_peer_event es"
  shows "started_attempts es = []" "filter is_ended es = []" "filter is_failed es = []" "\<not> list_ex is_stopped es"
  using assms by (induction es rule: started_attempts.induct) auto

text \<open>
  The log agrees with the counters; \<open>open_attempts\<close> is the number of attempts that were started
  and not reported.
\<close>

definition log_agrees :: "SupervisorEvent list \<Rightarrow> SupervisorSummary \<Rightarrow> nat \<Rightarrow> bool" where
  "log_agrees es s open_attempts \<longleftrightarrow>
     \<not> list_ex is_stopped es \<and>
     started_attempts es = map of_nat [1..<Suc (ended_count es + failed_count es + open_attempts)] \<and>
     attempts s = of_nat (ended_count es + failed_count es + open_attempts) \<and>
     completed_sessions s = of_nat (ended_count es) \<and> failed_attempts s = of_nat (failed_count es)"

lemma log_agrees_start:
  assumes "log_agrees es s 0" "list_all is_peer_event ps"
  shows "log_agrees (es @ [AttemptStarted (attempts s + 1)] @ ps) (s\<lparr>attempts := attempts s + 1\<rparr>) 1"
  using assms by (auto simp: log_agrees_def peer_events_log upt_Suc)

lemma log_agrees_end:
  assumes "log_agrees es s 1"
  shows "log_agrees (es @ [SessionEnded i outcome d r]) (s\<lparr>completed_sessions := completed_sessions s + 1\<rparr>) 0"
    and "log_agrees (es @ [AttemptFailed i t d r]) (s\<lparr>failed_attempts := failed_attempts s + 1\<rparr>) 0"
  using assms by (auto simp: log_agrees_def)

lemma turn_log:
  assumes "supervise_turn config error_text a st = (st', stop)"
    and "sink st = Some es" "log_agrees es (summary st) 0" "list_all is_peer_event (session_events a)"
  shows "\<exists>es' k. sink st' = Some es' \<and> log_agrees es' (summary st') k \<and> (if stop then k \<le> 1 else k = 0)"
proof -
  note started = log_agrees_start [OF assms(3,4)]
  consider "cancelled_before a" | "\<not> cancelled_before a" "abandoned a" | "\<not> cancelled_before a" "\<not> abandoned a"
    by blast
  then show ?thesis
  proof cases
    case 1
    with assms show ?thesis by (auto simp: turn_not_started)
  next
    case 2
    with assms(1,2) started show ?thesis by (auto simp: turn_abandoned)
  next
    case 3
    from log_agrees_end [OF started] assms(1,2) have "\<exists>es'. sink st' = Some es' \<and> log_agrees es' (summary st') 0"
      by (cases "session_result a") (auto simp: turn_reported [OF 3] end_event_def Let_def)
    then show ?thesis by (metis zero_le)
  qed
qed

lemma loop_log:
  assumes "supervise_loop config error_text as st = (st', stop)"
    and "sink st = Some es" "log_agrees es (summary st) 0" "\<And>a. a \<in> set as \<Longrightarrow> list_all is_peer_event (session_events a)"
  shows "\<exists>es' k. sink st' = Some es' \<and> log_agrees es' (summary st') k \<and> (if stop then k \<le> 1 else k = 0)"
  using assms
proof (induction as arbitrary: st es)
  case Nil
  then show ?case by auto
next
  case (Cons a as)
  obtain st1 stop1 where turn: "supervise_turn config error_text a st = (st1, stop1)" by fastforce
  from turn_log [OF this Cons.prems(2,3)] Cons.prems(4) obtain es1 k where
    log1: "sink st1 = Some es1" "log_agrees es1 (summary st1) k" "if stop1 then k \<le> 1 else k = 0" by auto
  show ?case
  proof (cases stop1)
    case True
    with log1 turn Cons.prems(1) show ?thesis by auto
  next
    case False
    with log1 turn Cons.prems Cons.IH [of st1 es1] show ?thesis by auto
  qed
qed

section \<open>The pool\<close>

record PoolEvent =
  slot :: nat
  event :: SupervisorEvent

record SupervisorPoolSummary =
  workers :: "SupervisorSummary list"

definition pool_attempts :: "SupervisorPoolSummary \<Rightarrow> u64" where
  "pool_attempts p = sum_list (map attempts (workers p))"

definition pool_completed_sessions :: "SupervisorPoolSummary \<Rightarrow> u64" where
  "pool_completed_sessions p = sum_list (map completed_sessions (workers p))"

definition pool_failed_attempts :: "SupervisorPoolSummary \<Rightarrow> u64" where
  "pool_failed_attempts p = sum_list (map failed_attempts (workers p))"

text \<open>
  The forwarding of the workers' events. A worker's supervisor, or a callback of one of its
  sessions, sends an event into the worker's channel; the \<open>select!\<close> of the worker takes its
  receive branch; or the supervisor returns and the worker drains the channel, after which it is
  gone. The steps of the workers come in any order.
\<close>

datatype pool_step = Sent nat SupervisorEvent | Forward nat | Finished nat

record 'c pool =
  worker_events :: "nat \<Rightarrow> 'c"
  finished :: "nat \<Rightarrow> bool"
  forwarded :: "PoolEvent list option"

type_synonym 'c pool_ops = "('c, SupervisorEvent) unbounded_ops"

definition forward :: "nat \<Rightarrow> SupervisorEvent \<Rightarrow> PoolEvent list option \<Rightarrow> PoolEvent list option" where
  "forward i e out = map_option (\<lambda>sent. sent @ [\<lparr>slot = i, event = e\<rparr>]) out"

text \<open>\<open>while let Ok(event) = worker_events_rx.try_recv()\<close>; \<open>None\<close> if it never ends.\<close>

partial_function (option) drain_worker ::
    "'c pool_ops \<Rightarrow> nat \<Rightarrow> 'c \<Rightarrow> PoolEvent list option \<Rightarrow> ('c \<times> PoolEvent list option) option" where
  "drain_worker uo i c out =
     (case u_try_recv uo c of
        (c', None) \<Rightarrow> Some (c', out)
      | (c', Some e) \<Rightarrow> drain_worker uo i c' (forward i e out))"

fun pool_do :: "'c pool_ops \<Rightarrow> pool_step \<Rightarrow> 'c pool \<Rightarrow> 'c pool option" where
  "pool_do uo (Sent i e) p =
     (if finished p i then Some p
      else Some (p\<lparr>worker_events := (worker_events p)(i := u_send uo (worker_events p i) e)\<rparr>))"
| "pool_do uo (Forward i) p =
     (if finished p i then Some p
      else case u_try_recv uo (worker_events p i) of
        (c, None) \<Rightarrow> Some (p\<lparr>worker_events := (worker_events p)(i := c)\<rparr>)
      | (c, Some e) \<Rightarrow>
          Some (p\<lparr>worker_events := (worker_events p)(i := c), forwarded := forward i e (forwarded p)\<rparr>))"
| "pool_do uo (Finished i) p =
     (if finished p i then Some p
      else case drain_worker uo i (worker_events p i) (forwarded p) of
        None \<Rightarrow> None
      | Some (c, out) \<Rightarrow>
          Some (p\<lparr>worker_events := (worker_events p)(i := c), finished := (finished p)(i := True), forwarded := out\<rparr>))"

fun pool_run :: "'c pool_ops \<Rightarrow> pool_step list \<Rightarrow> 'c pool \<Rightarrow> 'c pool option" where
  "pool_run uo [] p = Some p"
| "pool_run uo (s # ss) p = (case pool_do uo s p of None \<Rightarrow> None | Some p' \<Rightarrow> pool_run uo ss p')"

definition pool_start :: "'c pool_ops \<Rightarrow> PoolEvent list option \<Rightarrow> 'c pool" where
  "pool_start uo es = \<lparr>worker_events = (\<lambda>_. unbounded_channel uo), finished = (\<lambda>_. False), forwarded = es\<rparr>"

text \<open>The results of the workers, given by slot, as \<open>join_all\<close> and the sort deliver them.\<close>

definition supervise_peer_proxy_pool :: "nat \<Rightarrow> (nat \<Rightarrow> SupervisorSummary) \<Rightarrow> SupervisorPoolSummary" where
  "supervise_peer_proxy_pool slots result =
     (let joined = map (\<lambda>i. (i, result i)) [0..<max slots 1]
      in \<lparr>workers = map snd (sort_key fst joined)\<rparr>)"

text \<open>What was sent to a worker before it finished.\<close>

fun sent_to :: "nat \<Rightarrow> pool_step list \<Rightarrow> SupervisorEvent list" where
  "sent_to i [] = []"
| "sent_to i (Sent j e # ss) = (if i = j then e # sent_to i ss else sent_to i ss)"
| "sent_to i (Forward j # ss) = sent_to i ss"
| "sent_to i (Finished j # ss) = (if i = j then [] else sent_to i ss)"

definition of_slot :: "nat \<Rightarrow> PoolEvent list \<Rightarrow> SupervisorEvent list" where
  "of_slot i es = map event (filter (\<lambda>e. slot e = i) es)"

lemma of_slot_simps [simp]:
  "of_slot i [] = []" "of_slot i (es @ fs) = of_slot i es @ of_slot i fs"
  "of_slot i [\<lparr>slot = j, event = e\<rparr>] = (if i = j then [e] else [])"
  "of_slot i (map (\<lambda>e. \<lparr>slot = j, event = e\<rparr>) gs) = (if i = j then gs else [])"
  by (auto simp: of_slot_def filter_map comp_def)

locale pool_channels = unbounded_mpsc uo for uo :: "'c pool_ops"
begin

lemma drain_worker_all:
  "u_queued uo c = q \<Longrightarrow>
     \<exists>c'. drain_worker uo i c (Some out) = Some (c', Some (out @ map (\<lambda>e. \<lparr>slot = i, event = e\<rparr>) q))"
proof (induction q arbitrary: c out)
  case Nil
  then show ?case by (subst drain_worker.simps) (simp add: u_recv_empty case_prod_beta)
next
  case (Cons e q)
  from Cons.prems obtain c1 where c1: "u_try_recv uo c = (c1, Some e)" "u_queued uo c1 = q"
    using u_queued_recv [of c] u_recv_some [of c] by (cases "u_try_recv uo c") auto
  with Cons.IH [OF c1(2), of "out @ [\<lparr>slot = i, event = e\<rparr>]"] show ?case
    by (subst drain_worker.simps) (simp add: forward_def)
qed

text \<open>What a slot has forwarded, followed by what waits in its channel while it runs.\<close>

definition slot_log :: "'c pool \<Rightarrow> nat \<Rightarrow> SupervisorEvent list" where
  "slot_log p i = of_slot i (the (forwarded p)) @ (if finished p i then [] else u_queued uo (worker_events p i))"

lemma pool_do_log:
  assumes "forwarded p = Some out"
  shows "\<exists>p' out'. pool_do uo s p = Some p' \<and> forwarded p' = Some out' \<and>
    (\<forall>i. slot_log p' i = slot_log p i @ (if finished p i then [] else sent_to i [s])) \<and>
    (\<forall>i. finished p' i \<longleftrightarrow> finished p i \<or> s = Finished i)"
proof (cases s)
  case (Sent i e)
  with assms show ?thesis by (auto simp: slot_log_def u_queued_send)
next
  case (Forward i)
  obtain c r where r: "u_try_recv uo (worker_events p i) = (c, r)" by fastforce
  then have "u_queued uo c = tl (u_queued uo (worker_events p i))"
    "r = (case u_queued uo (worker_events p i) of [] \<Rightarrow> None | a # q \<Rightarrow> Some a)"
    using u_queued_recv [of "worker_events p i"] u_try_recv_result [of "worker_events p i"] by simp_all
  with assms r Forward show ?thesis
    by (cases "u_queued uo (worker_events p i)") (auto simp: slot_log_def forward_def)
next
  case (Finished i)
  obtain c where "drain_worker uo i (worker_events p i) (Some out) =
      Some (c, Some (out @ map (\<lambda>e. \<lparr>slot = i, event = e\<rparr>) (u_queued uo (worker_events p i))))"
    using drain_worker_all [OF refl] by blast
  with assms Finished show ?thesis by (auto simp: slot_log_def)
qed

lemma sent_to_Cons: "sent_to i (s # ss) = sent_to i [s] @ (if s = Finished i then [] else sent_to i ss)"
  by (cases s) auto

lemma pool_run_log:
  assumes "forwarded p = Some out"
  shows "\<exists>p' out'. pool_run uo ss p = Some p' \<and> forwarded p' = Some out' \<and>
    (\<forall>i. slot_log p' i = slot_log p i @ (if finished p i then [] else sent_to i ss)) \<and>
    (\<forall>i. finished p' i \<longleftrightarrow> finished p i \<or> Finished i \<in> set ss)"
  using assms
proof (induction ss arbitrary: p out)
  case (Cons s ss)
  from pool_do_log [OF Cons.prems, of s] obtain p1 out1 where p1: "pool_do uo s p = Some p1" "forwarded p1 = Some out1"
    "\<And>i. slot_log p1 i = slot_log p i @ (if finished p i then [] else sent_to i [s])"
    "\<And>i. finished p1 i \<longleftrightarrow> finished p i \<or> s = Finished i" by blast
  from Cons.IH [OF p1(2)] obtain p2 out2 where p2: "pool_run uo ss p1 = Some p2" "forwarded p2 = Some out2"
    "\<And>i. slot_log p2 i = slot_log p1 i @ (if finished p1 i then [] else sent_to i ss)"
    "\<And>i. finished p2 i \<longleftrightarrow> finished p1 i \<or> Finished i \<in> set ss" by blast
  have "slot_log p2 i = slot_log p i @ (if finished p i then [] else sent_to i (s # ss))" for i
    by (simp add: p2(3) p1(3,4) sent_to_Cons [of i s ss] del: sent_to.simps)
  with p1 p2 show ?case by auto
qed auto

end

interpretation list_pool: pool_channels list_unbounded
  by unfold_locales

section \<open>Properties\<close>

text \<open>
  C19. The delay before a retry follows the backoff schedule. After attempts of which the
  last \<open>k\<close> were unstable, the delay reported for the next attempt is the jittered value of the initial
  delay doubled \<open>k\<close> times, or of the initial delay if this attempt was stable, capped by the
  larger of the two configured delays; it lies between 80 and 120 percent of it.
\<close>

theorem retry_schedule:
  assumes "initial_backoff config \<le> DURATION_MAX" and "max_backoff config \<le> DURATION_MAX"
    and "supervise_loop config error_text as (supervision_start config es) = (st, False)"
    and "\<not> cancelled_before a" and "list_all is_peer_event (session_events a)"
    and "supervise_turn config error_text a st = (st', stop)" and "sink st' = Some (log @ [ev])"
    and "(\<exists>i outcome d. ev = SessionEnded i outcome d r) \<or> (\<exists>i t d. ev = AttemptFailed i t d r)"
  shows "let k = (if attempt_stable config a then 0 else unstable_run (map (attempt_stable config) as));
             b = min (nonzero (initial_backoff config) * 2 ^ k) (delay_cap config)
         in r = min (jittered b (entropy (clock a) (of_nat (length as) + 1))) (delay_cap config) \<and>
            min (b * 80 div 100) (2 ^ 64 - 1) \<le> r \<and> r \<le> b * 120 div 100 \<and>
            r \<le> max (max_backoff config) (nonzero (initial_backoff config))"
proof -
  define b where "b = expected_backoff config
      (if attempt_stable config a then 0 else unstable_run (map (attempt_stable config) as))"
  let ?e = "entropy (clock a) (of_nat (length as) + 1)"
  note cap = delay_cap_max [OF assms(1,2)]
  note st = supervise_loop_backoff [OF cap assms(3)]
  obtain sent where sent: "sink st = Some sent"
    using assms(4,6,7) by (cases "abandoned a") (auto simp: turn_abandoned turn_reported)
  have "\<not> abandoned a"
  proof
    assume "abandoned a"
    with assms(4,6,7) sent have "log @ [ev] = (sent @ [AttemptStarted (attempts (summary st) + 1)]) @ session_events a"
      by (auto simp: turn_abandoned)
    with assms(5,8) show False
      by (cases "session_events a" rule: rev_cases) auto
  qed
  then have "ev = end_event config error_text a st"
    using assms(4,6,7) sent by (auto simp: turn_reported)
  with assms(8) have "r = retry_delay config a st"
    by (auto simp: end_event_def split: sum.splits)
  then have r: "r = min (jittered b ?e) (delay_cap config)"
    using st by (auto simp: retry_delay_def b_def)
  have "b \<le> delay_cap config" by (simp add: b_def expected_backoff_le)
  moreover have "b * 80 div 100 \<le> b" by simp
  ultimately have bounds: "min (b * 80 div 100) (2 ^ 64 - 1) \<le> r" "r \<le> b * 120 div 100" "r \<le> delay_cap config"
    using jittered_bounds [of b ?e] cap unfolding r by (simp_all add: min_le_iff_disj)
  have b: "min (nonzero (initial_backoff config) * 2 ^ (if attempt_stable config a then 0
      else unstable_run (map (attempt_stable config) as))) (delay_cap config) = b"
    unfolding b_def expected_backoff_def first_delay_def ..
  show ?thesis
    unfolding Let_def b using r bounds by (simp only: delay_cap_def first_delay_def simp_thms)
qed

text \<open>A configuration and attempts for the examples: a failure, then a stable session.\<close>

definition sample_config :: "unit SupervisorConfig" where
  "sample_config = \<lparr>peer_proxy = (), initial_backoff = from_secs 1, max_backoff = from_secs 60, stable_session = from_secs 30\<rparr>"

definition sample_failure :: "(string, string, string, string, string) attempt" where
  "sample_failure = \<lparr>cancelled_before = False, session_events = [], session_result = Inl NatTimeout,
     elapsed = from_secs 10, cancelled_after = False, clock = 12345, cancelled_in_sleep = False\<rparr>"

definition sample_cancelled :: "(string, string, string, string, string) attempt" where
  "sample_cancelled = \<lparr>cancelled_before = False, session_events = [PeerConnected ''csid'' None, PeerDisconnected ''csid''],
     session_result = Inl SessionCancelled, elapsed = from_secs 5, cancelled_after = True, clock = 0, cancelled_in_sleep = False\<rparr>"

lemma sample_turn_failure:
  "\<not> cancelled_before sample_failure" "\<not> abandoned sample_failure" "\<not> attempt_stable sample_config sample_failure"
  "session_result sample_failure = Inl NatTimeout" "session_events sample_failure = []"
  "elapsed sample_failure = from_secs 10" "\<not> cancelled_in_sleep sample_failure"
  by (simp_all add: sample_failure_def abandoned_def attempt_stable_def is_stable_def)

theorem retry_schedule_witness:
  "\<exists>st st' log r. supervise_loop sample_config (\<lambda>_. ''error'') [sample_failure] (supervision_start sample_config (Some [])) = (st, False) \<and>
     supervise_turn sample_config (\<lambda>_. ''error'') sample_failure st = (st', False) \<and>
     sink st' = Some (log @ [AttemptFailed 2 ''error'' (from_secs 10) r]) \<and>
     1600000000 \<le> r \<and> r \<le> 2400000000"
proof -
  let ?et = "\<lambda>_ :: (string, string, string, string, string) PeerProxyError. ''error''"
  obtain st where st: "supervise_loop sample_config ?et [sample_failure] (supervision_start sample_config (Some [])) = (st, False)"
    by (simp add: turn_reported [OF sample_turn_failure(1,2)] sample_turn_failure)
  then have sent: "\<exists>sent. sink st = Some sent" and n: "attempts (summary st) = 1"
    by (auto simp: turn_reported [OF sample_turn_failure(1,2)] supervision_start_def SupervisorSummary_default_def
        sample_turn_failure Let_def)
  obtain st' where turn: "supervise_turn sample_config ?et sample_failure st = (st', False)"
    by (simp add: turn_reported [OF sample_turn_failure(1,2)] sample_turn_failure)
  then obtain log r where log: "sink st' = Some (log @ [AttemptFailed 2 ''error'' (from_secs 10) r])"
    using sent n by (auto simp: turn_reported [OF sample_turn_failure(1,2)] end_event_def sample_turn_failure)
  have durations: "initial_backoff sample_config = 1000000000" "max_backoff sample_config = 60000000000"
    "nonzero (initial_backoff sample_config) = 1000000000" "delay_cap sample_config = 60000000000"
    by (simp_all add: sample_config_def from_secs_def nonzero_def delay_cap_def first_delay_def)
  have b: "min (nonzero (initial_backoff sample_config) * 2 ^ (if attempt_stable sample_config sample_failure then 0
      else unstable_run (map (attempt_stable sample_config) [sample_failure]))) (delay_cap sample_config) = 2000000000"
    by (simp add: durations sample_turn_failure unstable_run_def nonzero_def)
  have max: "initial_backoff sample_config \<le> DURATION_MAX" "max_backoff sample_config \<le> DURATION_MAX"
    by (simp_all add: durations DURATION_MAX_def)
  have peers: "list_all is_peer_event (session_events sample_failure)" by (simp add: sample_turn_failure)
  have "min (2000000000 * 80 div 100) (2 ^ 64 - 1) \<le> r \<and> r \<le> 2000000000 * 120 div 100"
    using retry_schedule [OF max st sample_turn_failure(1) peers turn log, of r]
    unfolding Let_def b by blast
  then have "1600000000 \<le> r \<and> r \<le> 2400000000" by simp
  with st turn log show ?thesis by blast
qed

text \<open>
  C20. The summary agrees with the events. When the supervisor returns, the last event is
  \<open>Stopped\<close> with the summary it returns, attempts were numbered from one in order, the counters
  are the numbers of \<open>AttemptStarted\<close>, \<open>SessionEnded\<close> and \<open>AttemptFailed\<close> events, and every
  attempt was reported except at most one, which a cancellation abandoned: a cancelled session
  is never counted as failed.
\<close>

theorem summary_matches_events:
  assumes "supervise_with config error_text as (Some []) = (Some es, Some s)"
    and "\<forall>a \<in> set as. list_all is_peer_event (session_events a)"
  shows "\<exists>log abandoned_attempts. es = log @ [Stopped s] \<and> \<not> list_ex is_stopped log \<and> abandoned_attempts \<le> 1 \<and>
    started_attempts log = map of_nat [1..<Suc (ended_count log + failed_count log + abandoned_attempts)] \<and>
    attempts s = of_nat (ended_count log + failed_count log + abandoned_attempts) \<and>
    completed_sessions s = of_nat (ended_count log) \<and> failed_attempts s = of_nat (failed_count log)"
proof -
  obtain st where loop: "supervise_loop config error_text as (supervision_start config (Some [])) = (st, True)"
    and s: "s = summary st" "emit (sink st) (Stopped (summary st)) = Some es"
    using assms(1) by (auto simp: supervise_with_def split: prod.splits bool.splits)
  have "log_agrees [] (summary (supervision_start config (Some []))) 0"
    by (simp add: log_agrees_def supervision_start_def SupervisorSummary_default_def)
  from loop_log [OF loop _ this] assms(2) obtain log k where
    "sink st = Some log" "log_agrees log (summary st) k" "k \<le> 1" by (auto simp: supervision_start_def)
  with s show ?thesis
    by (intro exI [of _ log] exI [of _ k]) (simp add: log_agrees_def emit_def)
qed

theorem summary_matches_events_witness:
  "\<exists>es log. supervise_with sample_config (\<lambda>_. ''error'') [sample_failure, sample_cancelled] (Some []) =
       (Some es, Some \<lparr>attempts = 2, completed_sessions = 0, failed_attempts = 1\<rparr>) \<and>
     es = log @ [Stopped \<lparr>attempts = 2, completed_sessions = 0, failed_attempts = 1\<rparr>] \<and> started_attempts log = [1, 2]"
proof -
  let ?et = "\<lambda>_ :: (string, string, string, string, string) PeerProxyError. ''error''"
  have c: "\<not> cancelled_before sample_cancelled" "abandoned sample_cancelled"
    by (simp_all add: sample_cancelled_def abandoned_def)
  obtain es s e where run: "supervise_with sample_config ?et [sample_failure, sample_cancelled] (Some []) = (Some es, Some s)"
    and s: "s = \<lparr>attempts = 2, completed_sessions = 0, failed_attempts = 1\<rparr>"
    and es: "es = [AttemptStarted 1, AttemptFailed 1 ''error'' (from_secs 10) e, AttemptStarted 2] @
       session_events sample_cancelled @ [Stopped s]"
    by (simp add: supervise_with_def turn_reported [OF sample_turn_failure(1,2)] turn_abandoned [OF c]
        sample_turn_failure supervision_start_def SupervisorSummary_default_def emit_def end_event_def Let_def)
  have peers: "\<forall>a \<in> set [sample_failure, sample_cancelled]. list_all is_peer_event (session_events a)"
    by (simp add: sample_failure_def sample_cancelled_def)
  from summary_matches_events [OF run peers] obtain log where log: "es = log @ [Stopped s]" by blast
  then have "started_attempts log = started_attempts (butlast es)" by simp
  then have "started_attempts log = [1, 2]"
    unfolding es by (simp add: butlast_append sample_cancelled_def)
  with run s log show ?thesis by blast
qed

lemma pool_run_forwards:
  assumes "unbounded_mpsc uo"
  shows "\<exists>p out. pool_run uo ss (pool_start uo (Some [])) = Some p \<and> forwarded p = Some out \<and>
    (\<forall>i. of_slot i out @ (if Finished i \<in> set ss then [] else u_queued uo (worker_events p i)) = sent_to i ss)"
proof -
  have pc: "pool_channels uo" using assms by (rule pool_channels.intro)
  have start: "forwarded (pool_start uo (Some [])) = Some []" by (simp add: pool_start_def)
  obtain p out where p: "pool_run uo ss (pool_start uo (Some [])) = Some p" "forwarded p = Some out"
    "\<And>i. pool_channels.slot_log uo p i = pool_channels.slot_log uo (pool_start uo (Some [])) i @
       (if finished (pool_start uo (Some [])) i then [] else sent_to i ss)"
    "\<And>i. finished p i \<longleftrightarrow> finished (pool_start uo (Some [])) i \<or> Finished i \<in> set ss"
    using pool_channels.pool_run_log [OF pc start, of ss] by blast
  have "of_slot i out @ (if Finished i \<in> set ss then [] else u_queued uo (worker_events p i)) = sent_to i ss" for i
    using p(3) [of i] p(2) p(4) [of i]
    by (simp add: pool_channels.slot_log_def [OF pc] pool_start_def unbounded_mpsc.u_queued_new [OF assms])
  with p(1,2) show ?thesis by blast
qed

text \<open>
  C21. The pool forwards every event. Whatever the order in which workers send, forward and
  finish, forwarding ends, and what the pool reported for a slot is exactly what its worker
  sent, in order, once the worker has finished, and a prefix of it, followed by what waits in
  the worker's channel, before.
\<close>

theorem pool_forwards_events:
  assumes "unbounded_mpsc uo"
  shows "\<exists>p out. pool_run uo ss (pool_start uo (Some [])) = Some p \<and> forwarded p = Some out \<and>
    (\<forall>i. of_slot i out @ (if Finished i \<in> set ss then [] else u_queued uo (worker_events p i)) = sent_to i ss)"
  by (rule pool_run_forwards [OF assms])

theorem pool_forwards_events_witness:
  "\<exists>p out. pool_run list_unbounded [Sent 0 (AttemptStarted 1), Sent 1 (AttemptStarted 1), Forward 1, Sent 0 (PeerDisconnected ''x''), Finished 0]
       (pool_start list_unbounded (Some [])) = Some p \<and> forwarded p = Some out \<and>
     of_slot 0 out = [AttemptStarted 1, PeerDisconnected ''x'']"
proof -
  let ?ss = "[Sent 0 (AttemptStarted 1), Sent 1 (AttemptStarted 1), Forward 1, Sent 0 (PeerDisconnected ''x''), Finished 0]"
  obtain p out where p: "pool_run list_unbounded ?ss (pool_start list_unbounded (Some [])) = Some p" "forwarded p = Some out"
    and log: "\<And>i. of_slot i out @ (if Finished i \<in> set ?ss then [] else u_queued list_unbounded (worker_events p i)) = sent_to i ?ss"
    using pool_forwards_events [OF list_unbounded.unbounded_mpsc_axioms, of ?ss] by blast
  from p log [of 0] show ?thesis by simp
qed

end
