(* ===== verification/Ip_Text.thy ===== *)
theory Ip_Text
  imports Format
begin

text \<open>
  The parser of IP addresses of the standard library, \<open>str::parse\<close> for \<open>IpAddr\<close>. A parser reads
  from the front of the text and returns what is left; an address is text that leaves nothing.
\<close>

unbundle bit_operations_syntax

section \<open>Numbers\<close>

type_synonym 'a parser = "string \<Rightarrow> ('a \<times> string) option"

definition to_digit :: "nat \<Rightarrow> char \<Rightarrow> nat option" where
  "to_digit radix c =
     (let n = of_char c;
          d = (if 48 \<le> n \<and> n \<le> 57 then Some (n - 48)
               else if 97 \<le> n \<and> n \<le> 122 then Some (n - 87)
               else if 65 \<le> n \<and> n \<le> 90 then Some (n - 55) else None)
      in case d of Some v \<Rightarrow> if v < radix then Some v else None | None \<Rightarrow> None)"

definition digit_of :: "nat \<Rightarrow> char \<Rightarrow> bool" where
  "digit_of radix c \<longleftrightarrow> to_digit radix c \<noteq> None"

definition number_value :: "nat \<Rightarrow> string \<Rightarrow> nat" where
  "number_value radix ds = fold (\<lambda>c v. v * radix + the (to_digit radix c)) ds 0"

text \<open>
  \<open>read_number\<close>: all digits that follow, at most \<open>max_digits\<close> of them, with a value of at most
  \<open>largest\<close>.
\<close>

definition read_number :: "nat \<Rightarrow> nat \<Rightarrow> bool \<Rightarrow> nat \<Rightarrow> nat parser" where
  "read_number radix max_digits allow_zero_prefix largest s =
     (let ds = takeWhile (digit_of radix) s; v = number_value radix ds in
      if length ds > max_digits \<or> ds = [] \<or> v > largest then None
      else if \<not> allow_zero_prefix \<and> hd ds = CHR ''0'' \<and> length ds > 1 then None
      else Some (v, dropWhile (digit_of radix) s))"

definition read_separator :: "char \<Rightarrow> nat \<Rightarrow> 'a parser \<Rightarrow> 'a parser" where
  "read_separator sep i p s =
     (if i > 0 then (case s of [] \<Rightarrow> None | c # cs \<Rightarrow> if c = sep then p cs else None) else p s)"

section \<open>IPv4\<close>

fun read_octets :: "nat \<Rightarrow> nat \<Rightarrow> u8 list parser" where
  "read_octets 0 i s = Some ([], s)"
| "read_octets (Suc left) i s =
     (case read_separator CHR ''.'' i (read_number 10 3 False 255) s of
        None \<Rightarrow> None
      | Some (v, rest) \<Rightarrow>
          map_option (\<lambda>(vs, rest). (word_of_nat v # vs, rest)) (read_octets left (i + 1) rest))"

definition read_ipv4_addr :: "u8 list parser" where
  "read_ipv4_addr s = read_octets 4 0 s"

section \<open>IPv6\<close>

text \<open>
  \<open>read_groups\<close>, with the number of groups that may follow: the groups, whether they end in an
  embedded IPv4 address, and what is left.
\<close>

fun read_groups :: "nat \<Rightarrow> nat \<Rightarrow> string \<Rightarrow> u16 list \<times> bool \<times> string" where
  "read_groups 0 i s = ([], False, s)"
| "read_groups (Suc left) i s =
     (case (if left > 0 then read_separator CHR '':'' i read_ipv4_addr s else None) of
        Some (os, rest) \<Rightarrow>
          ([u16_from_be_bytes (os ! 0) (os ! 1), u16_from_be_bytes (os ! 2) (os ! 3)], True, rest)
      | None \<Rightarrow>
          (case read_separator CHR '':'' i (read_number 16 4 True 65535) s of
             None \<Rightarrow> ([], False, s)
           | Some (g, rest) \<Rightarrow>
               (case read_groups left (i + 1) rest of (gs, v4, rest) \<Rightarrow> (word_of_nat g # gs, v4, rest))))"

definition from_segments :: "u16 list \<Rightarrow> 128 word" where
  "from_segments ss = fold (\<lambda>s v. push_bit 16 v OR ucast s) ss 0"

definition read_ipv6_addr :: "u16 list parser" where
  "read_ipv6_addr s =
     (case read_groups 8 0 s of (head, head_ipv4, rest) \<Rightarrow>
        if length head = 8 then Some (head, rest)
        else if head_ipv4 then None
        else case rest of
          c # d # rest \<Rightarrow>
            if c = CHR '':'' \<and> d = CHR '':''
            then (case read_groups (8 - (length head + 1)) 0 rest of (tail, _, rest) \<Rightarrow>
                    Some (head @ replicate (8 - length head - length tail) 0 @ tail, rest))
            else None
        | _ \<Rightarrow> None)"

section \<open>Addresses\<close>

definition parse_ip_addr :: "string \<Rightarrow> IpAddr option" where
  "parse_ip_addr s =
     (case read_ipv4_addr s of
        Some (os, rest) \<Rightarrow>
          if rest = [] then Some (IpV4 (u32_from_be_bytes (os ! 0) (os ! 1) (os ! 2) (os ! 3))) else None
      | None \<Rightarrow>
          (case read_ipv6_addr s of
             Some (ss, rest) \<Rightarrow> if rest = [] then Some (IpV6 (from_segments ss)) else None
           | None \<Rightarrow> None))"

section \<open>Examples\<close>

lemma read_octets_numeral [simp]:
  "read_octets (numeral k) i s =
     (case read_separator CHR ''.'' i (read_number 10 3 False 255) s of
        None \<Rightarrow> None
      | Some (v, rest) \<Rightarrow>
          map_option (\<lambda>(vs, rest). (word_of_nat v # vs, rest)) (read_octets (pred_numeral k) (i + 1) rest))"
  by (simp add: numeral_eq_Suc)

lemma read_groups_numeral [simp]:
  "read_groups (numeral k) i s =
     (case (if pred_numeral k > 0 then read_separator CHR '':'' i read_ipv4_addr s else None) of
        Some (os, rest) \<Rightarrow>
          ([u16_from_be_bytes (os ! 0) (os ! 1), u16_from_be_bytes (os ! 2) (os ! 3)], True, rest)
      | None \<Rightarrow>
          (case read_separator CHR '':'' i (read_number 16 4 True 65535) s of
             None \<Rightarrow> ([], False, s)
           | Some (g, rest) \<Rightarrow>
               (case read_groups (pred_numeral k) (i + 1) rest of (gs, v4, rest) \<Rightarrow> (word_of_nat g # gs, v4, rest))))"
  by (simp add: numeral_eq_Suc)

lemma funpow_step: "(f ^^ numeral k) x = f ((f ^^ pred_numeral k) x)"
  by (simp add: numeral_eq_Suc)

lemmas ip_parser_defs = parse_ip_addr_def read_ipv4_addr_def read_ipv6_addr_def read_separator_def read_number_def
  number_value_def digit_of_def to_digit_def from_segments_def u32_from_be_bytes_def u16_from_be_bytes_def

lemma parse_ipv4_examples:
  "parse_ip_addr ''10.0.0.1'' = Some (IpV4 0x0A000001)"
  "parse_ip_addr ''10.0.0.01'' = None" "parse_ip_addr ''1.2.3.256'' = None" "parse_ip_addr ''1.2.3.4.5'' = None"
  "parse_ip_addr ''host.local'' = None" "parse_ip_addr [] = None"
  by (simp_all add: ip_parser_defs Let_def)

lemma parse_ipv6_examples:
  "parse_ip_addr ''2001:db8::1'' = Some (IpV6 0x20010DB8000000000000000000000001)"
  "parse_ip_addr ''::ffff:1.2.3.4'' = Some (IpV6 0xFFFF01020304)" "parse_ip_addr ''::'' = Some (IpV6 0)"
  by (simp_all add: ip_parser_defs Let_def funpow_step)

end
