(* ===== verification/Peer_Callbacks.thy ===== *)
theory Peer_Callbacks
  imports Peer_Types Rtc Ip_Text
begin

text \<open>
  The handlers that a peer proxy session registers on its peer connection
  (\<open>src/src/peer_proxy.rs\<close>, the first half of \<open>run_peer_proxy_until_cancelled\<close> and the helpers
  after it). The WebRTC crate runs them at any time and in any order with the session; a handler
  of the state \<open>Connected\<close> waits for the selected candidate pair before it reports.
\<close>

section \<open>Candidates and events\<close>

datatype RTCIceProtocol = ProtocolUnspecified | ProtocolUdp | ProtocolTcp

record 'ty RTCIceCandidate =
  stats_id :: string
  ice_foundation :: string
  ice_priority :: u32
  ice_address :: string
  ice_protocol :: RTCIceProtocol
  ice_port :: u16
  ice_typ :: 'ty
  ice_component :: u16
  ice_related_address :: string
  ice_related_port :: u16
  ice_tcp_type :: string

record 'ty RTCIceCandidatePair =
  pair_local :: "'ty RTCIceCandidate"
  pair_remote :: "'ty RTCIceCandidate"

definition socket_addr_from_candidate :: "'ty RTCIceCandidate \<Rightarrow> SocketAddr option" where
  "socket_addr_from_candidate candidate =
     (case parse_ip_addr (ice_address candidate) of
        None \<Rightarrow> None
      | Some ip \<Rightarrow> Some (SocketAddr_new ip (ice_port candidate)))"

definition peer_connected_event ::
    "string \<Rightarrow> 'ty RTCIceCandidatePair option \<Rightarrow> SupervisorEvent" where
  "peer_connected_event session_id selected_pair =
     PeerConnected session_id
       (Option.bind selected_pair (\<lambda>pair. socket_addr_from_candidate (pair_remote pair)))"

definition peer_disconnected_event :: "string \<Rightarrow> SupervisorEvent" where
  "peer_disconnected_event session_id = PeerDisconnected session_id"

section \<open>The shared state\<close>

text \<open>
  \<open>waiter\<close> tells whether the sender of the one-shot channel is still there, \<open>waiter_sent\<close> what
  went through it; \<open>offered\<close> holds the adapter of every accepted data channel until its open
  callback takes it; \<open>awaiting_pair\<close> holds the session identifiers of the \<open>Connected\<close> handlers
  that wait for the candidate pair.
\<close>

record 'p peer_handlers =
  shared_session_id :: "string option"
  connect_emitted :: bool
  disconnect_emitted :: bool
  waiter :: bool
  waiter_sent :: "(RTCPeerConnectionState + 'p) list"
  offered :: "'p option list"
  awaiting_pair :: "string list"
  handler_events :: "SupervisorEvent list option"

definition peer_handlers_new :: "SupervisorEvent list option \<Rightarrow> 'p peer_handlers" where
  "peer_handlers_new es =
     \<lparr>shared_session_id = None, connect_emitted = False, disconnect_emitted = False, waiter = True,
      waiter_sent = [], offered = [], awaiting_pair = [], handler_events = es\<rparr>"

section \<open>The handlers\<close>

definition fail_data_channel_wait :: "RTCPeerConnectionState \<Rightarrow> 'p peer_handlers \<Rightarrow> 'p peer_handlers" where
  "fail_data_channel_wait state h =
     (if is_terminal_peer_state state
      then if waiter h then h\<lparr>waiter := False, waiter_sent := waiter_sent h @ [Inl state]\<rparr> else h
      else h)"

definition on_state_change :: "RTCPeerConnectionState \<Rightarrow> 'p peer_handlers \<Rightarrow> 'p peer_handlers" where
  "on_state_change state h0 =
     (let h = fail_data_channel_wait state h0 in
      case handler_events h of
        None \<Rightarrow> h
      | Some es \<Rightarrow>
          (case shared_session_id h of
             None \<Rightarrow> h
           | Some session_id \<Rightarrow>
               if state = StateConnected
               then h\<lparr>connect_emitted := True, awaiting_pair := awaiting_pair h @ [session_id]\<rparr>
               else if is_disconnect_state state \<and> connect_emitted h \<and> \<not> disconnect_emitted h
               then h\<lparr>disconnect_emitted := True, handler_events := Some (es @ [peer_disconnected_event session_id])\<rparr>
               else h))"

text \<open>The rest of the \<open>Connected\<close> handler, once the selected pair (or that there is none) is known.\<close>

definition on_pair_selected ::
    "nat \<Rightarrow> 'ty RTCIceCandidatePair option \<Rightarrow> 'p peer_handlers \<Rightarrow> 'p peer_handlers" where
  "on_pair_selected i pair h =
     (if i < length (awaiting_pair h)
      then h\<lparr>awaiting_pair := take i (awaiting_pair h) @ drop (Suc i) (awaiting_pair h),
             handler_events := map_option (\<lambda>es. es @ [peer_connected_event (awaiting_pair h ! i) pair])
                                 (handler_events h)\<rparr>
      else h)"

definition on_data_channel :: "string \<Rightarrow> 'p \<Rightarrow> 'p peer_handlers \<Rightarrow> 'p peer_handlers" where
  "on_data_channel label datagrams h =
     (if label = DATA_CHANNEL_LABEL then h\<lparr>offered := offered h @ [Some datagrams]\<rparr> else h)"

text \<open>Both options are taken before they are looked at.\<close>

definition on_open :: "nat \<Rightarrow> 'p peer_handlers \<Rightarrow> 'p peer_handlers" where
  "on_open i h =
     (if i < length (offered h)
      then
        let tx = waiter h;
            datagrams = offered h ! i;
            h1 = h\<lparr>waiter := False, offered := (offered h)[i := None]\<rparr>
        in case datagrams of
             Some d \<Rightarrow> if tx then h1\<lparr>waiter_sent := waiter_sent h1 @ [Inr d]\<rparr> else h1
           | None \<Rightarrow> h1
      else h)"

definition publish_session_id :: "string \<Rightarrow> 'p peer_handlers \<Rightarrow> 'p peer_handlers" where
  "publish_session_id session_id h = h\<lparr>shared_session_id := Some session_id\<rparr>"

datatype ('p, 'ty) handler_step =
    StateChange RTCPeerConnectionState
  | PairSelected nat "'ty RTCIceCandidatePair option"
  | ChannelOffered string 'p
  | ChannelOpened nat
  | Publish string

fun handler_do :: "('p, 'ty) handler_step \<Rightarrow> 'p peer_handlers \<Rightarrow> 'p peer_handlers" where
  "handler_do (StateChange state) h = on_state_change state h"
| "handler_do (PairSelected i pair) h = on_pair_selected i pair h"
| "handler_do (ChannelOffered label d) h = on_data_channel label d h"
| "handler_do (ChannelOpened i) h = on_open i h"
| "handler_do (Publish session_id) h = publish_session_id session_id h"

definition handler_run :: "('p, 'ty) handler_step list \<Rightarrow> 'p peer_handlers \<Rightarrow> 'p peer_handlers" where
  "handler_run ss h = fold (handler_do) ss h"

section \<open>What the handlers report\<close>

fun is_disconnect :: "SupervisorEvent \<Rightarrow> bool" where
  "is_disconnect (PeerDisconnected session_id) = True"
| "is_disconnect _ = False"

fun is_connect :: "SupervisorEvent \<Rightarrow> bool" where
  "is_connect (PeerConnected session_id a) = True"
| "is_connect _ = False"

fun labelled :: "string \<Rightarrow> SupervisorEvent \<Rightarrow> bool" where
  "labelled session_id (PeerConnected i a) \<longleftrightarrow> i = session_id"
| "labelled session_id (PeerDisconnected i) \<longleftrightarrow> i = session_id"
| "labelled session_id _ \<longleftrightarrow> False"

abbreviation disconnects :: "SupervisorEvent list \<Rightarrow> nat" where
  "disconnects es \<equiv> length (filter is_disconnect es)"

lemma event_kinds [simp]:
  "\<not> is_disconnect (peer_connected_event i pair)" "is_connect (peer_connected_event i pair)"
  "is_disconnect (peer_disconnected_event i)" "\<not> is_connect (peer_disconnected_event i)"
  "labelled j (peer_connected_event i pair) \<longleftrightarrow> i = j" "labelled j (peer_disconnected_event i) \<longleftrightarrow> i = j"
  by (simp_all add: peer_connected_event_def peer_disconnected_event_def)

text \<open>The invariant of the shared state for a session that publishes \<open>session_id\<close>.\<close>

definition handlers_ok :: "string \<Rightarrow> 'p peer_handlers \<Rightarrow> bool" where
  "handlers_ok session_id h \<longleftrightarrow>
     (\<exists>es. handler_events h = Some es \<and> list_all (labelled session_id) es \<and>
        disconnects es = (if disconnect_emitted h then 1 else 0)) \<and>
     shared_session_id h \<in> {None, Some session_id} \<and> set (awaiting_pair h) \<subseteq> {session_id} \<and>
     (disconnect_emitted h \<longrightarrow> connect_emitted h)"

definition waiter_ok :: "'p peer_handlers \<Rightarrow> bool" where
  "waiter_ok h \<longleftrightarrow> length (waiter_sent h) \<le> 1 \<and> (waiter h \<longrightarrow> waiter_sent h = [])"

lemma fail_data_channel_wait_frame [simp]:
  "handler_events (fail_data_channel_wait state h) = handler_events h"
  "shared_session_id (fail_data_channel_wait state h) = shared_session_id h"
  "awaiting_pair (fail_data_channel_wait state h) = awaiting_pair h"
  "connect_emitted (fail_data_channel_wait state h) = connect_emitted h"
  "disconnect_emitted (fail_data_channel_wait state h) = disconnect_emitted h"
  "offered (fail_data_channel_wait state h) = offered h"
  by (simp_all add: fail_data_channel_wait_def)

lemma on_state_change_ok: "handlers_ok i h \<Longrightarrow> handlers_ok i (on_state_change state h)"
  by (auto simp: on_state_change_def Let_def handlers_ok_def split: option.splits)

lemma on_pair_selected_ok:
  assumes "handlers_ok j h"
  shows "handlers_ok j (on_pair_selected i pair h)"
proof (cases "i < length (awaiting_pair h)")
  case True
  have "set (awaiting_pair h) \<subseteq> {j}" using assms by (simp add: handlers_ok_def)
  with nth_mem [OF True] have "awaiting_pair h ! i = j" by blast
  moreover have "set (take i (awaiting_pair h) @ drop (Suc i) (awaiting_pair h)) \<subseteq> set (awaiting_pair h)"
    by (auto dest: in_set_takeD in_set_dropD)
  ultimately show ?thesis
    using assms True by (auto simp: on_pair_selected_def handlers_ok_def)
qed (use assms in \<open>simp add: on_pair_selected_def\<close>)

lemma handler_do_ok:
  assumes "handlers_ok i h" and "\<And>j. s = Publish j \<Longrightarrow> j = i"
  shows "handlers_ok i (handler_do s h)"
proof (cases s)
  case (ChannelOffered label d)
  with assms show ?thesis by (auto simp: on_data_channel_def handlers_ok_def)
next
  case (ChannelOpened k)
  with assms show ?thesis by (auto simp: on_open_def Let_def handlers_ok_def split: option.splits)
next
  case (Publish j)
  with assms show ?thesis by (auto simp: publish_session_id_def handlers_ok_def)
qed (use assms in \<open>simp_all add: on_state_change_ok on_pair_selected_ok\<close>)

lemma handler_do_waiter: "waiter_ok h \<Longrightarrow> waiter_ok (handler_do s h)"
  by (cases s)
    (auto simp: waiter_ok_def on_state_change_def fail_data_channel_wait_def on_pair_selected_def
      on_data_channel_def on_open_def publish_session_id_def Let_def split: option.splits)

lemma handler_run_Cons [simp]: "handler_run (s # ss) h = handler_run ss (handler_do s h)"
  by (simp add: handler_run_def)

lemma handler_run_Nil [simp]: "handler_run [] h = h"
  by (simp add: handler_run_def)

lemma handler_run_append: "handler_run (ss @ ts) h = handler_run ts (handler_run ss h)"
  by (simp add: handler_run_def)

lemma handler_run_ok:
  "handlers_ok i h \<Longrightarrow> (\<And>j. Publish j \<in> set ss \<Longrightarrow> j = i) \<Longrightarrow> handlers_ok i (handler_run ss h)"
proof (induction ss arbitrary: h)
  case (Cons s ss)
  have "handlers_ok i (handler_do s h)"
    by (rule handler_do_ok [OF Cons.prems(1)]) (use Cons.prems(2) in auto)
  with Cons show ?case by auto
qed simp

lemma handler_run_waiter: "waiter_ok h \<Longrightarrow> waiter_ok (handler_run ss h)"
  by (induction ss arbitrary: h) (simp_all add: handler_do_waiter)

lemma handlers_new_ok: "handlers_ok i (peer_handlers_new (Some []))" "waiter_ok (peer_handlers_new es)"
  by (simp_all add: handlers_ok_def waiter_ok_def peer_handlers_new_def)

text \<open>Only a \<open>Connected\<close> state opens the way to a disconnect event.\<close>

lemma handler_do_connect:
  "s \<noteq> StateChange StateConnected \<Longrightarrow> connect_emitted (handler_do s h) = connect_emitted h"
  by (cases s)
    (auto simp: on_state_change_def on_pair_selected_def on_data_channel_def on_open_def publish_session_id_def
      Let_def split: option.splits)

lemma handler_run_connect:
  "connect_emitted (handler_run ss h) \<Longrightarrow> connect_emitted h \<or> StateChange StateConnected \<in> set ss"
proof (induction ss arbitrary: h)
  case (Cons s ss)
  from Cons.IH [of "handler_do s h"] Cons.prems show ?case
    by (cases "s = StateChange StateConnected") (auto simp: handler_do_connect)
qed simp

text \<open>
  Handlers that run one after another: every \<open>Connected\<close> handler gets its pair before the next
  state change. Their events are a function of the states.
\<close>

fun sequential :: "(RTCPeerConnectionState \<times> 'ty RTCIceCandidatePair option) list \<Rightarrow> ('p, 'ty) handler_step list" where
  "sequential [] = []"
| "sequential ((state, pair) # ss) =
     StateChange state # (if state = StateConnected then [PairSelected 0 pair] else []) @ sequential ss"

fun state_events ::
    "string \<Rightarrow> bool \<Rightarrow> bool
       \<Rightarrow> (RTCPeerConnectionState \<times> 'ty RTCIceCandidatePair option) list \<Rightarrow> SupervisorEvent list" where
  "state_events i connected disconnected [] = []"
| "state_events i connected disconnected ((state, pair) # ss) =
     (if state = StateConnected
      then peer_connected_event i pair # state_events i True disconnected ss
      else if is_disconnect_state state \<and> connected \<and> \<not> disconnected
      then peer_disconnected_event i # state_events i connected True ss
      else state_events i connected disconnected ss)"

lemma on_state_change_known:
  assumes "handler_events h = Some es" "shared_session_id h = Some i"
  shows "handler_events (on_state_change state h) =
      Some (es @ (if is_disconnect_state state \<and> connect_emitted h \<and> \<not> disconnect_emitted h
                  then [peer_disconnected_event i] else []))"
    and "awaiting_pair (on_state_change state h) = awaiting_pair h @ (if state = StateConnected then [i] else [])"
    and "connect_emitted (on_state_change state h) \<longleftrightarrow> connect_emitted h \<or> state = StateConnected"
    and "disconnect_emitted (on_state_change state h) \<longleftrightarrow>
      disconnect_emitted h \<or> is_disconnect_state state \<and> connect_emitted h"
    and "shared_session_id (on_state_change state h) = Some i"
  using assms by (auto simp: on_state_change_def Let_def peer_state_defs)

lemma sequential_events:
  "handler_events h = Some es \<Longrightarrow> shared_session_id h = Some i \<Longrightarrow> awaiting_pair h = [] \<Longrightarrow>
     handler_events (handler_run (sequential ss) h) =
       Some (es @ state_events i (connect_emitted h) (disconnect_emitted h) ss)"
proof (induction ss arbitrary: h es)
  case (Cons s ss)
  obtain state pair where s: "s = (state, pair)" by fastforce
  note C = on_state_change_known [OF Cons.prems(1,2), of state]
  let ?h = "on_state_change state h"
  show ?case
  proof (cases "state = StateConnected")
    case True
    with C Cons.prems have "awaiting_pair ?h = [i]" "handler_events ?h = Some es"
      by (simp_all add: peer_state_defs)
    then have "handler_events (on_pair_selected 0 pair ?h) = Some (es @ [peer_connected_event i pair])"
      "awaiting_pair (on_pair_selected 0 pair ?h) = []"
      "shared_session_id (on_pair_selected 0 pair ?h) = Some i"
      "connect_emitted (on_pair_selected 0 pair ?h)"
      "disconnect_emitted (on_pair_selected 0 pair ?h) = disconnect_emitted h"
      using C True by (simp_all add: on_pair_selected_def peer_state_defs)
    with Cons.IH True s show ?thesis by simp
  next
    case False
    with C Cons.prems Cons.IH [of ?h] s show ?thesis by auto
  qed
qed simp

lemma state_events_done: "disconnects (state_events i connected True ss) = 0"
  by (induction ss arbitrary: connected) auto

lemma state_events_connected_once:
  "list_ex (\<lambda>s. is_disconnect_state (fst s)) ss \<Longrightarrow> disconnects (state_events i True False ss) = 1"
proof (induction ss)
  case (Cons s ss)
  then show ?case
    using state_events_done [of i True ss] by (cases s) (auto simp: peer_state_defs)
qed simp

lemma state_events_once:
  "connected \<or> StateConnected \<in> fst ` set ss \<Longrightarrow> list_ex (\<lambda>s. is_disconnect_state (fst s)) ts \<Longrightarrow>
     disconnects (state_events i connected False (ss @ ts)) = 1"
proof (induction ss arbitrary: connected)
  case Nil
  then show ?case using state_events_connected_once [of ts i] by simp
next
  case (Cons s ss)
  then show ?case
    using state_events_done [of i True "ss @ ts"] by (cases s) auto
qed

lemma state_events_connects:
  "length (filter is_connect (state_events i connected disconnected ss)) =
     length (filter (\<lambda>s. fst s = StateConnected) ss)"
  by (induction ss arbitrary: connected disconnected) auto

lemma state_events_first:
  "state_events i False disconnected ss = e # es \<Longrightarrow> is_connect e"
  by (induction ss arbitrary: disconnected) (auto split: if_splits)

section \<open>Properties\<close>

text \<open>
  C22. The handlers of a session never report twice. Whatever the order of state changes,
  candidate pairs, data channels and the publication of the session identifier, every event
  carries the published identifier, there is at most one \<open>PeerDisconnected\<close>, it follows a state
  change to \<open>Connected\<close>, and at most one value is sent to the task that waits for the channel.
\<close>

theorem handlers_report_once:
  assumes "\<And>j. Publish j \<in> set ss \<Longrightarrow> j = i"
  shows "let h = handler_run ss (peer_handlers_new (Some [])) in
    \<exists>es. handler_events h = Some es \<and> list_all (labelled i) es \<and> disconnects es \<le> 1 \<and>
      (0 < disconnects es \<longrightarrow> StateChange StateConnected \<in> set ss) \<and> length (waiter_sent h) \<le> 1"
proof -
  let ?h = "handler_run ss (peer_handlers_new (Some []))"
  have ok: "handlers_ok i ?h" by (rule handler_run_ok [OF handlers_new_ok(1)]) (use assms in blast)
  have w: "waiter_ok ?h" by (rule handler_run_waiter [OF handlers_new_ok(2)])
  have "connect_emitted ?h \<Longrightarrow> StateChange StateConnected \<in> set ss"
    using handler_run_connect [of ss "peer_handlers_new (Some [])"] by (simp add: peer_handlers_new_def)
  with ok w show ?thesis by (auto simp: Let_def handlers_ok_def waiter_ok_def)
qed

theorem handlers_report_once_witness:
  "let h = handler_run [Publish ''csid'', StateChange StateConnected, StateChange StateDisconnected,
       StateChange StateClosed, PairSelected 0 (None :: unit RTCIceCandidatePair option)] (peer_handlers_new (Some []) :: nat peer_handlers) in
    handler_events h = Some [PeerDisconnected ''csid'', PeerConnected ''csid'' None] \<and>
    disconnects (the (handler_events h)) \<le> 1 \<and> waiter_sent h = [Inl StateDisconnected]"
proof -
  let ?ss = "[Publish ''csid'', StateChange StateConnected, StateChange StateDisconnected, StateChange StateClosed,
    PairSelected 0 (None :: unit RTCIceCandidatePair option)] :: (nat, unit) handler_step list"
  have "disconnects (the (handler_events (handler_run ?ss (peer_handlers_new (Some []))))) \<le> 1"
    using handlers_report_once [of ?ss "''csid''"] by (auto simp: Let_def)
  then show ?thesis
    by (simp add: Let_def publish_session_id_def on_state_change_def on_pair_selected_def fail_data_channel_wait_def
        peer_handlers_new_def peer_state_defs peer_connected_event_def peer_disconnected_event_def)
qed

text \<open>
  C23. A connected session that ends is reported as disconnected exactly once. When the handlers
  run one after another and the identifier is known, a sequence of states with a
  \<open>Connected\<close> and, later, a disconnected, failed or closed one gives exactly one \<open>PeerDisconnected\<close>; the
  first event is a \<open>PeerConnected\<close>, and there is one \<open>PeerConnected\<close> for every \<open>Connected\<close>.
\<close>

theorem disconnect_exactly_once:
  assumes "StateConnected \<in> fst ` set ss" and "list_ex (\<lambda>s. is_disconnect_state (fst s)) ts"
  shows "\<exists>e es. handler_events (handler_run (Publish i # sequential (ss @ ts)) (peer_handlers_new (Some []))) =
      Some (e # es) \<and> is_connect e \<and> disconnects (e # es) = 1 \<and>
      length (filter is_connect (e # es)) = length (filter (\<lambda>s. fst s = StateConnected) (ss @ ts))"
proof -
  let ?es = "state_events i False False (ss @ ts)"
  have run: "handler_events (handler_run (Publish i # sequential (ss @ ts)) (peer_handlers_new (Some []))) = Some ?es"
    using sequential_events [of "publish_session_id i (peer_handlers_new (Some []))" "[]" i "ss @ ts"]
    by (simp add: publish_session_id_def peer_handlers_new_def)
  have one: "disconnects ?es = 1" using assms by (intro state_events_once) auto
  then obtain e es where es: "?es = e # es" by (cases ?es) auto
  have "is_connect e" by (rule state_events_first [OF es])
  with run one state_events_connects [of i False False "ss @ ts"] show ?thesis
    unfolding es by blast
qed

theorem disconnect_exactly_once_witness:
  "\<exists>e es. handler_events (handler_run (Publish ''csid'' # sequential
       ([(StateConnecting, None), (StateConnected, None :: unit RTCIceCandidatePair option)] @ [(StateFailed, None), (StateClosed, None)]))
       (peer_handlers_new (Some []) :: nat peer_handlers)) = Some (e # es) \<and> is_connect e \<and> disconnects (e # es) = 1"
  using disconnect_exactly_once [of "[(StateConnecting, None), (StateConnected, None :: unit RTCIceCandidatePair option)]"
      "[(StateFailed, None), (StateClosed, None)]" "''csid''"]
  by (fastforce simp: peer_state_defs)


end
