(* ===== verification/Session_Calls.thy ===== *)
theory Session_Calls
  imports Prelude
begin

text \<open>
  Asynchronous straight-line code as a sequence of calls: a session performs a call, waits for
  its result, and goes on or returns the error (\<open>call().await?\<close>). The result of a session is the
  list of the calls it made and what it returned, \<open>None\<close> while its last call has not returned.
  Orders of calls are checked by automata that read the list.
\<close>

section \<open>Sessions\<close>

type_synonym ('c, 'e, 'a) session = "'c list \<times> ('e + 'a) option"

definition perform :: "'c \<Rightarrow> 'e + 'a \<Rightarrow> ('a \<Rightarrow> ('c, 'e, 'b) session) \<Rightarrow> ('c, 'e, 'b) session" where
  "perform c r k =
     (case r of Inl e \<Rightarrow> ([c], Some (Inl e)) | Inr a \<Rightarrow> (case k a of (cs, res) \<Rightarrow> (c # cs, res)))"

text \<open>A call that may not have returned yet.\<close>

definition perform_opt :: "'c \<Rightarrow> ('e + 'a) option \<Rightarrow> ('a \<Rightarrow> ('c, 'e, 'b) session) \<Rightarrow> ('c, 'e, 'b) session" where
  "perform_opt c r k = (case r of None \<Rightarrow> ([c], None) | Some r \<Rightarrow> perform c r k)"

text \<open>A fallible computation that is not a call.\<close>

definition attempt_pure :: "'e + 'a \<Rightarrow> ('a \<Rightarrow> ('c, 'e, 'b) session) \<Rightarrow> ('c, 'e, 'b) session" where
  "attempt_pure r k = (case r of Inl e \<Rightarrow> ([], Some (Inl e)) | Inr a \<Rightarrow> k a)"

text \<open>
  The future of a session is dropped after its first \<open>n\<close> calls when the cancellation wins the
  biased \<open>select!\<close>.
\<close>

definition until_cancelled :: "nat option \<Rightarrow> 'e \<Rightarrow> ('c, 'e, 'a) session \<Rightarrow> ('c, 'e, 'a) session" where
  "until_cancelled cancel e s =
     (case cancel of None \<Rightarrow> s | Some n \<Rightarrow> (take n (fst s), Some (Inl e)))"

text \<open>A clean-up call whose own result is ignored, made when the session has returned.\<close>

definition close_after :: "'c \<Rightarrow> ('c, 'e, 'a) session \<Rightarrow> ('c, 'e, 'a) session" where
  "close_after c s = (case s of (cs, None) \<Rightarrow> (cs, None) | (cs, Some r) \<Rightarrow> (cs @ [c], Some r))"

section \<open>Results\<close>

lemma perform_Inr:
  "perform c r k = (cs, Some (Inr b)) \<longleftrightarrow> (\<exists>a cs'. r = Inr a \<and> k a = (cs', Some (Inr b)) \<and> cs = c # cs')"
  by (auto simp: perform_def split: sum.splits prod.splits)

lemma perform_opt_Inr:
  "perform_opt c r k = (cs, Some (Inr b)) \<longleftrightarrow>
     (\<exists>a cs'. r = Some (Inr a) \<and> k a = (cs', Some (Inr b)) \<and> cs = c # cs')"
  by (auto simp: perform_opt_def perform_Inr split: option.splits)

lemma attempt_pure_Inr:
  "attempt_pure r k = (cs, Some (Inr b)) \<longleftrightarrow> (\<exists>a. r = Inr a \<and> k a = (cs, Some (Inr b)))"
  by (auto simp: attempt_pure_def split: sum.splits)

lemma until_cancelled_Inr:
  "until_cancelled cancel e s = (cs, Some (Inr b)) \<longleftrightarrow> cancel = None \<and> s = (cs, Some (Inr b))"
  by (auto simp: until_cancelled_def split: option.splits)

lemma close_after_Inr:
  "close_after c s = (cs, Some (Inr b)) \<longleftrightarrow> (\<exists>cs'. s = (cs', Some (Inr b)) \<and> cs = cs' @ [c])"
  by (auto simp: close_after_def split: prod.splits option.splits)

lemmas session_Inr = perform_Inr perform_opt_Inr attempt_pure_Inr until_cancelled_Inr close_after_Inr

section \<open>Order of calls\<close>

fun accepts :: "('m \<Rightarrow> 'c \<Rightarrow> 'm option) \<Rightarrow> 'm \<Rightarrow> 'c list \<Rightarrow> bool" where
  "accepts step m [] = True"
| "accepts step m (c # cs) = (case step m c of None \<Rightarrow> False | Some m' \<Rightarrow> accepts step m' cs)"

lemma accepts_take: "accepts step m cs \<Longrightarrow> accepts step m (take n cs)"
  by (induction cs arbitrary: m n) (auto simp: take_Cons split: nat.split option.splits)

lemma accepts_perform [intro]:
  assumes "step m c = Some m'" and "\<And>a. r = Inr a \<Longrightarrow> accepts step m' (fst (k a))"
  shows "accepts step m (fst (perform c r k))"
  using assms by (auto simp: perform_def split: sum.splits prod.splits)

lemma accepts_perform_opt [intro]:
  assumes "step m c = Some m'" and "\<And>a. r = Some (Inr a) \<Longrightarrow> accepts step m' (fst (k a))"
  shows "accepts step m (fst (perform_opt c r k))"
  using assms by (auto simp: perform_opt_def split: option.splits)

lemma accepts_attempt_pure [intro]:
  assumes "\<And>a. r = Inr a \<Longrightarrow> accepts step m (fst (k a))"
  shows "accepts step m (fst (attempt_pure r k))"
  using assms by (auto simp: attempt_pure_def split: sum.splits)

lemma accepts_until_cancelled [intro]:
  "accepts step m (fst s) \<Longrightarrow> accepts step m (fst (until_cancelled cancel e s))"
  by (auto simp: until_cancelled_def accepts_take split: option.splits)

lemma accepts_snoc:
  "accepts step m cs \<Longrightarrow> (\<And>m'. step m' c \<noteq> None) \<Longrightarrow> accepts step m (cs @ [c])"
  by (induction cs arbitrary: m) (auto split: option.splits)

lemma accepts_close_after [intro]:
  "accepts step m (fst s) \<Longrightarrow> (\<And>m'. step m' c \<noteq> None) \<Longrightarrow> accepts step m (fst (close_after c s))"
  by (cases s) (auto simp: close_after_def intro: accepts_snoc split: option.splits)

text \<open>The automaton that refuses one call.\<close>

lemma accepts_without: "accepts (\<lambda>u c. if c = x then None else Some u) () cs \<longleftrightarrow> x \<notin> set cs"
  by (induction cs) auto

section \<open>Errors\<close>

definition fails_with :: "('e \<Rightarrow> bool) \<Rightarrow> ('c, 'e, 'a) session \<Rightarrow> bool" where
  "fails_with P s \<longleftrightarrow> (\<forall>e. snd s = Some (Inl e) \<longrightarrow> P e)"

lemma fails_with_perform:
  assumes "\<And>e. r = Inl e \<Longrightarrow> P e" and "\<And>a. r = Inr a \<Longrightarrow> fails_with P (k a)"
  shows "fails_with P (perform c r k)"
  using assms by (cases r) (auto simp: fails_with_def perform_def split: prod.splits)

lemma fails_with_attempt_pure:
  assumes "\<And>e. r = Inl e \<Longrightarrow> P e" and "\<And>a. r = Inr a \<Longrightarrow> fails_with P (k a)"
  shows "fails_with P (attempt_pure r k)"
  using assms by (cases r) (auto simp: fails_with_def attempt_pure_def)

lemma fails_with_until_cancelled: "P e \<Longrightarrow> fails_with P s \<Longrightarrow> fails_with P (until_cancelled cancel e s)"
  by (auto simp: fails_with_def until_cancelled_def split: option.splits)

lemma fails_with_close_after: "fails_with P s \<Longrightarrow> fails_with P (close_after c s)"
  by (cases s) (auto simp: fails_with_def close_after_def split: option.splits)

lemma fails_with_return [simp]: "fails_with P (cs, Some (Inr a))" "fails_with P (cs, None)"
  by (simp_all add: fails_with_def)

end
