(* ===== verification/Peer_Proxy.thy ===== *)
theory Peer_Proxy
  imports Peer_Types Peer_Callbacks Rtc Egress_Tunnel Signaling Session_Calls
begin

text \<open>
  A peer proxy session, \<open>run_peer_proxy_until_cancelled\<close> of \<open>src/src/peer_proxy.rs\<close>: signaling
  with Freddie, the WebRTC answer, the consumer's candidates, the wait for the data channel, the
  egress tunnel and the relay between them. The answers of the signaling server, of the WebRTC
  crate and of the JSON decoders are arguments; the egress connection and the relay are the
  definitions of their theories.
\<close>

section \<open>Messages\<close>

record 'sd OfferMessage =
  sdp :: 'sd
  tag :: string

record 'ty PionIceCandidate =
  pion_foundation :: string
  pion_priority :: u32
  pion_address :: string
  pion_protocol :: u8
  pion_port :: u16
  pion_typ :: 'ty
  pion_component :: u16
  pion_related_address :: string
  pion_related_port :: u16
  pion_tcp_type :: string
  pion_sdp_mid :: "string option"
  pion_sdp_mline_index :: "u16 option"

record 'ty IceMessage =
  candidates :: "'ty PionIceCandidate list"
  consumer_session_id :: string

text \<open>The candidate description that the WebRTC crate takes.\<close>

record RTCIceCandidateInit =
  init_candidate :: string
  init_sdp_mid :: "string option"
  init_sdp_mline_index :: "u16 option"
  init_username_fragment :: "string option"

definition to_rust_candidate :: "'ty PionIceCandidate \<Rightarrow> 'ty RTCIceCandidate" where
  "to_rust_candidate c =
     \<lparr>stats_id = [], ice_foundation = pion_foundation c, ice_priority = pion_priority c,
      ice_address = pion_address c,
      ice_protocol = (if pion_protocol c = 1 then ProtocolUdp
                      else if pion_protocol c = 2 then ProtocolTcp else ProtocolUnspecified),
      ice_port = pion_port c, ice_typ = pion_typ c, ice_component = pion_component c,
      ice_related_address = pion_related_address c, ice_related_port = pion_related_port c,
      ice_tcp_type = pion_tcp_type c\<rparr>"

section \<open>The environment of a session\<close>

text \<open>
  The JSON functions, the operations of the peer connection, and the outcome of the wait for the
  data channel (timed out, sender dropped, connection ended, or the adapter).
\<close>

record ('sd, 'ty, 'w, 'j, 'p) peer_env =
  genesis_to_json :: "GenesisMessage \<Rightarrow> 'j + string"
  answer_to_json :: "'sd \<Rightarrow> 'j + string"
  offer_from_json :: "string \<Rightarrow> 'j + 'sd OfferMessage"
  ice_from_json :: "string \<Rightarrow> 'j + 'ty IceMessage"
  set_remote_description :: "'sd \<Rightarrow> 'w + unit"
  create_answer :: "'w + 'sd"
  set_local_description :: "'sd \<Rightarrow> 'w + unit"
  local_description :: "'sd option"
  candidate_to_json :: "'ty RTCIceCandidate \<Rightarrow> 'w + RTCIceCandidateInit"
  add_ice_candidate :: "RTCIceCandidateInit \<Rightarrow> 'w + unit"
  data_channel_wait :: "unit + (unit + (RTCPeerConnectionState + 'p))"

text \<open>
  The libraries below the two transports of the relay, the order in which its receives complete,
  and how long it ran.
\<close>

record ('k, 'c, 'w, 'rq, 'v, 'kk, 'x) relay_env =
  env_ws :: "('rq, 'v, 'kk, 'x) ws_library"
  env_ws_send :: "'kk \<Rightarrow> Message \<Rightarrow> 'kk \<times> ('x + unit)"
  env_dc_send :: "'k \<Rightarrow> bytes \<Rightarrow> 'k \<times> ('w + unit)"
  env_ev_recv :: "'c \<Rightarrow> 'c \<times> ChannelEvent option"
  relay_schedule :: "ready_branch list"
  relay_elapsed :: duration

type_synonym ('w, 'x) relay_failure = "('w WebRtcDatagramError, 'x EgressError) RelayError"

type_synonym ('u, 'q, 'j, 'w, 'x) proxy_error =
  "(('u, 'q, 'j) SignalingError, 'w, 'j, 'x EgressError, ('w, 'x) relay_failure) PeerProxyError"

datatype 'sd peer_call =
    NewConnection "string list list"
  | Exchange string SignalMessageType string
  | SetRemote 'sd
  | CreateAnswer
  | GatheringPromise
  | SetLocal 'sd
  | GatheringDone
  | LocalDescription
  | PublishSessionId string
  | AddCandidate RTCIceCandidateInit
  | AwaitDataChannel duration
  | EgressConnect string string
  | RunRelay
  | CloseConnection

section \<open>The session\<close>

fun add_candidates ::
    "('sd, 'ty, 'w, 'j, 'p) peer_env \<Rightarrow> 'ty PionIceCandidate list
       \<Rightarrow> ('sd peer_call, ('s, 'w, 'j, 'e, 'r) PeerProxyError, 'a) session
       \<Rightarrow> ('sd peer_call, ('s, 'w, 'j, 'e, 'r) PeerProxyError, 'a) session" where
  "add_candidates env [] k = k"
| "add_candidates env (c # cs) k =
     attempt_pure (map_err InvalidIceCandidate (candidate_to_json env (to_rust_candidate c))) (\<lambda>init0.
       let init = init0\<lparr>init_sdp_mid := pion_sdp_mid c, init_sdp_mline_index := pion_sdp_mline_index c\<rparr>
       in perform (AddCandidate init) (map_err WebRtcFailed (add_ice_candidate env init)) (\<lambda>_.
            add_candidates env cs k))"

definition validate_session_id :: "string \<Rightarrow> ('s, 'w, 'j, 'e, 'r) PeerProxyError + unit" where
  "validate_session_id session_id =
     (if session_id = [] then Inl MissingConsumerSessionId
      else if \<not> is_subprotocol_token session_id then Inl InvalidSessionId
      else Inr ())"

text \<open>
  The nested results of \<open>timeout(nat_timeout, data_channel_rx).await\<close>.
\<close>

definition await_data_channel ::
    "unit + (unit + (RTCPeerConnectionState + 'p)) \<Rightarrow> ('s, 'w, 'j, 'e, 'r) PeerProxyError + 'p" where
  "await_data_channel waited =
     and_then (map_err (\<lambda>_. NatTimeout) waited) (\<lambda>received.
     and_then (map_err (\<lambda>_. DataChannelClosed) received) (\<lambda>opened.
       map_err PeerConnectionEnded opened))"

text \<open>The end of the session: the tunnel, and the relay until it returns.\<close>

definition relay_phase ::
    "('k, 'c, 'w, 'rq, 'v, 'kk, 'x) relay_env \<Rightarrow> string \<Rightarrow> string \<Rightarrow> ('k, 'c) WebRtcDatagrams
       \<Rightarrow> ('sd peer_call, ('u, 'q, 'j, 'w, 'x) proxy_error, PeerProxyOutcome) session" where
  "relay_phase re url session_id peer =
     perform (EgressConnect url session_id) (map_err EgressFailed (egress_connect (env_ws re) url session_id)) (\<lambda>egress.
       case relay (rtc_transport (env_dc_send re) (env_ev_recv re)) (egress_transport (env_ws_send re))
              (relay_schedule re) peer egress of
         (peer', egress', None) \<Rightarrow> ([RunRelay], None)
       | (peer', egress', Some r) \<Rightarrow>
           perform RunRelay (map_err (RelayFailed (relay_elapsed re)) r) (\<lambda>end_reason.
             ([], Some (Inr \<lparr>outcome_session_id = session_id, relay_end = end_reason,
                             outcome_relay_duration = relay_elapsed re\<rparr>))))"

definition peer_session ::
    "('sg, ('u, 'q, 'j) SignalingError) Signaler \<Rightarrow> ('sd, 'ty, 'w, 'j, ('k, 'c) WebRtcDatagrams) peer_env
       \<Rightarrow> ('k, 'c, 'w, 'rq, 'v, 'kk, 'x) relay_env \<Rightarrow> 'sg PeerProxyConfig
       \<Rightarrow> ('sd peer_call, ('u, 'q, 'j, 'w, 'x) proxy_error, PeerProxyOutcome) session" where
  "peer_session sig env re config =
     attempt_pure (map_err (\<lambda>j. SignalingFailed (SignalDecode j))
         (genesis_to_json env \<lparr>path_assertion = all_hosts_on_request\<rparr>)) (\<lambda>genesis.
     perform (Exchange ''genesis'' Genesis genesis)
         (map_err SignalingFailed (exchange_op sig (signaler config) ''genesis'' Genesis genesis)) (\<lambda>offer_reply.
     attempt_pure (ok_or offer_reply (MissingResponse ''offer'')) (\<lambda>offer_signal.
     attempt_pure (expect_signal offer_signal Offer) (\<lambda>_.
     attempt_pure (map_err (DecodeFailed ''offer'') (decode_payload (offer_from_json env) offer_signal)) (\<lambda>offer.
     perform (SetRemote (sdp offer)) (map_err WebRtcFailed (set_remote_description env (sdp offer))) (\<lambda>_.
     perform CreateAnswer (map_err WebRtcFailed (create_answer env)) (\<lambda>answer.
     perform GatheringPromise (Inr ()) (\<lambda>_.
     perform (SetLocal answer) (map_err WebRtcFailed (set_local_description env answer)) (\<lambda>_.
     perform GatheringDone (Inr ()) (\<lambda>_.
     perform LocalDescription (ok_or (local_description env) (MissingResponse ''local ICE gathering'')) (\<lambda>final_sdp.
     attempt_pure (map_err (\<lambda>j. SignalingFailed (SignalDecode j)) (answer_to_json env final_sdp)) (\<lambda>final_answer.
     perform (Exchange (reply_to offer_signal) Answer final_answer)
         (map_err SignalingFailed (exchange_op sig (signaler config) (reply_to offer_signal) Answer final_answer)) (\<lambda>ice_reply.
     attempt_pure (ok_or ice_reply (MissingResponse ''consumer ICE candidates'')) (\<lambda>ice_signal.
     attempt_pure (expect_signal ice_signal Ice) (\<lambda>_.
     attempt_pure (map_err (DecodeFailed ''ICE'') (decode_payload (ice_from_json env) ice_signal)) (\<lambda>ice.
     attempt_pure (validate_session_id (consumer_session_id ice)) (\<lambda>_.
     perform (PublishSessionId (consumer_session_id ice)) (Inr ()) (\<lambda>_.
     add_candidates env (candidates ice)
       (perform (AwaitDataChannel (nat_timeout config)) (await_data_channel (data_channel_wait env)) (\<lambda>peer.
        relay_phase re (egress_url config) (consumer_session_id ice) peer))))))))))))))))))))"

section \<open>The whole run\<close>

definition ice_servers :: "string list \<Rightarrow> string list list" where
  "ice_servers urls = (if urls = [] then [] else [urls])"

definition run_peer_proxy_until_cancelled ::
    "('m, 'i, 'cs, 'xt, 'z, 'api, 'w) rtc_library \<Rightarrow> ('cs list \<Rightarrow> 'cs list) \<Rightarrow> ('xt list \<Rightarrow> 'xt list)
       \<Rightarrow> ('api \<Rightarrow> string list list \<Rightarrow> 'w + 'conn) \<Rightarrow> nat option
       \<Rightarrow> ('sg, ('u, 'q, 'j) SignalingError) Signaler \<Rightarrow> ('sd, 'ty, 'w, 'j, ('k, 'c) WebRtcDatagrams) peer_env
       \<Rightarrow> ('k, 'c, 'w, 'rq, 'v, 'kk, 'x) relay_env \<Rightarrow> 'sg PeerProxyConfig
       \<Rightarrow> ('sd peer_call, ('u, 'q, 'j, 'w, 'x) proxy_error, PeerProxyOutcome) session" where
  "run_peer_proxy_until_cancelled lib shuffle_suites shuffle_extensions new_peer_connection cancel sig env re config =
     attempt_pure (map_err WebRtcFailed
         (build_api_with_options lib shuffle_suites shuffle_extensions (cfg_enable_ipv6 config) (cfg_randomize_dtls config))) (\<lambda>api.
       let servers = ice_servers (stun_urls config) in
       perform (NewConnection servers) (map_err WebRtcFailed (new_peer_connection api servers)) (\<lambda>connection.
         close_after CloseConnection
           (until_cancelled cancel SessionCancelled (peer_session sig env re config))))"

definition run_peer_proxy where
  "run_peer_proxy lib shuffle_suites shuffle_extensions new_peer_connection sig env re config =
     run_peer_proxy_until_cancelled lib shuffle_suites shuffle_extensions new_peer_connection None sig env re config"

section \<open>The order of the calls\<close>

text \<open>
  An automaton that remembers the published session identifier: only a valid identifier is
  published, and only once; candidates, the data channel, the tunnel and the relay come later,
  and the tunnel carries the published identifier.
\<close>

fun proxy_step :: "string option \<Rightarrow> 'sd peer_call \<Rightarrow> string option option" where
  "proxy_step published (PublishSessionId i) =
     (if published = None \<and> is_subprotocol_token i then Some (Some i) else None)"
| "proxy_step published (AddCandidate c) = (if published \<noteq> None then Some published else None)"
| "proxy_step published (AwaitDataChannel t) = (if published \<noteq> None then Some published else None)"
| "proxy_step published (EgressConnect url i) = (if published = Some i then Some published else None)"
| "proxy_step published RunRelay = (if published \<noteq> None then Some published else None)"
| "proxy_step published _ = Some published"

lemma accepts_add_candidates:
  "accepts step m (fst k) \<Longrightarrow> (\<And>c. step m (AddCandidate c) = Some m) \<Longrightarrow>
     accepts step m (fst (add_candidates env cs k))"
  by (induction cs) (auto simp: Let_def)

lemma accepts_relay_phase:
  assumes "step m (EgressConnect url i) = Some m" "step m RunRelay = Some m"
  shows "accepts step m (fst (relay_phase re url i peer))"
  unfolding relay_phase_def
  by (rule accepts_perform [of _ _ _ m]) (use assms in \<open>auto split: prod.splits option.splits\<close>)

lemma validate_session_id_Inr: "validate_session_id i = Inr u \<longleftrightarrow> i \<noteq> [] \<and> is_subprotocol_token i"
  by (simp add: validate_session_id_def)

lemma accepts_validated:
  "(is_subprotocol_token i \<Longrightarrow> accepts step m (fst (k ()))) \<Longrightarrow>
     accepts step m (fst (attempt_pure (validate_session_id i) k))"
  by (auto simp: attempt_pure_def validate_session_id_def)

lemma accepts_publish:
  "is_subprotocol_token i \<Longrightarrow> accepts proxy_step (Some i) (fst (k ())) \<Longrightarrow>
     accepts proxy_step None (fst (perform (PublishSessionId i) (Inr ()) k))"
  by (rule accepts_perform) auto

lemma peer_session_order: "accepts proxy_step None (fst (peer_session sig env re config))"
  unfolding peer_session_def
  by (rule accepts_validated accepts_attempt_pure accepts_publish accepts_perform accepts_add_candidates
      accepts_relay_phase | assumption | simp (no_asm))+

lemma peer_session_no_close:
  "accepts (\<lambda>u c. if c = CloseConnection then None else Some u) () (fst (peer_session sig env re config))"
  unfolding peer_session_def
  by (rule accepts_attempt_pure accepts_perform accepts_add_candidates accepts_relay_phase | simp (no_asm))+

lemma run_peer_proxy_order:
  "accepts proxy_step None (fst (run_peer_proxy_until_cancelled lib ss se nc cancel sig env re config))"
  unfolding run_peer_proxy_until_cancelled_def Let_def
  by (rule accepts_attempt_pure accepts_perform accepts_close_after accepts_until_cancelled
      peer_session_order | simp (no_asm))+

text \<open>What the automaton has seen when it accepts a call.\<close>

lemma proxy_step_seen:
  "accepts proxy_step published (pre @ c # post) \<Longrightarrow>
     \<exists>p. proxy_step p c \<noteq> None \<and>
         (\<forall>i. p = Some i \<longrightarrow> published = Some i \<or> PublishSessionId i \<in> set pre) \<and>
         (p = None \<longrightarrow> published = None \<and> (\<forall>i. PublishSessionId i \<notin> set pre))"
proof (induction pre arbitrary: published)
  case Nil
  then show ?case by (intro exI [of _ published]) (auto split: option.splits)
next
  case (Cons d pre)
  then obtain published' where d: "proxy_step published d = Some published'"
    and acc: "accepts proxy_step published' (pre @ c # post)" by (auto split: option.splits)
  have d1: "published = Some i \<or> d = PublishSessionId i" if "published' = Some i" for i
    using d that by (cases d) (auto split: if_splits)
  have d2: "published = None \<and> (\<forall>i. d \<noteq> PublishSessionId i)" if "published' = None"
    using d that by (cases d) (auto split: if_splits)
  from Cons.IH [OF acc] obtain p where p: "proxy_step p c \<noteq> None"
    and p1: "\<forall>i. p = Some i \<longrightarrow> published' = Some i \<or> PublishSessionId i \<in> set pre"
    and p2: "p = None \<longrightarrow> published' = None \<and> (\<forall>i. PublishSessionId i \<notin> set pre)" by blast
  have "published = Some i \<or> PublishSessionId i \<in> set (d # pre)" if "p = Some i" for i
    using p1 [rule_format, OF that] d1 [of i] by auto
  moreover have "published = None \<and> (\<forall>i. PublishSessionId i \<notin> set (d # pre))" if "p = None"
    using p2 [rule_format, OF that] d2 by auto
  ultimately show ?case using p by blast
qed

lemma proxy_step_checked:
  assumes "proxy_step p c \<noteq> None"
    and "\<And>i. p = Some i \<Longrightarrow> i \<in> seen" and "p = None \<Longrightarrow> seen = {}"
  shows "case c of
      PublishSessionId i \<Rightarrow> is_subprotocol_token i \<and> seen = {}
    | AddCandidate init \<Rightarrow> seen \<noteq> {}
    | AwaitDataChannel t \<Rightarrow> seen \<noteq> {}
    | EgressConnect url i \<Rightarrow> i \<in> seen
    | RunRelay \<Rightarrow> seen \<noteq> {}
    | _ \<Rightarrow> True"
proof (cases p)
  case None
  with assms show ?thesis by (cases c) (simp_all split: if_splits)
next
  case (Some i)
  with assms have "i \<in> seen" by blast
  with assms(1) Some show ?thesis by (cases c) (auto split: if_splits)
qed

section \<open>A session that succeeds\<close>

text \<open>The description added for a candidate.\<close>

definition added_as :: "('sd, 'ty, 'w, 'j, 'p) peer_env \<Rightarrow> 'ty PionIceCandidate \<Rightarrow> RTCIceCandidateInit \<Rightarrow> bool" where
  "added_as env c init \<longleftrightarrow>
     (\<exists>init0. candidate_to_json env (to_rust_candidate c) = Inr init0 \<and>
        init = init0\<lparr>init_sdp_mid := pion_sdp_mid c, init_sdp_mline_index := pion_sdp_mline_index c\<rparr>)"

lemma add_candidates_Inr:
  "add_candidates env cs k = (calls, Some (Inr b)) \<Longrightarrow>
     \<exists>inits kcalls. k = (kcalls, Some (Inr b)) \<and> calls = map AddCandidate inits @ kcalls \<and>
       list_all2 (added_as env) cs inits"
proof (induction cs arbitrary: calls)
  case Nil
  then show ?case by simp
next
  case (Cons c cs)
  from Cons.prems obtain init0 calls' where
    c: "candidate_to_json env (to_rust_candidate c) = Inr init0"
    and rest: "add_candidates env cs k = (calls', Some (Inr b))"
    and calls: "calls = AddCandidate (init0\<lparr>init_sdp_mid := pion_sdp_mid c, init_sdp_mline_index := pion_sdp_mline_index c\<rparr>) # calls'"
    by (auto simp: attempt_pure_Inr perform_Inr Let_def)
  from Cons.IH [OF rest] obtain inits kcalls where IH: "k = (kcalls, Some (Inr b))"
    "calls' = map AddCandidate inits @ kcalls" "list_all2 (added_as env) cs inits" by blast
  have "added_as env c (init0\<lparr>init_sdp_mid := pion_sdp_mid c, init_sdp_mline_index := pion_sdp_mline_index c\<rparr>)"
    using c by (auto simp: added_as_def)
  with IH calls show ?case
    by (intro exI [of _ "init0\<lparr>init_sdp_mid := pion_sdp_mid c, init_sdp_mline_index := pion_sdp_mline_index c\<rparr> # inits"]
        exI [of _ kcalls]) simp
qed

lemma relay_phase_Inr:
  assumes "relay_phase re url i peer = (calls, Some (Inr outcome))"
  shows "calls = [EgressConnect url i, RunRelay] \<and> outcome_session_id outcome = i \<and>
    (\<exists>egress peer' egress'. egress_connect (env_ws re) url i = Inr egress \<and>
      relay (rtc_transport (env_dc_send re) (env_ev_recv re)) (egress_transport (env_ws_send re))
        (relay_schedule re) peer egress = (peer', egress', Some (Inr (relay_end outcome))))"
proof -
  from assms obtain egress where e: "egress_connect (env_ws re) url i = Inr egress"
    by (cases "egress_connect (env_ws re) url i") (auto simp: relay_phase_def perform_def)
  obtain peer' egress' r where run: "relay (rtc_transport (env_dc_send re) (env_ev_recv re)) (egress_transport (env_ws_send re))
      (relay_schedule re) peer egress = (peer', egress', r)" by (metis prod_cases3)
  with e assms have "calls = [EgressConnect url i, RunRelay] \<and> outcome_session_id outcome = i \<and> r = Some (Inr (relay_end outcome))"
    by (cases r) (auto simp: relay_phase_def perform_Inr)
  with e run show ?thesis by blast
qed

text \<open>What a session that returns an outcome has exchanged and called.\<close>

definition completed_as ::
    "('sg, ('u, 'q, 'j) SignalingError) Signaler \<Rightarrow> ('sd, 'ty, 'w, 'j, ('k, 'c) WebRtcDatagrams) peer_env
       \<Rightarrow> ('k, 'c, 'w, 'rq, 'v, 'kk, 'x) relay_env \<Rightarrow> 'sg PeerProxyConfig \<Rightarrow> 'sd peer_call list
       \<Rightarrow> PeerProxyOutcome \<Rightarrow> bool" where
  "completed_as sig env re config calls outcome \<longleftrightarrow>
     (\<exists>genesis offer_signal offer answer final_sdp final_answer ice_signal ice inits peer egress peer' egress'.
        calls =
          [Exchange ''genesis'' Genesis genesis, SetRemote (sdp offer), CreateAnswer, GatheringPromise,
           SetLocal answer, GatheringDone, LocalDescription, Exchange (reply_to offer_signal) Answer final_answer,
           PublishSessionId (consumer_session_id ice)]
          @ map AddCandidate inits
          @ [AwaitDataChannel (nat_timeout config), EgressConnect (egress_url config) (consumer_session_id ice), RunRelay] \<and>
        exchange_op sig (signaler config) ''genesis'' Genesis genesis = Inr (Some offer_signal) \<and>
        kind offer_signal = Offer \<and> offer_from_json env (signal_payload offer_signal) = Inr offer \<and>
        local_description env = Some final_sdp \<and> answer_to_json env final_sdp = Inr final_answer \<and>
        exchange_op sig (signaler config) (reply_to offer_signal) Answer final_answer = Inr (Some ice_signal) \<and>
        kind ice_signal = Ice \<and> ice_from_json env (signal_payload ice_signal) = Inr ice \<and>
        outcome_session_id outcome = consumer_session_id ice \<and> list_all2 (added_as env) (candidates ice) inits \<and>
        data_channel_wait env = Inr (Inr (Inr peer)) \<and>
        egress_connect (env_ws re) (egress_url config) (consumer_session_id ice) = Inr egress \<and>
        relay (rtc_transport (env_dc_send re) (env_ev_recv re)) (egress_transport (env_ws_send re))
          (relay_schedule re) peer egress = (peer', egress', Some (Inr (relay_end outcome))))"

lemma await_data_channel_Inr: "await_data_channel w = Inr p \<longleftrightarrow> w = Inr (Inr (Inr p))"
  by (auto simp: await_data_channel_def and_then_Inr_iff)

lemma expect_signal_Inr: "expect_signal m k = Inr u \<longleftrightarrow> kind m = k"
  by (simp add: expect_signal_def)

lemma peer_session_Inr:
  assumes "peer_session sig env re config = (calls, Some (Inr outcome))"
  shows "completed_as sig env re config calls outcome"
  using assms unfolding peer_session_def session_Inr completed_as_def append_Cons append_Nil
  apply (elim exE conjE)
  apply (drule add_candidates_Inr)
  apply (simp only: session_Inr await_data_channel_Inr expect_signal_Inr decode_payload_def map_err_Inr_iff ok_or_Inr_iff)
  apply (elim exE conjE)
  apply (drule relay_phase_Inr)
  apply (elim exE conjE)
  apply hypsubst
  apply (intro exI conjI)
               apply (rule refl | assumption)+
  done

lemma egress_connect_token: "egress_connect ws url i = Inr t \<Longrightarrow> is_subprotocol_token i"
  by (auto simp: egress_connect_def elim: connect_with_timeout_InrE)

lemma completed_as_token:
  assumes "completed_as sig env re config calls outcome"
  shows "is_subprotocol_token (outcome_session_id outcome)"
  using assms unfolding completed_as_def
  apply (elim exE conjE)
  apply (drule egress_connect_token)
  apply (simp only:)
  done

section \<open>A session against a concrete environment\<close>

text \<open>
  A signaling server that answers the genesis message with an offer and the answer with the
  consumer's session identifier, and libraries whose calls succeed; the data channel delivers one
  packet and closes.
\<close>

definition sample_signal :: "SignalMessageType \<Rightarrow> string \<Rightarrow> SignalMessage" where
  "sample_signal k p = \<lparr>reply_to = ''tx'', kind = k, signal_payload = p\<rparr>"

definition sample_signaler :: "string \<Rightarrow> (unit, (string, string, string) SignalingError) Signaler" where
  "sample_signaler session_id =
     \<lparr>exchange_op = (\<lambda>_ send_to k payload.
        Inr (if k = Genesis then Some (sample_signal Offer ''offer'') else Some (sample_signal Ice session_id)))\<rparr>"

definition sample_candidate :: "unit PionIceCandidate" where
  "sample_candidate = \<lparr>pion_foundation = ''f'', pion_priority = 1, pion_address = ''10.0.0.1'', pion_protocol = 1,
     pion_port = 9, pion_typ = (), pion_component = 1, pion_related_address = [], pion_related_port = 0,
     pion_tcp_type = [], pion_sdp_mid = Some ''0'', pion_sdp_mline_index = Some 0\<rparr>"

definition sample_datagrams :: "(bytes list \<times> nat, ChannelEvent list) WebRtcDatagrams" where
  "sample_datagrams = \<lparr>dc = ([], 8), events = [Packet [7], ClosedEvent], close_tasks = 0\<rparr>"

definition sample_env ::
    "(string, unit, string, string, (bytes list \<times> nat, ChannelEvent list) WebRtcDatagrams) peer_env" where
  "sample_env =
     \<lparr>genesis_to_json = (\<lambda>_. Inr ''genesis''), answer_to_json = Inr,
      offer_from_json = (\<lambda>t. Inr \<lparr>sdp = t, tag = []\<rparr>),
      ice_from_json = (\<lambda>t. Inr \<lparr>candidates = [sample_candidate], consumer_session_id = t\<rparr>),
      set_remote_description = (\<lambda>_. Inr ()), create_answer = Inr ''answer'', set_local_description = (\<lambda>_. Inr ()),
      local_description = Some ''answer'',
      candidate_to_json = (\<lambda>c. Inr \<lparr>init_candidate = ice_address c, init_sdp_mid = None,
                                      init_sdp_mline_index = None, init_username_fragment = None\<rparr>),
      add_ice_candidate = (\<lambda>_. Inr ()), data_channel_wait = Inr (Inr (Inr sample_datagrams))\<rparr>"

definition sample_relay_env ::
    "(bytes list \<times> nat, ChannelEvent list, string, (string \<times> string) list, string, Message list \<times> nat, string) relay_env" where
  "sample_relay_env =
     \<lparr>env_ws = sample_ws, env_ws_send = budget_send, env_dc_send = budget_send, env_ev_recv = list_recv,
      relay_schedule = [PeerReady, PeerReady], relay_elapsed = from_secs 3\<rparr>"

definition sample_peer_config :: "unit PeerProxyConfig" where
  "sample_peer_config = \<lparr>signaler = (), egress_url = ''ws://x/ws'', stun_urls = [''stun:s''],
     nat_timeout = from_secs 10, cfg_enable_ipv6 = False, cfg_randomize_dtls = False\<rparr>"

definition sample_run ::
    "nat option \<Rightarrow> string \<Rightarrow> (string peer_call, (string, string, string, string, string) proxy_error, PeerProxyOutcome) session" where
  "sample_run cancel session_id =
     run_peer_proxy_until_cancelled sample_rtc id id (\<lambda>_ _. Inr ()) cancel (sample_signaler session_id) sample_env
       sample_relay_env sample_peer_config"

lemma sample_token: "is_subprotocol_token ''csid''"
  by (simp add: is_subprotocol_token_def str_bytes_def char_byte_def is_ascii_graphic_def)

lemma sample_egress: "egress_connect sample_ws ''ws://x/ws'' ''csid'' = Inr \<lparr>ws_stream = [], ws_sink = ([], 8)\<rparr>"
  using sample_token header_tokens_join [of SUBPROTOCOL_MAGIC_COOKIE "[''csid'', PROTOCOL_VERSION]"]
  by (simp add: egress_connect_def connect_with_timeout_def sample_ws_def check_selected_def
      SEC_WEBSOCKET_PROTOCOL_def egress_subprotocols_def)

lemma sample_relay:
  "relay_phase sample_relay_env ''ws://x/ws'' ''csid'' sample_datagrams =
     ([EgressConnect ''ws://x/ws'' ''csid'', RunRelay] :: string peer_call list,
      Some (Inr \<lparr>outcome_session_id = ''csid'', relay_end = PeerClosed, outcome_relay_duration = from_secs 3\<rparr>) ::
        ((string, string, string, string, string) proxy_error + PeerProxyOutcome) option)"
  by (simp add: relay_phase_def sample_relay_env_def sample_egress sample_datagrams_def perform_def rtc_transport_def
      rtc_recv_def egress_transport_def egress_send_def budget_send_def)

definition sample_init :: RTCIceCandidateInit where
  "sample_init = \<lparr>init_candidate = ''10.0.0.1'', init_sdp_mid = Some ''0'', init_sdp_mline_index = Some 0,
     init_username_fragment = None\<rparr>"

lemma sample_session:
  "peer_session (sample_signaler ''csid'') sample_env sample_relay_env sample_peer_config =
     ([Exchange ''genesis'' Genesis ''genesis'', SetRemote ''offer'', CreateAnswer, GatheringPromise,
       SetLocal ''answer'', GatheringDone, LocalDescription, Exchange ''tx'' Answer ''answer'',
       PublishSessionId ''csid'', AddCandidate sample_init, AwaitDataChannel (from_secs 10),
       EgressConnect ''ws://x/ws'' ''csid'', RunRelay],
      Some (Inr \<lparr>outcome_session_id = ''csid'', relay_end = PeerClosed, outcome_relay_duration = from_secs 3\<rparr>))"
  by (simp add: peer_session_def sample_signaler_def sample_env_def sample_peer_config_def sample_signal_def
      perform_def attempt_pure_def expect_signal_def decode_payload_def validate_session_id_def sample_token
      await_data_channel_def sample_relay to_rust_candidate_def sample_candidate_def sample_init_def)

lemma sample_run_eq:
  "sample_run cancel ''csid'' = (let s = until_cancelled cancel SessionCancelled
       (peer_session (sample_signaler ''csid'') sample_env sample_relay_env sample_peer_config) in
     (NewConnection [[''stun:s'']] # fst s @ [CloseConnection], snd s))"
  unfolding sample_run_def run_peer_proxy_until_cancelled_def sample_session
  by (cases cancel) (simp_all add: build_api_with_options_def sample_rtc_def attempt_pure_def
      perform_def ice_servers_def sample_peer_config_def until_cancelled_def close_after_def)

section \<open>Properties\<close>

text \<open>
  C16. Nothing of a consumer enters the proxy's events, the peer connection or the egress before its
  session identifier was checked. In every run, cancelled at whatever point, the identifier that
  is published is a valid subprotocol token, remote candidates are added and the data channel is
  awaited only after the publication, and the tunnel is opened for the published identifier.
\<close>

theorem session_id_checked_first:
  assumes "run_peer_proxy_until_cancelled lib ss se nc cancel sig env re config = (pre @ c # post, r)"
    and "seen = {i. PublishSessionId i \<in> set pre}"
  shows "case c of
      PublishSessionId i \<Rightarrow> is_subprotocol_token i \<and> seen = {}
    | AddCandidate init \<Rightarrow> seen \<noteq> {}
    | AwaitDataChannel t \<Rightarrow> seen \<noteq> {}
    | EgressConnect url i \<Rightarrow> i \<in> seen
    | RunRelay \<Rightarrow> seen \<noteq> {}
    | _ \<Rightarrow> True"
proof -
  have "accepts proxy_step None (pre @ c # post)"
    using run_peer_proxy_order [of lib ss se nc cancel sig env re config] unfolding assms by simp
  from proxy_step_seen [OF this] obtain p where "proxy_step p c \<noteq> None"
    and "\<And>i. p = Some i \<Longrightarrow> i \<in> seen" and "p = None \<Longrightarrow> seen = {}"
    using assms(2) by blast
  then show ?thesis by (rule proxy_step_checked)
qed

theorem session_id_checked_first_witness:
  "\<exists>post. fst (sample_run (Some 11) ''csid'') =
       [NewConnection [[''stun:s'']], Exchange ''genesis'' Genesis ''genesis'', SetRemote ''offer'', CreateAnswer,
        GatheringPromise, SetLocal ''answer'', GatheringDone, LocalDescription, Exchange ''tx'' Answer ''answer'']
       @ PublishSessionId ''csid'' # post \<and> AddCandidate sample_init \<in> set post \<and> is_subprotocol_token ''csid''"
proof -
  let ?pre = "[NewConnection [[''stun:s'']], Exchange ''genesis'' Genesis ''genesis'', SetRemote ''offer'', CreateAnswer,
        GatheringPromise, SetLocal ''answer'', GatheringDone, LocalDescription, Exchange ''tx'' Answer ''answer'']"
  let ?post = "[AddCandidate sample_init, AwaitDataChannel (from_secs 10), CloseConnection]"
  have run: "sample_run (Some 11) ''csid'' = (?pre @ PublishSessionId ''csid'' # ?post, Some (Inl SessionCancelled))"
    by (simp add: sample_run_eq sample_session until_cancelled_def)
  from session_id_checked_first [OF run [unfolded sample_run_def] refl]
  have "is_subprotocol_token ''csid''" by simp
  with run show ?thesis by (intro exI [of _ ?post]) simp
qed

lemma run_peer_proxy_cases:
  assumes "run_peer_proxy_until_cancelled lib ss se nc cancel sig env re config = (cs, Some r)"
  obtains
    (not_created) w where "r = Inl (WebRtcFailed w)" "cs = [] \<or> cs = [NewConnection (ice_servers (stun_urls config))]"
  | (created) calls where "cs = NewConnection (ice_servers (stun_urls config)) # calls @ [CloseConnection]"
      "until_cancelled cancel SessionCancelled (peer_session sig env re config) = (calls, Some r)"
proof (cases "build_api_with_options lib ss se (cfg_enable_ipv6 config) (cfg_randomize_dtls config)")
  case (Inl w)
  with assms show thesis by (intro not_created) (auto simp: run_peer_proxy_until_cancelled_def attempt_pure_def)
next
  case (Inr api)
  note api = Inr
  show thesis
  proof (cases "nc api (ice_servers (stun_urls config))")
    case (Inl w)
    with api assms show thesis
      by (intro not_created) (auto simp: run_peer_proxy_until_cancelled_def attempt_pure_def perform_def)
  next
    case (Inr conn)
    obtain calls r' where s: "until_cancelled cancel SessionCancelled (peer_session sig env re config) = (calls, r')"
      by fastforce
    with api Inr assms have "r' = Some r" "cs = NewConnection (ice_servers (stun_urls config)) # calls @ [CloseConnection]"
      by (cases r'; simp add: run_peer_proxy_until_cancelled_def attempt_pure_def perform_def close_after_def)+
    with s show thesis by (intro created) simp_all
  qed
qed

lemma run_peer_proxy_Inr:
  assumes "run_peer_proxy_until_cancelled lib ss se nc cancel sig env re config = (cs, Some (Inr outcome))"
  obtains calls where "cancel = None" "cs = NewConnection (ice_servers (stun_urls config)) # calls @ [CloseConnection]"
    "completed_as sig env re config calls outcome"
proof -
  from assms obtain calls where cs: "cs = NewConnection (ice_servers (stun_urls config)) # calls @ [CloseConnection]"
    and s: "until_cancelled cancel SessionCancelled (peer_session sig env re config) = (calls, Some (Inr outcome))"
    by (cases rule: run_peer_proxy_cases) auto
  then have c: "cancel = None" and s': "peer_session sig env re config = (calls, Some (Inr outcome))"
    by (simp_all add: until_cancelled_Inr)
  from that [OF c cs peer_session_Inr [OF s']] show thesis .
qed

text \<open>
  C17. The calls of a session that succeeds. When the run returns an outcome, it was not cancelled,
  and it made exactly the calls of the protocol in their order: genesis for an offer, the answer
  for the consumer's candidates, the publication of the identifier, every candidate with its own
  media line, the wait for the channel, the tunnel to the configured egress for the published
  identifier, which is the identifier of the outcome, the relay, whose end is the end in the
  outcome, and the close.
\<close>

theorem session_success_calls:
  assumes "run_peer_proxy_until_cancelled lib ss se nc cancel sig env re config = (cs, Some (Inr outcome))"
  shows "cancel = None \<and> is_subprotocol_token (outcome_session_id outcome) \<and>
    (\<exists>calls. cs = NewConnection (ice_servers (stun_urls config)) # calls @ [CloseConnection] \<and>
       completed_as sig env re config calls outcome)"
proof -
  from assms obtain calls where "cancel = None" and "cs = NewConnection (ice_servers (stun_urls config)) # calls @ [CloseConnection]"
    and fin: "completed_as sig env re config calls outcome"
    by (rule run_peer_proxy_Inr)
  with completed_as_token [OF fin] show ?thesis by blast
qed

theorem session_success_calls_witness:
  "\<exists>calls outcome. sample_run None ''csid'' = (NewConnection [[''stun:s'']] # calls @ [CloseConnection], Some (Inr outcome)) \<and>
     outcome_session_id outcome = ''csid'' \<and> is_subprotocol_token (outcome_session_id outcome)"
proof -
  obtain calls outcome where run: "sample_run None ''csid'' =
      (NewConnection [[''stun:s'']] # calls @ [CloseConnection], Some (Inr outcome))" "outcome_session_id outcome = ''csid''"
    by (simp add: sample_run_eq sample_session until_cancelled_def)
  from session_success_calls [OF run(1) [unfolded sample_run_def]] run show ?thesis by blast
qed

text \<open>
  C18. A connection that was created is always closed. Whenever the run returns, with an outcome, an
  error or because of a cancellation after any number of calls, its last call closes the
  connection, and no earlier one does; a cancelled run returns \<open>Cancelled\<close>, which counts as no
  relay time. The only runs without a connection are those in which creating it failed.
\<close>

theorem connection_always_closed:
  assumes "run_peer_proxy_until_cancelled lib ss se nc cancel sig env re config = (cs, Some r)"
  shows "(\<exists>w. r = Inl (WebRtcFailed w) \<and> length cs \<le> 1) \<or>
    (\<exists>calls. cs = NewConnection (ice_servers (stun_urls config)) # calls @ [CloseConnection] \<and>
       CloseConnection \<notin> set calls \<and>
       (cancel \<noteq> None \<longrightarrow> r = Inl SessionCancelled \<and> error_relay_duration (projl r) = None))"
  using assms
proof (cases rule: run_peer_proxy_cases)
  case (created calls)
  have "CloseConnection \<notin> set (fst (peer_session sig env re config))"
    using peer_session_no_close [of sig env re config] by (simp add: accepts_without)
  moreover have "set calls \<subseteq> set (fst (peer_session sig env re config))"
    using created(2) by (auto simp: until_cancelled_def split: option.splits dest: in_set_takeD)
  ultimately show ?thesis
    using created by (auto simp: until_cancelled_def split: option.splits)
qed auto

theorem connection_always_closed_witness:
  "sample_run (Some 3) ''csid'' =
     ([NewConnection [[''stun:s'']], Exchange ''genesis'' Genesis ''genesis'', SetRemote ''offer'', CreateAnswer,
       CloseConnection], Some (Inl SessionCancelled))"
proof -
  have run: "sample_run (Some 3) ''csid'' = (fst (sample_run (Some 3) ''csid''), Some (Inl SessionCancelled))"
    by (simp add: sample_run_eq sample_session until_cancelled_def)
  from connection_always_closed [OF run [unfolded sample_run_def]]
  have "last (fst (sample_run (Some 3) ''csid'')) = CloseConnection" by (auto simp: sample_run_def)
  then show ?thesis
    by (simp add: sample_run_eq sample_session until_cancelled_def)
qed

end
