(* ===== verification/Watch_Channel.thy ===== *)
theory Watch_Channel
  imports Prelude
begin

text \<open>
  The watch channel of the tokio crate, \<open>tokio::sync::watch\<close>: one current value, a version that
  grows with every send, and receivers that remember the version they have seen. The operations
  are an argument of the definitions that use them; the locale states what the crate documents,
  and a channel made of a value and a counter satisfies it.
\<close>

section \<open>Operations\<close>

record ('w, 'r, 'v) watch_ops =
  watch_new :: "'v \<Rightarrow> 'w \<times> 'r"
  send_replace :: "'w \<Rightarrow> 'v \<Rightarrow> 'w"
  drop_sender :: "'w \<Rightarrow> 'w"
  rx_clone :: "'r \<Rightarrow> 'r"
  rx_borrow :: "'w \<Rightarrow> 'r \<Rightarrow> 'v"
  rx_changed :: "'w \<Rightarrow> 'r \<Rightarrow> 'r \<times> (unit + unit) poll"
  watch_value :: "'w \<Rightarrow> 'v"
  watch_version :: "'w \<Rightarrow> nat"
  sender_alive :: "'w \<Rightarrow> bool"
  rx_seen :: "'r \<Rightarrow> nat"

text \<open>The last four fields only observe; no definition that models code uses them.\<close>

section \<open>Documented behaviour\<close>

locale watch_channel =
  fixes wo :: "('w, 'r, 'v) watch_ops"
  assumes new_spec:
      "watch_value wo (fst (watch_new wo v)) = v" "sender_alive wo (fst (watch_new wo v))"
      "rx_seen wo (snd (watch_new wo v)) = watch_version wo (fst (watch_new wo v))"
    and send_spec:
      "watch_value wo (send_replace wo w v) = v" "sender_alive wo (send_replace wo w v) = sender_alive wo w"
      "watch_version wo w < watch_version wo (send_replace wo w v)"
    and drop_spec:
      "watch_value wo (drop_sender wo w) = watch_value wo w" "\<not> sender_alive wo (drop_sender wo w)"
      "watch_version wo (drop_sender wo w) = watch_version wo w"
    and clone_spec: "rx_seen wo (rx_clone wo r) = rx_seen wo r"
    and borrow_spec: "rx_borrow wo w r = watch_value wo w"
    and changed_new: "rx_seen wo r \<noteq> watch_version wo w \<Longrightarrow> snd (rx_changed wo w r) = Ready (Inr ())"
    and changed_closed:
      "rx_seen wo r = watch_version wo w \<Longrightarrow> \<not> sender_alive wo w \<Longrightarrow> snd (rx_changed wo w r) = Ready (Inl ())"
    and changed_pending:
      "rx_seen wo r = watch_version wo w \<Longrightarrow> sender_alive wo w \<Longrightarrow> snd (rx_changed wo w r) = Pending"
    and changed_seen: "rx_seen wo (fst (rx_changed wo w r)) = watch_version wo w"
begin

lemmas watch_simps [simp] = new_spec send_spec drop_spec clone_spec borrow_spec changed_seen

lemma changed_result:
  "snd (rx_changed wo w r) =
     (if rx_seen wo r \<noteq> watch_version wo w then Ready (Inr ())
      else if sender_alive wo w then Pending else Ready (Inl ()))"
  by (simp add: changed_new changed_closed changed_pending)

end

section \<open>A value and a counter\<close>

definition counter_watch :: "('v \<times> nat \<times> bool, nat, 'v) watch_ops" where
  "counter_watch =
     \<lparr>watch_new = (\<lambda>v. ((v, 0, True), 0)),
      send_replace = (\<lambda>(_, n, alive) v. (v, Suc n, alive)),
      drop_sender = (\<lambda>(v, n, _). (v, n, False)),
      rx_clone = id,
      rx_borrow = (\<lambda>(v, _) _. v),
      rx_changed = (\<lambda>(v, n, alive) seen.
        (n, if seen \<noteq> n then Ready (Inr ()) else if alive then Pending else Ready (Inl ()))),
      watch_value = fst, watch_version = fst \<circ> snd, sender_alive = snd \<circ> snd, rx_seen = id\<rparr>"

interpretation counter_watch: watch_channel counter_watch
  by unfold_locales (auto simp: counter_watch_def)

end
