(* ===== verification/Consumer_Quic.thy ===== *)
theory Consumer_Quic
  imports Watch_Channel Virtual_Udp
begin

text \<open>
  The QUIC side of the consumer, \<open>src/src/consumer_quic.rs\<close>: the transport parameters, the server
  over the virtual UDP socket, the broker that accepts one connection after another and publishes
  the current one, and the dialer that opens streams on it. The quinn crate is an argument; the
  outcomes of the \<open>select!\<close> statements are given with each step, and the steps of the broker and
  of a dialer interleave in any order.
\<close>

section \<open>Transport parameters\<close>

definition CONSUMER_QUIC_ALPN :: bytes where
  [wire_consts]: "CONSUMER_QUIC_ALPN = str_bytes ''broflake''"

definition CONSUMER_MAX_INCOMING_STREAMS :: u32 where
  "CONSUMER_MAX_INCOMING_STREAMS = 131072"

definition CONSUMER_MAX_IDLE_TIMEOUT :: duration where
  "CONSUMER_MAX_IDLE_TIMEOUT = from_secs 60"

definition CONSUMER_KEEP_ALIVE_INTERVAL :: duration where
  "CONSUMER_KEEP_ALIVE_INTERVAL = from_secs 15"

text \<open>
  The parameters that the code sets; the rest of the crate's structure is the extension part of
  the record.
\<close>

record ('vi, 'idle, 'mtud) TransportConfig =
  max_concurrent_bidi_streams :: 'vi
  max_concurrent_uni_streams :: 'vi
  max_idle_timeout :: "'idle option"
  keep_alive_interval :: "duration option"
  initial_mtu :: u16
  min_mtu :: u16
  mtu_discovery_config :: "'mtud option"

text \<open>
  \<open>varint\<close> is \<open>VarInt::from_u32\<close> and \<open>idle_timeout\<close> the fallible conversion from a duration, whose
  failure is a panic.
\<close>

definition consumer_transport_config ::
    "('vi, 'idle, 'mtud, 'z) TransportConfig_scheme \<Rightarrow> (u32 \<Rightarrow> 'vi) \<Rightarrow> (duration \<Rightarrow> 'e + 'idle)
       \<Rightarrow> ('vi, 'idle, 'mtud, 'z) TransportConfig_scheme option" where
  "consumer_transport_config config0 varint idle_timeout =
     (case idle_timeout CONSUMER_MAX_IDLE_TIMEOUT of
        Inl e \<Rightarrow> None
      | Inr idle \<Rightarrow>
          Some (config0\<lparr>max_concurrent_bidi_streams := varint CONSUMER_MAX_INCOMING_STREAMS,
                        max_concurrent_uni_streams := varint CONSUMER_MAX_INCOMING_STREAMS,
                        max_idle_timeout := Some idle,
                        keep_alive_interval := Some CONSUMER_KEEP_ALIVE_INTERVAL,
                        initial_mtu := 1200, min_mtu := 1200, mtu_discovery_config := None\<rparr>))"

section \<open>Server\<close>

datatype ('io, 'ce) ConsumerQuicError =
    QuicEndpoint 'io
  | QuicClosed
  | QuicCancelled
  | QuicHandshake 'ce
  | BrokerStopped
  | QuicStream 'ce

record ('ep, 'so) ConsumerQuicServer =
  endpoint :: 'ep
  quic_socket :: 'so

text \<open>
  \<open>set_transport\<close> stores the transport parameters in the server configuration, \<open>new_endpoint\<close> is
  \<open>Endpoint::new_with_abstract_socket\<close> with the default endpoint configuration and runtime. The
  outer option is the panic of \<open>consumer_transport_config\<close>.
\<close>

definition ConsumerQuicServer_new ::
    "('vi, 'idle, 'mtud, 'z) TransportConfig_scheme \<Rightarrow> (u32 \<Rightarrow> 'vi) \<Rightarrow> (duration \<Rightarrow> 'e + 'idle)
       \<Rightarrow> ('sc \<Rightarrow> ('vi, 'idle, 'mtud, 'z) TransportConfig_scheme \<Rightarrow> 'sc) \<Rightarrow> ('sc \<Rightarrow> 'so \<Rightarrow> 'io + 'ep) \<Rightarrow> 'so \<Rightarrow> 'sc
       \<Rightarrow> (('io, 'ce) ConsumerQuicError + ('ep, 'so) ConsumerQuicServer) option" where
  "ConsumerQuicServer_new config0 varint idle_timeout set_transport new_endpoint socket server_config =
     map_option (\<lambda>transport.
       and_then (map_err QuicEndpoint (new_endpoint (set_transport server_config transport) socket)) (\<lambda>ep.
         Inr \<lparr>endpoint = ep, quic_socket = socket\<rparr>)) (consumer_transport_config config0 varint idle_timeout)"

text \<open>
  One call of \<open>accept\<close>: which of its two \<open>select!\<close> statements the cancellation wins, what the
  endpoint yields, and how the handshake ends.
\<close>

record ('inc, 'ce, 'conn) accept_env =
  accept_cancelled :: bool
  incoming :: "'inc option"
  handshake_cancelled :: bool
  handshake :: "'inc \<Rightarrow> 'ce + 'conn"

definition server_accept ::
    "('inc, 'ce, 'conn) accept_env \<Rightarrow> ('io, 'ce) ConsumerQuicError + 'conn" where
  "server_accept a =
     (if accept_cancelled a then Inl QuicCancelled
      else and_then (ok_or (incoming a) QuicClosed) (\<lambda>inc.
             if handshake_cancelled a then Inl QuicCancelled
             else map_err QuicHandshake (handshake a inc)))"

text \<open>\<open>endpoint_close\<close> is \<open>Endpoint::close\<close> with its error code and reason.\<close>

definition server_close :: "('ep \<Rightarrow> u8 \<Rightarrow> bytes \<Rightarrow> 'ep) \<Rightarrow> ('ep, 'so) ConsumerQuicServer \<Rightarrow> ('ep, 'so) ConsumerQuicServer" where
  "server_close endpoint_close s = s\<lparr>endpoint := endpoint_close (endpoint s) 0 (str_bytes ''consumer shutdown'')\<rparr>"

section \<open>Broker\<close>

datatype ('conn, 'io, 'ce) broker_phase =
    Accepting
  | Serving 'conn
  | BrokerDone "('io, 'ce) ConsumerQuicError + unit"

record ('w, 'r, 'conn, 'io, 'ce) ConsumerQuicBroker =
  connections :: 'w
  connection_updates :: 'r
  server_open :: bool
  phase :: "('conn, 'io, 'ce) broker_phase"

type_synonym ('w, 'r, 'conn) conn_watch = "('w, 'r, 'conn option) watch_ops"

definition ConsumerQuicBroker_new ::
    "('w, 'r, 'conn) conn_watch \<Rightarrow> ('w, 'r, 'conn, 'io, 'ce) ConsumerQuicBroker" where
  "ConsumerQuicBroker_new wo =
     (case watch_new wo None of (w, r) \<Rightarrow>
        \<lparr>connections = w, connection_updates = r, server_open = True, phase = Accepting\<rparr>)"

definition broker_dialer ::
    "('w, 'r, 'conn) conn_watch \<Rightarrow> ('w, 'r, 'conn, 'io, 'ce) ConsumerQuicBroker \<Rightarrow> 'r" where
  "broker_dialer wo b = rx_clone wo (connection_updates b)"

text \<open>
  The end of \<open>run\<close>: the server is closed, the connection withdrawn, and the broker dropped with
  its sender.
\<close>

definition broker_stop ::
    "('w, 'r, 'conn) conn_watch \<Rightarrow> ('io, 'ce) ConsumerQuicError + unit
       \<Rightarrow> ('w, 'r, 'conn, 'io, 'ce) ConsumerQuicBroker \<Rightarrow> ('w, 'r, 'conn, 'io, 'ce) ConsumerQuicBroker" where
  "broker_stop wo result b =
     b\<lparr>server_open := False, connections := drop_sender wo (send_replace wo (connections b) None),
       phase := BrokerDone result\<rparr>"

fun broker_accepted ::
    "('w, 'r, 'conn) conn_watch \<Rightarrow> ('io, 'ce) ConsumerQuicError + 'conn
       \<Rightarrow> ('w, 'r, 'conn, 'io, 'ce) ConsumerQuicBroker \<Rightarrow> ('w, 'r, 'conn, 'io, 'ce) ConsumerQuicBroker" where
  "broker_accepted wo (Inr connection) b =
     b\<lparr>connections := send_replace wo (connections b) (Some connection), phase := Serving connection\<rparr>"
| "broker_accepted wo (Inl QuicCancelled) b = broker_stop wo (Inr ()) b"
| "broker_accepted wo (Inl (QuicHandshake e)) b = b"
| "broker_accepted wo (Inl error) b = broker_stop wo (Inl error) b"

datatype serve_end = ServeCancelled | ConnectionClosed

fun broker_served ::
    "('w, 'r, 'conn) conn_watch \<Rightarrow> serve_end
       \<Rightarrow> ('w, 'r, 'conn, 'io, 'ce) ConsumerQuicBroker \<Rightarrow> ('w, 'r, 'conn, 'io, 'ce) ConsumerQuicBroker" where
  "broker_served wo ServeCancelled b = broker_stop wo (Inr ()) b"
| "broker_served wo ConnectionClosed b =
     b\<lparr>connections := send_replace wo (connections b) None, phase := Accepting\<rparr>"

section \<open>Dialer\<close>

datatype ('rcv, 'snd) Join = Join 'rcv 'snd

datatype ('conn, 'io, 'ce, 'rcv, 'snd) dial_phase =
    Borrowing
  | Opening 'conn
  | Awaiting
  | Dialed "('io, 'ce) ConsumerQuicError + ('rcv, 'snd) Join"

text \<open>
  A call of \<open>open_bi\<close>: its own receiver, the local variable \<open>current\<close>, and where it is.
\<close>

record ('r, 'conn, 'io, 'ce, 'rcv, 'snd) dial =
  updates :: 'r
  current :: "'conn option"
  dial_phase :: "('conn, 'io, 'ce, 'rcv, 'snd) dial_phase"

definition current_connection :: "('w, 'r, 'conn) conn_watch \<Rightarrow> 'w \<Rightarrow> 'r \<Rightarrow> 'conn option" where
  "current_connection wo w dialer = rx_borrow wo w dialer"

definition dial_start :: "('w, 'r, 'conn) conn_watch \<Rightarrow> 'r \<Rightarrow> ('r, 'conn, 'io, 'ce, 'rcv, 'snd) dial" where
  "dial_start wo dialer = \<lparr>updates = rx_clone wo dialer, current = None, dial_phase = Borrowing\<rparr>"

definition dial_borrow ::
    "('w, 'r, 'conn) conn_watch \<Rightarrow> 'w \<Rightarrow> ('r, 'conn, 'io, 'ce, 'rcv, 'snd) dial
       \<Rightarrow> ('r, 'conn, 'io, 'ce, 'rcv, 'snd) dial" where
  "dial_borrow wo w d =
     (let c = rx_borrow wo w (updates d)
      in d\<lparr>current := c, dial_phase := (case c of Some connection \<Rightarrow> Opening connection | None \<Rightarrow> Awaiting)\<rparr>)"

text \<open>
  How the first \<open>select!\<close> ends; the error of \<open>connection.open_bi()\<close> comes with whether the
  connection then has a close reason.
\<close>

datatype ('ce, 'rcv, 'snd) open_outcome = OpenCancelled | Opened 'snd 'rcv | OpenFailed 'ce bool

fun dial_opened ::
    "('ce, 'rcv, 'snd) open_outcome \<Rightarrow> ('r, 'conn, 'io, 'ce, 'rcv, 'snd) dial
       \<Rightarrow> ('r, 'conn, 'io, 'ce, 'rcv, 'snd) dial" where
  "dial_opened OpenCancelled d = d\<lparr>dial_phase := Dialed (Inl QuicCancelled)\<rparr>"
| "dial_opened (Opened send recv) d = d\<lparr>dial_phase := Dialed (Inr (Join recv send))\<rparr>"
| "dial_opened (OpenFailed error has_close_reason) d =
     (if has_close_reason then d\<lparr>dial_phase := Awaiting\<rparr>
      else d\<lparr>dial_phase := Dialed (Inl (QuicStream error))\<rparr>)"

text \<open>A poll of the second \<open>select!\<close>.\<close>

definition dial_awaited ::
    "('w, 'r, 'conn) conn_watch \<Rightarrow> 'w \<Rightarrow> bool \<Rightarrow> ('r, 'conn, 'io, 'ce, 'rcv, 'snd) dial
       \<Rightarrow> ('r, 'conn, 'io, 'ce, 'rcv, 'snd) dial" where
  "dial_awaited wo w cancelled d =
     (if cancelled then d\<lparr>dial_phase := Dialed (Inl QuicCancelled)\<rparr>
      else case rx_changed wo w (updates d) of
             (r, Pending) \<Rightarrow> d\<lparr>updates := r\<rparr>
           | (r, Ready (Inr _)) \<Rightarrow> d\<lparr>updates := r, dial_phase := Borrowing\<rparr>
           | (r, Ready (Inl _)) \<Rightarrow> d\<lparr>updates := r, dial_phase := Dialed (Inl BrokerStopped)\<rparr>)"

section \<open>Broker and dialer together\<close>

record ('w, 'r, 'conn, 'io, 'ce, 'rcv, 'snd) quic_system =
  broker :: "('w, 'r, 'conn, 'io, 'ce) ConsumerQuicBroker"
  dialing :: "('r, 'conn, 'io, 'ce, 'rcv, 'snd) dial"

datatype ('inc, 'ce, 'conn, 'rcv, 'snd) quic_step =
    Accept "('inc, 'ce, 'conn) accept_env"
  | Serve serve_end
  | Borrow
  | Open "('ce, 'rcv, 'snd) open_outcome"
  | Await bool

text \<open>A step of a task that is not at this point of its code does nothing.\<close>

fun quic_do ::
    "('w, 'r, 'conn) conn_watch \<Rightarrow> ('inc, 'ce, 'conn, 'rcv, 'snd) quic_step
       \<Rightarrow> ('w, 'r, 'conn, 'io, 'ce, 'rcv, 'snd) quic_system \<Rightarrow> ('w, 'r, 'conn, 'io, 'ce, 'rcv, 'snd) quic_system" where
  "quic_do wo (Accept a) s =
     (case phase (broker s) of
        Accepting \<Rightarrow> s\<lparr>broker := broker_accepted wo (server_accept a) (broker s)\<rparr> | _ \<Rightarrow> s)"
| "quic_do wo (Serve e) s =
     (case phase (broker s) of Serving c \<Rightarrow> s\<lparr>broker := broker_served wo e (broker s)\<rparr> | _ \<Rightarrow> s)"
| "quic_do wo Borrow s =
     (case dial_phase (dialing s) of
        Borrowing \<Rightarrow> s\<lparr>dialing := dial_borrow wo (connections (broker s)) (dialing s)\<rparr> | _ \<Rightarrow> s)"
| "quic_do wo (Open r) s =
     (case dial_phase (dialing s) of Opening c \<Rightarrow> s\<lparr>dialing := dial_opened r (dialing s)\<rparr> | _ \<Rightarrow> s)"
| "quic_do wo (Await cancelled) s =
     (case dial_phase (dialing s) of
        Awaiting \<Rightarrow> s\<lparr>dialing := dial_awaited wo (connections (broker s)) cancelled (dialing s)\<rparr> | _ \<Rightarrow> s)"

definition quic_run ::
    "('w, 'r, 'conn) conn_watch \<Rightarrow> ('inc, 'ce, 'conn, 'rcv, 'snd) quic_step list
       \<Rightarrow> ('w, 'r, 'conn, 'io, 'ce, 'rcv, 'snd) quic_system \<Rightarrow> ('w, 'r, 'conn, 'io, 'ce, 'rcv, 'snd) quic_system" where
  "quic_run wo ss s = fold (quic_do wo) ss s"

definition quic_start :: "('w, 'r, 'conn) conn_watch \<Rightarrow> ('w, 'r, 'conn, 'io, 'ce, 'rcv, 'snd) quic_system" where
  "quic_start wo =
     (let b = ConsumerQuicBroker_new wo
      in \<lparr>broker = b, dialing = dial_start wo (broker_dialer wo b)\<rparr>)"

text \<open>The connections whose handshake the server completed.\<close>

definition accepted_connection :: "('inc, 'ce, 'conn) accept_env \<Rightarrow> 'conn option" where
  "accepted_connection a =
     (if accept_cancelled a \<or> handshake_cancelled a then None
      else case incoming a of
             None \<Rightarrow> None
           | Some inc \<Rightarrow> (case handshake a inc of Inl e \<Rightarrow> None | Inr c \<Rightarrow> Some c))"

lemma server_accept_Inr: "server_accept a = Inr c \<longleftrightarrow> accepted_connection a = Some c"
  by (auto simp: server_accept_def accepted_connection_def and_then_Inr_iff split: option.splits sum.splits)

definition handshaken :: "('inc, 'ce, 'conn, 'rcv, 'snd) quic_step list \<Rightarrow> 'conn set" where
  "handshaken ss = {c. \<exists>a. Accept a \<in> set ss \<and> accepted_connection a = Some c}"

fun published :: "('conn, 'io, 'ce) broker_phase \<Rightarrow> 'conn option" where
  "published (Serving c) = Some c"
| "published _ = None"

fun is_done :: "('conn, 'io, 'ce) broker_phase \<Rightarrow> bool" where
  "is_done (BrokerDone r) = True"
| "is_done _ = False"

locale quic_channel = watch_channel wo for wo :: "('w, 'r, 'conn option) watch_ops"
begin

definition broker_ok :: "'conn set \<Rightarrow> ('w, 'r, 'conn, 'io, 'ce) ConsumerQuicBroker \<Rightarrow> bool" where
  "broker_ok cs b \<longleftrightarrow>
     watch_value wo (connections b) = published (phase b) \<and> (\<forall>c. published (phase b) = Some c \<longrightarrow> c \<in> cs) \<and>
     (sender_alive wo (connections b) \<longleftrightarrow> \<not> is_done (phase b)) \<and> (server_open b \<longleftrightarrow> \<not> is_done (phase b))"

definition dial_ok :: "'conn set \<Rightarrow> 'w \<Rightarrow> ('r, 'conn, 'io, 'ce, 'rcv, 'snd) dial \<Rightarrow> bool" where
  "dial_ok cs w d \<longleftrightarrow>
     rx_seen wo (updates d) \<le> watch_version wo w \<and> (\<forall>c. current d = Some c \<longrightarrow> c \<in> cs) \<and>
     (dial_phase d \<noteq> Borrowing \<longrightarrow> rx_seen wo (updates d) = watch_version wo w \<longrightarrow> current d = watch_value wo w) \<and>
     (\<forall>c. dial_phase d = Opening c \<longrightarrow> current d = Some c) \<and>
     (\<forall>j. dial_phase d = Dialed (Inr j) \<longrightarrow> current d \<noteq> None)"

definition quic_ok :: "'conn set \<Rightarrow> ('w, 'r, 'conn, 'io, 'ce, 'rcv, 'snd) quic_system \<Rightarrow> bool" where
  "quic_ok cs s \<longleftrightarrow> broker_ok cs (broker s) \<and> dial_ok cs (connections (broker s)) (dialing s)"

lemma start_ok: "quic_ok {} (quic_start wo)"
  by (auto simp: quic_ok_def broker_ok_def dial_ok_def quic_start_def ConsumerQuicBroker_new_def dial_start_def
      broker_dialer_def case_prod_beta)

lemma ok_mono: "quic_ok cs s \<Longrightarrow> cs \<subseteq> cs' \<Longrightarrow> quic_ok cs' s"
  by (auto simp: quic_ok_def broker_ok_def dial_ok_def)

text \<open>A send makes every receiver behind, so that what a dialer knows is no longer in question.\<close>

lemma dial_ok_send:
  assumes "dial_ok cs w d" and "watch_version wo w < watch_version wo w'"
  shows "dial_ok cs w' d"
  using assms by (auto simp: dial_ok_def)

lemma broker_stop_ok: "broker_ok cs (broker_stop wo r b)"
  by (simp add: broker_ok_def broker_stop_def)

lemma broker_stop_version: "watch_version wo (connections b) < watch_version wo (connections (broker_stop wo r b))"
  by (simp add: broker_stop_def)

lemma broker_accepted_ok:
  assumes "broker_ok cs b" and "phase b = Accepting" and "\<And>c. r = Inr c \<Longrightarrow> c \<in> cs"
  shows "broker_ok cs (broker_accepted wo r b) \<and>
    (broker_accepted wo r b = b \<or> watch_version wo (connections b) < watch_version wo (connections (broker_accepted wo r b)))"
proof (cases r)
  case (Inl e)
  with assms(1) show ?thesis by (cases e) (simp_all add: broker_stop_ok broker_stop_version)
next
  case (Inr c)
  with assms show ?thesis by (simp add: broker_ok_def)
qed

lemma accept_ok:
  assumes "quic_ok cs s" and "\<And>c. accepted_connection a = Some c \<Longrightarrow> c \<in> cs"
  shows "quic_ok cs (quic_do wo (Accept a) s)"
proof (cases "phase (broker s)")
  case Accepting
  from broker_accepted_ok [OF _ this, of cs "server_accept a"] assms Accepting show ?thesis
    by (auto simp: quic_ok_def server_accept_Inr intro: dial_ok_send)
qed (use assms in auto)

lemma serve_ok:
  assumes "quic_ok cs s"
  shows "quic_ok cs (quic_do wo (Serve e) s)"
proof (cases "phase (broker s)")
  case (Serving c)
  have "broker_ok cs (broker_served wo e (broker s)) \<and>
      watch_version wo (connections (broker s)) < watch_version wo (connections (broker_served wo e (broker s)))"
  proof (cases e)
    case ServeCancelled
    then show ?thesis by (simp add: broker_stop_ok broker_stop_version)
  next
    case ConnectionClosed
    with assms Serving show ?thesis by (simp add: quic_ok_def broker_ok_def)
  qed
  with assms Serving show ?thesis by (auto simp: quic_ok_def intro: dial_ok_send)
qed (use assms in auto)

lemma borrow_ok:
  assumes "quic_ok cs s"
  shows "quic_ok cs (quic_do wo Borrow s)"
  using assms
  by (auto simp: quic_ok_def broker_ok_def dial_ok_def dial_borrow_def Let_def split: dial_phase.splits option.splits)

lemma open_ok:
  assumes "quic_ok cs s"
  shows "quic_ok cs (quic_do wo (Open r) s)"
  using assms
  by (cases r) (auto simp: quic_ok_def dial_ok_def split: dial_phase.splits)

lemma dial_awaited_result:
  "dial_awaited wo w cancelled d =
     (if cancelled then d\<lparr>dial_phase := Dialed (Inl QuicCancelled)\<rparr>
      else d\<lparr>updates := fst (rx_changed wo w (updates d)),
             dial_phase := (if rx_seen wo (updates d) \<noteq> watch_version wo w then Borrowing
                            else if sender_alive wo w then dial_phase d else Dialed (Inl BrokerStopped))\<rparr>)"
  using changed_result [of w "updates d"]
  by (cases "rx_changed wo w (updates d)") (simp add: dial_awaited_def)

lemma await_ok:
  assumes "quic_ok cs s"
  shows "quic_ok cs (quic_do wo (Await cancelled) s)"
  using assms by (auto simp: quic_ok_def dial_ok_def dial_awaited_result split: dial_phase.splits)

lemma step_ok:
  assumes "quic_ok cs s" and "\<And>a c. st = Accept a \<Longrightarrow> accepted_connection a = Some c \<Longrightarrow> c \<in> cs"
  shows "quic_ok cs (quic_do wo st s)"
  using assms by (cases st) (auto simp del: quic_do.simps intro: accept_ok serve_ok borrow_ok open_ok await_ok)

lemma run_ok: "quic_ok cs s \<Longrightarrow> handshaken ss \<subseteq> cs \<Longrightarrow> quic_ok cs (quic_run wo ss s)"
proof (induction ss arbitrary: s)
  case Nil
  then show ?case by (simp add: quic_run_def)
next
  case (Cons st ss)
  have "quic_ok cs (quic_do wo st s)"
    by (rule step_ok [OF Cons.prems(1)]) (use Cons.prems(2) in \<open>auto simp: handshaken_def\<close>)
  moreover have "handshaken ss \<subseteq> cs" using Cons.prems(2) by (auto simp: handshaken_def)
  ultimately show ?case using Cons.IH by (simp add: quic_run_def)
qed

lemma reachable_ok: "quic_ok (handshaken ss) (quic_run wo ss (quic_start wo))"
  by (rule run_ok [OF ok_mono [OF start_ok]]) simp_all

text \<open>A dialer that waits while a connection it has not tried is published finds it when it is polled.\<close>

lemma awaiting_wakes:
  assumes "quic_ok cs s" and "dial_phase (dialing s) = Awaiting"
    and "watch_value wo (connections (broker s)) = Some c" and "current (dialing s) \<noteq> Some c"
  shows "dial_phase (dialing (quic_run wo [Await False, Borrow] s)) = Opening c"
proof -
  have "rx_seen wo (updates (dialing s)) \<noteq> watch_version wo (connections (broker s))"
    using assms by (auto simp: quic_ok_def dial_ok_def)
  with assms(2,3) show ?thesis by (simp add: quic_run_def dial_awaited_result dial_borrow_def)
qed

lemma awaiting_stops:
  assumes "quic_ok cs s" and "dial_phase (dialing s) = Awaiting" and "is_done (phase (broker s))"
  shows "dial_phase (dialing (quic_run wo [Await False, Borrow, Await False] s)) = Dialed (Inl BrokerStopped)"
proof -
  have "\<not> sender_alive wo (connections (broker s))" "watch_value wo (connections (broker s)) = None"
    using assms(1,3) by (cases "phase (broker s)"; auto simp: quic_ok_def broker_ok_def)+
  with assms(2) show ?thesis
    by (cases "rx_seen wo (updates (dialing s)) = watch_version wo (connections (broker s))")
      (simp_all add: quic_run_def dial_awaited_result dial_borrow_def)
qed

end

interpretation counter_quic: quic_channel counter_watch
  by unfold_locales

section \<open>Properties\<close>

text \<open>
  C32. The dialer only uses connections that the broker published. Whatever the order of the steps of
  the broker and of a dialer, the published connection is the one that the broker serves and
  there is none while it accepts or after it ended, at which point the server is closed; and a
  stream is opened only on a connection whose handshake the server completed.
\<close>

theorem dialer_uses_published_connection:
  assumes "watch_channel wo" and "s = quic_run wo ss (quic_start wo)"
  shows "current_connection wo (connections (broker s)) r = published (phase (broker s)) \<and>
    (server_open (broker s) \<longleftrightarrow> \<not> is_done (phase (broker s))) \<and>
    (\<forall>c. dial_phase (dialing s) = Opening c \<longrightarrow> c \<in> handshaken ss) \<and>
    (\<forall>j. dial_phase (dialing s) = Dialed (Inr j) \<longrightarrow> (\<exists>c. current (dialing s) = Some c \<and> c \<in> handshaken ss))"
proof -
  have q: "quic_channel wo" using assms(1) by (simp add: quic_channel_def)
  have "quic_channel.quic_ok wo (handshaken ss) s"
    unfolding assms(2) by (rule quic_channel.reachable_ok [OF q])
  then show ?thesis
    by (auto simp: quic_channel.quic_ok_def [OF q] quic_channel.broker_ok_def [OF q] quic_channel.dial_ok_def [OF q]
        current_connection_def watch_channel.borrow_spec [OF assms(1)])
qed

definition sample_accept :: "nat \<Rightarrow> (unit, string, nat) accept_env" where
  "sample_accept c = \<lparr>accept_cancelled = False, incoming = Some (), handshake_cancelled = False, handshake = (\<lambda>_. Inr c)\<rparr>"

definition sample_steps :: "(unit, string, nat, nat, nat) quic_step list" where
  "sample_steps = [Borrow, Accept (sample_accept 7), Await False, Borrow, Open (Opened 1 2)]"

type_synonym sample_quic = "(nat option \<times> nat \<times> bool, nat, nat, string, string, nat, nat) quic_system"

lemmas quic_eval = quic_run_def quic_start_def ConsumerQuicBroker_new_def broker_dialer_def dial_start_def
  dial_borrow_def dial_awaited_def counter_watch_def sample_accept_def server_accept_def broker_stop_def

theorem dialer_uses_published_connection_witness:
  "let s = quic_run counter_watch sample_steps (quic_start counter_watch) :: sample_quic in
     dial_phase (dialing s) = Dialed (Inr (Join 2 1)) \<and> current (dialing s) = Some 7 \<and> 7 \<in> handshaken sample_steps"
proof -
  let ?s = "quic_run counter_watch sample_steps (quic_start counter_watch) :: sample_quic"
  have d: "dial_phase (dialing ?s) = Dialed (Inr (Join 2 1)) \<and> current (dialing ?s) = Some 7"
    by (simp add: quic_eval sample_steps_def)
  with dialer_uses_published_connection [OF counter_watch.watch_channel_axioms,
      where s = ?s and ss = sample_steps and r = 0, OF refl] show ?thesis
    by (simp add: Let_def)
qed

text \<open>
  C33. A waiting dialer never misses a connection. Whenever a dialer waits for a change while the
  broker serves a connection that is not the one the dialer has just tried, the next poll wakes it
  and it goes on to open a stream on that connection.
\<close>

theorem dialer_never_misses_connection:
  assumes "watch_channel wo" and "s = quic_run wo ss (quic_start wo)"
    and "phase (broker s) = Serving c" and "dial_phase (dialing s) = Awaiting" and "current (dialing s) \<noteq> Some c"
  shows "dial_phase (dialing (quic_run wo [Await False, Borrow] s)) = Opening c"
proof -
  have q: "quic_channel wo" using assms(1) by (simp add: quic_channel_def)
  have ok: "quic_channel.quic_ok wo (handshaken ss) s"
    unfolding assms(2) by (rule quic_channel.reachable_ok [OF q])
  then have "watch_value wo (connections (broker s)) = Some c"
    using assms(3) by (simp add: quic_channel.quic_ok_def [OF q] quic_channel.broker_ok_def [OF q])
  with ok assms(4,5) show ?thesis by (intro quic_channel.awaiting_wakes [OF q])
qed

definition sample_replaced :: "(unit, string, nat, nat, nat) quic_step list" where
  "sample_replaced = [Accept (sample_accept 7), Borrow, Serve ConnectionClosed, Open (OpenFailed ''closed'' True),
     Accept (sample_accept 8)]"

theorem dialer_never_misses_connection_witness:
  "let s = quic_run counter_watch sample_replaced (quic_start counter_watch) :: sample_quic in
     phase (broker s) = Serving 8 \<and> dial_phase (dialing s) = Awaiting \<and> current (dialing s) = Some 7 \<and>
     dial_phase (dialing (quic_run counter_watch [Await False, Borrow] s)) = Opening 8"
proof -
  let ?s = "quic_run counter_watch sample_replaced (quic_start counter_watch) :: sample_quic"
  have s: "phase (broker ?s) = Serving 8" "dial_phase (dialing ?s) = Awaiting" "current (dialing ?s) = Some 7"
    by (simp_all add: quic_eval sample_replaced_def)
  then have ne: "current (dialing ?s) \<noteq> Some 8" by simp
  from dialer_never_misses_connection [OF counter_watch.watch_channel_axioms refl s(1,2) ne] s show ?thesis
    by (simp add: Let_def)
qed

text \<open>
  C34. The end of the broker releases every dialer. After the broker has ended, by cancellation or
  by an error of the endpoint, a dialer that waits returns \<open>BrokerStopped\<close> within two polls of
  the change notification.
\<close>

theorem broker_end_releases_dialer:
  assumes "watch_channel wo" and "s = quic_run wo ss (quic_start wo)"
    and "phase (broker s) = BrokerDone r" and "dial_phase (dialing s) = Awaiting"
  shows "dial_phase (dialing (quic_run wo [Await False, Borrow, Await False] s)) = Dialed (Inl BrokerStopped)"
proof -
  have q: "quic_channel wo" using assms(1) by (simp add: quic_channel_def)
  have "quic_channel.quic_ok wo (handshaken ss) s"
    unfolding assms(2) by (rule quic_channel.reachable_ok [OF q])
  then show ?thesis using assms(3,4) by (intro quic_channel.awaiting_stops [OF q]) simp_all
qed

theorem broker_end_releases_dialer_witness:
  "let s = quic_run counter_watch [Accept (sample_accept 7), Borrow, Open (OpenFailed ''closed'' True), Serve ServeCancelled]
       (quic_start counter_watch) :: sample_quic in
     phase (broker s) = BrokerDone (Inr ()) \<and>
     dial_phase (dialing (quic_run counter_watch [Await False, Borrow, Await False] s)) = Dialed (Inl BrokerStopped)"
proof -
  let ?s = "quic_run counter_watch [Accept (sample_accept 7), Borrow, Open (OpenFailed ''closed'' True), Serve ServeCancelled]
       (quic_start counter_watch) :: sample_quic"
  have s: "phase (broker ?s) = BrokerDone (Inr ())" "dial_phase (dialing ?s) = Awaiting"
    by (simp_all add: quic_eval)
  from broker_end_releases_dialer [OF counter_watch.watch_channel_axioms refl s] s show ?thesis
    by (simp add: Let_def)
qed

end
