(* ===== verification/Consumer_Socks5.thy ===== *)
theory Consumer_Socks5
  imports Consumer_Quic
begin

unbundle bit_operations_syntax

text \<open>
  The SOCKS5 client of \<open>src/src/consumer_socks5.rs\<close>: the CONNECT handshake over a byte stream, and
  the handshake on a stream that a dialer opened. The two operations of the stream,
  \<open>write_all\<close> and \<open>read_exact\<close>, are an argument; the state of a stream holds the bytes that its
  other end sends.
\<close>

section \<open>Types\<close>

datatype Socks5Target = TargetIp SocketAddr | TargetDomain string u16

definition Socks5Target_from :: "SocketAddr \<Rightarrow> Socks5Target" where
  "Socks5Target_from addr = TargetIp addr"

datatype ('q, 'io) ConsumerSocks5Error =
    SocksQuic 'q
  | SocksCancelled
  | SocksIo 'io
  | DomainTooLong nat
  | EmptyDomain
  | UnsupportedAuth u8
  | InvalidVersion u8
  | ConnectRejected u8
  | InvalidReserved u8
  | InvalidAddressType u8

section \<open>The handshake\<close>

record ('s, 'io) stream_ops =
  write_all :: "'s \<Rightarrow> bytes \<Rightarrow> 's \<times> ('io + unit)"
  read_exact :: "'s \<Rightarrow> nat \<Rightarrow> 's \<times> ('io + bytes)"

text \<open>\<open>operation.await?\<close> on the stream.\<close>

definition io_try ::
    "'s \<times> ('io + 'a) \<Rightarrow> ('s \<Rightarrow> 'a \<Rightarrow> 's \<times> (('q, 'io) ConsumerSocks5Error + 'b))
       \<Rightarrow> 's \<times> (('q, 'io) ConsumerSocks5Error + 'b)" where
  "io_try r k = (case r of (s, Inl e) \<Rightarrow> (s, Inl (SocksIo e)) | (s, Inr a) \<Rightarrow> k s a)"

fun socks5_request :: "Socks5Target \<Rightarrow> ('q, 'io) ConsumerSocks5Error + bytes" where
  "socks5_request (TargetIp (SocketAddrV4 ip port)) =
     Inr ([5, 1, 0] @ [1] @ u32_to_be_bytes ip @ u16_to_be_bytes port)"
| "socks5_request (TargetIp (SocketAddrV6 ip port flow scope)) =
     Inr ([5, 1, 0] @ [4] @ u128_to_be_bytes ip @ u16_to_be_bytes port)"
| "socks5_request (TargetDomain host port) =
     (if host = [] then Inl EmptyDomain
      else if 255 < length host then Inl (DomainTooLong (length host))
      else Inr ([5, 1, 0] @ [3, word_of_nat (length host)] @ str_bytes host @ u16_to_be_bytes port))"

definition address_length ::
    "('s, 'io) stream_ops \<Rightarrow> u8 \<Rightarrow> 's \<Rightarrow> 's \<times> (('q, 'io) ConsumerSocks5Error + nat)" where
  "address_length io address_type s =
     (if address_type = 1 then (s, Inr 4)
      else if address_type = 4 then (s, Inr 16)
      else if address_type = 3 then io_try (read_exact io s 1) (\<lambda>s len. (s, Inr (unat (len ! 0))))
      else (s, Inl (InvalidAddressType address_type)))"

definition read_reply ::
    "('s, 'io) stream_ops \<Rightarrow> 's \<Rightarrow> 's \<times> (('q, 'io) ConsumerSocks5Error + unit)" where
  "read_reply io s =
     io_try (read_exact io s 4) (\<lambda>s reply.
       if reply ! 0 \<noteq> 5 then (s, Inl (InvalidVersion (reply ! 0)))
       else if reply ! 1 \<noteq> 0 then (s, Inl (ConnectRejected (reply ! 1)))
       else if reply ! 2 \<noteq> 0 then (s, Inl (InvalidReserved (reply ! 2)))
       else case address_length io (reply ! 3) s of
              (s, Inl e) \<Rightarrow> (s, Inl e)
            | (s, Inr n) \<Rightarrow> io_try (read_exact io s (n + 2)) (\<lambda>s _. (s, Inr ())))"

text \<open>The result carries the stream also on an error, where the code drops it.\<close>

definition socks5_connect ::
    "('s, 'io) stream_ops \<Rightarrow> 's \<Rightarrow> Socks5Target \<Rightarrow> 's \<times> (('q, 'io) ConsumerSocks5Error + unit)" where
  "socks5_connect io s target =
     io_try (write_all io s [5, 1, 0]) (\<lambda>s _.
     io_try (read_exact io s 2) (\<lambda>s greeting.
       if greeting ! 0 \<noteq> 5 then (s, Inl (InvalidVersion (greeting ! 0)))
       else if greeting ! 1 \<noteq> 0 then (s, Inl (UnsupportedAuth (greeting ! 1)))
       else case socks5_request target of
              Inl e \<Rightarrow> (s, Inl e)
            | Inr request \<Rightarrow> io_try (write_all io s request) (\<lambda>s _. read_reply io s)))"

text \<open>
  \<open>connect_socks5\<close>: what \<open>open_bi\<close> returned, and whether the cancellation wins the \<open>select!\<close> of the
  handshake.
\<close>

definition connect_socks5 ::
    "('s, 'io) stream_ops \<Rightarrow> ('eio, 'ce) ConsumerQuicError + 's \<Rightarrow> bool \<Rightarrow> Socks5Target
       \<Rightarrow> (('eio, 'ce) ConsumerQuicError, 'io) ConsumerSocks5Error + 's" where
  "connect_socks5 io opened cancelled target =
     (case opened of
        Inl QuicCancelled \<Rightarrow> Inl SocksCancelled
      | Inl error \<Rightarrow> Inl (SocksQuic error)
      | Inr stream \<Rightarrow>
          if cancelled then Inl SocksCancelled
          else case socks5_connect io stream target of (s, Inl e) \<Rightarrow> Inl e | (s, Inr _) \<Rightarrow> Inr s)"

section \<open>The contract of a stream\<close>

text \<open>
  \<open>unread\<close> is what the other end sends before the stream ends or fails, \<open>written\<close> what it has
  received. \<open>read_exact\<close> takes exactly the requested bytes or fails; \<open>write_all\<close> appends all
  bytes, or fails after some of them.
\<close>

locale byte_stream =
  fixes io :: "('s, 'io) stream_ops" and unread :: "'s \<Rightarrow> bytes" and written :: "'s \<Rightarrow> bytes"
  assumes read_enough:
      "n \<le> length (unread s) \<Longrightarrow>
         \<exists>s'. read_exact io s n = (s', Inr (take n (unread s))) \<and> unread s' = drop n (unread s)"
    and read_short: "length (unread s) < n \<Longrightarrow> \<exists>s' e. read_exact io s n = (s', Inl e)"
    and read_written: "read_exact io s n = (s', r) \<Longrightarrow> written s' = written s"
    and write_unread: "write_all io s bs = (s', r') \<Longrightarrow> unread s' = unread s"
    and write_ok: "write_all io s bs = (s', Inr u) \<Longrightarrow> written s' = written s @ bs"
    and write_err: "write_all io s bs = (s', Inl e) \<Longrightarrow> \<exists>n. written s' = written s @ take n bs"

section \<open>References\<close>

text \<open>A successful reply as RFC 1928 lays it out: version, status, reserved byte, bound address, port.\<close>

definition connect_reply :: "bytes \<Rightarrow> bool" where
  "connect_reply bs \<longleftrightarrow>
     (\<exists>addr port. length port = 2 \<and>
        (bs = [5, 0, 0, 1] @ addr @ port \<and> length addr = 4 \<or>
         bs = [5, 0, 0, 4] @ addr @ port \<and> length addr = 16 \<or>
         (\<exists>n. bs = [5, 0, 0, 3, n] @ addr @ port \<and> length addr = unat n)))"

text \<open>Big-endian integers and a parser of requests, which returns what follows the request.\<close>

definition be_word :: "'a::len word \<Rightarrow> bytes \<Rightarrow> 'a word" where
  "be_word w bs = foldl (\<lambda>w b. push_bit 8 w OR ucast b) w bs"

definition byte_char :: "u8 \<Rightarrow> char" where
  "byte_char b = char_of (unat b)"

fun parse_request :: "bytes \<Rightarrow> (Socks5Target \<times> bytes) option" where
  "parse_request (v # c # r # t # bs) =
     (if v \<noteq> 5 \<or> c \<noteq> 1 \<or> r \<noteq> 0 then None
      else if t = 1 \<and> 6 \<le> length bs
      then Some (TargetIp (SocketAddrV4 (be_word 0 (take 4 bs)) (be_word 0 (take 2 (drop 4 bs)))), drop 6 bs)
      else if t = 4 \<and> 18 \<le> length bs
      then Some (TargetIp (SocketAddrV6 (be_word 0 (take 16 bs)) (be_word 0 (take 2 (drop 16 bs))) 0 0), drop 18 bs)
      else if t = 3 \<and> bs \<noteq> [] \<and> unat (hd bs) + 2 \<le> length (tl bs)
      then (let n = unat (hd bs); host = take n (tl bs); rest = drop n (tl bs) in
            Some (TargetDomain (map byte_char host) (be_word 0 (take 2 rest)), drop 2 rest))
      else None)"
| "parse_request _ = None"

text \<open>The flow label and the scope of an IPv6 address are not sent.\<close>

fun wire_target :: "Socks5Target \<Rightarrow> Socks5Target" where
  "wire_target (TargetIp (SocketAddrV6 ip port flow scope)) = TargetIp (SocketAddrV6 ip port 0 0)"
| "wire_target t = t"

section \<open>Encodings\<close>

lemma be_word_bytes:
  "be_word acc (map (\<lambda>i. ucast (drop_bit (8 * i) w)) (rev [0..<k])) = push_bit (8 * k) acc OR take_bit (8 * k) w"
proof (induction k arbitrary: acc)
  case 0
  then show ?case by (simp add: be_word_def)
next
  case (Suc k)
  have "be_word acc (map (\<lambda>i. ucast (drop_bit (8 * i) w)) (rev [0..<Suc k])) =
      push_bit (8 * k) (push_bit 8 acc OR ucast (ucast (drop_bit (8 * k) w) :: u8)) OR take_bit (8 * k) w"
    using Suc.IH by (simp add: be_word_def)
  also have "\<dots> = push_bit (8 * Suc k) acc OR take_bit (8 * Suc k) w"
    by (rule bit_word_eqI) (auto simp: bit_simps add.commute)
  finally show ?case .
qed

lemma be_bytes_as_map:
  "u16_to_be_bytes p = map (\<lambda>i. ucast (drop_bit (8 * i) p)) (rev [0..<2])"
  "u32_to_be_bytes a = map (\<lambda>i. ucast (drop_bit (8 * i) a)) (rev [0..<4])"
  by (simp_all add: u16_to_be_bytes_def u32_to_be_bytes_def upt_rec)

lemma be_word_be_bytes [simp]:
  "be_word 0 (u16_to_be_bytes p) = p" "be_word 0 (u32_to_be_bytes a) = a" "be_word 0 (u128_to_be_bytes b) = b"
  unfolding be_bytes_as_map u128_to_be_bytes_def be_word_bytes by (simp_all add: take_bit_word_eq_self)

lemma byte_char_char_byte [simp]: "byte_char (char_byte c) = c"
  by (simp add: byte_char_def char_byte_def unat_of_nat)

lemma map_byte_char_str_bytes [simp]: "map byte_char (str_bytes s) = s"
  by (induction s) (simp_all add: str_bytes_def)

section \<open>The handshake over a stream\<close>

lemma io_try_Inr: "io_try r k = (s', Inr b) \<longleftrightarrow> (\<exists>s1 a. r = (s1, Inr a) \<and> k s1 a = (s', Inr b))"
  by (auto simp: io_try_def split: prod.splits sum.splits)

lemma nth_of_append4: "length as = 4 \<Longrightarrow> as = [as ! 0, as ! 1, as ! 2, as ! 3]"
  by (auto simp: numeral_eq_Suc length_Suc_conv)

lemma nth_of_append2: "length as = 2 \<Longrightarrow> as = [as ! 0, as ! 1]"
  by (auto simp: numeral_eq_Suc length_Suc_conv)

lemma split_at_end: "length bs = n + k \<Longrightarrow> \<exists>as ps. bs = as @ ps \<and> length as = n \<and> length ps = k"
  by (intro exI [of _ "take n bs"] exI [of _ "drop n bs"]) simp

lemma connect_replyI:
  assumes "length port = 2"
  shows "length addr = 4 \<Longrightarrow> connect_reply ([5, 0, 0, 1] @ addr @ port)"
    and "length addr = 16 \<Longrightarrow> connect_reply ([5, 0, 0, 4] @ addr @ port)"
    and "length addr = unat n \<Longrightarrow> connect_reply ([5, 0, 0, 3, n] @ addr @ port)"
  unfolding connect_reply_def using assms by blast+

context byte_stream
begin

lemma read_ok:
  assumes "read_exact io s n = (s', Inr bs)"
  shows "length bs = n" "unread s = bs @ unread s'" "written s' = written s"
proof -
  have n: "n \<le> length (unread s)" using assms read_short [of s n] by (metis Inr_Inl_False not_le prod.inject)
  from read_enough [OF n] assms show "length bs = n" "unread s = bs @ unread s'" using n by auto
  show "written s' = written s" by (rule read_written [OF assms])
qed

lemma read_exactly:
  assumes "unread s = bs @ rest" and "length bs = n"
  shows "\<exists>s'. read_exact io s n = (s', Inr bs) \<and> unread s' = rest \<and> written s' = written s"
  using read_enough [of n s] assms by (auto dest: read_written)

text \<open>A reply that is accepted is complete, and nothing behind it is read.\<close>

lemma read_reply_sound:
  assumes "read_reply io s = (s', Inr u :: ('q, 'io) ConsumerSocks5Error + unit)"
  shows "\<exists>reply. connect_reply reply \<and> unread s = reply @ unread s' \<and> written s' = written s"
proof -
  from assms obtain s1 reply s2 n s3 bound where
    r: "read_exact io s 4 = (s1, Inr reply)" and ok: "reply ! 0 = 5" "reply ! 1 = 0" "reply ! 2 = 0"
    and len: "address_length io (reply ! 3) s1 = (s2, Inr n :: ('q, 'io) ConsumerSocks5Error + nat)"
    and b: "read_exact io s2 (n + 2) = (s', Inr bound)"
    by (auto simp: read_reply_def io_try_Inr split: if_splits prod.splits sum.splits)
  note r = read_ok [OF r] and b = read_ok [OF b]
  from split_at_end [OF b(1)] obtain addr port where bound: "bound = addr @ port" "length addr = n" "length port = 2" by blast
  from ok nth_of_append4 [OF r(1)] have reply: "reply = [5, 0, 0, reply ! 3]" by metis
  consider (ip4) "reply ! 3 = 1" "n = 4" "s2 = s1" | (ip6) "reply ! 3 = 4" "n = 16" "s2 = s1"
    | (name) l where "reply ! 3 = 3" "read_exact io s1 1 = (s2, Inr l)" "n = unat (l ! 0)"
    using len by (auto simp: address_length_def io_try_Inr split: if_splits)
  then show ?thesis
  proof cases
    case name
    note l = read_ok [OF name(2)]
    then obtain c where c: "l = [c]" by (cases l) auto
    have "connect_reply ([5, 0, 0, 3, c] @ addr @ port)" using bound name c by (intro connect_replyI) simp_all
    with l b r reply name bound c show ?thesis
      by (intro exI [of _ "[5, 0, 0, 3, c] @ addr @ port"]) auto
  qed (use b r reply bound connect_replyI in \<open>intro exI [of _ "reply @ addr @ port"], force\<close>)+
qed

lemma read_reply_complete:
  assumes "connect_reply reply" and "unread s = reply @ rest"
  shows "\<exists>s'. read_reply io s = (s', Inr ()) \<and> unread s' = rest"
proof -
  from assms(1) obtain addr port where port: "length port = 2"
    and "reply = [5, 0, 0, 1] @ addr @ port \<and> length addr = 4 \<or>
         reply = [5, 0, 0, 4] @ addr @ port \<and> length addr = 16 \<or>
         (\<exists>n. reply = [5, 0, 0, 3, n] @ addr @ port \<and> length addr = unat n)"
    unfolding connect_reply_def by blast
  then consider (fixed) t where "reply = [5, 0, 0, t] @ addr @ port" "t = 1 \<and> length addr = 4 \<or> t = 4 \<and> length addr = 16"
    | (name) n where "reply = [5, 0, 0, 3, n] @ addr @ port" "length addr = unat n" by blast
  then show ?thesis
  proof cases
    case fixed
    have s: "unread s = [5, 0, 0, t] @ (addr @ port @ rest)" using assms(2) fixed(1) by simp
    from read_exactly [OF s, of 4] obtain s1 where s1: "read_exact io s 4 = (s1, Inr [5, 0, 0, t])"
      "unread s1 = (addr @ port) @ rest" by auto
    from read_exactly [OF s1(2), of "length addr + 2"] port obtain s2 where
      "read_exact io s1 (length addr + 2) = (s2, Inr (addr @ port))" "unread s2 = rest" by auto
    with s1 fixed(2) show ?thesis by (auto simp: read_reply_def io_try_def address_length_def)
  next
    case name
    have s: "unread s = [5, 0, 0, 3] @ ([n] @ addr @ port @ rest)" using assms(2) name(1) by simp
    from read_exactly [OF s, of 4] obtain s1 where s1: "read_exact io s 4 = (s1, Inr [5, 0, 0, 3])"
      "unread s1 = [n] @ (addr @ port @ rest)" by auto
    from read_exactly [OF s1(2), of 1] obtain s2 where s2: "read_exact io s1 1 = (s2, Inr [n])"
      "unread s2 = (addr @ port) @ rest" by auto
    from read_exactly [OF s2(2), of "length addr + 2"] port obtain s3 where
      "read_exact io s2 (length addr + 2) = (s3, Inr (addr @ port))" "unread s3 = rest" by auto
    with s1 s2 name(2) show ?thesis by (auto simp: read_reply_def io_try_def address_length_def)
  qed
qed

end

section \<open>A stream over lists\<close>

record list_stream =
  ls_in :: bytes
  ls_out :: bytes

definition list_io :: "(list_stream, string) stream_ops" where
  "list_io =
     \<lparr>write_all = (\<lambda>s bs. (s\<lparr>ls_out := ls_out s @ bs\<rparr>, Inr ())),
      read_exact = (\<lambda>s n. if n \<le> length (ls_in s) then (s\<lparr>ls_in := drop n (ls_in s)\<rparr>, Inr (take n (ls_in s)))
                          else (s, Inl ''early eof''))\<rparr>"

interpretation list_io: byte_stream list_io ls_in ls_out
  by unfold_locales (auto simp: list_io_def split: if_splits)

section \<open>Properties\<close>

text \<open>
  C35. The CONNECT request says what was asked for. A request that is built parses back, by the
  layout of RFC 1928, to the target, up to the flow label and scope of an IPv6 address, and ends
  exactly there; and the only targets without a request are the empty domain and a domain of more
  than 255 bytes.
\<close>

theorem socks5_request_roundtrip:
  "(\<forall>request. socks5_request target = Inr request \<longrightarrow> parse_request (request @ rest) = Some (wire_target target, rest)) \<and>
   (socks5_request target = Inl EmptyDomain \<longleftrightarrow> (\<exists>port. target = TargetDomain [] port)) \<and>
   (socks5_request target = Inl (DomainTooLong n) \<longleftrightarrow>
      (\<exists>host port. target = TargetDomain host port \<and> n = length host \<and> 255 < n)) \<and>
   (\<forall>e. socks5_request target = Inl e \<longrightarrow> e = EmptyDomain \<or> (\<exists>m. e = DomainTooLong m))"
proof (cases target)
  case (TargetIp addr)
  then show ?thesis by (cases addr) auto
next
  case (TargetDomain host port)
  have "unat (word_of_nat (length host) :: u8) = length host" if "\<not> 255 < length host"
    using that by (simp add: unat_of_nat)
  with TargetDomain show ?thesis by auto
qed

theorem socks5_request_roundtrip_witness:
  "parse_request ([5, 1, 0, 3, 2, 97, 98, 1, 187] @ [9]) = Some (TargetDomain ''ab'' 443, [9])"
proof -
  have req: "socks5_request (TargetDomain ''ab'' 443) = (Inr [5, 1, 0, 3, 2, 97, 98, 1, 187] :: (unit, unit) ConsumerSocks5Error + bytes)"
    by (simp add: str_bytes_def char_byte_def u16_to_be_bytes_def)
  from socks5_request_roundtrip [THEN conjunct1, rule_format, OF req, of "[9]"]
  show ?thesis by (simp only: wire_target.simps)
qed

text \<open>
  C36. A completed handshake leaves the stream exactly at the application's data. When
  \<open>socks5_connect\<close> succeeds, it has sent the greeting and the request for the target and nothing
  else, the other end had selected no authentication and sent a complete success reply, and every
  byte behind the reply is still unread.
\<close>

theorem socks5_leaves_application_bytes:
  assumes "byte_stream io unread written"
    and "socks5_connect io s target = (s', Inr u :: ('q, 'io) ConsumerSocks5Error + unit)"
  shows "\<exists>request reply. socks5_request target = (Inr request :: ('q, 'io) ConsumerSocks5Error + bytes) \<and>
    written s' = written s @ [5, 1, 0] @ request \<and>
    connect_reply reply \<and> unread s = [5, 0] @ reply @ unread s'"
proof -
  from assms(2) obtain s1 s2 s3 greeting request where
    w1: "write_all io s [5, 1, 0] = (s1, Inr ())" and g: "read_exact io s1 2 = (s2, Inr greeting)"
    and ok: "greeting ! 0 = 5" "greeting ! 1 = 0"
    and req: "socks5_request target = (Inr request :: ('q, 'io) ConsumerSocks5Error + bytes)"
    and w2: "write_all io s2 request = (s3, Inr ())"
    and r: "read_reply io s3 = (s', Inr u :: ('q, 'io) ConsumerSocks5Error + unit)"
    by (auto simp: socks5_connect_def io_try_Inr split: if_splits sum.splits)
  note g = byte_stream.read_ok [OF assms(1) g]
  from ok nth_of_append2 [OF g(1)] have "greeting = [5, 0]" by metis
  moreover from byte_stream.read_reply_sound [OF assms(1) r] obtain reply where
    "connect_reply reply" "unread s3 = reply @ unread s'" "written s' = written s3" by blast
  ultimately show ?thesis
    using g req byte_stream.write_ok [OF assms(1) w1] byte_stream.write_unread [OF assms(1) w1]
      byte_stream.write_ok [OF assms(1) w2] byte_stream.write_unread [OF assms(1) w2]
    by (intro exI [of _ request] exI [of _ reply]) simp
qed

text \<open>
  C37. Every conforming server is accepted. If the target has a request, writes succeed, and the
  other end selects no authentication and sends a success reply with an address of any of the
  three kinds, then \<open>socks5_connect\<close> succeeds and leaves what follows the reply.
\<close>

theorem socks5_accepts_valid_server:
  assumes "byte_stream io unread written" and "\<And>s bs. \<exists>s'. write_all io s bs = (s', Inr ())"
    and "socks5_request target = (Inr request :: ('q, 'io) ConsumerSocks5Error + bytes)"
    and "connect_reply reply" and "unread s = [5, 0] @ reply @ rest"
  shows "\<exists>s'. socks5_connect io s target = (s', Inr () :: ('q, 'io) ConsumerSocks5Error + unit) \<and> unread s' = rest"
proof -
  obtain s1 where w1: "write_all io s [5, 1, 0] = (s1, Inr ())" using assms(2) by blast
  then have "unread s1 = [5, 0] @ (reply @ rest)" using byte_stream.write_unread [OF assms(1) w1] assms(5) by simp
  from byte_stream.read_exactly [OF assms(1) this, of 2] obtain s2 where
    g: "read_exact io s1 2 = (s2, Inr [5, 0])" "unread s2 = reply @ rest" by auto
  obtain s3 where w2: "write_all io s2 request = (s3, Inr ())" using assms(2) by blast
  then have "unread s3 = reply @ rest" using byte_stream.write_unread [OF assms(1) w2] g(2) by simp
  from byte_stream.read_reply_complete [OF assms(1,4) this] w1 g(1) w2 assms(3) show ?thesis
    by (auto simp: socks5_connect_def io_try_def)
qed

definition sample_server :: list_stream where
  "sample_server = \<lparr>ls_in = [5, 0] @ ([5, 0, 0, 1] @ [127, 0, 0, 1] @ [4, 56]) @ [72, 105], ls_out = []\<rparr>"

lemma sample_reply: "connect_reply ([5, 0, 0, 1] @ [127, 0, 0, 1] @ [4, 56])"
  by (rule connect_replyI) simp_all

theorem socks5_leaves_application_bytes_witness:
  "\<exists>s'. socks5_connect list_io sample_server (TargetDomain ''ab'' 443) =
      (s', Inr () :: (unit, string) ConsumerSocks5Error + unit) \<and> ls_in s' = [72, 105] \<and>
    (\<exists>request. ls_out s' = [5, 1, 0] @ request)"
proof -
  obtain s' where s': "socks5_connect list_io sample_server (TargetDomain ''ab'' 443) =
      (s', Inr () :: (unit, string) ConsumerSocks5Error + unit)" "ls_in s' = [72, 105]"
    by (simp add: socks5_connect_def io_try_def list_io_def sample_server_def read_reply_def address_length_def)
  with socks5_leaves_application_bytes [OF list_io.byte_stream_axioms s'(1)] show ?thesis
    by (auto simp: sample_server_def)
qed

theorem socks5_accepts_valid_server_witness:
  "\<exists>s'. socks5_connect list_io sample_server (TargetIp (SocketAddrV4 1 80)) =
      (s', Inr () :: (unit, string) ConsumerSocks5Error + unit) \<and> ls_in s' = [72, 105]"
proof (rule socks5_accepts_valid_server [OF list_io.byte_stream_axioms _ _ sample_reply])
  show "\<exists>s'. write_all list_io s bs = (s', Inr ())" for s bs by (simp add: list_io_def)
  show "socks5_request (TargetIp (SocketAddrV4 1 80)) =
      (Inr ([5, 1, 0] @ [1] @ u32_to_be_bytes 1 @ u16_to_be_bytes 80) :: (unit, string) ConsumerSocks5Error + bytes)"
    by simp
  show "ls_in sample_server = [5, 0] @ ([5, 0, 0, 1] @ [127, 0, 0, 1] @ [4, 56]) @ [72, 105]"
    by (simp add: sample_server_def)
qed

text \<open>The handshake itself never reports an error of the dialer or a cancellation.\<close>

fun from_dialer :: "('q, 'io) ConsumerSocks5Error \<Rightarrow> bool" where
  "from_dialer SocksCancelled = True"
| "from_dialer (SocksQuic e) = True"
| "from_dialer _ = False"

lemma io_try_from_dialer:
  "io_try r k = (s', Inl e) \<Longrightarrow> (\<And>s a s' e. k s a = (s', Inl e) \<Longrightarrow> \<not> from_dialer e) \<Longrightarrow> \<not> from_dialer e"
  by (auto simp: io_try_def split: prod.splits sum.splits)

lemma socks5_request_from_dialer: "socks5_request target = Inl e \<Longrightarrow> \<not> from_dialer e"
  by (cases target rule: socks5_request.cases) (auto split: if_splits)

lemma address_length_from_dialer: "address_length io t s = (s', Inl e) \<Longrightarrow> \<not> from_dialer e"
  by (auto simp: address_length_def dest: io_try_from_dialer split: if_splits)

lemma read_reply_from_dialer: "read_reply io s = (s', Inl e) \<Longrightarrow> \<not> from_dialer e"
  unfolding read_reply_def
  by (erule io_try_from_dialer)
    (auto dest: address_length_from_dialer io_try_from_dialer split: if_splits prod.splits sum.splits)

lemma socks5_connect_from_dialer: "socks5_connect io s target = (s', Inl e) \<Longrightarrow> \<not> from_dialer e"
  unfolding socks5_connect_def
  by (elim io_try_from_dialer)
    (auto dest: socks5_request_from_dialer io_try_from_dialer [OF _ read_reply_from_dialer] split: if_splits sum.splits)

text \<open>
  C38. A cancelled connection attempt is reported as cancelled, wherever the cancellation lands, and
  nothing else is: before the stream is open, where the dialer's own cancellation error is
  translated, or during the handshake. An error of the dialer other than cancellation keeps its
  cause.
\<close>

theorem connect_socks5_cancelled:
  fixes io :: "('s, 'io) stream_ops" and opened :: "('eio, 'ce) ConsumerQuicError + 's"
  shows "(connect_socks5 io opened cancelled target = Inl SocksCancelled \<longleftrightarrow>
      opened = Inl QuicCancelled \<or> (\<exists>stream. opened = Inr stream \<and> cancelled)) \<and>
   (connect_socks5 io opened cancelled target = Inl (SocksQuic e) \<longleftrightarrow> opened = Inl e \<and> e \<noteq> QuicCancelled)"
proof (cases opened)
  case (Inl x)
  then show ?thesis by (cases x) (auto simp: connect_socks5_def)
next
  case (Inr stream)
  obtain s' and r :: "(('eio, 'ce) ConsumerQuicError, 'io) ConsumerSocks5Error + unit"
    where "socks5_connect io stream target = (s', r)" by fastforce
  with Inr show ?thesis
    by (cases r) (auto simp: connect_socks5_def dest: socks5_connect_from_dialer)
qed

end
