(* ===== verification/Consumer_Session.thy ===== *)
theory Consumer_Session
  imports Peer_Callbacks Signaling Consumer_Path Session_Calls
begin

text \<open>
  A consumer session, \<open>src/src/consumer.rs\<close> without its supervision loop: the choice of a peer from
  the advertisements, the WebRTC offer, the candidates, the wait for the data channel and the path
  task of the virtual socket behind it. As for the peer proxy, the answers of the signaling
  server, of the WebRTC crate and of JSON are arguments.
\<close>

section \<open>Types\<close>

record ('sg, 'so) ConsumerConfig =
  con_signaler :: 'sg
  con_socket :: 'so
  path_allocator :: SyntheticPathAllocator
  con_session_id :: string
  con_stun_urls :: "string list"
  con_tag :: string
  patience :: duration
  con_nat_timeout :: duration
  path_queue_capacity :: nat
  con_enable_ipv6 :: bool

definition ConsumerConfig_new :: "'sg \<Rightarrow> 'so \<Rightarrow> SyntheticPathAllocator \<Rightarrow> string \<Rightarrow> ('sg, 'so) ConsumerConfig" where
  "ConsumerConfig_new sg so alloc session_id =
     \<lparr>con_signaler = sg, con_socket = so, path_allocator = alloc, con_session_id = session_id,
      con_stun_urls = [], con_tag = [], patience = from_millis 500, con_nat_timeout = from_secs 5,
      path_queue_capacity = DEFAULT_QUEUE_CAPACITY, con_enable_ipv6 = False\<rparr>"

record ConsumerOutcome =
  outcome_remote :: SocketAddr
  path_end :: ConsumerPathEnd

text \<open>
  \<open>'s\<close> stands for the signaling error, \<open>'w\<close> for the error of the WebRTC crate, \<open>'j\<close> for the JSON
  error and \<open>'x\<close> for the error of the path's transport.
\<close>

datatype ('s, 'w, 'j, 'x) ConsumerError =
    ConsumerSignaling 's
  | ConsumerWebRtc 'w
  | ConsumerJson 'j
  | NoGenesis
  | ConsumerUnexpected SignalMessageType SignalMessageType
  | MissingAnswer
  | ConsumerNatTimeout
  | ConsumerChannelClosed
  | ConsumerPeerEnded RTCPeerConnectionState
  | ConsumerPathFailed "('x, 'j) ConsumerPathError"
  | ConsumerCancelled

record 'sd ConsumerOfferMessage =
  offer_sdp :: 'sd
  offer_tag :: string

record 'ty ConsumerIceCandidate =
  con_foundation :: string
  con_priority :: u32
  con_address :: string
  con_protocol :: u8
  con_port :: u16
  con_typ :: 'ty
  con_component :: u16
  con_related_address :: string
  con_related_port :: u16
  con_tcp_type :: string

record 'ty ConsumerIceMessage =
  ice_candidates :: "'ty ConsumerIceCandidate list"
  ice_session_id :: string

definition ConsumerIceCandidate_from :: "'ty RTCIceCandidate \<Rightarrow> 'ty ConsumerIceCandidate" where
  "ConsumerIceCandidate_from c =
     \<lparr>con_foundation = ice_foundation c, con_priority = ice_priority c, con_address = ice_address c,
      con_protocol = (case ice_protocol c of ProtocolUdp \<Rightarrow> 1 | ProtocolTcp \<Rightarrow> 2 | ProtocolUnspecified \<Rightarrow> 0),
      con_port = ice_port c, con_typ = ice_typ c, con_component = ice_component c,
      con_related_address = ice_related_address c, con_related_port = ice_related_port c,
      con_tcp_type = ice_tcp_type c\<rparr>"

definition consumer_is_terminal :: "RTCPeerConnectionState \<Rightarrow> bool" where
  "consumer_is_terminal state \<longleftrightarrow> state \<in> {StateDisconnected, StateFailed, StateClosed}"

definition consumer_expect_signal ::
    "SignalMessage \<Rightarrow> SignalMessageType \<Rightarrow> ('s, 'w, 'j, 'x) ConsumerError + unit" where
  "consumer_expect_signal signal expected =
     (if kind signal = expected then Inr () else Inl (ConsumerUnexpected expected (kind signal)))"

section \<open>Choosing a peer\<close>

text \<open>
  The trait \<open>AdvertisementSource\<close> is its method \<open>next\<close>; \<open>None\<close> is a call that does not return.
\<close>

type_synonym ('a, 's) AdvertisementSource = "'a \<Rightarrow> ('a \<times> ('s + SignalMessage option)) option"

text \<open>
  Which branch of a \<open>select!\<close> completes. The timer of the patience starts after the first genesis
  message, so that it cannot complete before.
\<close>

datatype genesis_step = GenesisCancelled | PatienceOver | NextReady

fun first_genesis ::
    "('a, 's) AdvertisementSource \<Rightarrow> genesis_step list \<Rightarrow> 'a
       \<Rightarrow> (('s, 'w, 'j, 'x) ConsumerError + 'a \<times> genesis_step list \<times> SignalMessage) option" where
  "first_genesis nxt [] a = None"
| "first_genesis nxt (GenesisCancelled # ss) a = Some (Inl ConsumerCancelled)"
| "first_genesis nxt (PatienceOver # ss) a = first_genesis nxt ss a"
| "first_genesis nxt (NextReady # ss) a =
     (case nxt a of
        None \<Rightarrow> None
      | Some (a', Inl s) \<Rightarrow> Some (Inl (ConsumerSignaling s))
      | Some (a', Inr None) \<Rightarrow> Some (Inl NoGenesis)
      | Some (a', Inr (Some m)) \<Rightarrow> if kind m = Genesis then Some (Inr (a', ss, m)) else first_genesis nxt ss a')"

fun more_genesis ::
    "('a, 's) AdvertisementSource \<Rightarrow> genesis_step list \<Rightarrow> 'a \<Rightarrow> SignalMessage list
       \<Rightarrow> (('s, 'w, 'j, 'x) ConsumerError + SignalMessage list) option" where
  "more_genesis nxt [] a candidates = None"
| "more_genesis nxt (GenesisCancelled # ss) a candidates = Some (Inl ConsumerCancelled)"
| "more_genesis nxt (PatienceOver # ss) a candidates = Some (Inr candidates)"
| "more_genesis nxt (NextReady # ss) a candidates =
     (case nxt a of
        None \<Rightarrow> None
      | Some (a', Inl s) \<Rightarrow> Some (Inl (ConsumerSignaling s))
      | Some (a', Inr None) \<Rightarrow> Some (Inr candidates)
      | Some (a', Inr (Some m)) \<Rightarrow>
          more_genesis nxt ss a' (if kind m = Genesis then candidates @ [m] else candidates))"

text \<open>
  \<open>pick\<close> is the random choice of the rand crate, which finds nothing in an empty list only;
  \<open>adv\<close> is what \<open>advertisements()\<close> returned, \<open>None\<close> when the cancellation came first. The result is
  \<open>None\<close> while the function waits, and when its \<open>unwrap\<close> panics.
\<close>

definition select_genesis ::
    "('a, 's) AdvertisementSource \<Rightarrow> (SignalMessage list \<Rightarrow> SignalMessage option) \<Rightarrow> ('s + 'a) option
       \<Rightarrow> genesis_step list \<Rightarrow> (('s, 'w, 'j, 'x) ConsumerError + SignalMessage) option" where
  "select_genesis nxt pick adv ss =
     (case adv of
        None \<Rightarrow> Some (Inl ConsumerCancelled)
      | Some (Inl s) \<Rightarrow> Some (Inl (ConsumerSignaling s))
      | Some (Inr a) \<Rightarrow>
          (case first_genesis nxt ss a of
             None \<Rightarrow> None
           | Some (Inl e) \<Rightarrow> Some (Inl e)
           | Some (Inr (a', ss', first)) \<Rightarrow>
               (case more_genesis nxt ss' a' [first] of
                  None \<Rightarrow> None
                | Some (Inl e) \<Rightarrow> Some (Inl e)
                | Some (Inr candidates) \<Rightarrow> map_option Inr (pick candidates))))"

section \<open>Callbacks\<close>

text \<open>
  The state that the callbacks share: the sender of the wait for the data channel, what was sent
  through it, and the gathered candidates.
\<close>

record ('p, 'ty) consumer_handlers =
  con_waiter :: bool
  con_waiter_sent :: "(RTCPeerConnectionState + 'p) list"
  gathered_candidates :: "'ty RTCIceCandidate list"

definition consumer_handlers_new :: "('p, 'ty) consumer_handlers" where
  "consumer_handlers_new = \<lparr>con_waiter = True, con_waiter_sent = [], gathered_candidates = []\<rparr>"

definition consumer_on_open :: "'p \<Rightarrow> ('p, 'ty) consumer_handlers \<Rightarrow> ('p, 'ty) consumer_handlers" where
  "consumer_on_open datagrams h =
     (if con_waiter h then h\<lparr>con_waiter := False, con_waiter_sent := con_waiter_sent h @ [Inr datagrams]\<rparr> else h)"

definition consumer_on_state_change ::
    "RTCPeerConnectionState \<Rightarrow> ('p, 'ty) consumer_handlers \<Rightarrow> ('p, 'ty) consumer_handlers" where
  "consumer_on_state_change state h =
     (if consumer_is_terminal state
      then if con_waiter h then h\<lparr>con_waiter := False, con_waiter_sent := con_waiter_sent h @ [Inl state]\<rparr> else h
      else h)"

definition consumer_on_ice_candidate ::
    "'ty RTCIceCandidate option \<Rightarrow> ('p, 'ty) consumer_handlers \<Rightarrow> ('p, 'ty) consumer_handlers" where
  "consumer_on_ice_candidate candidate h =
     (case candidate of None \<Rightarrow> h | Some c \<Rightarrow> h\<lparr>gathered_candidates := gathered_candidates h @ [c]\<rparr>)"

datatype ('p, 'ty) consumer_callback =
    ConOpen 'p
  | ConState RTCPeerConnectionState
  | ConCandidate "'ty RTCIceCandidate option"

fun consumer_callback_do ::
    "('p, 'ty) consumer_callback \<Rightarrow> ('p, 'ty) consumer_handlers \<Rightarrow> ('p, 'ty) consumer_handlers" where
  "consumer_callback_do (ConOpen datagrams) h = consumer_on_open datagrams h"
| "consumer_callback_do (ConState state) h = consumer_on_state_change state h"
| "consumer_callback_do (ConCandidate candidate) h = consumer_on_ice_candidate candidate h"

definition consumer_callbacks_run ::
    "('p, 'ty) consumer_callback list \<Rightarrow> ('p, 'ty) consumer_handlers \<Rightarrow> ('p, 'ty) consumer_handlers" where
  "consumer_callbacks_run ss h = fold consumer_callback_do ss h"

section \<open>The session\<close>

text \<open>
  The environment: the operations of the peer connection and of JSON, the callbacks that have run
  when the candidates are read, and the outcome of the wait for the data channel (timed out,
  sender dropped, or what the callbacks sent).
\<close>

record ('sd, 'ty, 'w, 'j, 'p) consumer_env =
  create_offer :: "'w + 'sd"
  offer_to_json :: "'sd ConsumerOfferMessage \<Rightarrow> 'j + string"
  answer_from_json :: "string \<Rightarrow> 'j + 'sd"
  con_set_local :: "'sd \<Rightarrow> 'w + unit"
  con_set_remote :: "'sd \<Rightarrow> 'w + unit"
  ice_to_json :: "'ty ConsumerIceMessage \<Rightarrow> 'j + string"
  callbacks_before_ice :: "('p, 'ty) consumer_callback list"
  channel_wait :: "unit + (unit + (RTCPeerConnectionState + 'p))"

text \<open>What the path task runs over.\<close>

record ('k, 'c, 'w, 'j, 'ci, 'co) path_env =
  env_in :: "'ci in_ops"
  env_out :: "'co out_ops"
  packet_from_json :: "bytes \<Rightarrow> 'j + UnboundedPacket"
  path_dc_send :: "'k \<Rightarrow> bytes \<Rightarrow> 'k \<times> ('w + unit)"
  path_ev_recv :: "'c \<Rightarrow> 'c \<times> ChannelEvent option"
  path_schedule :: "('ci, 'co) path_event list"

datatype 'sd consumer_call =
    OpenConnection "string list list"
  | CreateChannel
  | SelectGenesis
  | CreateOffer
  | SendSignal string SignalMessageType string
  | AwaitPromise
  | ApplyLocal 'sd
  | ApplyRemote 'sd
  | AwaitGathering
  | AwaitChannel duration
  | AllocatePath
  | RunPath SocketAddr
  | CloseSession

definition await_channel ::
    "unit + (unit + (RTCPeerConnectionState + 'p)) \<Rightarrow> ('s, 'w, 'j, 'x) ConsumerError + 'p" where
  "await_channel waited =
     and_then (map_err (\<lambda>_. ConsumerNatTimeout) waited) (\<lambda>received.
     and_then (map_err (\<lambda>_. ConsumerChannelClosed) received) (\<lambda>opened.
       map_err ConsumerPeerEnded opened))"

text \<open>The result of the path task, \<open>None\<close> while it runs and when adding the path panics.\<close>

definition path_result ::
    "('k, 'c, 'w, 'j, 'ci, 'co) path_env \<Rightarrow> ('ci, 'co) VirtualUdpSocket \<Rightarrow> SocketAddr \<Rightarrow> nat \<Rightarrow> ('k, 'c) WebRtcDatagrams
       \<Rightarrow> (('w WebRtcDatagramError, 'j) ConsumerPathError + ConsumerPathEnd) option" where
  "path_result pe socket rem capacity datagrams =
     (case run_consumer_path (env_in pe) (env_out pe) (packet_from_json pe)
             (rtc_transport (path_dc_send pe) (path_ev_recv pe)) (path_schedule pe) socket rem capacity datagrams of
        None \<Rightarrow> None
      | Some (_, _, r) \<Rightarrow> r)"

type_synonym ('u, 'q, 'j, 'w) consumer_error =
  "(('u, 'q, 'j) SignalingError, 'w, 'j, 'w WebRtcDatagramError) ConsumerError"

definition path_phase ::
    "('k, 'c, 'w, 'j, 'ci, 'co) path_env \<Rightarrow> ('sg, ('ci, 'co) VirtualUdpSocket) ConsumerConfig \<Rightarrow> ('k, 'c) WebRtcDatagrams
       \<Rightarrow> ('sd consumer_call, ('u, 'q, 'j, 'w) consumer_error, ConsumerOutcome) session" where
  "path_phase pe config datagrams =
     perform AllocatePath (map_err ConsumerPathFailed (snd (allocate (path_allocator config)))) (\<lambda>rem.
     perform_opt (RunPath rem)
         (map_option (map_err ConsumerPathFailed)
           (path_result pe (con_socket config) rem (path_queue_capacity config) datagrams)) (\<lambda>path_end.
       ([], Some (Inr \<lparr>outcome_remote = rem, path_end = path_end\<rparr>))))"

definition consumer_session ::
    "('sg, ('u, 'q, 'j) SignalingError, 'a) ConsumerSignaler \<Rightarrow> ('a, ('u, 'q, 'j) SignalingError) AdvertisementSource
       \<Rightarrow> (SignalMessage list \<Rightarrow> SignalMessage option) \<Rightarrow> bool \<Rightarrow> genesis_step list
       \<Rightarrow> ('sd, 'ty, 'w, 'j, ('k, 'c) WebRtcDatagrams) consumer_env \<Rightarrow> ('k, 'c, 'w, 'j, 'ci, 'co) path_env
       \<Rightarrow> ('sg, ('ci, 'co) VirtualUdpSocket) ConsumerConfig
       \<Rightarrow> ('sd consumer_call, ('u, 'q, 'j, 'w) consumer_error, ConsumerOutcome) session" where
  "consumer_session sig nxt pick adv_cancelled gs env pe config =
     perform_opt SelectGenesis
         (select_genesis nxt pick
            (if adv_cancelled then None else Some (advertisements_op sig (con_signaler config))) gs) (\<lambda>genesis.
     perform CreateOffer (map_err ConsumerWebRtc (create_offer env)) (\<lambda>offer.
     attempt_pure (map_err ConsumerJson (offer_to_json env \<lparr>offer_sdp = offer, offer_tag = con_tag config\<rparr>)) (\<lambda>offer_payload.
     perform (SendSignal (reply_to genesis) Offer offer_payload)
         (map_err ConsumerSignaling (exchange_op sig (con_signaler config) (reply_to genesis) Offer offer_payload)) (\<lambda>reply.
     attempt_pure (ok_or reply MissingAnswer) (\<lambda>answer_signal.
     attempt_pure (consumer_expect_signal answer_signal Answer) (\<lambda>_.
     attempt_pure (map_err ConsumerJson (decode_payload (answer_from_json env) answer_signal)) (\<lambda>answer.
     perform AwaitPromise (Inr ()) (\<lambda>_.
     perform (ApplyLocal offer) (map_err ConsumerWebRtc (con_set_local env offer)) (\<lambda>_.
     perform (ApplyRemote answer) (map_err ConsumerWebRtc (con_set_remote env answer)) (\<lambda>_.
     perform AwaitGathering (Inr ()) (\<lambda>_.
     attempt_pure (map_err ConsumerJson (ice_to_json env
         \<lparr>ice_candidates = map ConsumerIceCandidate_from
            (gathered_candidates (consumer_callbacks_run (callbacks_before_ice env) consumer_handlers_new)),
          ice_session_id = con_session_id config\<rparr>)) (\<lambda>ice_payload.
     perform (SendSignal (reply_to answer_signal) Ice ice_payload)
         (map_err ConsumerSignaling (exchange_op sig (con_signaler config) (reply_to answer_signal) Ice ice_payload)) (\<lambda>_.
     perform (AwaitChannel (con_nat_timeout config)) (await_channel (channel_wait env)) (\<lambda>datagrams.
     path_phase pe config datagrams))))))))))))))"

definition run_consumer_session ::
    "('m, 'i, 'cs, 'xt, 'z, 'api, 'w) rtc_library \<Rightarrow> ('cs list \<Rightarrow> 'cs list) \<Rightarrow> ('xt list \<Rightarrow> 'xt list)
       \<Rightarrow> ('api \<Rightarrow> string list list \<Rightarrow> 'w + 'conn) \<Rightarrow> ('conn \<Rightarrow> string \<Rightarrow> RTCDataChannelInit option \<Rightarrow> 'w + 'ch)
       \<Rightarrow> nat option \<Rightarrow> ('sg, ('u, 'q, 'j) SignalingError, 'a) ConsumerSignaler
       \<Rightarrow> ('a, ('u, 'q, 'j) SignalingError) AdvertisementSource \<Rightarrow> (SignalMessage list \<Rightarrow> SignalMessage option)
       \<Rightarrow> bool \<Rightarrow> genesis_step list \<Rightarrow> ('sd, 'ty, 'w, 'j, ('k, 'c) WebRtcDatagrams) consumer_env
       \<Rightarrow> ('k, 'c, 'w, 'j, 'ci, 'co) path_env \<Rightarrow> ('sg, ('ci, 'co) VirtualUdpSocket) ConsumerConfig
       \<Rightarrow> ('sd consumer_call, ('u, 'q, 'j, 'w) consumer_error, ConsumerOutcome) session" where
  "run_consumer_session lib shuffle_suites shuffle_extensions new_connection create_data_channel cancel
       sig nxt pick adv_cancelled gs env pe config =
     attempt_pure (map_err ConsumerWebRtc
         (build_api_with_options lib shuffle_suites shuffle_extensions (con_enable_ipv6 config) False)) (\<lambda>api.
       let servers = (if con_stun_urls config = [] then [] else [con_stun_urls config]) in
       perform (OpenConnection servers) (map_err ConsumerWebRtc (new_connection api servers)) (\<lambda>connection.
       perform CreateChannel
           (map_err ConsumerWebRtc (create_unreliable_data_channel create_data_channel connection)) (\<lambda>channel.
         close_after CloseSession
           (until_cancelled cancel ConsumerCancelled
             (consumer_session sig nxt pick adv_cancelled gs env pe config)))))"

section \<open>The choice among the advertisements\<close>

text \<open>The results of a number of calls of \<open>next\<close>, and the messages that a source can yield.\<close>

fun pull :: "('a, 's) AdvertisementSource \<Rightarrow> nat \<Rightarrow> 'a \<Rightarrow> ('s + SignalMessage option) list option" where
  "pull nxt 0 a = Some []"
| "pull nxt (Suc n) a =
     (case nxt a of None \<Rightarrow> None | Some (a', r) \<Rightarrow> map_option (Cons r) (pull nxt n a'))"

definition advertised :: "('a, 's) AdvertisementSource \<Rightarrow> 'a \<Rightarrow> SignalMessage \<Rightarrow> bool" where
  "advertised nxt a m \<longleftrightarrow> (\<exists>n rs. pull nxt n a = Some rs \<and> Inr (Some m) \<in> set rs)"

lemma advertised_now: "nxt a = Some (a', Inr (Some m)) \<Longrightarrow> advertised nxt a m"
  unfolding advertised_def by (intro exI [of _ "Suc 0"]) simp

lemma advertised_later: "nxt a = Some (a', r) \<Longrightarrow> advertised nxt a' m \<Longrightarrow> advertised nxt a m"
  unfolding advertised_def
proof (elim exE conjE)
  fix n rs
  assume "nxt a = Some (a', r)" "pull nxt n a' = Some rs" "Inr (Some m) \<in> set rs"
  then show "\<exists>n rs. pull nxt n a = Some rs \<and> Inr (Some m) \<in> set rs"
    by (intro exI [of _ "Suc n"] exI [of _ "r # rs"]) simp
qed

lemma first_genesis_advertised:
  "first_genesis nxt ss a = Some (Inr (a', ss', m) :: ('s, 'w, 'j, 'x) ConsumerError + _) \<Longrightarrow>
     kind m = Genesis \<and> advertised nxt a m \<and> (\<forall>m'. advertised nxt a' m' \<longrightarrow> advertised nxt a m')"
proof (induction ss arbitrary: a)
  case (Cons st ss)
  show ?case
  proof (cases st)
    case NextReady
    with Cons.prems obtain a1 m1 where n: "nxt a = Some (a1, Inr (Some m1))"
      by (auto split: option.splits prod.splits sum.splits)
    show ?thesis
    proof (cases "kind m1 = Genesis")
      case True
      with n NextReady Cons.prems advertised_now [of nxt, OF n] advertised_later [of nxt, OF n] show ?thesis by simp
    next
      case False
      with n NextReady Cons.prems
      have "first_genesis nxt ss a1 = Some (Inr (a', ss', m) :: ('s, 'w, 'j, 'x) ConsumerError + _)" by simp
      from Cons.IH [OF this] advertised_later [of nxt, OF n] show ?thesis by blast
    qed
  qed (use Cons in simp_all)
qed simp

lemma more_genesis_advertised:
  "more_genesis nxt ss a candidates = Some (Inr ms :: ('s, 'w, 'j, 'x) ConsumerError + SignalMessage list) \<Longrightarrow> m \<in> set ms \<Longrightarrow>
     m \<in> set candidates \<or> kind m = Genesis \<and> advertised nxt a m"
proof (induction ss arbitrary: a candidates)
  case (Cons st ss)
  show ?case
  proof (cases st)
    case NextReady
    with Cons.prems obtain a' x where n: "nxt a = Some (a', Inr x)"
      by (auto split: option.splits prod.splits sum.splits)
    show ?thesis
    proof (cases x)
      case None
      with n NextReady Cons.prems show ?thesis by simp
    next
      case (Some m')
      with n NextReady Cons.prems(1)
      have "more_genesis nxt ss a' (if kind m' = Genesis then candidates @ [m'] else candidates) =
          Some (Inr ms :: ('s, 'w, 'j, 'x) ConsumerError + SignalMessage list)"
        by simp
      from Cons.IH [OF this Cons.prems(2)] advertised_now [of nxt, OF n [unfolded Some]] advertised_later [of nxt, OF n]
      show ?thesis by (auto split: if_splits)
    qed
  qed (use Cons.prems in simp_all)
qed simp

lemma more_genesis_all:
  "pull nxt (length ms) a = Some (map (\<lambda>m. Inr (Some m)) ms) \<Longrightarrow>
     more_genesis nxt (replicate (length ms) NextReady @ [PatienceOver]) a candidates =
       Some (Inr (candidates @ filter (\<lambda>m. kind m = Genesis) ms))"
  by (induction ms arbitrary: a candidates) (auto split: option.splits)

lemma select_genesis_all:
  "pull nxt (length ms) a = Some (map (\<lambda>m. Inr (Some m)) ms) \<Longrightarrow>
     select_genesis nxt pick (Some (Inr a)) (replicate (length ms) NextReady @ [PatienceOver]) =
       (if filter (\<lambda>m. kind m = Genesis) ms = [] then None
        else map_option Inr (pick (filter (\<lambda>m. kind m = Genesis) ms)))"
proof (induction ms arbitrary: a)
  case Nil
  then show ?case by (simp add: select_genesis_def)
next
  case (Cons m ms)
  from Cons.prems obtain a' where n: "nxt a = Some (a', Inr (Some m))"
    and rest: "pull nxt (length ms) a' = Some (map (\<lambda>m. Inr (Some m)) ms)" by (auto split: option.splits)
  show ?case
  proof (cases "kind m = Genesis")
    case True
    with n show ?thesis by (simp add: select_genesis_def more_genesis_all [OF rest])
  next
    case False
    with n Cons.IH [OF rest] show ?thesis by (simp add: select_genesis_def)
  qed
qed

section \<open>The callbacks\<close>

fun channel_signal :: "('p, 'ty) consumer_callback \<Rightarrow> (RTCPeerConnectionState + 'p) option" where
  "channel_signal (ConOpen datagrams) = Some (Inr datagrams)"
| "channel_signal (ConState state) = (if consumer_is_terminal state then Some (Inl state) else None)"
| "channel_signal (ConCandidate c) = None"

fun candidate_signal :: "('p, 'ty) consumer_callback \<Rightarrow> 'ty RTCIceCandidate option" where
  "candidate_signal (ConCandidate c) = c"
| "candidate_signal _ = None"

lemma consumer_callbacks_state:
  "consumer_callbacks_run ss h =
     \<lparr>con_waiter = (con_waiter h \<and> List.map_filter channel_signal ss = []),
      con_waiter_sent = con_waiter_sent h @ (if con_waiter h then take 1 (List.map_filter channel_signal ss) else []),
      gathered_candidates = gathered_candidates h @ List.map_filter candidate_signal ss\<rparr>"
proof (induction ss arbitrary: h)
  case Nil
  then show ?case by (simp add: consumer_callbacks_run_def map_filter_simps)
next
  case (Cons s ss)
  have "consumer_callbacks_run (s # ss) h = consumer_callbacks_run ss (consumer_callback_do s h)"
    by (simp add: consumer_callbacks_run_def)
  then show ?case
    by (cases s) (auto simp: Cons.IH map_filter_simps consumer_on_open_def consumer_on_state_change_def
        consumer_on_ice_candidate_def split: option.splits)
qed

section \<open>The calls of a session\<close>

lemma await_channel_Inr: "await_channel w = Inr p \<longleftrightarrow> w = Inr (Inr (Inr p))"
  by (auto simp: await_channel_def and_then_Inr_iff)

lemma consumer_expect_signal_Inr: "consumer_expect_signal m k = Inr u \<longleftrightarrow> kind m = k"
  by (simp add: consumer_expect_signal_def)

lemma unless_Some: "(if c then None else Some x) = Some y \<longleftrightarrow> \<not> c \<and> x = y"
  by simp

lemma consumer_session_no_close:
  "accepts (\<lambda>u c. if c = CloseSession then None else Some u) () (fst (consumer_session sig nxt pick ac gs env pe config))"
  unfolding consumer_session_def path_phase_def
  by (rule accepts_attempt_pure accepts_perform accepts_perform_opt | simp (no_asm))+

text \<open>What a session that returns an outcome has exchanged and called.\<close>

definition consumer_completed_as ::
    "('sg, ('u, 'q, 'j) SignalingError, 'a) ConsumerSignaler \<Rightarrow> ('a, ('u, 'q, 'j) SignalingError) AdvertisementSource
       \<Rightarrow> ('sd, 'ty, 'w, 'j, ('k, 'c) WebRtcDatagrams) consumer_env \<Rightarrow> ('k, 'c, 'w, 'j, 'ci, 'co) path_env
       \<Rightarrow> ('sg, ('ci, 'co) VirtualUdpSocket) ConsumerConfig \<Rightarrow> 'sd consumer_call list \<Rightarrow> ConsumerOutcome \<Rightarrow> bool" where
  "consumer_completed_as sig nxt env pe config calls outcome \<longleftrightarrow>
     (\<exists>a genesis offer offer_payload answer_signal answer ice_payload datagrams.
        calls =
          [SelectGenesis, CreateOffer, SendSignal (reply_to genesis) Offer offer_payload, AwaitPromise,
           ApplyLocal offer, ApplyRemote answer, AwaitGathering, SendSignal (reply_to answer_signal) Ice ice_payload,
           AwaitChannel (con_nat_timeout config), AllocatePath, RunPath (outcome_remote outcome)] \<and>
        advertisements_op sig (con_signaler config) = Inr a \<and> kind genesis = Genesis \<and> advertised nxt a genesis \<and>
        offer_to_json env \<lparr>offer_sdp = offer, offer_tag = con_tag config\<rparr> = Inr offer_payload \<and>
        exchange_op sig (con_signaler config) (reply_to genesis) Offer offer_payload = Inr (Some answer_signal) \<and>
        kind answer_signal = Answer \<and> answer_from_json env (signal_payload answer_signal) = Inr answer \<and>
        ice_to_json env
          \<lparr>ice_candidates = map ConsumerIceCandidate_from (List.map_filter candidate_signal (callbacks_before_ice env)),
           ice_session_id = con_session_id config\<rparr> = Inr ice_payload \<and>
        channel_wait env = Inr (Inr (Inr datagrams)) \<and>
        snd (allocate (path_allocator config)) = (Inr (outcome_remote outcome) :: ('w WebRtcDatagramError, 'j) ConsumerPathError + _) \<and>
        path_result pe (con_socket config) (outcome_remote outcome) (path_queue_capacity config) datagrams =
          Some (Inr (path_end outcome)))"

lemma select_genesis_Inr:
  assumes "select_genesis nxt pick adv gs = Some (Inr m :: ('s, 'w, 'j, 'x) ConsumerError + SignalMessage)"
    and "\<And>xs x. pick xs = Some x \<Longrightarrow> x \<in> set xs"
  shows "\<exists>a. adv = Some (Inr a) \<and> kind m = Genesis \<and> advertised nxt a m"
proof -
  from assms(1) obtain a a' ss' first candidates where adv: "adv = Some (Inr a)"
    and f: "first_genesis nxt gs a = Some (Inr (a', ss', first) :: ('s, 'w, 'j, 'x) ConsumerError + _)"
    and m: "more_genesis nxt ss' a' [first] = Some (Inr candidates :: ('s, 'w, 'j, 'x) ConsumerError + _)"
    and p: "pick candidates = Some m"
    by (auto simp: select_genesis_def split: option.splits sum.splits prod.splits)
  from more_genesis_advertised [OF m assms(2) [OF p]] first_genesis_advertised [OF f] adv show ?thesis by auto
qed

lemma path_phase_Inr:
  assumes "path_phase pe config datagrams = (calls, Some (Inr outcome))"
  shows "calls = [AllocatePath, RunPath (outcome_remote outcome)] \<and>
    snd (allocate (path_allocator config)) = (Inr (outcome_remote outcome) :: ('w WebRtcDatagramError, 'j) ConsumerPathError + _) \<and>
    path_result pe (con_socket config) (outcome_remote outcome) (path_queue_capacity config) datagrams =
      (Some (Inr (path_end outcome)) :: (('w WebRtcDatagramError, 'j) ConsumerPathError + _) option)"
  using assms by (auto simp: path_phase_def session_Inr)

lemma consumer_session_Inr:
  assumes "consumer_session sig nxt pick ac gs env pe config = (calls, Some (Inr outcome))"
    and "\<And>xs x. pick xs = Some x \<Longrightarrow> x \<in> set xs"
  shows "consumer_completed_as sig nxt env pe config calls outcome"
  using assms(1) unfolding consumer_session_def session_Inr consumer_completed_as_def consumer_callbacks_state
  apply (elim exE conjE)
  apply (drule select_genesis_Inr [OF _ assms(2)], assumption)
  apply (drule path_phase_Inr)
  apply (simp only: await_channel_Inr consumer_expect_signal_Inr decode_payload_def map_err_Inr_iff ok_or_Inr_iff
      consumer_handlers_new_def consumer_handlers.select_convs append_Nil unless_Some)
  apply (elim exE conjE)
  apply hypsubst
  apply (intro exI conjI)
             apply (rule refl | assumption)+
  done

section \<open>A session against a concrete environment\<close>

fun list_next :: "(SignalMessage list, 's) AdvertisementSource" where
  "list_next [] = Some ([], Inr None)"
| "list_next (m # ms) = Some (ms, Inr (Some m))"

definition sample_advert :: "string \<Rightarrow> SignalMessageType \<Rightarrow> SignalMessage" where
  "sample_advert sender k = \<lparr>reply_to = sender, kind = k, signal_payload = []\<rparr>"

definition sample_consumer_signaler ::
    "(unit, (string, string, string) SignalingError, SignalMessage list) ConsumerSignaler" where
  "sample_consumer_signaler =
     \<lparr>exchange_op = (\<lambda>_ send_to k payload. Inr (if k = Offer then Some (sample_advert ''peer'' Answer) else None)),
      advertisements_op = (\<lambda>_. Inr [sample_advert ''x'' Ice, sample_advert ''one'' Genesis, sample_advert ''two'' Genesis])\<rparr>"

definition sample_pick :: "SignalMessage list \<Rightarrow> SignalMessage option" where
  "sample_pick ms = (case ms of [] \<Rightarrow> None | m # _ \<Rightarrow> Some (last ms))"

lemma sample_pick_in: "sample_pick xs = Some x \<Longrightarrow> x \<in> set xs"
  by (auto simp: sample_pick_def split: list.splits)

definition sample_consumer_env ::
    "(string, unit, string, string, (bytes list \<times> nat, ChannelEvent list) WebRtcDatagrams) consumer_env" where
  "sample_consumer_env =
     \<lparr>create_offer = Inr ''offer'', offer_to_json = (\<lambda>m. Inr (offer_sdp m)), answer_from_json = (\<lambda>_. Inr ''answer''),
      con_set_local = (\<lambda>_. Inr ()), con_set_remote = (\<lambda>_. Inr ()), ice_to_json = (\<lambda>m. Inr (ice_session_id m)),
      callbacks_before_ice = [ConCandidate None],
      channel_wait = Inr (Inr (Inr \<lparr>dc = ([], 8), events = [ClosedEvent], close_tasks = 0\<rparr>))\<rparr>"

definition sample_path_env ::
    "(bytes list \<times> nat, ChannelEvent list, string, string, ReceivedDatagram list_chan, bytes list_chan) path_env" where
  "sample_path_env =
     \<lparr>env_in = list_mpsc, env_out = list_mpsc, packet_from_json = (\<lambda>_. Inl ''json''), path_dc_send = budget_send,
      path_ev_recv = list_recv, path_schedule = [Select PeerBranch]\<rparr>"

definition sample_consumer_config ::
    "(unit, (ReceivedDatagram list_chan, bytes list_chan) VirtualUdpSocket) ConsumerConfig" where
  "sample_consumer_config = ConsumerConfig_new () sample_socket SyntheticPathAllocator_new ''csid''"

definition sample_consumer_run ::
    "string + unit \<Rightarrow> nat option
       \<Rightarrow> (string consumer_call, (string, string, string, string) consumer_error, ConsumerOutcome) session" where
  "sample_consumer_run created cancel =
     run_consumer_session sample_rtc id id (\<lambda>_ _. Inr ()) (\<lambda>_ _ _. created) cancel sample_consumer_signaler list_next
       sample_pick False [NextReady, NextReady, NextReady, PatienceOver] sample_consumer_env sample_path_env sample_consumer_config"

lemma sample_select:
  "select_genesis list_next sample_pick (Some (advertisements_op sample_consumer_signaler ())) [NextReady, NextReady, NextReady, PatienceOver] =
     Some (Inr (sample_advert ''two'' Genesis))"
  by (simp add: select_genesis_def sample_consumer_signaler_def sample_advert_def sample_pick_def)

lemma sample_allocated:
  "allocate SyntheticPathAllocator_new =
     (\<lparr>next_host = FIRST_PATH_HOST + 1\<rparr>, Inr (SocketAddrV4 (CGNAT_BASE + FIRST_PATH_HOST) SYNTHETIC_PATH_PORT))"
  using allocate_free(1) [of SyntheticPathAllocator_new]
  by (simp add: SyntheticPathAllocator_new_def FIRST_PATH_HOST_def)

lemma sample_path_result:
  "path_result sample_path_env sample_socket rem DEFAULT_QUEUE_CAPACITY
     \<lparr>dc = ([], 8), events = [ClosedEvent], close_tasks = 0\<rparr> = Some (Inr PathPeerClosed)"
  by (auto simp: path_result_def run_consumer_path_def sample_path_env_def rtc_transport_def rtc_recv_def
      add_path_def DEFAULT_QUEUE_CAPACITY_def Let_def split: prod.splits option.splits)

lemma sample_consumer_session:
  "consumer_session sample_consumer_signaler list_next sample_pick False [NextReady, NextReady, NextReady, PatienceOver]
     sample_consumer_env sample_path_env sample_consumer_config =
     ([SelectGenesis, CreateOffer, SendSignal ''two'' Offer ''offer'', AwaitPromise, ApplyLocal ''offer'',
       ApplyRemote ''answer'', AwaitGathering, SendSignal ''peer'' Ice ''csid'', AwaitChannel (from_secs 5), AllocatePath,
       RunPath (SocketAddrV4 (CGNAT_BASE + FIRST_PATH_HOST) SYNTHETIC_PATH_PORT)],
      Some (Inr \<lparr>outcome_remote = SocketAddrV4 (CGNAT_BASE + FIRST_PATH_HOST) SYNTHETIC_PATH_PORT, path_end = PathPeerClosed\<rparr>))"
  unfolding consumer_session_def path_phase_def sample_consumer_config_def ConsumerConfig_new_def
  by (simp add: sample_select sample_allocated sample_path_result perform_opt_def perform_def attempt_pure_def
      sample_consumer_env_def decode_payload_def consumer_expect_signal_def await_channel_def del: cgnat_values)
    (simp add: sample_advert_def sample_consumer_signaler_def perform_opt_def perform_def attempt_pure_def
      sample_path_result consumer_expect_signal_def)

lemma sample_consumer_run_eq:
  "sample_consumer_run (Inr ()) cancel = (let s = until_cancelled cancel ConsumerCancelled
       (consumer_session sample_consumer_signaler list_next sample_pick False [NextReady, NextReady, NextReady, PatienceOver]
          sample_consumer_env sample_path_env sample_consumer_config) in
     (OpenConnection [] # CreateChannel # fst s @ [CloseSession], snd s))"
  unfolding sample_consumer_run_def run_consumer_session_def sample_consumer_session
  by (cases cancel) (simp_all add: build_api_with_options_def sample_rtc_def attempt_pure_def perform_def
      sample_consumer_config_def ConsumerConfig_new_def until_cancelled_def close_after_def create_unreliable_data_channel_def)

section \<open>Properties\<close>

lemma run_consumer_cases:
  assumes "run_consumer_session lib ss se nc cd cancel sig nxt pick ac gs env pe config = (cs, Some r)"
    and "servers = (if con_stun_urls config = [] then [] else [con_stun_urls config])"
  obtains
    (not_created) w where "r = Inl (ConsumerWebRtc w)" "cs = [] \<or> cs = [OpenConnection servers]"
  | (no_channel) w where "r = Inl (ConsumerWebRtc w)" "cs = [OpenConnection servers, CreateChannel]"
  | (running) calls where "cs = OpenConnection servers # CreateChannel # calls @ [CloseSession]"
      "until_cancelled cancel ConsumerCancelled (consumer_session sig nxt pick ac gs env pe config) = (calls, Some r)"
proof (cases "build_api_with_options lib ss se (con_enable_ipv6 config) False")
  case (Inl w)
  with assms show thesis by (intro not_created) (auto simp: run_consumer_session_def attempt_pure_def)
next
  case (Inr api)
  note defs = run_consumer_session_def attempt_pure_def perform_def Inr assms(2) [symmetric]
  show thesis
  proof (cases "nc api servers")
    case (Inl w)
    with assms(1) show thesis by (intro not_created) (auto simp: defs)
  next
    case (Inr conn)
    note conn = Inr
    show thesis
    proof (cases "create_unreliable_data_channel cd conn")
      case (Inl w)
      with conn assms(1) show thesis by (intro no_channel) (auto simp: defs)
    next
      case (Inr ch)
      obtain calls r' where s: "until_cancelled cancel ConsumerCancelled
          (consumer_session sig nxt pick ac gs env pe config) = (calls, r')" by fastforce
      with conn Inr assms(1) have "r' = Some r" "cs = OpenConnection servers # CreateChannel # calls @ [CloseSession]"
        by (cases r'; simp add: defs close_after_def)+
      with s show thesis by (intro running) simp_all
    qed
  qed
qed

text \<open>
  C28. The consumer offers itself to a peer that advertised. If the random choice returns an element
  of the list it is given, and one of a list that is not empty, then whatever the order of
  cancellation, timer and messages, the chosen message is a genesis message that the source
  yielded; and when the patience ends after a number of messages, the choice is made among
  exactly the genesis messages received so far.
\<close>

theorem genesis_choice:
  assumes "\<And>xs x. pick xs = Some x \<Longrightarrow> x \<in> set xs" and "\<And>xs. xs \<noteq> [] \<Longrightarrow> pick xs \<noteq> None"
  shows "(select_genesis nxt pick (Some (Inr a)) gs = Some (Inr m :: ('s, 'w, 'j, 'x) ConsumerError + SignalMessage) \<longrightarrow>
       kind m = Genesis \<and> advertised nxt a m) \<and>
    (pull nxt (length ms) a = Some (map (\<lambda>m. Inr (Some m)) ms) \<longrightarrow> (\<exists>g \<in> set ms. kind g = Genesis) \<longrightarrow>
       (\<exists>m \<in> set ms. kind m = Genesis \<and> pick (filter (\<lambda>m. kind m = Genesis) ms) = Some m \<and>
          select_genesis nxt pick (Some (Inr a)) (replicate (length ms) NextReady @ [PatienceOver]) =
            Some (Inr m :: ('s, 'w, 'j, 'x) ConsumerError + SignalMessage)))"
proof (intro conjI impI)
  assume "select_genesis nxt pick (Some (Inr a)) gs = Some (Inr m :: ('s, 'w, 'j, 'x) ConsumerError + SignalMessage)"
  from select_genesis_Inr [OF this assms(1)] show "kind m = Genesis" "advertised nxt a m" by auto
next
  let ?gs = "filter (\<lambda>m. kind m = Genesis) ms"
  assume p: "pull nxt (length ms) a = Some (map (\<lambda>m. Inr (Some m)) ms)" and "\<exists>g \<in> set ms. kind g = Genesis"
  then have "?gs \<noteq> []" by (auto simp: filter_empty_conv)
  with assms(2) obtain m where m: "pick ?gs = Some m" by blast
  from assms(1) [OF m] have "m \<in> set ms" "kind m = Genesis" by auto
  with m \<open>?gs \<noteq> []\<close> show "\<exists>m \<in> set ms. kind m = Genesis \<and> pick ?gs = Some m \<and>
      select_genesis nxt pick (Some (Inr a)) (replicate (length ms) NextReady @ [PatienceOver]) =
        Some (Inr m :: ('s, 'w, 'j, 'x) ConsumerError + SignalMessage)"
    by (intro bexI [of _ m]) (simp_all add: select_genesis_all [OF p])
qed

theorem genesis_choice_witness:
  "\<exists>m \<in> {sample_advert ''one'' Genesis, sample_advert ''two'' Genesis}.
     select_genesis list_next sample_pick (Some (Inr [sample_advert ''x'' Ice, sample_advert ''one'' Genesis, sample_advert ''two'' Genesis]))
       [NextReady, NextReady, NextReady, PatienceOver] = Some (Inr m :: (unit, unit, unit, unit) ConsumerError + SignalMessage)"
proof -
  let ?ms = "[sample_advert ''x'' Ice, sample_advert ''one'' Genesis, sample_advert ''two'' Genesis]"
  have p: "pull list_next (length ?ms) ?ms = Some (map (\<lambda>m. Inr (Some m)) ?ms :: (unit + SignalMessage option) list)"
    by simp
  have g: "\<exists>g \<in> set ?ms. kind g = Genesis" by (simp add: sample_advert_def)
  have ne: "sample_pick xs \<noteq> None" if "xs \<noteq> []" for xs
    using that by (simp add: sample_pick_def split: list.splits)
  have "\<exists>m \<in> set ?ms. kind m = Genesis \<and> sample_pick (filter (\<lambda>m. kind m = Genesis) ?ms) = Some m \<and>
      select_genesis list_next sample_pick (Some (Inr ?ms)) (replicate (length ?ms) NextReady @ [PatienceOver]) =
        Some (Inr m :: (unit, unit, unit, unit) ConsumerError + SignalMessage)"
    by (rule genesis_choice [THEN conjunct2, rule_format, OF _ _ p g]) (auto dest: sample_pick_in ne)
  then obtain m where "m \<in> set ?ms" "kind m = Genesis" "select_genesis list_next sample_pick (Some (Inr ?ms))
      (replicate (length ?ms) NextReady @ [PatienceOver]) = Some (Inr m :: (unit, unit, unit, unit) ConsumerError + SignalMessage)"
    by blast
  then show ?thesis by (intro bexI [of _ m]) (auto simp: sample_advert_def numeral_eq_Suc)
qed

lemma run_consumer_Inr:
  assumes "run_consumer_session lib ss se nc cd cancel sig nxt pick ac gs env pe config = (cs, Some (Inr outcome))"
    and "\<And>xs x. pick xs = Some x \<Longrightarrow> x \<in> set xs"
  obtains calls where "cancel = None"
    "cs = OpenConnection (if con_stun_urls config = [] then [] else [con_stun_urls config]) # CreateChannel # calls @ [CloseSession]"
    "consumer_completed_as sig nxt env pe config calls outcome"
proof -
  from assms(1) refl obtain calls where
    cs: "cs = OpenConnection (if con_stun_urls config = [] then [] else [con_stun_urls config]) # CreateChannel # calls @ [CloseSession]"
    and s: "until_cancelled cancel ConsumerCancelled (consumer_session sig nxt pick ac gs env pe config) = (calls, Some (Inr outcome))"
    by (cases rule: run_consumer_cases) auto
  then have c: "cancel = None" and s': "consumer_session sig nxt pick ac gs env pe config = (calls, Some (Inr outcome))"
    by (simp_all add: until_cancelled_Inr)
  from that [OF c cs consumer_session_Inr [OF s' assms(2)]] show thesis .
qed



text \<open>
  C30. A consumer session closes its connection, except when it cannot create the data channel. Once
  the channel exists, whatever the session returns and wherever it is cancelled, the last call
  closes the connection and no earlier one does, and a cancelled session returns \<open>Cancelled\<close>. But a
  failure to create the channel returns right away and leaves the connection open.
\<close>

theorem consumer_closes_unless_no_channel:
  assumes "run_consumer_session lib ss se nc cd cancel sig nxt pick ac gs env pe config = (cs, Some r)"
  shows "(CreateChannel \<notin> set cs \<longrightarrow> CloseSession \<notin> set cs \<and> (\<exists>w. r = Inl (ConsumerWebRtc w))) \<and>
    (last cs = CreateChannel \<longrightarrow> CloseSession \<notin> set cs \<and> (\<exists>w. r = Inl (ConsumerWebRtc w))) \<and>
    (CreateChannel \<in> set cs \<longrightarrow> last cs \<noteq> CreateChannel \<longrightarrow>
       (\<exists>calls. cs = calls @ [CloseSession] \<and> CloseSession \<notin> set calls \<and>
          (cancel \<noteq> None \<longrightarrow> r = Inl ConsumerCancelled)))"
  using assms refl
proof (cases rule: run_consumer_cases)
  case (running calls)
  let ?s = "consumer_session sig nxt pick ac gs env pe config"
  have "CloseSession \<notin> set (fst ?s)"
    using consumer_session_no_close [of sig nxt pick ac gs env pe config] by (simp add: accepts_without)
  moreover have "set calls \<subseteq> set (fst ?s)"
    using running(2) by (auto simp: until_cancelled_def split: option.splits dest: in_set_takeD)
  moreover have "cancel \<noteq> None \<longrightarrow> r = Inl ConsumerCancelled"
    using running(2) by (auto simp: until_cancelled_def split: option.splits)
  ultimately show ?thesis
    unfolding running(1)
    by (intro conjI impI exI [of _ "OpenConnection (if con_stun_urls config = [] then [] else [con_stun_urls config]) #
        CreateChannel # calls"]) auto
qed auto

theorem consumer_closes_unless_no_channel_witness:
  "sample_consumer_run (Inl ''no sctp'') None = ([OpenConnection [], CreateChannel], Some (Inl (ConsumerWebRtc ''no sctp''))) \<and>
   last (fst (sample_consumer_run (Inr ()) (Some 2))) = CloseSession"
proof -
  have run: "sample_consumer_run (Inr ()) (Some 2) =
      ([OpenConnection [], CreateChannel, SelectGenesis, CreateOffer, CloseSession], Some (Inl ConsumerCancelled))"
    by (simp add: sample_consumer_run_eq sample_consumer_session until_cancelled_def)
  have "sample_consumer_run (Inl ''no sctp'') None = ([OpenConnection [], CreateChannel], Some (Inl (ConsumerWebRtc ''no sctp'')))"
    by (simp add: sample_consumer_run_def run_consumer_session_def build_api_with_options_def sample_rtc_def attempt_pure_def
        perform_def sample_consumer_config_def ConsumerConfig_new_def create_unreliable_data_channel_def)
  moreover from consumer_closes_unless_no_channel [OF run [unfolded sample_consumer_run_def]]
  have "\<exists>calls. [OpenConnection [], CreateChannel, SelectGenesis, CreateOffer, CloseSession :: string consumer_call] = calls @ [CloseSession]"
    by auto
  ultimately show ?thesis by (auto simp: run)
qed

text \<open>
  The callbacks answer the wait once, with the first of the opened channel and the terminal states,
  and gather the candidates in the order in which they were found.
\<close>

lemma consumer_callbacks_once:
  "con_waiter_sent (consumer_callbacks_run ss consumer_handlers_new) = take 1 (List.map_filter channel_signal ss) \<and>
   gathered_candidates (consumer_callbacks_run ss consumer_handlers_new) = List.map_filter candidate_signal ss"
  by (simp add: consumer_callbacks_state consumer_handlers_new_def)

end
