(* ===== verification/Consumer_Supervisor.thy ===== *)
theory Consumer_Supervisor
  imports Consumer_Session
begin

text \<open>
  The loop that keeps a consumer connected, \<open>maintain_consumer\<close> of \<open>src/src/consumer.rs\<close>: sessions
  one after another, a pause after a failed one, events and counters, until the cancellation.
\<close>

section \<open>Types\<close>

record 'cc ConsumerSupervisorConfig =
  consumer :: 'cc
  con_retry_delay :: duration

record ConsumerSummary =
  con_attempts :: u64
  completed_paths :: u64
  con_failed_attempts :: u64

definition ConsumerSummary_default :: ConsumerSummary where
  "ConsumerSummary_default = \<lparr>con_attempts = 0, completed_paths = 0, con_failed_attempts = 0\<rparr>"

datatype ConsumerEvent =
    ConAttemptStarted u64
  | PathEnded u64 ConsumerOutcome
  | ConAttemptFailed u64 string
  | ConStopped ConsumerSummary

type_synonym consumer_sink = "ConsumerEvent list option"

definition consumer_emit :: "consumer_sink \<Rightarrow> ConsumerEvent \<Rightarrow> consumer_sink" where
  "consumer_emit sink event = map_option (\<lambda>sent. sent @ [event]) sink"

section \<open>The loop\<close>

text \<open>
  What a turn of the loop finds: whether it is cancelled when the turn starts, when the session has
  failed, and during the pause, and the environment of the session.
\<close>

record 'env consumer_attempt =
  before_cancelled :: bool
  after_cancelled :: bool
  pause_cancelled :: bool
  session_env :: 'env

text \<open>\<open>run_consumer_session\<close> in an environment.\<close>

definition session_in where
  "session_in env config =
     (case env of (lib, shuffle_suites, shuffle_extensions, new_connection, create_data_channel, cancel,
                   sig, nxt, pick, adv_cancelled, gs, cenv, penv) \<Rightarrow>
        run_consumer_session lib shuffle_suites shuffle_extensions new_connection create_data_channel cancel
          sig nxt pick adv_cancelled gs cenv penv config)"

text \<open>
  A turn returns the counters, the events and whether the loop ends, or \<open>None\<close> while the session of
  the turn is running; then only the attempt itself was counted. \<open>error_text\<close> is the
  \<open>to_string\<close> of the error type. The pause of \<open>retry_delay\<close> ends the turn of a failed session.
\<close>

definition consumer_turn where
  "consumer_turn config error_text a summary sink =
     (if before_cancelled a then (summary, sink, Some True)
      else
        let summary1 = summary\<lparr>con_attempts := con_attempts summary + 1\<rparr>;
            attempt = con_attempts summary1;
            sink1 = consumer_emit sink (ConAttemptStarted attempt)
        in case snd (session_in (session_env a) (consumer config)) of
             None \<Rightarrow> (summary1, sink1, None)
           | Some result \<Rightarrow>
               if is_err result \<and> after_cancelled a then (summary1, sink1, Some True)
               else (case result of
                  Inr outcome \<Rightarrow>
                    if path_end outcome = PathCancelled then (summary1, sink1, Some True)
                    else (summary1\<lparr>completed_paths := completed_paths summary1 + 1\<rparr>,
                          consumer_emit sink1 (PathEnded attempt outcome), Some False)
                | Inl error \<Rightarrow>
                    (summary1\<lparr>con_failed_attempts := con_failed_attempts summary1 + 1\<rparr>,
                     consumer_emit sink1 (ConAttemptFailed attempt (error_text error)), Some (pause_cancelled a))))"

fun consumer_loop where
  "consumer_loop config error_text [] summary sink = (summary, sink, False)"
| "consumer_loop config error_text (a # as) summary sink =
     (case consumer_turn config error_text a summary sink of
        (summary', sink', None) \<Rightarrow> (summary', sink', False)
      | (summary', sink', Some True) \<Rightarrow> (summary', sink', True)
      | (summary', sink', Some False) \<Rightarrow> consumer_loop config error_text as summary' sink')"

definition maintain_consumer where
  "maintain_consumer config error_text as sink =
     (case consumer_loop config error_text as ConsumerSummary_default sink of
        (summary, sink', True) \<Rightarrow> (consumer_emit sink' (ConStopped summary), Some summary)
      | (summary, sink', False) \<Rightarrow> (sink', None))"

section \<open>Counters and events\<close>

fun con_started :: "ConsumerEvent list \<Rightarrow> u64 list" where
  "con_started [] = []"
| "con_started (ConAttemptStarted n # es) = n # con_started es"
| "con_started (e # es) = con_started es"

fun is_path_ended :: "ConsumerEvent \<Rightarrow> bool" where
  "is_path_ended (PathEnded n outcome) = (path_end outcome \<noteq> PathCancelled)"
| "is_path_ended _ = False"

fun is_con_failed :: "ConsumerEvent \<Rightarrow> bool" where
  "is_con_failed (ConAttemptFailed n e) = True"
| "is_con_failed _ = False"

lemma con_started_append [simp]: "con_started (es @ fs) = con_started es @ con_started fs"
  by (induction es rule: con_started.induct) auto

text \<open>
  \<open>k\<close> attempts have started and were not reported; attempts are numbered from one; nothing is
  reported as ended that was cancelled, and nothing as stopped.
\<close>

definition con_log_agrees :: "ConsumerEvent list \<Rightarrow> ConsumerSummary \<Rightarrow> nat \<Rightarrow> bool" where
  "con_log_agrees log s k \<longleftrightarrow>
     (\<exists>n. con_started log = map of_nat [1..<Suc n] \<and> con_attempts s = of_nat n \<and>
        completed_paths s = of_nat (length (filter is_path_ended log)) \<and>
        con_failed_attempts s = of_nat (length (filter is_con_failed log)) \<and>
        n = length (filter is_path_ended log) + length (filter is_con_failed log) + k) \<and>
     (\<forall>n outcome. PathEnded n outcome \<in> set log \<longrightarrow> path_end outcome \<noteq> PathCancelled) \<and>
     (\<forall>t. ConStopped t \<notin> set log)"

lemma con_log_start:
  assumes "con_log_agrees log s 0"
  shows "con_log_agrees (log @ [ConAttemptStarted (con_attempts s + 1)]) (s\<lparr>con_attempts := con_attempts s + 1\<rparr>) 1"
proof -
  from assms obtain n where n: "con_started log = map of_nat [1..<Suc n]" "con_attempts s = of_nat n"
    "completed_paths s = of_nat (length (filter is_path_ended log))"
    "con_failed_attempts s = of_nat (length (filter is_con_failed log))"
    "n = length (filter is_path_ended log) + length (filter is_con_failed log)"
    "\<forall>n outcome. PathEnded n outcome \<in> set log \<longrightarrow> path_end outcome \<noteq> PathCancelled" "\<forall>t. ConStopped t \<notin> set log"
    unfolding con_log_agrees_def by auto
  then show ?thesis
    unfolding con_log_agrees_def by (intro conjI exI [of _ "Suc n"]) (auto simp: add.commute)
qed

lemma con_log_ended:
  assumes "con_log_agrees log s 1" and "path_end outcome \<noteq> PathCancelled"
  shows "con_log_agrees (log @ [PathEnded i outcome]) (s\<lparr>completed_paths := completed_paths s + 1\<rparr>) 0"
  using assms unfolding con_log_agrees_def by (auto simp: add.commute)

lemma con_log_failed:
  assumes "con_log_agrees log s 1"
  shows "con_log_agrees (log @ [ConAttemptFailed i e]) (s\<lparr>con_failed_attempts := con_failed_attempts s + 1\<rparr>) 0"
  using assms unfolding con_log_agrees_def by (auto simp: add.commute)

lemma consumer_turn_log:
  assumes "consumer_turn config error_text a s (Some log) = (s', sink', fin)" and "con_log_agrees log s 0"
  shows "\<exists>log'. sink' = Some log' \<and>
    (con_log_agrees log' s' 0 \<or> con_log_agrees log' s' 1 \<and> fin \<noteq> Some False)"
proof (cases "before_cancelled a")
  case True
  with assms show ?thesis by (auto simp: consumer_turn_def)
next
  case False
  note started = con_log_start [OF assms(2)]
  show ?thesis
    using assms(1) False con_log_ended [OF started] con_log_failed [OF started] started
    by (auto simp: consumer_turn_def consumer_emit_def Let_def split: option.splits sum.splits if_splits)
qed

lemma consumer_loop_log:
  assumes "consumer_loop config error_text as s (Some log) = (s', sink', fin)" and "con_log_agrees log s 0"
  shows "\<exists>log' k. sink' = Some log' \<and> con_log_agrees log' s' k \<and> k \<le> 1"
  using assms
proof (induction as arbitrary: s log)
  case Nil
  then show ?case by (intro exI [of _ log] exI [of _ "0 :: nat"]) auto
next
  case (Cons a as)
  obtain s1 sink1 f where t: "consumer_turn config error_text a s (Some log) = (s1, sink1, f)" by (metis prod_cases3)
  from consumer_turn_log [OF t Cons.prems(2)] obtain log1 where l: "sink1 = Some log1"
    "con_log_agrees log1 s1 0 \<or> con_log_agrees log1 s1 1 \<and> f \<noteq> Some False" by blast
  show ?case
  proof (cases "f = Some False")
    case True
    with t l Cons.prems(1) have "consumer_loop config error_text as s1 (Some log1) = (s', sink', fin)" by simp
    with Cons.IH l True show ?thesis by blast
  next
    case False
    then have "f = None \<or> f = Some True" by (cases f) auto
    with t l Cons.prems(1) have "s' = s1 \<and> sink' = Some log1" by auto
    with l show ?thesis by (metis le_refl zero_le_one)
  qed
qed

section \<open>Properties\<close>

text \<open>
  C31. The counters of the consumer agree with its events. When \<open>maintain_consumer\<close> returns, its last
  event is \<open>Stopped\<close> with the summary it returns; attempts were numbered from one in order; the
  counters are the numbers of started, ended and failed attempts; and every attempt was reported,
  except at most one that the cancellation cut short, which is counted neither as failed nor as
  completed. A path that ended because it was cancelled is never reported as ended.
\<close>

theorem consumer_summary_matches_events:
  assumes "maintain_consumer config error_text as (Some []) = (sink, Some s)"
  shows "\<exists>log k. sink = Some (log @ [ConStopped s]) \<and> con_log_agrees log s k \<and> k \<le> 1"
proof -
  obtain s' sink' where loop: "consumer_loop config error_text as ConsumerSummary_default (Some []) = (s', sink', True)"
    and s: "s = s'" "sink = consumer_emit sink' (ConStopped s')"
    using assms by (auto simp: maintain_consumer_def split: prod.splits bool.splits)
  have "con_log_agrees [] ConsumerSummary_default 0"
    by (simp add: con_log_agrees_def ConsumerSummary_default_def)
  from consumer_loop_log [OF loop this] s show ?thesis by (auto simp: consumer_emit_def)
qed

definition sample_world where
  "sample_world created cancel =
     (sample_rtc, id, id, \<lambda>_ _. Inr (), \<lambda>_ _ _. created, cancel, sample_consumer_signaler, list_next, sample_pick, False,
      [NextReady, NextReady, NextReady, PatienceOver], sample_consumer_env, sample_path_env)"

lemma sample_session_in:
  "session_in (sample_world created cancel) sample_consumer_config = sample_consumer_run created cancel"
  by (simp add: session_in_def sample_world_def sample_consumer_run_def)

lemma sample_session_results:
  "snd (sample_consumer_run (Inl e) None) = Some (Inl (ConsumerWebRtc e))"
  "snd (sample_consumer_run (Inr ()) (Some 2)) = Some (Inl ConsumerCancelled)"
  by (simp_all add: sample_consumer_run_eq until_cancelled_def sample_consumer_run_def [of "Inl e"] run_consumer_session_def
      build_api_with_options_def sample_rtc_def attempt_pure_def perform_def sample_consumer_config_def ConsumerConfig_new_def
      create_unreliable_data_channel_def)

theorem consumer_summary_matches_events_witness:
  "\<exists>log k. maintain_consumer \<lparr>consumer = sample_consumer_config, con_retry_delay = from_secs 1\<rparr> (\<lambda>_. ''error'')
       [\<lparr>before_cancelled = False, after_cancelled = False, pause_cancelled = False, session_env = sample_world (Inl ''no sctp'') None\<rparr>,
        \<lparr>before_cancelled = False, after_cancelled = True, pause_cancelled = False, session_env = sample_world (Inr ()) (Some 2)\<rparr>]
       (Some []) =
       (Some (log @ [ConStopped \<lparr>con_attempts = 2, completed_paths = 0, con_failed_attempts = 1\<rparr>]),
        Some \<lparr>con_attempts = 2, completed_paths = 0, con_failed_attempts = 1\<rparr>) \<and>
     con_log_agrees log \<lparr>con_attempts = 2, completed_paths = 0, con_failed_attempts = 1\<rparr> k \<and> k \<le> 1"
  (is "\<exists>log k. ?run = _ \<and> _")
proof -
  let ?s = "\<lparr>con_attempts = 2, completed_paths = 0, con_failed_attempts = 1\<rparr> :: ConsumerSummary"
  have "snd ?run = Some ?s"
    by (simp add: maintain_consumer_def consumer_turn_def sample_session_in sample_session_results
        ConsumerSummary_default_def consumer_emit_def)
  then have run: "?run = (fst ?run, Some ?s)" by (metis prod.collapse)
  from consumer_summary_matches_events [OF run] run show ?thesis by metis
qed

end
