(* ===== verification/Json.thy ===== *)
theory Json
  imports Protocol "HOL-Library.Monad_Syntax"
begin

text \<open>
  The JSON form of the messages of \<open>src/src/protocol.rs\<close>. The structs derive \<open>Serialize\<close> and
  \<open>Deserialize\<close>; what the source decides is the name of each field (the \<open>rename\<close> attributes),
  which fields may be missing, and the reading of each field's type. A message is written to a
  JSON value and read from one; the text of a value is the business of the JSON library, whose
  printer and parser are arguments. A reader gives \<open>None\<close> where the derived code reports a data
  error; which of several data errors is reported is left to an argument.
\<close>

section \<open>Values\<close>

text \<open>A number is an integer, or the text of one with a fraction or an exponent.\<close>

datatype json =
    JNull
  | JBool bool
  | JNumber int
  | JFloat string
  | JString string
  | JArray "json list"
  | JObject "(string \<times> json) list"

text \<open>
  The values that are read back as they were printed: integers of 64 bits, no fractions, and a
  bounded nesting.
\<close>

fun serializable :: "nat \<Rightarrow> json \<Rightarrow> bool" where
  "serializable n (JNumber i) \<longleftrightarrow> - (2 ^ 63) \<le> i \<and> i < 2 ^ 64"
| "serializable n (JFloat t) \<longleftrightarrow> False"
| "serializable (Suc n) (JArray vs) \<longleftrightarrow> list_all (serializable n) vs"
| "serializable (Suc n) (JObject kvs) \<longleftrightarrow> list_all (\<lambda>kv. serializable n (snd kv)) kvs"
| "serializable 0 (JArray vs) \<longleftrightarrow> False"
| "serializable 0 (JObject kvs) \<longleftrightarrow> False"
| "serializable n v \<longleftrightarrow> True"

lemma serializable_Suc: "serializable n v \<Longrightarrow> serializable (Suc n) v"
  by (induction n v rule: serializable.induct) (auto simp: list_all_iff)

lemma serializable_mono: "n \<le> m \<Longrightarrow> serializable n v \<Longrightarrow> serializable m v"
  by (induction m rule: dec_induct) (auto intro: serializable_Suc)

section \<open>Reading the field types\<close>

named_theorems json_reads

fun string_read :: "json \<Rightarrow> string option" where
  "string_read (JString s) = Some s"
| "string_read v = None"

fun bool_read :: "json \<Rightarrow> bool option" where
  "bool_read (JBool b) = Some b"
| "bool_read v = None"

text \<open>An unsigned integer, refused where it does not fit its width.\<close>

fun unsigned_read :: "json \<Rightarrow> 'w :: len word option" where
  "unsigned_read (JNumber i) = (if 0 \<le> i \<and> i < 2 ^ LENGTH('w) then Some (word_of_int i) else None)"
| "unsigned_read v = None"

definition unsigned_value :: "'w :: len word \<Rightarrow> json" where
  "unsigned_value w = JNumber (uint w)"

fun option_read :: "(json \<Rightarrow> 'a option) \<Rightarrow> json \<Rightarrow> 'a option option" where
  "option_read f JNull = Some None"
| "option_read f v = map_option Some (f v)"

fun option_value :: "('a \<Rightarrow> json) \<Rightarrow> 'a option \<Rightarrow> json" where
  "option_value f None = JNull"
| "option_value f (Some x) = f x"

fun traverse :: "('a \<Rightarrow> 'b option) \<Rightarrow> 'a list \<Rightarrow> 'b list option" where
  "traverse f [] = Some []"
| "traverse f (x # xs) = do { y \<leftarrow> f x; ys \<leftarrow> traverse f xs; Some (y # ys) }"

fun vec_read :: "(json \<Rightarrow> 'a option) \<Rightarrow> json \<Rightarrow> 'a list option" where
  "vec_read f (JArray vs) = traverse f vs"
| "vec_read f v = None"

definition vec_value :: "('a \<Rightarrow> json) \<Rightarrow> 'a list \<Rightarrow> json" where
  "vec_value f xs = JArray (map f xs)"

text \<open>
  The entries of a struct with the given field names: an object, in which no field occurs twice
  and unknown names are passed over, or an array with the fields by position. A field without a
  default has to be there; one with a default, or of an option type, may be missing.
\<close>

fun struct_entries :: "string list \<Rightarrow> json \<Rightarrow> (string \<times> json) list option" where
  "struct_entries names (JObject kvs) = (if distinct (filter (\<lambda>k. k \<in> set names) (map fst kvs)) then Some kvs else None)"
| "struct_entries names (JArray vs) = (if length vs \<le> length names then Some (zip names vs) else None)"
| "struct_entries names v = None"

definition required :: "(json \<Rightarrow> 'a option) \<Rightarrow> string \<Rightarrow> (string \<times> json) list \<Rightarrow> 'a option" where
  "required f name entries = do { v \<leftarrow> map_of entries name; f v }"

definition defaulted :: "(json \<Rightarrow> 'a option) \<Rightarrow> string \<Rightarrow> (string \<times> json) list \<Rightarrow> 'a option option" where
  "defaulted f name entries = (case map_of entries name of None \<Rightarrow> Some None | Some v \<Rightarrow> option_read f v)"

lemma unsigned_read_value [simp, json_reads]: "unsigned_read (unsigned_value w) = Some w"
  using uint_bounded [of w] by (simp add: unsigned_value_def)

lemma traverse_map: "(\<And>x. x \<in> set xs \<Longrightarrow> f (g x) = Some (h x)) \<Longrightarrow> traverse f (map g xs) = Some (map h xs)"
  by (induction xs) auto

lemma option_read_value: "g x \<noteq> JNull \<Longrightarrow> option_read f (g x) = map_option Some (f (g x))"
  by (cases "g x") auto

lemma serializable_unsigned [simp]: "LENGTH('w :: len) \<le> 64 \<Longrightarrow> serializable n (unsigned_value (w :: 'w word))"
proof -
  assume "LENGTH('w) \<le> 64"
  moreover have "uint w < 2 ^ LENGTH('w)" by (rule uint_bounded)
  moreover from \<open>LENGTH('w) \<le> 64\<close> have "(2 :: int) ^ LENGTH('w) \<le> 2 ^ 64" by (intro power_increasing) auto
  ultimately have "uint w < 2 ^ 64" by linarith
  then show ?thesis by (simp add: unsigned_value_def order_trans [OF _ uint_ge_0 [of w]])
qed

section \<open>The contract of a message format\<close>

text \<open>
  What is written as \<open>x\<close> is read as \<open>reads x\<close>, also as text: writer and reader may be two structs
  of two modules.
\<close>

definition to_string :: "(json \<Rightarrow> 'j + string) \<Rightarrow> ('a \<Rightarrow> json) \<Rightarrow> 'a \<Rightarrow> 'j + string" where
  "to_string print to_value x = print (to_value x)"

definition from_str ::
    "(string \<Rightarrow> 'j + json) \<Rightarrow> (json \<Rightarrow> 'j) \<Rightarrow> (json \<Rightarrow> 'a option) \<Rightarrow> string \<Rightarrow> 'j + 'a" where
  "from_str parse data_error from_value text =
     and_then (parse text) (\<lambda>v. case from_value v of None \<Rightarrow> Inl (data_error v) | Some x \<Rightarrow> Inr x)"

text \<open>The parser reads back what the printer wrote, up to its limit on the nesting of a text.\<close>

definition nesting_limit :: nat where
  "nesting_limit = 127"

definition json_texts :: "(json \<Rightarrow> 'j + string) \<Rightarrow> (string \<Rightarrow> 'i + json) \<Rightarrow> bool" where
  "json_texts print parse \<longleftrightarrow>
     (\<forall>v t. serializable nesting_limit v \<longrightarrow> print v = Inr t \<longrightarrow> parse t = Inr v)"

locale message_format =
  fixes to_value :: "'a \<Rightarrow> json" and from_value :: "json \<Rightarrow> 'b option" and reads :: "'a \<Rightarrow> 'b" and nesting :: nat
  assumes from_to: "from_value (to_value x) = Some (reads x)"
    and nested: "serializable nesting (to_value x)"
begin

lemma text_read:
  assumes "json_texts print parse" and "nesting \<le> nesting_limit" and "to_string print to_value x = Inr t"
  shows "from_str parse data_error from_value t = Inr (reads x)"
proof -
  have "parse t = Inr (to_value x)"
    using assms serializable_mono [OF assms(2) nested] by (auto simp: json_texts_def to_string_def)
  then show ?thesis by (simp add: from_str_def from_to)
qed

lemma vec_format: "message_format (vec_value to_value) (vec_read from_value) (map reads) (Suc nesting)"
  by unfold_locales (simp_all add: vec_value_def traverse_map from_to list_all_iff nested)

lemma option_from_to:
  "(\<And>x. to_value x \<noteq> JNull) \<Longrightarrow> option_read from_value (option_value to_value x) = Some (map_option reads x)"
  by (cases x) (simp_all add: option_read_value from_to)

lemma option_nested: "serializable nesting (option_value to_value x)"
  by (cases x) (simp_all add: nested)

end


section \<open>The messages of the protocol\<close>

definition kind_value :: "SignalMessageType \<Rightarrow> json" where
  "kind_value k = unsigned_value (kind_as_u8 k)"

definition kind_read :: "json \<Rightarrow> SignalMessageType option" where
  "kind_read v = do {
     n \<leftarrow> (unsigned_read v :: u8 option);
     if n = 0 then Some Genesis else if n = 1 then Some Offer
     else if n = 2 then Some Answer else if n = 3 then Some Ice else None }"

definition SignalMessage_value :: "SignalMessage \<Rightarrow> json" where
  "SignalMessage_value m = JObject
     [(''ReplyTo'', JString (reply_to m)), (''Type'', kind_value (kind m)), (''Payload'', JString (signal_payload m))]"

definition SignalMessage_read :: "json \<Rightarrow> SignalMessage option" where
  "SignalMessage_read v = do {
     es \<leftarrow> struct_entries [''ReplyTo'', ''Type'', ''Payload''] v;
     r \<leftarrow> required string_read ''ReplyTo'' es;
     k \<leftarrow> required kind_read ''Type'' es;
     p \<leftarrow> required string_read ''Payload'' es;
     Some \<lparr>reply_to = r, kind = k, signal_payload = p\<rparr> }"

definition Endpoint_value :: "Endpoint \<Rightarrow> json" where
  "Endpoint_value e = JObject [(''Host'', JString (host e)), (''Distance'', unsigned_value (distance e))]"

definition Endpoint_read :: "json \<Rightarrow> Endpoint option" where
  "Endpoint_read v = do {
     es \<leftarrow> struct_entries [''Host'', ''Distance''] v;
     h \<leftarrow> required string_read ''Host'' es;
     d \<leftarrow> required unsigned_read ''Distance'' es;
     Some \<lparr>host = h, distance = d\<rparr> }"

definition PathAssertion_value :: "PathAssertion \<Rightarrow> json" where
  "PathAssertion_value a = JObject
     [(''Allow'', option_value (vec_value Endpoint_value) (allow a)),
      (''Deny'', option_value (vec_value Endpoint_value) (deny a)),
      (''JITUnavailable'', JBool (jit_unavailable a))]"

definition PathAssertion_read :: "json \<Rightarrow> PathAssertion option" where
  "PathAssertion_read v = do {
     es \<leftarrow> struct_entries [''Allow'', ''Deny'', ''JITUnavailable''] v;
     a \<leftarrow> defaulted (vec_read Endpoint_read) ''Allow'' es;
     d \<leftarrow> defaulted (vec_read Endpoint_read) ''Deny'' es;
     j \<leftarrow> required bool_read ''JITUnavailable'' es;
     Some \<lparr>allow = a, deny = d, jit_unavailable = j\<rparr> }"

definition GenesisMessage_value :: "GenesisMessage \<Rightarrow> json" where
  "GenesisMessage_value m = JObject [(''PathAssertion'', PathAssertion_value (path_assertion m))]"

definition GenesisMessage_read :: "json \<Rightarrow> GenesisMessage option" where
  "GenesisMessage_read v = do {
     es \<leftarrow> struct_entries [''PathAssertion''] v;
     a \<leftarrow> required PathAssertion_read ''PathAssertion'' es;
     Some \<lparr>path_assertion = a\<rparr> }"

text \<open>
  The payload of a packet goes through the module \<open>base64_payload\<close>; the encoder and the decoder are
  arguments.
\<close>

definition UnboundedPacket_value :: "(bytes \<Rightarrow> string) \<Rightarrow> UnboundedPacket \<Rightarrow> json" where
  "UnboundedPacket_value encode p = JObject
     [(''SourceAddr'', JString (source_addr p)), (''Payload'', base64_serialize encode JString (packet_payload p))]"

fun result_ok :: "'e + 'a \<Rightarrow> 'a option" where
  "result_ok (Inl e) = None"
| "result_ok (Inr a) = Some a"

definition UnboundedPacket_read :: "(string \<Rightarrow> 'be + bytes) \<Rightarrow> json \<Rightarrow> UnboundedPacket option" where
  "UnboundedPacket_read decode v = do {
     es \<leftarrow> struct_entries [''SourceAddr'', ''Payload''] v;
     s \<leftarrow> required string_read ''SourceAddr'' es;
     p \<leftarrow> required (\<lambda>d. result_ok (base64_deserialize decode (\<lambda>e. ()) (\<lambda>x. ok_or (string_read x) ()) d)) ''Payload'' es;
     Some \<lparr>source_addr = s, packet_payload = p\<rparr> }"

lemmas struct_read_defs = required_def defaulted_def

lemma kind_read_value [simp, json_reads]: "kind_read (kind_value k) = Some k"
  by (cases k) (simp_all add: kind_read_def kind_value_def)

lemma serializable_kind [simp]: "serializable n (kind_value k)"
  by (simp add: kind_value_def)

interpretation signal_json: message_format SignalMessage_value SignalMessage_read "\<lambda>m. m" 1
  by unfold_locales
    (simp_all add: SignalMessage_value_def SignalMessage_read_def struct_read_defs)

interpretation endpoint_json: message_format Endpoint_value Endpoint_read "\<lambda>e. e" 1
  by unfold_locales
    (simp_all add: Endpoint_value_def Endpoint_read_def struct_read_defs)

interpretation endpoints_json: message_format "vec_value Endpoint_value" "vec_read Endpoint_read" "\<lambda>es. es" 2
  using endpoint_json.vec_format by (simp add: numeral_2_eq_2)

lemma optional_endpoints:
  "option_read (vec_read Endpoint_read) (option_value (vec_value Endpoint_value) es) = Some es"
  using endpoints_json.option_from_to [of es] by (simp add: vec_value_def option.map_ident)

interpretation assertion_json: message_format PathAssertion_value PathAssertion_read "\<lambda>a. a" 3
  using endpoints_json.option_nested
  by unfold_locales
    (simp_all add: PathAssertion_value_def PathAssertion_read_def struct_read_defs optional_endpoints numeral_3_eq_3 numeral_2_eq_2)

interpretation genesis_json: message_format GenesisMessage_value GenesisMessage_read "\<lambda>m. m" 4
  using assertion_json.nested
  by unfold_locales
    (simp_all add: GenesisMessage_value_def GenesisMessage_read_def struct_read_defs assertion_json.from_to eval_nat_numeral)

lemma packet_json:
  "(\<And>bs. decode (encode bs) = Inr bs) \<Longrightarrow>
     message_format (UnboundedPacket_value encode) (UnboundedPacket_read decode) (\<lambda>p. p) 1"
  by unfold_locales
    (simp_all add: UnboundedPacket_value_def UnboundedPacket_read_def struct_read_defs base64_serialize_def base64_deserialize_def)

section \<open>Messages are read back\<close>

lemma required_unknown: "k \<noteq> name \<Longrightarrow> required f name ((k, x) # es) = required f name es"
  by (simp add: required_def)


text \<open>A packet whose payload is its bytes as characters, and a library that knows one text.\<close>

definition sample_packet :: UnboundedPacket where
  "sample_packet = \<lparr>source_addr = ''a'', packet_payload = [0, 255]\<rparr>"

definition sample_encode :: "bytes \<Rightarrow> string" where
  "sample_encode bs = map (\<lambda>b. char_of (unat b)) bs"

definition sample_print :: "json \<Rightarrow> unit + string" where
  "sample_print v = (if v = UnboundedPacket_value sample_encode sample_packet then Inr ''packet'' else Inl ())"

definition sample_parse :: "string \<Rightarrow> unit + json" where
  "sample_parse t = (if t = ''packet'' then Inr (UnboundedPacket_value sample_encode sample_packet) else Inl ())"

lemma sample_encode_decoded: "str_bytes (sample_encode bs) = bs"
proof -
  have "word_of_nat (of_char (char_of (unat b) :: char)) = b" for b :: u8
  proof -
    have "unat b < 2 ^ LENGTH(8)" by (rule unsigned_less)
    then have "of_char (char_of (unat b) :: char) = unat b" by (simp only: of_char_of) simp
    then show ?thesis by (simp only: of_nat_unat ucast_id)
  qed
  then show ?thesis by (simp add: str_bytes_def sample_encode_def char_byte_def o_def)
qed


end
