(* ===== verification/Wire_Messages.thy ===== *)
theory Wire_Messages
  imports Json Peer_Proxy Consumer_Session
begin

text \<open>
  The JSON form of the offers and the ICE messages, which \<open>src/src/consumer.rs\<close> and
  \<open>src/src/peer_proxy.rs\<close> declare separately: each struct is written and read as in \<open>Json\<close>, and
  the lemmas show that the reader of the peer proxy understands the writer of the consumer. The
  session description and the candidate type are types of the WebRTC crate, so that their JSON
  form is an argument.
\<close>

section \<open>Offers\<close>

definition OfferMessage_value :: "('sd \<Rightarrow> json) \<Rightarrow> 'sd OfferMessage \<Rightarrow> json" where
  "OfferMessage_value sd_value m = JObject [(''SDP'', sd_value (sdp m)), (''Tag'', JString (tag m))]"

definition OfferMessage_read :: "(json \<Rightarrow> 'sd option) \<Rightarrow> json \<Rightarrow> 'sd OfferMessage option" where
  "OfferMessage_read sd_read v = do {
     es \<leftarrow> struct_entries [''SDP'', ''Tag''] v;
     s \<leftarrow> required sd_read ''SDP'' es;
     t \<leftarrow> required string_read ''Tag'' es;
     Some \<lparr>sdp = s, tag = t\<rparr> }"

definition ConsumerOfferMessage_value :: "('sd \<Rightarrow> json) \<Rightarrow> 'sd ConsumerOfferMessage \<Rightarrow> json" where
  "ConsumerOfferMessage_value sd_value m =
     JObject [(''SDP'', sd_value (offer_sdp m)), (''Tag'', JString (offer_tag m))]"

definition received_offer :: "'sd ConsumerOfferMessage \<Rightarrow> 'sd OfferMessage" where
  "received_offer m = \<lparr>sdp = offer_sdp m, tag = offer_tag m\<rparr>"

section \<open>Candidates\<close>

definition PionIceCandidate_value :: "('ty \<Rightarrow> json) \<Rightarrow> 'ty PionIceCandidate \<Rightarrow> json" where
  "PionIceCandidate_value ty_value c = JObject
     [(''foundation'', JString (pion_foundation c)), (''priority'', unsigned_value (pion_priority c)),
      (''address'', JString (pion_address c)), (''protocol'', unsigned_value (pion_protocol c)),
      (''port'', unsigned_value (pion_port c)), (''type'', ty_value (pion_typ c)),
      (''component'', unsigned_value (pion_component c)), (''relatedAddress'', JString (pion_related_address c)),
      (''relatedPort'', unsigned_value (pion_related_port c)), (''tcpType'', JString (pion_tcp_type c)),
      (''sdpMid'', option_value JString (pion_sdp_mid c)),
      (''sdpMLineIndex'', option_value unsigned_value (pion_sdp_mline_index c))]"

definition PionIceCandidate_read :: "(json \<Rightarrow> 'ty option) \<Rightarrow> json \<Rightarrow> 'ty PionIceCandidate option" where
  "PionIceCandidate_read ty_read v = do {
     es \<leftarrow> struct_entries [''foundation'', ''priority'', ''address'', ''protocol'', ''port'', ''type'', ''component'',
       ''relatedAddress'', ''relatedPort'', ''tcpType'', ''sdpMid'', ''sdpMLineIndex''] v;
     f \<leftarrow> required string_read ''foundation'' es;
     pr \<leftarrow> required unsigned_read ''priority'' es;
     a \<leftarrow> required string_read ''address'' es;
     pc \<leftarrow> required unsigned_read ''protocol'' es;
     po \<leftarrow> required unsigned_read ''port'' es;
     ty \<leftarrow> required ty_read ''type'' es;
     co \<leftarrow> required unsigned_read ''component'' es;
     ra \<leftarrow> required string_read ''relatedAddress'' es;
     rp \<leftarrow> required unsigned_read ''relatedPort'' es;
     tc \<leftarrow> required string_read ''tcpType'' es;
     sm \<leftarrow> defaulted string_read ''sdpMid'' es;
     si \<leftarrow> defaulted unsigned_read ''sdpMLineIndex'' es;
     Some \<lparr>pion_foundation = f, pion_priority = pr, pion_address = a, pion_protocol = pc, pion_port = po,
       pion_typ = ty, pion_component = co, pion_related_address = ra, pion_related_port = rp,
       pion_tcp_type = tc, pion_sdp_mid = sm, pion_sdp_mline_index = si\<rparr> }"

definition ConsumerIceCandidate_value :: "('ty \<Rightarrow> json) \<Rightarrow> 'ty ConsumerIceCandidate \<Rightarrow> json" where
  "ConsumerIceCandidate_value ty_value c = JObject
     [(''foundation'', JString (con_foundation c)), (''priority'', unsigned_value (con_priority c)),
      (''address'', JString (con_address c)), (''protocol'', unsigned_value (con_protocol c)),
      (''port'', unsigned_value (con_port c)), (''type'', ty_value (con_typ c)),
      (''component'', unsigned_value (con_component c)), (''relatedAddress'', JString (con_related_address c)),
      (''relatedPort'', unsigned_value (con_related_port c)), (''tcpType'', JString (con_tcp_type c))]"

definition ConsumerIceCandidate_read :: "(json \<Rightarrow> 'ty option) \<Rightarrow> json \<Rightarrow> 'ty ConsumerIceCandidate option" where
  "ConsumerIceCandidate_read ty_read v = do {
     es \<leftarrow> struct_entries [''foundation'', ''priority'', ''address'', ''protocol'', ''port'', ''type'', ''component'',
       ''relatedAddress'', ''relatedPort'', ''tcpType''] v;
     f \<leftarrow> required string_read ''foundation'' es;
     pr \<leftarrow> required unsigned_read ''priority'' es;
     a \<leftarrow> required string_read ''address'' es;
     pc \<leftarrow> required unsigned_read ''protocol'' es;
     po \<leftarrow> required unsigned_read ''port'' es;
     ty \<leftarrow> required ty_read ''type'' es;
     co \<leftarrow> required unsigned_read ''component'' es;
     ra \<leftarrow> required string_read ''relatedAddress'' es;
     rp \<leftarrow> required unsigned_read ''relatedPort'' es;
     tc \<leftarrow> required string_read ''tcpType'' es;
     Some \<lparr>con_foundation = f, con_priority = pr, con_address = a, con_protocol = pc, con_port = po,
       con_typ = ty, con_component = co, con_related_address = ra, con_related_port = rp, con_tcp_type = tc\<rparr> }"

text \<open>
  What the peer proxy reads from a candidate of the consumer: the fields have the same names on
  the wire, and the two that the consumer does not write have a default.
\<close>

definition received_candidate :: "'ty ConsumerIceCandidate \<Rightarrow> 'ty PionIceCandidate" where
  "received_candidate c =
     \<lparr>pion_foundation = con_foundation c, pion_priority = con_priority c, pion_address = con_address c,
      pion_protocol = con_protocol c, pion_port = con_port c, pion_typ = con_typ c,
      pion_component = con_component c, pion_related_address = con_related_address c,
      pion_related_port = con_related_port c, pion_tcp_type = con_tcp_type c,
      pion_sdp_mid = None, pion_sdp_mline_index = None\<rparr>"

section \<open>Messages with candidates\<close>

definition IceMessage_value :: "('ty \<Rightarrow> json) \<Rightarrow> 'ty IceMessage \<Rightarrow> json" where
  "IceMessage_value ty_value m = JObject
     [(''Candidates'', vec_value (PionIceCandidate_value ty_value) (candidates m)),
      (''ConsumerSessionID'', JString (consumer_session_id m))]"

definition IceMessage_read :: "(json \<Rightarrow> 'ty option) \<Rightarrow> json \<Rightarrow> 'ty IceMessage option" where
  "IceMessage_read ty_read v = do {
     es \<leftarrow> struct_entries [''Candidates'', ''ConsumerSessionID''] v;
     cs \<leftarrow> required (vec_read (PionIceCandidate_read ty_read)) ''Candidates'' es;
     i \<leftarrow> required string_read ''ConsumerSessionID'' es;
     Some \<lparr>candidates = cs, consumer_session_id = i\<rparr> }"

definition ConsumerIceMessage_value :: "('ty \<Rightarrow> json) \<Rightarrow> 'ty ConsumerIceMessage \<Rightarrow> json" where
  "ConsumerIceMessage_value ty_value m = JObject
     [(''Candidates'', vec_value (ConsumerIceCandidate_value ty_value) (ice_candidates m)),
      (''ConsumerSessionID'', JString (ice_session_id m))]"

definition ConsumerIceMessage_read :: "(json \<Rightarrow> 'ty option) \<Rightarrow> json \<Rightarrow> 'ty ConsumerIceMessage option" where
  "ConsumerIceMessage_read ty_read v = do {
     es \<leftarrow> struct_entries [''Candidates'', ''ConsumerSessionID''] v;
     cs \<leftarrow> required (vec_read (ConsumerIceCandidate_read ty_read)) ''Candidates'' es;
     i \<leftarrow> required string_read ''ConsumerSessionID'' es;
     Some \<lparr>ice_candidates = cs, ice_session_id = i\<rparr> }"

definition received_ice :: "'ty ConsumerIceMessage \<Rightarrow> 'ty IceMessage" where
  "received_ice m =
     \<lparr>candidates = map received_candidate (ice_candidates m), consumer_session_id = ice_session_id m\<rparr>"

section \<open>The reader understands the writer\<close>

text \<open>
  A message format for the type of a field gives one for the message: first for each struct with
  itself, then from the consumer to the peer proxy.
\<close>

lemma format_iff:
  "message_format to_value from_value reads n \<longleftrightarrow>
     (\<forall>x. from_value (to_value x) = Some (reads x)) \<and> (\<forall>x. serializable n (to_value x))"
  by (simp add: message_format_def)

lemma offer_format:
  "message_format sd_value sd_read (\<lambda>d. d) n \<Longrightarrow>
     message_format (OfferMessage_value sd_value) (OfferMessage_read sd_read) (\<lambda>m. m) (Suc n)"
  by (simp add: format_iff OfferMessage_value_def OfferMessage_read_def struct_read_defs)

lemma consumer_offer_format:
  "message_format sd_value sd_read (\<lambda>d. d) n \<Longrightarrow>
     message_format (ConsumerOfferMessage_value sd_value) (OfferMessage_read sd_read) received_offer (Suc n)"
  by (simp add: format_iff ConsumerOfferMessage_value_def OfferMessage_read_def struct_read_defs received_offer_def)

lemma option_scalars [simp]:
  "option_read string_read (option_value JString s) = Some s"
  "option_read unsigned_read (option_value unsigned_value (w :: 'w :: len word option)) = Some w"
  "serializable n (option_value JString s)"
  by (cases s; cases w; simp add: unsigned_value_def; fail)+

lemma serializable_option_unsigned [simp]:
  "LENGTH('w :: len) \<le> 64 \<Longrightarrow> serializable n (option_value unsigned_value (w :: 'w word option))"
  by (cases w) simp_all

lemma candidate_format:
  "message_format ty_value ty_read (\<lambda>t. t) n \<Longrightarrow>
     message_format (PionIceCandidate_value ty_value) (PionIceCandidate_read ty_read) (\<lambda>c. c) (Suc n)"
  by (simp add: format_iff PionIceCandidate_value_def PionIceCandidate_read_def struct_read_defs)

lemma consumer_candidate_format:
  "message_format ty_value ty_read (\<lambda>t. t) n \<Longrightarrow>
     message_format (ConsumerIceCandidate_value ty_value) (ConsumerIceCandidate_read ty_read) (\<lambda>c. c) (Suc n)"
  by (simp add: format_iff ConsumerIceCandidate_value_def ConsumerIceCandidate_read_def struct_read_defs)

lemma sent_candidate_format:
  "message_format ty_value ty_read (\<lambda>t. t) n \<Longrightarrow>
     message_format (ConsumerIceCandidate_value ty_value) (PionIceCandidate_read ty_read) received_candidate (Suc n)"
  by (simp add: format_iff ConsumerIceCandidate_value_def PionIceCandidate_read_def struct_read_defs received_candidate_def)

lemmas candidates_format = message_format.vec_format [OF candidate_format]
lemmas consumer_candidates_format = message_format.vec_format [OF consumer_candidate_format]
lemmas sent_candidates_format = message_format.vec_format [OF sent_candidate_format]

lemma ice_format:
  "message_format ty_value ty_read (\<lambda>t. t) n \<Longrightarrow>
     message_format (IceMessage_value ty_value) (IceMessage_read ty_read) (\<lambda>m. m) (Suc (Suc (Suc n)))"
  by (drule candidates_format) (simp add: format_iff IceMessage_value_def IceMessage_read_def struct_read_defs)

lemma consumer_ice_format:
  "message_format ty_value ty_read (\<lambda>t. t) n \<Longrightarrow>
     message_format (ConsumerIceMessage_value ty_value) (ConsumerIceMessage_read ty_read) (\<lambda>m. m) (Suc (Suc (Suc n)))"
  by (drule consumer_candidates_format) (simp add: format_iff ConsumerIceMessage_value_def ConsumerIceMessage_read_def struct_read_defs)

lemma sent_ice_format:
  "message_format ty_value ty_read (\<lambda>t. t) n \<Longrightarrow>
     message_format (ConsumerIceMessage_value ty_value) (IceMessage_read ty_read) received_ice (Suc (Suc (Suc n)))"
  by (drule sent_candidates_format)
    (simp add: format_iff ConsumerIceMessage_value_def IceMessage_read_def struct_read_defs received_ice_def)

section \<open>The environments of the two sessions\<close>

text \<open>
  The JSON crate and the JSON form of the WebRTC types. Its laws: texts are read back, a session
  description, which stands for its type and its SDP text, is written as an object of scalars and
  a candidate type as a scalar, and both are read back.
\<close>

record ('sd, 'ty, 'j) json_library =
  print_json :: "json \<Rightarrow> 'j + string"
  parse_json :: "string \<Rightarrow> 'j + json"
  data_error :: "json \<Rightarrow> 'j"
  description_value :: "'sd \<Rightarrow> json"
  description_read :: "json \<Rightarrow> 'sd option"
  candidate_type_value :: "'ty \<Rightarrow> json"
  candidate_type_read :: "json \<Rightarrow> 'ty option"

definition json_laws :: "('sd, 'ty, 'j) json_library \<Rightarrow> bool" where
  "json_laws jl \<longleftrightarrow> json_texts (print_json jl) (parse_json jl) \<and>
     message_format (description_value jl) (description_read jl) (\<lambda>d. d) 1 \<and>
     message_format (candidate_type_value jl) (candidate_type_read jl) (\<lambda>t. t) 0"

definition read_json :: "('sd, 'ty, 'j) json_library \<Rightarrow> (json \<Rightarrow> 'a option) \<Rightarrow> string \<Rightarrow> 'j + 'a" where
  "read_json jl = from_str (parse_json jl) (data_error jl)"

text \<open>The JSON functions of a session are those of its structs.\<close>

definition consumer_json ::
    "('sd, 'ty, 'j) json_library \<Rightarrow> ('sd, 'ty, 'w, 'j, 'p) consumer_env \<Rightarrow> ('sd, 'ty, 'w, 'j, 'p) consumer_env" where
  "consumer_json jl env = env
     \<lparr>offer_to_json := to_string (print_json jl) (ConsumerOfferMessage_value (description_value jl)),
      answer_from_json := read_json jl (description_read jl),
      ice_to_json := to_string (print_json jl) (ConsumerIceMessage_value (candidate_type_value jl))\<rparr>"

definition peer_json ::
    "('sd, 'ty, 'j) json_library \<Rightarrow> ('sd, 'ty, 'w, 'j, 'p) peer_env \<Rightarrow> ('sd, 'ty, 'w, 'j, 'p) peer_env" where
  "peer_json jl env = env
     \<lparr>genesis_to_json := to_string (print_json jl) GenesisMessage_value,
      answer_to_json := to_string (print_json jl) (description_value jl),
      offer_from_json := read_json jl (OfferMessage_read (description_read jl)),
      ice_from_json := read_json jl (IceMessage_read (candidate_type_read jl))\<rparr>"

lemma json_lawsD:
  assumes "json_laws jl"
  shows "json_texts (print_json jl) (parse_json jl)"
    and "message_format (description_value jl) (description_read jl) (\<lambda>d. d) 1"
    and "message_format (candidate_type_value jl) (candidate_type_read jl) (\<lambda>t. t) 0"
  using assms by (simp_all add: json_laws_def)

lemmas session_json_defs = consumer_json_def peer_json_def read_json_def

lemma offer_text_read:
  assumes "json_laws jl" and "offer_to_json (consumer_json jl cenv) m = Inr t"
  shows "offer_from_json (peer_json jl penv) t = Inr (received_offer m)"
  using assms(2) message_format.text_read [OF consumer_offer_format [OF json_lawsD(2) [OF assms(1)]] json_lawsD(1) [OF assms(1)] _, of m t "data_error jl"]
  by (simp add: session_json_defs nesting_limit_def)

lemma answer_text_read:
  assumes "json_laws jl" and "answer_to_json (peer_json jl penv) d = Inr t"
  shows "answer_from_json (consumer_json jl cenv) t = Inr d"
  using assms(2) message_format.text_read [OF json_lawsD(2) [OF assms(1)] json_lawsD(1) [OF assms(1)] _, of d t "data_error jl"]
  by (simp add: session_json_defs nesting_limit_def)

lemma ice_text_read:
  assumes "json_laws jl" and "ice_to_json (consumer_json jl cenv) m = Inr t"
  shows "ice_from_json (peer_json jl penv) t = Inr (received_ice m)"
  using assms(2) message_format.text_read [OF sent_ice_format [OF json_lawsD(3) [OF assms(1)]] json_lawsD(1) [OF assms(1)] _, of m t "data_error jl"]
  by (simp add: session_json_defs nesting_limit_def)

end
