(* ===== verification/Cli.thy ===== *)
theory Cli
  imports Peer_Types Signaling Supervisor "HOL-Library.Sublist"
begin

text \<open>
  The settings of the peer proxy program, \<open>src/src/bin/peer-proxy.rs\<close>: how environment variables
  become the configuration of the pool. The environment is a function from names to values, \<open>None\<close>
  for a variable that is unset or not Unicode. The parts of the standard library that the program
  parses with come first; \<open>usize\<close> has 64 bits.
\<close>

section \<open>Parsing in the standard library\<close>

definition digit_value :: "char \<Rightarrow> nat option" where
  "digit_value c = (let n = of_char c in if 48 \<le> n \<and> n \<le> (57 :: nat) then Some (n - 48) else None)"

text \<open>\<open>str::parse\<close> for an unsigned integer with the given largest value.\<close>

fun parse_digits :: "nat \<Rightarrow> nat \<Rightarrow> string \<Rightarrow> nat option" where
  "parse_digits largest acc [] = Some acc"
| "parse_digits largest acc (c # cs) =
     (case digit_value c of
        None \<Rightarrow> None
      | Some d \<Rightarrow> if largest < acc * 10 + d then None else parse_digits largest (acc * 10 + d) cs)"

definition parse_unsigned :: "nat \<Rightarrow> string \<Rightarrow> nat option" where
  "parse_unsigned largest s =
     (let digits = (if s \<noteq> [] \<and> hd s = CHR ''+'' then tl s else s)
      in if digits = [] then None else parse_digits largest 0 digits)"

definition U64_MAX :: nat where
  "U64_MAX = 2 ^ 64 - 1"

text \<open>
  \<open>str::trim\<close> removes the characters with the Unicode property White_Space at both ends; here they
  are, in UTF-8.
\<close>

definition white_space :: "string list" where
  "white_space =
     map (\<lambda>n. [char_of n]) [9, 10, 11, 12, 13, 32 :: nat]
     @ map (map char_of) ([[0xC2, 0x85], [0xC2, 0xA0], [0xE1, 0x9A, 0x80]]
         @ map (\<lambda>n. [0xE2, 0x80, n]) ([0x80..<0x8B] @ [0xA8, 0xA9, 0xAF])
         @ [[0xE2, 0x81, 0x9F], [0xE3, 0x80, 0x80 :: nat]])"

fun strip_prefix :: "string list \<Rightarrow> string \<Rightarrow> string option" where
  "strip_prefix [] s = None"
| "strip_prefix (w # ws) s = (if w \<noteq> [] \<and> prefix w s then Some (drop (length w) s) else strip_prefix ws s)"

lemma strip_prefix_shorter: "strip_prefix ws s = Some s' \<Longrightarrow> length s' < length s"
  by (induction ws) (auto split: if_splits simp: prefix_def)

function strip_while :: "string list \<Rightarrow> string \<Rightarrow> string" where
  "strip_while ws s = (case strip_prefix ws s of None \<Rightarrow> s | Some s' \<Rightarrow> strip_while ws s')"
  by auto

termination strip_while
  by (relation "measure (\<lambda>(ws, s). length s)") (auto simp: strip_prefix_shorter)

declare strip_while.simps [simp del]

definition trim :: "string \<Rightarrow> string" where
  "trim s = rev (strip_while (map rev white_space) (rev (strip_while white_space s)))"

definition to_ascii_lowercase :: "string \<Rightarrow> string" where
  "to_ascii_lowercase s =
     map (\<lambda>c. let n = of_char c in if 65 \<le> n \<and> n \<le> (90 :: nat) then char_of (n + 32) else c) s"

section \<open>Settings\<close>

type_synonym environment = "string \<Rightarrow> string option"

text \<open>\<open>None\<close> is the panic for a variable that is not set.\<close>

definition required :: "environment \<Rightarrow> string \<Rightarrow> string option" where
  "required env name = env name"

definition seconds :: "environment \<Rightarrow> string \<Rightarrow> nat \<Rightarrow> duration" where
  "seconds env name dflt =
     from_secs (case Option.bind (env name) (parse_unsigned U64_MAX) of None \<Rightarrow> dflt | Some n \<Rightarrow> n)"

definition count :: "environment \<Rightarrow> string \<Rightarrow> nat \<Rightarrow> nat" where
  "count env name dflt =
     (case Option.bind (env name) (parse_unsigned U64_MAX) of
        None \<Rightarrow> dflt
      | Some n \<Rightarrow> if 0 < n then n else dflt)"

definition parse_boolean :: "string \<Rightarrow> bool \<Rightarrow> bool" where
  "parse_boolean value dflt =
     (let s = to_ascii_lowercase (trim value) in
      if s \<in> {''1'', ''true'', ''yes'', ''on'', ''enable'', ''enabled'', ''randomize''} then True
      else if s \<in> {''0'', ''false'', ''no'', ''off'', ''disable'', ''disabled''} then False
      else dflt)"

definition boolean :: "environment \<Rightarrow> string \<Rightarrow> bool \<Rightarrow> bool" where
  "boolean env name dflt = (case env name of None \<Rightarrow> dflt | Some value \<Rightarrow> parse_boolean value dflt)"

definition stun_urls_setting :: "environment \<Rightarrow> string list" where
  "stun_urls_setting env =
     filter (\<lambda>value. value \<noteq> [])
       (map trim (split_on CHR '','' (case env ''UNBOUNDED_STUN_URLS'' of None \<Rightarrow> [] | Some v \<Rightarrow> v)))"

text \<open>
  What \<open>main\<close> hands to the pool: the configuration and the number of slots, or a panic.
\<close>

definition pool_settings ::
    "('c, 'e, 'u, 'q, 'r) http_library \<Rightarrow> environment
       \<Rightarrow> (('c, 'e) FreddieClient PeerProxyConfig SupervisorConfig \<times> nat) option" where
  "pool_settings lib env =
     (let slots = count env ''UNBOUNDED_CONCURRENT_SESSIONS'' 5 in
      Option.bind (required env ''UNBOUNDED_FREDDIE_ENDPOINT'') (\<lambda>freddie_endpoint.
      case FreddieClient_new lib freddie_endpoint :: ('u, 'q, unit) SignalingError + _ of
        Inl error \<Rightarrow> None
      | Inr freddie \<Rightarrow>
          map_option (\<lambda>url.
            (\<lparr>peer_proxy =
               \<lparr>signaler = freddie, egress_url = url, stun_urls = stun_urls_setting env,
                nat_timeout = seconds env ''UNBOUNDED_NAT_TIMEOUT_SECONDS'' 10,
                cfg_enable_ipv6 = boolean env ''UNBOUNDED_ENABLE_IPV6'' False,
                cfg_randomize_dtls = boolean env ''UNBOUNDED_COVERT_DTLS'' True\<rparr>,
              initial_backoff = seconds env ''UNBOUNDED_RETRY_INITIAL_SECONDS'' 1,
              max_backoff = seconds env ''UNBOUNDED_RETRY_MAX_SECONDS'' 30,
              stable_session = seconds env ''UNBOUNDED_STABLE_SESSION_SECONDS'' 30\<rparr>, slots))
            (required env ''UNBOUNDED_EGRESS_URL'')))"

section \<open>Facts on the parsers\<close>

lemma parse_digits_append:
  "parse_digits largest acc (xs @ ys) =
     (case parse_digits largest acc xs of None \<Rightarrow> None | Some v \<Rightarrow> parse_digits largest v ys)"
  by (induction xs arbitrary: acc) (auto split: option.splits)

lemma digit_value_char: "d < 10 \<Longrightarrow> digit_value (char_of (48 + d)) = Some d"
  by (simp add: digit_value_def)

lemma parse_digits_dec_string: "n \<le> largest \<Longrightarrow> parse_digits largest 0 (dec_string n) = Some n"
proof (induction n rule: dec_string.induct)
  case (1 n)
  show ?case
  proof (cases "n < 10")
    case True
    with 1(2) show ?thesis by (subst dec_string.simps) (simp add: digit_value_char)
  next
    case False
    then have "parse_digits largest 0 (dec_string (n div 10)) = Some (n div 10)"
      using 1 by (meson div_le_dividend le_trans)
    moreover have "n div 10 * 10 + n mod 10 = n" by simp
    ultimately show ?thesis
      using False 1(2) by (subst dec_string.simps) (simp add: parse_digits_append digit_value_char)
  qed
qed

lemma dec_string_shape: "dec_string n \<noteq> [] \<and> hd (dec_string n) \<noteq> CHR ''+''"
proof (induction n rule: dec_string.induct)
  case (1 n)
  show ?case
  proof (cases "n < 10")
    case True
    have "char_of (48 + n) \<noteq> CHR ''+''"
    proof
      assume "char_of (48 + n) = CHR ''+''"
      then have "of_char (char_of (48 + n)) = (of_char CHR ''+'' :: nat)" by simp
      with True show False by simp
    qed
    with True show ?thesis by (subst (1 2) dec_string.simps) simp
  next
    case False
    with 1 show ?thesis by (subst (1 2) dec_string.simps) simp
  qed
qed

lemma parse_unsigned_dec_string: "n \<le> largest \<Longrightarrow> parse_unsigned largest (dec_string n) = Some n"
  using dec_string_shape [of n] by (simp add: parse_unsigned_def parse_digits_dec_string)

text \<open>Text of printable ASCII characters has nothing to trim.\<close>

definition graphic :: "char \<Rightarrow> bool" where
  "graphic c \<longleftrightarrow> 33 \<le> (of_char c :: nat) \<and> (of_char c :: nat) \<le> 126"

lemma strip_prefix_none:
  assumes "\<And>w. w \<in> set ws \<Longrightarrow> \<not> graphic (hd w)" and "list_all graphic s"
  shows "strip_prefix ws s = None"
  using assms(1)
proof (induction ws)
  case (Cons w ws)
  have "\<not> (w \<noteq> [] \<and> prefix w s)"
  proof
    assume "w \<noteq> [] \<and> prefix w s"
    then have "hd w \<in> set s" by (cases w) (auto simp: prefix_def)
    with assms(2) Cons.prems [of w] show False by (simp add: list_all_iff)
  qed
  moreover have "strip_prefix ws s = None" by (rule Cons.IH) (simp add: Cons.prems)
  ultimately show ?case by auto
qed simp

lemma strip_while_none:
  assumes "\<And>w. w \<in> set ws \<Longrightarrow> \<not> graphic (hd w)" and "list_all graphic s"
  shows "strip_while ws s = s"
  by (subst strip_while.simps) (simp add: strip_prefix_none [OF assms])

lemma white_space_ends: "w \<in> set white_space \<Longrightarrow> \<not> graphic (hd w) \<and> \<not> graphic (last w)"
  by (auto simp: white_space_def graphic_def)

lemma trim_graphic: "list_all graphic s \<Longrightarrow> trim s = s"
proof -
  assume g: "list_all graphic s"
  have "strip_while white_space s = s" by (rule strip_while_none [OF _ g]) (simp add: white_space_ends)
  moreover have "strip_while (map rev white_space) (rev s) = rev s"
    by (rule strip_while_none) (use g white_space_ends in \<open>auto simp: hd_rev list_all_iff\<close>)
  ultimately show ?thesis by (simp add: trim_def)
qed

lemma split_on_join:
  "us \<noteq> [] \<Longrightarrow> list_all (\<lambda>u. c \<notin> set u) us \<Longrightarrow> split_on c (str_join [c] us) = us"
proof (induction us rule: induct_list012)
  case (3 u v us)
  then show ?case using split_on_append [of c u] by simp
qed (simp_all add: split_on_free)

text \<open>
  The program panics exactly when the address of Freddie or of the egress is missing or no HTTP
  client can be made, and a pool that starts has a slot.
\<close>

lemma pool_settings_panics:
  "pool_settings lib env = None \<longleftrightarrow>
     env ''UNBOUNDED_FREDDIE_ENDPOINT'' = None \<or> env ''UNBOUNDED_EGRESS_URL'' = None \<or>
     (\<exists>endpoint error. env ''UNBOUNDED_FREDDIE_ENDPOINT'' = Some endpoint \<and>
        FreddieClient_new lib endpoint = (Inl error :: ('u, 'q, unit) SignalingError + _))"
  for lib :: "('c, 'e, 'u, 'q, 'r) http_library"
  by (cases "env ''UNBOUNDED_FREDDIE_ENDPOINT''")
    (auto simp: pool_settings_def required_def Let_def split: sum.splits)

lemma count_positive: "0 < dflt \<Longrightarrow> 0 < count env name dflt"
  by (simp add: count_def split: option.split)

lemma pool_settings_slots: "pool_settings lib env = Some (config, slots) \<Longrightarrow> 0 < slots"
proof -
  assume "pool_settings lib env = Some (config, slots)"
  then have "slots = count env ''UNBOUNDED_CONCURRENT_SESSIONS'' 5"
    by (cases "env ''UNBOUNDED_FREDDIE_ENDPOINT''") (auto simp: pool_settings_def required_def Let_def split: sum.split_asm)
  then show ?thesis by (simp add: count_positive)
qed

section \<open>Properties\<close>


definition sample_environment :: environment where
  "sample_environment = map_of [(''UNBOUNDED_NAT_TIMEOUT_SECONDS'', dec_string 42),
     (''UNBOUNDED_STUN_URLS'', str_join '','' [''stun:a'', ''stun:b''])]"




end
