(* ===== verification/Peer_Supervision.thy ===== *)
theory Peer_Supervision
  imports Peer_Proxy Supervisor
begin

text \<open>
  The supervised peer proxy, \<open>supervise_peer_proxy\<close> of \<open>src/src/supervisor.rs\<close>: the supervisor's loop
  over sessions of the peer proxy, whose callbacks send their events into the same sink. It joins
  the three theories that model its parts.
\<close>

section \<open>Sessions as attempts\<close>

text \<open>\<open>run_peer_proxy_until_cancelled\<close> in an environment.\<close>

definition proxy_session where
  "proxy_session env config =
     (case env of (lib, shuffle_suites, shuffle_extensions, new_peer_connection, cancel, sig, penv, renv) \<Rightarrow>
        run_peer_proxy_until_cancelled lib shuffle_suites shuffle_extensions new_peer_connection cancel
          sig penv renv config)"

text \<open>
  What the loop finds in one turn: the state of the token, the clock, the environment of the
  session, and the steps of its callbacks.
\<close>

record ('env, 'p, 'ty) proxy_attempt =
  pa_before :: bool
  pa_env :: 'env
  pa_callbacks :: "('p, 'ty) handler_step list"
  pa_elapsed :: duration
  pa_after :: bool
  pa_clock :: nat
  pa_sleep :: bool

definition callback_events :: "('env, 'p, 'ty) proxy_attempt \<Rightarrow> SupervisorEvent list" where
  "callback_events p =
     (case handler_events (handler_run (pa_callbacks p) (peer_handlers_new (Some []))) of
        None \<Rightarrow> [] | Some es \<Rightarrow> es)"

definition attempt_in where
  "attempt_in config p =
     map_option (\<lambda>r. \<lparr>cancelled_before = pa_before p, session_events = callback_events p, session_result = r,
                       elapsed = pa_elapsed p, cancelled_after = pa_after p, clock = pa_clock p,
                       cancelled_in_sleep = pa_sleep p\<rparr>)
       (snd (proxy_session (pa_env p) config))"

text \<open>The attempts up to the first whose session has not returned.\<close>

fun attempts_in where
  "attempts_in config [] = []"
| "attempts_in config (p # ps) =
     (case attempt_in config p of None \<Rightarrow> [] | Some a \<Rightarrow> a # attempts_in config ps)"

definition supervise_peer_proxy where
  "supervise_peer_proxy config error_text ps es =
     supervise_with config error_text (attempts_in (peer_proxy config) ps) es"

text \<open>
  The callbacks see a session identifier only because the session published it.
\<close>

definition publications_match where
  "publications_match config p \<longleftrightarrow>
     (\<forall>i. Publish i \<in> set (pa_callbacks p) \<longrightarrow> PublishSessionId i \<in> set (fst (proxy_session (pa_env p) config)))"

section \<open>Identifiers in events\<close>

lemma accepts_published: "accepts proxy_step (Some k) cs \<Longrightarrow> PublishSessionId i \<notin> set cs"
proof (induction cs)
  case (Cons c cs)
  then show ?case by (cases c) (auto split: if_splits)
qed simp

lemma accepts_one_publication:
  "accepts proxy_step None cs \<Longrightarrow> \<exists>k. is_subprotocol_token k \<and> (\<forall>i. PublishSessionId i \<in> set cs \<longrightarrow> i = k)"
proof (induction cs)
  case Nil
  then show ?case using sample_token by auto
next
  case (Cons c cs)
  show ?case
  proof (cases "\<exists>k. c = PublishSessionId k")
    case True
    then obtain k where "c = PublishSessionId k" by blast
    with Cons.prems accepts_published [of k cs] show ?thesis
      by (intro exI [of _ k]) (auto split: if_splits)
  next
    case False
    with Cons.prems have "accepts proxy_step None cs" by (cases c) (auto split: if_splits)
    with Cons.IH False show ?thesis by auto
  qed
qed

lemma proxy_session_order: "accepts proxy_step None (fst (proxy_session env config))"
  by (simp add: proxy_session_def run_peer_proxy_order split: prod.split)

fun clean_event :: "SupervisorEvent \<Rightarrow> bool" where
  "clean_event (PeerConnected i a) = is_subprotocol_token i"
| "clean_event (PeerDisconnected i) = is_subprotocol_token i"
| "clean_event (SessionEnded n outcome d r) = is_subprotocol_token (outcome_session_id outcome)"
| "clean_event _ = True"

text \<open>Clean events whose error texts satisfy a predicate.\<close>

fun reported_as :: "(string \<Rightarrow> bool) \<Rightarrow> SupervisorEvent \<Rightarrow> bool" where
  "reported_as P (AttemptFailed n t d r) = P t"
| "reported_as P e = clean_event e"

lemma labelled_clean: "labelled k e \<Longrightarrow> is_subprotocol_token k \<Longrightarrow> reported_as P e"
  by (cases e) auto

lemma callback_events_clean:
  assumes "publications_match config p"
  shows "list_all (reported_as P) (callback_events p)"
proof -
  obtain k where k: "is_subprotocol_token k"
    "\<forall>i. PublishSessionId i \<in> set (fst (proxy_session (pa_env p) config)) \<longrightarrow> i = k"
    using accepts_one_publication [OF proxy_session_order] by blast
  have "handlers_ok k (handler_run (pa_callbacks p) (peer_handlers_new (Some [])))"
    by (rule handler_run_ok [OF handlers_new_ok(1)]) (use assms k(2) in \<open>auto simp: publications_match_def\<close>)
  then have "list_all (labelled k) (callback_events p)"
    by (auto simp: handlers_ok_def callback_events_def)
  then show ?thesis by (rule list.pred_mono_strong) (use k(1) labelled_clean in blast)
qed

lemma proxy_session_token:
  assumes "snd (proxy_session env config) = Some (Inr outcome)"
  shows "is_subprotocol_token (outcome_session_id outcome)"
proof -
  obtain lib ss se nc cancel sig penv renv where env: "env = (lib, ss, se, nc, cancel, sig, penv, renv)"
    by (cases env) (metis surj_pair)
  obtain cs where "run_peer_proxy_until_cancelled lib ss se nc cancel sig penv renv config = (cs, Some (Inr outcome))"
    using assms by (cases "proxy_session env config") (simp add: proxy_session_def env)
  then obtain calls where "until_cancelled cancel SessionCancelled (peer_session sig penv renv config) = (calls, Some (Inr outcome))"
    by (cases rule: run_peer_proxy_cases) auto
  then have "peer_session sig penv renv config = (calls, Some (Inr outcome))" by (simp add: until_cancelled_Inr)
  then show ?thesis by (rule completed_as_token [OF peer_session_Inr])
qed

definition clean_attempt :: "(('s, 'w, 'j, 'e, 'r) PeerProxyError \<Rightarrow> bool) \<Rightarrow> (string \<Rightarrow> bool) \<Rightarrow> ('s, 'w, 'j, 'e, 'r) attempt \<Rightarrow> bool" where
  "clean_attempt E P a \<longleftrightarrow> list_all (reported_as P) (session_events a) \<and>
     (\<forall>outcome. session_result a = Inr outcome \<longrightarrow> is_subprotocol_token (outcome_session_id outcome)) \<and>
     (\<forall>error. session_result a = Inl error \<longrightarrow> E error)"

lemma attempts_in_clean:
  assumes "\<And>p. p \<in> set ps \<Longrightarrow> publications_match config p \<and> fails_with E (proxy_session (pa_env p) config)"
  shows "list_all (clean_attempt E P) (attempts_in config ps)"
  using assms
proof (induction ps)
  case (Cons p ps)
  show ?case
  proof (cases "attempt_in config p")
    case (Some a)
    then have "clean_attempt E P a"
      using callback_events_clean [of config p P] Cons.prems [of p] proxy_session_token [of "pa_env p" config]
      by (auto simp: attempt_in_def clean_attempt_def fails_with_def)
    with Cons Some show ?thesis by simp
  qed simp
qed simp

lemma supervise_loop_clean:
  assumes "supervise_loop config error_text as st = (st', fin)" and "list_all (clean_attempt E P) as"
    and "\<And>e. E e \<Longrightarrow> P (error_text e)" and "sink st = Some es" and "list_all (reported_as P) es"
  shows "\<exists>es'. sink st' = Some es' \<and> list_all (reported_as P) es'"
  using assms(1,2,4,5)
proof (induction as arbitrary: st es)
  case Nil
  then show ?case by auto
next
  case (Cons a as)
  obtain st1 f where t: "supervise_turn config error_text a st = (st1, f)" by fastforce
  have e: "reported_as P (end_event config error_text a st)"
    using Cons.prems(2) assms(3) by (auto simp: end_event_def clean_attempt_def split: sum.split)
  have "\<exists>es1. sink st1 = Some es1 \<and> list_all (reported_as P) es1"
    using t Cons.prems(2-4) e
    by (cases "cancelled_before a"; cases "abandoned a") (auto simp: supervise_turns clean_attempt_def)
  with t Cons show ?case by (cases f) auto
qed

text \<open>
  Whatever consumers send as their session identifier, in every event of the supervisor that
  carries one, whether from a callback of a connection or from the end of a session, the
  identifier is a subprotocol token; and the texts of failures are those of errors that a session
  can return.
\<close>

lemma supervised_events:
  assumes "supervise_peer_proxy config error_text ps (Some []) = (sink', r)"
    and "\<And>p. p \<in> set ps \<Longrightarrow> publications_match (peer_proxy config) p \<and> fails_with E (proxy_session (pa_env p) (peer_proxy config))"
    and "\<And>e. E e \<Longrightarrow> P (error_text e)"
  shows "\<exists>es. sink' = Some es \<and> list_all (reported_as P) es"
proof -
  obtain st fin where loop: "supervise_loop config error_text (attempts_in (peer_proxy config) ps)
      (supervision_start config (Some [])) = (st, fin)" by fastforce
  have "list_all (clean_attempt E P) (attempts_in (peer_proxy config) ps)"
    by (rule attempts_in_clean) (rule assms(2))
  from supervise_loop_clean [OF loop this assms(3), of "[]"]
  obtain es where es: "sink st = Some es" "list_all (reported_as P) es" by (auto simp: supervision_start_def)
  with loop assms(1) show ?thesis
    by (intro exI [of _ "if fin then es @ [Stopped (summary st)] else es"])
      (cases fin; auto simp: supervise_peer_proxy_def supervise_with_def emit_def)
qed

section \<open>A supervised proxy against a concrete environment\<close>

definition sample_session_env where
  "sample_session_env =
     (sample_rtc, id :: nat list \<Rightarrow> nat list, id :: nat list \<Rightarrow> nat list,
      \<lambda>(_ :: unit \<times> unit \<times> (nat, nat, string) SettingEngine) (_ :: string list list). Inr () :: string + unit, None :: nat option, sample_signaler ''csid'', sample_env, sample_relay_env)"

lemma sample_proxy_session: "proxy_session sample_session_env sample_peer_config = sample_run None ''csid''"
  by (simp add: proxy_session_def sample_session_env_def sample_run_def)

definition sample_attempt where
  "sample_attempt = \<lparr>pa_before = False, pa_env = sample_session_env, 
     pa_callbacks = [Publish ''csid'', StateChange StateConnected,
        PairSelected 0 (None :: unit RTCIceCandidatePair option), StateChange StateClosed :: (unit, unit) handler_step],
     pa_elapsed = from_secs 4, pa_after = False, pa_clock = 0, pa_sleep = True\<rparr>"

definition sample_supervisor :: "unit PeerProxyConfig SupervisorConfig" where
  "sample_supervisor = \<lparr>peer_proxy = sample_peer_config, initial_backoff = from_secs 1, max_backoff = from_secs 30,
     stable_session = from_secs 30\<rparr>"

lemma sample_published: "PublishSessionId ''csid'' \<in> set (fst (sample_run None ''csid''))"
  by (simp add: sample_run_eq sample_session until_cancelled_def)

lemma sample_publications: "publications_match (peer_proxy sample_supervisor) sample_attempt"
  using sample_published by (auto simp: publications_match_def sample_attempt_def sample_supervisor_def sample_proxy_session)

end
