(* ===== verification/Error_Text.thy ===== *)
theory Error_Text
  imports Format Peer_Proxy Consumer_Socks5 Consumer_Session
begin

text \<open>
  The texts of the errors: the \<open>error\<close> attributes of every error type, which are its \<open>Display\<close>.
  The texts of the errors of libraries, and the name of a state of a peer connection, which the
  WebRTC crate prints, are arguments.
\<close>

section \<open>Texts\<close>

record ('u, 'q, 'j, 'w, 'x) library_texts =
  url_text :: "'u \<Rightarrow> string"
  http_text :: "'q \<Rightarrow> string"
  json_text :: "'j \<Rightarrow> string"
  webrtc_text :: "'w \<Rightarrow> string"
  ws_text :: "'x \<Rightarrow> string"
  header_text :: "InvalidHeaderValue \<Rightarrow> string"
  state_text :: "RTCPeerConnectionState \<Rightarrow> string"
  prints :: "nat \<Rightarrow> bool"

fun kind_debug :: "SignalMessageType \<Rightarrow> string" where
  "kind_debug Genesis = ''Genesis''"
| "kind_debug Offer = ''Offer''"
| "kind_debug Answer = ''Answer''"
| "kind_debug Ice = ''Ice''"

fun signaling_error_display ::
    "('u, 'q, 'j, 'w, 'x) library_texts \<Rightarrow> ('u, 'q, 'j) SignalingError \<Rightarrow> string" where
  "signaling_error_display lt (InvalidEndpoint u) = ''invalid Freddie endpoint: '' @ url_text lt u"
| "signaling_error_display lt (NativeTransport q) = ''Freddie request failed: '' @ http_text lt q"
| "signaling_error_display lt (SignalTransport s) = ''Freddie request failed: '' @ s"
| "signaling_error_display lt (ProtocolVersion v) = ''Freddie rejected protocol version '' @ v"
| "signaling_error_display lt RecipientGone = ''Freddie signaling recipient is no longer available''"
| "signaling_error_display lt (Http status) = ''Freddie returned HTTP '' @ dec_string (unat status)"
| "signaling_error_display lt (SignalDecode j) = ''invalid signaling JSON: '' @ json_text lt j"

fun egress_error_display :: "('u, 'q, 'j, 'w, 'x) library_texts \<Rightarrow> 'x EgressError \<Rightarrow> string" where
  "egress_error_display lt (Request x) = ''invalid egress WebSocket request: '' @ ws_text lt x"
| "egress_error_display lt (Header h) = ''invalid egress WebSocket subprotocol header: '' @ header_text lt h"
| "egress_error_display lt (WebSocket x) = ''egress WebSocket failed: '' @ ws_text lt x"
| "egress_error_display lt (ConnectTimeout d) =
     ''timed out after '' @ duration_debug d @ '' connecting to the egress WebSocket''"
| "egress_error_display lt MissingSubprotocol = ''egress selected no WebSocket subprotocol''"
| "egress_error_display lt (UnexpectedSubprotocol s) =
     ''egress selected unexpected WebSocket subprotocol '' @ str_debug (prints lt) s"
| "egress_error_display lt (InvalidConsumerSessionId s) =
     ''consumer session ID '' @ str_debug (prints lt) s @ '' is not a valid WebSocket subprotocol token''"
| "egress_error_display lt TextMessage = ''egress sent a text message on the binary packet tunnel''"

fun datagram_error_display :: "('u, 'q, 'j, 'w, 'x) library_texts \<Rightarrow> 'w WebRtcDatagramError \<Rightarrow> string" where
  "datagram_error_display lt DcTextMessage = ''WebRTC DataChannel sent text on the binary packet path''"
| "datagram_error_display lt (DcWebRtc w) = ''WebRTC DataChannel failed: '' @ webrtc_text lt w"

fun relay_error_display :: "('u, 'q, 'j, 'w, 'x) library_texts \<Rightarrow> ('w, 'x) relay_failure \<Rightarrow> string" where
  "relay_error_display lt (Peer e) = ''peer transport failed: '' @ datagram_error_display lt e"
| "relay_error_display lt (Egress e) = ''egress transport failed: '' @ egress_error_display lt e"

fun peer_proxy_error_display ::
    "('u, 'q, 'j, 'w, 'x) library_texts \<Rightarrow> ('u, 'q, 'j, 'w, 'x) proxy_error \<Rightarrow> string" where
  "peer_proxy_error_display lt (SignalingFailed e) = ''Freddie signaling failed: '' @ signaling_error_display lt e"
| "peer_proxy_error_display lt (WebRtcFailed w) = ''WebRTC failed: '' @ webrtc_text lt w"
| "peer_proxy_error_display lt (DecodeFailed st j) =
     ''invalid '' @ st @ '' signaling payload: '' @ json_text lt j"
| "peer_proxy_error_display lt (MissingResponse s) = ''Freddie returned no '' @ s @ '' signaling response''"
| "peer_proxy_error_display lt (UnexpectedSignal expected actual) =
     ''Freddie returned '' @ kind_debug actual @ '' while '' @ kind_debug expected @ '' was required''"
| "peer_proxy_error_display lt MissingConsumerSessionId = ''consumer supplied no session ID''"
| "peer_proxy_error_display lt InvalidSessionId = ''consumer supplied a malformed session ID''"
| "peer_proxy_error_display lt (InvalidIceCandidate w) =
     ''consumer supplied an invalid ICE candidate: '' @ webrtc_text lt w"
| "peer_proxy_error_display lt NatTimeout = ''timed out waiting for the consumer WebRTC DataChannel''"
| "peer_proxy_error_display lt DataChannelClosed =
     ''consumer WebRTC DataChannel callback ended before opening the channel''"
| "peer_proxy_error_display lt (PeerConnectionEnded state) =
     ''consumer WebRTC connection became '' @ state_text lt state @ '' before opening a DataChannel''"
| "peer_proxy_error_display lt (EgressFailed e) = ''egress tunnel failed: '' @ egress_error_display lt e"
| "peer_proxy_error_display lt (RelayFailed d e) =
     ''packet relay failed after '' @ duration_debug d @ '': '' @ relay_error_display lt e"
| "peer_proxy_error_display lt SessionCancelled = ''peer proxy session cancelled''"

section \<open>Texts on the consumer's side\<close>

fun path_receive_error_display :: "PathReceiveError \<Rightarrow> string" where
  "path_receive_error_display (Oversize actual limit) =
     ''datagram is '' @ dec_string actual @ '' bytes, exceeding the path MTU of '' @ dec_string limit"
| "path_receive_error_display QueueFull = ''virtual UDP receive queue is full''"
| "path_receive_error_display Closed = ''virtual UDP socket is closed''"

text \<open>The \<open>Debug\<close> forms of the socket and of a path, which their structs define by hand.\<close>

definition socket_debug :: "('ci, 'co) VirtualUdpSocket \<Rightarrow> string" where
  "socket_debug s =
     ''VirtualUdpSocket { local_addr: '' @ socket_addr_debug (local_addr s) @ '', mtu: '' @ dec_string (mtu s) @
     '', paths: '' @ dec_string (path_count s) @ '' }''"

definition path_debug :: "VirtualPath \<Rightarrow> string" where
  "path_debug p =
     ''VirtualPath { remote: '' @ socket_addr_debug (path_remote p) @ '', mtu: '' @ dec_string (path_mtu p) @ '', .. }''"

fun path_error_display ::
    "('u, 'q, 'j, 'w, 'x) library_texts \<Rightarrow> ('w WebRtcDatagramError, 'j) ConsumerPathError \<Rightarrow> string" where
  "path_error_display lt (Transport e) = ''peer transport failed: '' @ datagram_error_display lt e"
| "path_error_display lt (Decode j) = ''peer sent an invalid Unbounded packet: '' @ json_text lt j"
| "path_error_display lt (SourceChanged expected actual) =
     ''peer path source changed from '' @ str_debug (prints lt) expected @ '' to '' @ str_debug (prints lt) actual"
| "path_error_display lt EmptySource = ''peer path supplied an empty source identity''"
| "path_error_display lt (Receive e) =
     ''peer path datagram could not enter the virtual UDP socket: '' @ path_receive_error_display e"
| "path_error_display lt AddressSpaceExhausted = ''synthetic consumer path address space is exhausted''"

fun consumer_error_display ::
    "('u, 'q, 'j, 'w, 'x) library_texts \<Rightarrow> ('u, 'q, 'j, 'w) consumer_error \<Rightarrow> string" where
  "consumer_error_display lt (ConsumerSignaling e) = ''Freddie signaling failed: '' @ signaling_error_display lt e"
| "consumer_error_display lt (ConsumerWebRtc w) = ''WebRTC failed: '' @ webrtc_text lt w"
| "consumer_error_display lt (ConsumerJson j) = ''invalid consumer signaling JSON: '' @ json_text lt j"
| "consumer_error_display lt NoGenesis = ''Freddie advertisement stream ended without a genesis message''"
| "consumer_error_display lt (ConsumerUnexpected expected actual) =
     ''Freddie returned '' @ kind_debug actual @ '' while '' @ kind_debug expected @ '' was required''"
| "consumer_error_display lt MissingAnswer = ''Freddie returned no answer to the consumer offer''"
| "consumer_error_display lt ConsumerNatTimeout = ''timed out waiting for the peer WebRTC DataChannel''"
| "consumer_error_display lt ConsumerChannelClosed =
     ''peer WebRTC DataChannel callback ended before opening the channel''"
| "consumer_error_display lt (ConsumerPeerEnded state) =
     ''peer WebRTC connection became '' @ state_text lt state @ '' before opening a DataChannel''"
| "consumer_error_display lt (ConsumerPathFailed e) = ''consumer path failed: '' @ path_error_display lt e"
| "consumer_error_display lt ConsumerCancelled = ''consumer session cancelled''"

text \<open>The errors of quinn and of the operating system have texts of their own.\<close>

fun quic_error_display :: "('io \<Rightarrow> string) \<Rightarrow> ('ce \<Rightarrow> string) \<Rightarrow> ('io, 'ce) ConsumerQuicError \<Rightarrow> string" where
  "quic_error_display io_text connection_text (QuicEndpoint e) =
     ''failed to create the consumer QUIC endpoint: '' @ io_text e"
| "quic_error_display io_text connection_text QuicClosed = ''consumer QUIC endpoint is closed''"
| "quic_error_display io_text connection_text QuicCancelled = ''consumer QUIC operation was cancelled''"
| "quic_error_display io_text connection_text (QuicHandshake e) =
     ''consumer QUIC handshake failed: '' @ connection_text e"
| "quic_error_display io_text connection_text BrokerStopped = ''consumer QUIC connection broker stopped''"
| "quic_error_display io_text connection_text (QuicStream e) =
     ''consumer QUIC stream failed: '' @ connection_text e"

fun socks5_error_display ::
    "('io \<Rightarrow> string) \<Rightarrow> ('ce \<Rightarrow> string) \<Rightarrow> (('io, 'ce) ConsumerQuicError, 'io) ConsumerSocks5Error \<Rightarrow> string" where
  "socks5_error_display io_text connection_text (SocksQuic e) =
     ''consumer QUIC stream failed: '' @ quic_error_display io_text connection_text e"
| "socks5_error_display io_text connection_text SocksCancelled = ''consumer SOCKS5 handshake was cancelled''"
| "socks5_error_display io_text connection_text (SocksIo e) = ''consumer SOCKS5 I/O failed: '' @ io_text e"
| "socks5_error_display io_text connection_text (DomainTooLong n) =
     ''consumer SOCKS5 domain is too long: '' @ dec_string n @ '' bytes''"
| "socks5_error_display io_text connection_text EmptyDomain = ''consumer SOCKS5 domain is empty''"
| "socks5_error_display io_text connection_text (UnsupportedAuth b) =
     ''consumer SOCKS5 server selected unsupported auth method '' @ hex_byte b"
| "socks5_error_display io_text connection_text (InvalidVersion b) =
     ''consumer SOCKS5 server returned version '' @ hex_byte b"
| "socks5_error_display io_text connection_text (ConnectRejected b) =
     ''consumer SOCKS5 server rejected CONNECT with status '' @ hex_byte b"
| "socks5_error_display io_text connection_text (InvalidReserved b) =
     ''consumer SOCKS5 server returned reserved byte '' @ hex_byte b"
| "socks5_error_display io_text connection_text (InvalidAddressType b) =
     ''consumer SOCKS5 server returned invalid address type '' @ hex_byte b"

section \<open>Plain texts\<close>

text \<open>Libraries whose texts have no control characters.\<close>

definition plain_library :: "('u, 'q, 'j, 'w, 'x) library_texts \<Rightarrow> bool" where
  "plain_library lt \<longleftrightarrow>
     (\<forall>u. plain (url_text lt u)) \<and> (\<forall>q. plain (http_text lt q)) \<and> (\<forall>j. plain (json_text lt j)) \<and>
     (\<forall>w. plain (webrtc_text lt w)) \<and> (\<forall>x. plain (ws_text lt x)) \<and> (\<forall>h. plain (header_text lt h)) \<and>
     (\<forall>s. plain (state_text lt s))"

text \<open>The strings that a text contains as they are.\<close>

fun signaling_strings :: "('u, 'q, 'j) SignalingError \<Rightarrow> string list" where
  "signaling_strings (SignalTransport s) = [s]"
| "signaling_strings (ProtocolVersion v) = [v]"
| "signaling_strings _ = []"

fun proxy_error_strings :: "('u, 'q, 'j, 'w, 'x) proxy_error \<Rightarrow> string list" where
  "proxy_error_strings (SignalingFailed e) = signaling_strings e"
| "proxy_error_strings (DecodeFailed st j) = [st]"
| "proxy_error_strings (MissingResponse s) = [s]"
| "proxy_error_strings _ = []"

definition plain_error :: "('u, 'q, 'j, 'w, 'x) proxy_error \<Rightarrow> bool" where
  "plain_error e \<longleftrightarrow> list_all plain (proxy_error_strings e)"

lemma signaling_error_plain:
  "plain_library lt \<Longrightarrow> list_all plain (signaling_strings e) \<Longrightarrow> plain (signaling_error_display lt e)"
  by (cases e) (simp_all add: plain_library_def plain_text plain_char_def)

lemma egress_error_plain: "plain_library lt \<Longrightarrow> plain (egress_error_display lt e)"
  by (cases e) (simp_all add: plain_library_def plain_text plain_char_def)

lemma datagram_error_plain: "plain_library lt \<Longrightarrow> plain (datagram_error_display lt e)"
  by (cases e) (simp_all add: plain_library_def plain_char_def)

lemma relay_error_plain: "plain_library lt \<Longrightarrow> plain (relay_error_display lt e)"
  by (cases e) (simp_all add: egress_error_plain datagram_error_plain plain_char_def)

lemma kind_debug_plain: "plain (kind_debug k)"
  by (cases k) (simp_all add: plain_char_def)

lemma peer_proxy_error_plain:
  assumes "plain_library lt" and "plain_error e"
  shows "plain (peer_proxy_error_display lt e)"
proof -
  note texts = signaling_error_plain [OF assms(1)] egress_error_plain [OF assms(1)] relay_error_plain [OF assms(1)]
    kind_debug_plain plain_text plain_char_def
  from assms show ?thesis by (cases e) (simp_all add: texts plain_error_def plain_library_def)
qed

section \<open>The errors of a session\<close>

text \<open>
  A session adds no string of a remote party to its errors: they come from the signaler, or name a
  step of the session.
\<close>

definition plain_signaler :: "('sg, ('u, 'q, 'j) SignalingError, 'z) Signaler_scheme \<Rightarrow> 'sg \<Rightarrow> bool" where
  "plain_signaler sig sg \<longleftrightarrow>
     (\<forall>to k p e. exchange_op sig sg to k p = Inl e \<longrightarrow> list_all plain (signaling_strings e))"

lemma plain_error_simps [simp]:
  "plain_error (WebRtcFailed w)" "plain_error MissingConsumerSessionId" "plain_error InvalidSessionId"
  "plain_error (InvalidIceCandidate w)" "plain_error NatTimeout" "plain_error DataChannelClosed"
  "plain_error (PeerConnectionEnded state)" "plain_error (EgressFailed x)" "plain_error (RelayFailed d r)"
  "plain_error SessionCancelled" "plain_error (UnexpectedSignal k l)" "plain_error (SignalingFailed (SignalDecode j))"
  "plain_error (DecodeFailed st j) \<longleftrightarrow> plain st" "plain_error (MissingResponse s) \<longleftrightarrow> plain s"
  "plain_error (SignalingFailed e) \<longleftrightarrow> list_all plain (signaling_strings e)"
  by (simp_all add: plain_error_def)

lemma fails_with_add_candidates:
  "fails_with plain_error k \<Longrightarrow> fails_with plain_error (add_candidates env cs k)"
proof (induction cs)
  case (Cons c cs)
  then show ?case
    by (auto intro!: fails_with_attempt_pure fails_with_perform simp: map_err_Inl_iff Let_def)
qed simp

lemma fails_with_relay_phase: "fails_with plain_error (relay_phase re url i peer)"
  unfolding relay_phase_def
  by (rule fails_with_perform) (auto intro!: fails_with_perform simp: map_err_Inl_iff split: prod.split option.split)

lemma ok_or_Inl_iff: "ok_or x e = Inl e' \<longleftrightarrow> x = None \<and> e' = e"
  by (cases x) auto

lemma and_then_Inl_iff: "and_then r k = Inl e \<longleftrightarrow> r = Inl e \<or> (\<exists>a. r = Inr a \<and> k a = Inl e)"
  by (cases r) auto

lemma step_errors:
  "expect_signal m k = Inl e \<Longrightarrow> plain_error e" "validate_session_id i = Inl e \<Longrightarrow> plain_error e"
  "await_data_channel w = Inl e \<Longrightarrow> plain_error e"
  by (auto simp: expect_signal_def validate_session_id_def await_data_channel_def and_then_Inl_iff map_err_Inl_iff split: if_splits)

lemma fails_with_steps:
  "(\<And>e. r = Inl e \<Longrightarrow> P e) \<Longrightarrow> (\<And>a. fails_with P (k a)) \<Longrightarrow> fails_with P (perform c r k)"
  "(\<And>e. r = Inl e \<Longrightarrow> P e) \<Longrightarrow> (\<And>a. fails_with P (k a)) \<Longrightarrow> fails_with P (attempt_pure r k)"
  by (auto intro: fails_with_perform fails_with_attempt_pure)

lemma peer_session_plain: "plain_signaler sig (signaler config) \<Longrightarrow> fails_with plain_error (peer_session sig env re config)"
  unfolding peer_session_def
  by (intro fails_with_steps fails_with_add_candidates fails_with_relay_phase)
    (auto simp: map_err_Inl_iff ok_or_Inl_iff plain_signaler_def plain_char_def dest: step_errors)

lemma run_peer_proxy_plain:
  "plain_signaler sig (signaler config) \<Longrightarrow>
     fails_with plain_error (run_peer_proxy_until_cancelled lib ss se nc cancel sig env re config)"
  unfolding run_peer_proxy_until_cancelled_def Let_def
  by (intro fails_with_steps fails_with_close_after fails_with_until_cancelled peer_session_plain)
    (auto simp: map_err_Inl_iff)

text \<open>The client of Freddie names at most the version of the protocol.\<close>

lemma exchange_strings: "exchange lib from_slice f to k p = Inl e \<Longrightarrow> list_all plain (signaling_strings e) \<or> e = ProtocolVersion (version f)"
  by (auto simp: exchange_def and_then_Inl_iff map_err_Inl_iff Let_def split: if_splits)

lemma FreddieClient_new_version: "FreddieClient_new lib url = Inr f \<Longrightarrow> version f = PROTOCOL_VERSION"
  by (auto simp: FreddieClient_new_def with_client_def and_then_Inr_iff)

lemma freddie_plain:
  assumes "FreddieClient_new lib url = (Inr f :: ('u, 'q, 'i) SignalingError + _)"
  shows "plain_signaler (freddie_signaler lib (from_slice :: bytes \<Rightarrow> 'j + SignalMessage)) f"
  unfolding plain_signaler_def
proof (intro allI impI)
  fix to k p and e :: "('u, 'q, 'j) SignalingError"
  assume "exchange_op (freddie_signaler lib from_slice) f to k p = Inl e"
  then have "list_all plain (signaling_strings e) \<or> e = ProtocolVersion PROTOCOL_VERSION"
    using exchange_strings [of lib from_slice f to k p e] FreddieClient_new_version [OF assms]
    by (simp add: freddie_signaler_def)
  then show "list_all plain (signaling_strings e)" by (auto simp: wire_consts plain_char_def)
qed

lemma path_debug_plain: "plain (path_debug p)"
  by (simp add: path_debug_def plain_text plain_char_def)

lemma socket_debug_plain: "plain (socket_debug s)"
  by (simp add: socket_debug_def plain_text plain_char_def)

end
