(* ===== verification/Program.thy ===== *)
theory Program
  imports Cli Peer_Supervision Error_Text
begin

text \<open>
  The peer proxy program as a whole, \<open>main\<close> of \<open>src/src/bin/peer-proxy.rs\<close>: it reads its settings,
  runs the pool, and prints one line for every event and one at the end. \<open>eprintln\<close> ends each line.
  The second program, \<open>src/src/bin/wire-vectors.rs\<close>, prints two values of the protocol.
\<close>

section \<open>The reporter\<close>

fun relay_end_debug :: "RelayEnd \<Rightarrow> string" where
  "relay_end_debug PeerClosed = ''PeerClosed''"
| "relay_end_debug EgressClosed = ''EgressClosed''"

fun report_event :: "SupervisorEvent \<Rightarrow> string" where
  "report_event (AttemptStarted attempt) = ''starting peer proxy attempt '' @ dec_string (unat attempt)"
| "report_event (PeerConnected session_id rem) =
     ''peer '' @ session_id @ '' connected (remote '' @ option_debug socket_addr_debug rem @ '')''"
| "report_event (PeerDisconnected session_id) = ''peer '' @ session_id @ '' disconnected''"
| "report_event (SessionEnded attempt outcome duration retry_in) =
     ''attempt '' @ dec_string (unat attempt) @ '' session '' @ outcome_session_id outcome @ '' ended '' @
     relay_end_debug (relay_end outcome) @ '' after '' @ duration_debug duration @ ''; retrying in '' @
     duration_debug retry_in"
| "report_event (AttemptFailed attempt error duration retry_in) =
     ''attempt '' @ dec_string (unat attempt) @ '' failed after '' @ duration_debug duration @ '': '' @ error @
     ''; retrying in '' @ duration_debug retry_in"
| "report_event (Stopped s) =
     ''stopped after '' @ dec_string (unat (attempts s)) @ '' attempts ('' @
     dec_string (unat (completed_sessions s)) @ '' sessions, '' @ dec_string (unat (failed_attempts s)) @ '' failures)''"

definition report :: "PoolEvent \<Rightarrow> string" where
  "report e = ''slot '' @ dec_string (slot e) @ '': '' @ report_event (event e)"

definition pool_stopped_line :: "nat \<Rightarrow> SupervisorPoolSummary \<Rightarrow> string" where
  "pool_stopped_line slots s =
     ''peer proxy pool stopped: '' @ dec_string slots @ '' slots, '' @ dec_string (unat (pool_attempts s)) @
     '' attempts, '' @ dec_string (unat (pool_completed_sessions s)) @ '' sessions, '' @
     dec_string (unat (pool_failed_attempts s)) @ '' failures''"

section \<open>The program\<close>

text \<open>The client of Freddie as the signaler of a peer proxy.\<close>

definition freddie_peer_signaler ::
    "('c, 'e, 'u, 'q, 'r) http_library \<Rightarrow> (bytes \<Rightarrow> 'j + SignalMessage)
       \<Rightarrow> (('c, 'e) FreddieClient, ('u, 'q, 'j) SignalingError) Signaler" where
  "freddie_peer_signaler lib from_slice = \<lparr>exchange_op = exchange lib from_slice\<rparr>"

text \<open>
  The lines of a run: \<open>None\<close> is a panic while the settings are read. \<open>results\<close> are the summaries of the
  workers and \<open>steps\<close> is how their events interleave; the reporter receives what the pool forwards,
  until the pool drops its sender.
\<close>

definition peer_proxy_main ::
    "('c, 'e, 'u, 'q, 'r) http_library \<Rightarrow> 'ch pool_ops \<Rightarrow> environment \<Rightarrow> (nat \<Rightarrow> SupervisorSummary)
       \<Rightarrow> pool_step list \<Rightarrow> string list option" where
  "peer_proxy_main lib uo env results steps =
     (case pool_settings lib env of
        None \<Rightarrow> None
      | Some (config, slots) \<Rightarrow>
          (case pool_run uo steps (pool_start uo (Some [])) of
             None \<Rightarrow> None
           | Some p \<Rightarrow>
               Some (map report (case forwarded p of None \<Rightarrow> [] | Some received \<Rightarrow> received) @
                     [pool_stopped_line slots (supervise_peer_proxy_pool slots results)])))"

definition wire_vectors_main :: "(UnboundedPacket \<Rightarrow> 'j + string) \<Rightarrow> string list option" where
  "wire_vectors_main to_json =
     (let packet = UnboundedPacket_new ''WebSocket connection example'' (str_bytes ''example'') in
      case to_json packet of
        Inl e \<Rightarrow> None
      | Inr json \<Rightarrow>
          Some [''packet='' @ json,
                ''subprotocols='' @ str_join '','' (egress_subprotocols ''consumer-session-id'' PROTOCOL_VERSION)])"

section \<open>What is printed\<close>

lemma unat_char_byte: "unat (char_byte c) = of_char c"
  by (simp add: char_byte_def unat_of_nat)

lemma token_plain: "is_subprotocol_token s \<Longrightarrow> plain s"
  by (auto simp: is_subprotocol_token_def str_bytes_def list_all_iff is_ascii_graphic_def word_le_nat_alt unat_char_byte
      plain_def plain_char_def)

lemma report_event_plain: "reported_as plain e \<Longrightarrow> plain (report_event e)"
proof (cases e)
  case (PeerConnected i a)
  moreover assume "reported_as plain e"
  ultimately show ?thesis
    using option_debug_plain [of socket_addr_debug a] by (simp add: plain_text token_plain plain_char_def)
next
  case (SessionEnded n outcome d r)
  moreover have "plain (relay_end_debug (relay_end outcome))"
    by (cases "relay_end outcome") (simp_all add: plain_char_def)
  moreover assume "reported_as plain e"
  ultimately show ?thesis by (simp add: plain_text token_plain plain_char_def)
qed (simp_all add: plain_text token_plain plain_char_def)

lemma report_plain: "reported_as plain (event e) \<Longrightarrow> plain (report e)"
  by (simp add: report_def report_event_plain plain_text plain_char_def)

lemma pool_stopped_line_plain: "plain (pool_stopped_line slots s)"
  by (simp add: pool_stopped_line_def plain_text plain_char_def)

lemma pool_summary_workers: "0 < slots \<Longrightarrow> supervise_peer_proxy_pool slots results = \<lparr>workers = map results [0..<slots]\<rparr>"
  by (simp add: supervise_peer_proxy_pool_def Let_def sort_key_id_if_sorted comp_def)

text \<open>The sessions of a program all signal through its client of Freddie.\<close>

definition freddie_attempt where
  "freddie_attempt lib from_slice p \<longleftrightarrow>
     (\<exists>rtc ss se nc cancel penv renv.
        pa_env p = (rtc, ss, se, nc, cancel, freddie_peer_signaler lib from_slice, penv, renv))"

lemma pool_settings_client:
  fixes lib :: "('c, 'e, 'u, 'q, 'r) http_library"
  assumes "pool_settings lib env = Some (config, slots)"
  shows "\<exists>url. FreddieClient_new lib url = (Inr (signaler (peer_proxy config)) :: ('u, 'q, unit) SignalingError + _)"
  using assms
  by (cases "env ''UNBOUNDED_FREDDIE_ENDPOINT''") (auto simp: pool_settings_def required_def Let_def split: sum.split_asm)

lemma freddie_attempt_plain:
  assumes "pool_settings lib env = Some (config, slots)" and "freddie_attempt lib from_slice p"
  shows "fails_with plain_error (proxy_session (pa_env p) (peer_proxy config))"
proof -
  obtain url where "FreddieClient_new lib url = (Inr (signaler (peer_proxy config)) :: (_, _, unit) SignalingError + _)"
    using pool_settings_client [OF assms(1)] by blast
  from freddie_plain [OF this, of from_slice]
  have "plain_signaler (freddie_peer_signaler lib from_slice) (signaler (peer_proxy config))"
    by (simp add: plain_signaler_def freddie_signaler_def freddie_peer_signaler_def)
  then show ?thesis
    using assms(2) by (auto simp: freddie_attempt_def proxy_session_def intro: run_peer_proxy_plain)
qed

section \<open>Properties\<close>


text \<open>One slot, whose only session fails because Freddie does not know the recipient.\<close>

definition program_env :: environment where
  "program_env = map_of [(''UNBOUNDED_FREDDIE_ENDPOINT'', ''freddie''), (''UNBOUNDED_EGRESS_URL'', ''ws://x/ws''),
     (''UNBOUNDED_CONCURRENT_SESSIONS'', ''1'')]"

definition program_attempt where
  "program_attempt = \<lparr>pa_before = False,
     pa_env = (sample_rtc, id :: nat list \<Rightarrow> nat list, id :: nat list \<Rightarrow> nat list,
       \<lambda>(_ :: unit \<times> unit \<times> (nat, nat, string) SettingEngine) (_ :: string list list). Inr () :: string + unit, None :: nat option,
       freddie_peer_signaler sample_http sample_message, sample_env, sample_relay_env),
     pa_callbacks = [] :: (unit, unit) handler_step list,
     pa_elapsed = from_secs 4, pa_after = False, pa_clock = 0, pa_sleep = True\<rparr>"

definition program_texts :: "(string, string, string, string, string) library_texts" where
  "program_texts = \<lparr>url_text = \<lambda>_. ''url'', http_text = \<lambda>_. ''http'', json_text = \<lambda>_. ''json'', webrtc_text = \<lambda>_. ''webrtc'',
     ws_text = \<lambda>_. ''ws'', header_text = \<lambda>_. ''header'', state_text = \<lambda>_. ''state'', prints = \<lambda>_. False\<rparr>"

lemma program_settings:
  "\<exists>config. pool_settings sample_http program_env = Some (config, 1) \<and> signaler (peer_proxy config) = \<lparr>client = (), endpoint = ''freddie'', version = PROTOCOL_VERSION\<rparr>"
  by (simp add: pool_settings_def program_env_def required_def count_def parse_unsigned_def digit_value_def U64_MAX_def
      FreddieClient_new_def with_client_def sample_http_def)

lemma program_session:
  assumes "signaler config = \<lparr>client = (), endpoint = ''freddie'', version = PROTOCOL_VERSION\<rparr>"
  shows "snd (proxy_session (pa_env program_attempt) config) = Some (Inl (SignalingFailed RecipientGone))"
  by (simp add: proxy_session_def program_attempt_def run_peer_proxy_until_cancelled_def build_api_with_options_def sample_rtc_def
      attempt_pure_def perform_def until_cancelled_def close_after_def peer_session_def sample_env_def freddie_peer_signaler_def
      exchange_def sample_http_def Let_def)

lemma program_supervised:
  assumes "signaler (peer_proxy config) = \<lparr>client = (), endpoint = ''freddie'', version = PROTOCOL_VERSION\<rparr>"
  shows "\<exists>es s. supervise_peer_proxy config error_text [program_attempt] (Some []) = (Some es, Some s) \<and> length es = 3"
proof -
  obtain a where a: "attempt_in (peer_proxy config) program_attempt = Some a" "session_events a = []"
    "\<not> cancelled_before a" "\<not> abandoned a" "cancelled_in_sleep a"
    using program_session [OF assms] by (auto simp: attempt_in_def program_attempt_def callback_events_def
      handler_run_def peer_handlers_new_def abandoned_def)
  then show ?thesis
    by (auto simp: supervise_peer_proxy_def supervise_with_def turn_reported supervision_start_def emit_def)
qed


end
