(* ===== verification/Transport_Tests.thy ===== *)
theory Transport_Tests
  imports Json Format Virtual_Udp Relay Consumer_Path Consumer_Socks5
begin

text \<open>
  The unit tests of \<open>protocol.rs\<close>, \<open>virtual_udp.rs\<close>, \<open>relay.rs\<close>, \<open>consumer_path.rs\<close> and
  \<open>consumer_socks5.rs\<close>, run on the model. A test is a value of an option type: \<open>None\<close> is the panic of
  an \<open>assert!\<close> or an \<open>unwrap\<close>, \<open>Some ()\<close> a test that passes. The channels are the list channels of
  \<open>Channel\<close>.
\<close>

section \<open>Assertions\<close>

definition assert_that :: "bool \<Rightarrow> unit option" where
  "assert_that b = (if b then Some () else None)"

lemma assert_that_Some [simp]: "assert_that b = Some () \<longleftrightarrow> b"
  by (simp add: assert_that_def)

lemma assert_that_True [simp]: "assert_that True = Some ()"
  by simp

fun ready :: "'a poll \<Rightarrow> 'a option" where
  "ready (Ready x) = Some x"
| "ready Pending = None"

section \<open>Protocol\<close>

text \<open>
  The compact text of a JSON value and the standard base64 alphabet, as the tests expect them. They
  stand for the two crates here only: the model takes the texts as arguments.
\<close>

definition escape_json :: "char \<Rightarrow> string" where
  "escape_json c =
     (if c = CHR 0x22 \<or> c = CHR 0x5C then [CHR 0x5C, c]
      else if c = CHR 0x08 then [CHR 0x5C, CHR ''b''] else if c = CHR 0x09 then [CHR 0x5C, CHR ''t'']
      else if c = CHR 0x0A then [CHR 0x5C, CHR ''n''] else if c = CHR 0x0C then [CHR 0x5C, CHR ''f'']
      else if c = CHR 0x0D then [CHR 0x5C, CHR ''r'']
      else if (of_char c :: nat) < 32 then [CHR 0x5C] @ ''u00'' @ [hex_digit (of_char c div 16), hex_digit (of_char c mod 16)]
      else [c])"

definition quote_json :: "string \<Rightarrow> string" where
  "quote_json s = [CHR 0x22] @ concat (map escape_json s) @ [CHR 0x22]"

fun compact :: "json \<Rightarrow> string" where
  "compact JNull = ''null''"
| "compact (JBool b) = (if b then ''true'' else ''false'')"
| "compact (JNumber i) = (if i < 0 then ''-'' @ dec_string (nat (- i)) else dec_string (nat i))"
| "compact (JFloat t) = t"
| "compact (JString s) = quote_json s"
| "compact (JArray vs) = ''['' @ str_join '','' (map compact vs) @ '']''"
| "compact (JObject kvs) = CHR ''{'' # str_join '','' (map (\<lambda>kv. quote_json (fst kv) @ '':'' @ compact (snd kv)) kvs) @ ''}''"

definition base64_char :: "nat \<Rightarrow> char" where
  "base64_char n = ''ABCDEFGHIJKLMNOPQRSTUVWXYZabcdefghijklmnopqrstuvwxyz0123456789+/'' ! n"

fun base64_text :: "nat list \<Rightarrow> string" where
  "base64_text (a # b # c # bs) =
     [base64_char (a div 4), base64_char (a mod 4 * 16 + b div 16), base64_char (b mod 16 * 4 + c div 64), base64_char (c mod 64)]
     @ base64_text bs"
| "base64_text [a, b] = [base64_char (a div 4), base64_char (a mod 4 * 16 + b div 16), base64_char (b mod 16 * 4), CHR ''='']"
| "base64_text [a] = [base64_char (a div 4), base64_char (a mod 4 * 16), CHR ''='', CHR ''='']"
| "base64_text [] = []"

text \<open>A string literal in which \<open>~\<close> is a quotation mark and \<open>!\<close> a backslash.\<close>

definition raw_text :: "string \<Rightarrow> string" where
  "raw_text = map (\<lambda>c. if c = CHR ''~'' then CHR 0x22 else if c = CHR ''!'' then CHR 0x5C else c)"

definition packet_matches_go_encoding_json :: "(string \<Rightarrow> unit + bytes) \<Rightarrow> unit option" where
  "packet_matches_go_encoding_json decode =
     (let packet = UnboundedPacket_new ''WebSocket connection test'' [0, 1, 2, 255];
          encoded = UnboundedPacket_value (\<lambda>bs. base64_text (map unat bs)) packet in do {
       assert_that (compact encoded = raw_text ''{~SourceAddr~:~WebSocket connection test~,~Payload~:~AAEC/w==~}'');
       assert_that (UnboundedPacket_read decode encoded = Some packet) })"

definition signal_envelope_matches_go_encoding_json :: "unit option" where
  "signal_envelope_matches_go_encoding_json =
     (let message = \<lparr>reply_to = ''request-42'', kind = Ice,
            signal_payload = raw_text ''{~ConsumerSessionID~:~abc~}''\<rparr> in
      assert_that (compact (SignalMessage_value message) =
        raw_text
          ''{~ReplyTo~:~request-42~,~Type~:3,~Payload~:~{!~ConsumerSessionID!~:!~abc!~}~}''))"

definition genesis_matches_go_encoding_json :: "unit option" where
  "genesis_matches_go_encoding_json =
     assert_that (compact (GenesisMessage_value \<lparr>path_assertion = all_hosts_on_request\<rparr>) =
       raw_text
         ''{~PathAssertion~:{~Allow~:[{~Host~:~$~,~Distance~:1}],~Deny~:null,~JITUnavailable~:false}}'')"

definition egress_subprotocols_match_go_order :: "unit option" where
  "egress_subprotocols_match_go_order = (let values = egress_subprotocols ''session-id'' PROTOCOL_VERSION in do {
     assert_that (values = [''un80und3d'', ''session-id'', ''v2.3.0'']);
     assert_that (parse_egress_subprotocols values = Some (''session-id'', ''v2.3.0'')) })"

definition parser_preserves_current_go_cookie_behavior :: "unit option" where
  "parser_preserves_current_go_cookie_behavior =
     assert_that (parse_egress_subprotocols [''anything'', ''session-id'', ''v2.3.0''] = Some (''session-id'', ''v2.3.0''))"

definition subprotocol_token_accepts_ids_but_rejects_list_injection :: "unit option" where
  "subprotocol_token_accepts_ids_but_rejects_list_injection = do {
     assert_that (is_subprotocol_token ''consumer-session-id'');
     assert_that (is_subprotocol_token ''a1B2/c3+d4='');
     assert_that (is_subprotocol_token ''550e8400-e29b-41d4-a716-446655440000'');
     assert_that (\<not> is_subprotocol_token []);
     assert_that (\<not> is_subprotocol_token ''csid, injected'');
     assert_that (\<not> is_subprotocol_token ''has space'');
     assert_that (\<not> is_subprotocol_token (''tab'' @ [CHR 0x09] @ ''here''));
     assert_that (\<not> is_subprotocol_token (''new'' @ [CHR 0x0A] @ ''line'')) }"

lemma test_packet_text: "base64_text (map unat ([0, 1, 2, 255] :: bytes)) = ''AAEC/w==''"
  by code_simp

lemma test_packet_compact:
  "compact (UnboundedPacket_value (\<lambda>bs. base64_text (map unat bs)) (UnboundedPacket_new ''WebSocket connection test'' [0, 1, 2, 255])) =
     raw_text ''{~SourceAddr~:~WebSocket connection test~,~Payload~:~AAEC/w==~}''"
  by code_simp

text \<open>The packet is read back by every decoder that decodes its payload.\<close>

lemma packet_test: "decode ''AAEC/w=='' = Inr [0, 1, 2, 255] \<Longrightarrow> packet_matches_go_encoding_json decode = Some ()"
  unfolding packet_matches_go_encoding_json_def Let_def test_packet_compact
  by (simp add: UnboundedPacket_value_def UnboundedPacket_read_def UnboundedPacket_new_def struct_read_defs
      base64_serialize_def base64_deserialize_def test_packet_text [simplified])

lemma protocol_tests:
  "signal_envelope_matches_go_encoding_json = Some ()"
  "genesis_matches_go_encoding_json = Some ()"
  "egress_subprotocols_match_go_order = Some ()"
  "parser_preserves_current_go_cookie_behavior = Some ()"
  "subprotocol_token_accepts_ids_but_rejects_list_injection = Some ()"
  by code_simp+

section \<open>Virtual UDP socket\<close>

type_synonym test_socket = "(ReceivedDatagram list_chan, bytes list_chan) VirtualUdpSocket"

definition test_addr :: "u8 \<Rightarrow> u16 \<Rightarrow> SocketAddr" where
  "test_addr last_octet port = SocketAddrV4 (0x64400000 + ucast last_octet) port"

definition test_new :: "test_socket option" where
  "test_new = VirtualUdpSocket_new list_mpsc (test_addr 1 7000)"

definition test_add_path :: "test_socket \<Rightarrow> SocketAddr \<Rightarrow> (test_socket \<times> VirtualPath) option" where
  "test_add_path s a = add_path list_mpsc list_mpsc s a 8"

definition path_preserves_datagram_and_remote_address :: "unit option" where
  "path_preserves_datagram_and_remote_address = do {
     socket \<leftarrow> test_new;
     (socket, path) \<leftarrow> test_add_path socket (test_addr 2 8000);
     (let (socket, received) = try_receive list_mpsc socket path (str_bytes ''quic packet'') in do {
       result_ok received;
       (case poll_recv list_mpsc socket [replicate 64 0] [\<lparr>meta_addr = SocketAddrV6 0 0 0 0, meta_len = 0, meta_stride = 0, meta_ecn = None, meta_dst_ip = None\<rparr>] of
         (socket, bufs, meta, polled) \<Rightarrow> do {
           result \<leftarrow> ready polled;
           count \<leftarrow> result_ok result;
           assert_that (count = 1);
           assert_that (take (meta_len (meta ! 0)) (bufs ! 0) = str_bytes ''quic packet'');
           assert_that (meta_addr (meta ! 0) = test_addr 2 8000) }) }) }"

definition outgoing_datagram_is_routed_by_quinn_destination :: "unit option" where
  "outgoing_datagram_is_routed_by_quinn_destination = do {
     socket \<leftarrow> test_new;
     (socket, path) \<leftarrow> test_add_path socket (test_addr 2 8000);
     (let (socket, sent) = try_send list_mpsc socket \<lparr>destination = test_addr 2 8000, contents = str_bytes ''path response''\<rparr> in do {
       result_ok sent;
       (let (socket, polled) = next_outgoing list_mpsc socket path in do {
         received \<leftarrow> ready polled;
         packet \<leftarrow> received;
         assert_that (packet = str_bytes ''path response'') }) }) }"

definition losing_one_path_does_not_close_the_socket :: "unit option" where
  "losing_one_path_does_not_close_the_socket = do {
     socket \<leftarrow> test_new;
     (socket, path_a) \<leftarrow> test_add_path socket (test_addr 2 8000);
     (socket, path_b) \<leftarrow> test_add_path socket (test_addr 3 8001);
     assert_that (path_count socket = 2);
     (let socket = drop_path list_mpsc list_mpsc True socket path_a in do {
       assert_that (path_count socket = 1);
       assert_that (socket_local_addr socket = Inr (test_addr 1 7000));
       (let socket = drop_path list_mpsc list_mpsc True socket path_b in do {
         assert_that (path_count socket = 0);
         assert_that (socket_local_addr socket = Inr (test_addr 1 7000)) }) }) }"

definition path_mtu_rejects_oversize_ingress :: "unit option" where
  "path_mtu_rejects_oversize_ingress = do {
     socket \<leftarrow> (with_options list_mpsc (test_addr 1 7000) 1200 8 :: test_socket option);
     (socket, path) \<leftarrow> test_add_path socket (test_addr 2 8000);
     assert_that (snd (try_receive list_mpsc socket path (replicate 1201 0)) = Inl (Oversize 1201 1200)) }"

definition default_path_accepts_quic_go_packets_through_its_discovery_ceiling :: "unit option" where
  "default_path_accepts_quic_go_packets_through_its_discovery_ceiling = do {
     socket \<leftarrow> test_new;
     (socket, path) \<leftarrow> test_add_path socket (test_addr 2 8000);
     (let (socket, first) = try_receive list_mpsc socket path (replicate 1280 0) in do {
       result_ok first;
       (let (socket, second) = try_receive list_mpsc socket path (replicate DEFAULT_PATH_MTU 0) in do {
         result_ok second;
         assert_that (snd (try_receive list_mpsc socket path (replicate (DEFAULT_PATH_MTU + 1) 0)) =
           Inl (Oversize (DEFAULT_PATH_MTU + 1) DEFAULT_PATH_MTU)) }) }) }"

lemmas socket_test_defs = test_new_def test_add_path_def test_addr_def VirtualUdpSocket_new_def with_options_def
  add_path_def DEFAULT_PATH_MTU_def DEFAULT_QUEUE_CAPACITY_def Let_def

lemma virtual_udp_tests:
  "path_preserves_datagram_and_remote_address = Some ()"
  "outgoing_datagram_is_routed_by_quinn_destination = Some ()"
  "losing_one_path_does_not_close_the_socket = Some ()"
  "path_mtu_rejects_oversize_ingress = Some ()"
  "default_path_accepts_quic_go_packets_through_its_discovery_ceiling = Some ()"
  subgoal by (simp add: path_preserves_datagram_and_remote_address_def socket_test_defs try_receive_def poll_recv_def list_mpsc_defs)
  subgoal by (simp add: outgoing_datagram_is_routed_by_quinn_destination_def socket_test_defs try_send_def next_outgoing_def on_chan_def list_mpsc_defs)
  subgoal by (simp add: losing_one_path_does_not_close_the_socket_def socket_test_defs drop_path_def drop_route_def on_chan_def
        path_count_def socket_local_addr_def Mapping.size_update Mapping.size_delete Mapping.size_empty list_mpsc_defs)
  subgoal by (simp add: path_mtu_rejects_oversize_ingress_def socket_test_defs try_receive_def)
  subgoal by (simp add: default_path_accepts_quic_go_packets_through_its_discovery_ceiling_def socket_test_defs try_receive_def list_mpsc_defs)
  done

section \<open>Relay\<close>

text \<open>The order in which the test sends is the order in which the receives complete.\<close>

definition relays_opaque_packets_in_both_directions :: "unit option" where
  "relays_opaque_packets_in_both_directions =
     (case relay list_tr list_tr [PeerReady, EgressReady, PeerReady]
         \<lparr>lt_in = [str_bytes ''consumer to egress''], lt_out = []\<rparr> \<lparr>lt_in = [str_bytes ''egress to consumer''], lt_out = []\<rparr> of
       (peer, egress, result) \<Rightarrow> do {
         assert_that (lt_out egress = [str_bytes ''consumer to egress'']);
         assert_that (lt_out peer = [str_bytes ''egress to consumer'']);
         returned \<leftarrow> result;
         relay_end \<leftarrow> result_ok returned;
         assert_that (relay_end = PeerClosed) })"

lemma relay_test: "relays_opaque_packets_in_both_directions = Some ()"
  by (simp add: relays_opaque_packets_in_both_directions_def list_tr_def)

section \<open>Consumer path\<close>

definition allocates_distinct_cgnat_path_addresses :: "unit option" where
  "allocates_distinct_cgnat_path_addresses =
     (let (allocator, first) = (allocate SyntheticPathAllocator_new :: _ \<times> ((unit, unit) ConsumerPathError + _));
          (allocator, second) = (allocate allocator :: _ \<times> ((unit, unit) ConsumerPathError + _)) in do {
       a \<leftarrow> result_ok first;
       assert_that (a = test_addr 2 443);
       b \<leftarrow> result_ok second;
       assert_that (b = test_addr 3 443) })"

definition allocates_the_final_cgnat_address_then_reports_exhaustion :: "unit option" where
  "allocates_the_final_cgnat_address_then_reports_exhaustion =
     (let (allocator, last_one) = (allocate \<lparr>next_host = CGNAT_HOSTS - 1\<rparr> :: _ \<times> ((unit, unit) ConsumerPathError + _)) in do {
       a \<leftarrow> result_ok last_one;
       assert_that (a = SocketAddrV4 0x647FFFFF 443);
       assert_that (snd (allocate allocator) = (Inl AddressSpaceExhausted :: (unit, unit) ConsumerPathError + _)) })"

text \<open>
  A packet on the wire is the text of its envelope; here the text lists the source, a separator and
  the payload. The task is run in the pieces between which the test acts.
\<close>

definition test_envelope :: "UnboundedPacket \<Rightarrow> bytes" where
  "test_envelope p = str_bytes (source_addr p) @ [0] @ packet_payload p"

definition test_decode :: "UnboundedPacket list \<Rightarrow> bytes \<Rightarrow> unit + UnboundedPacket" where
  "test_decode ps raw = ok_or (find (\<lambda>p. test_envelope p = raw) ps) ()"

definition test_path_loop ::
    "UnboundedPacket list \<Rightarrow> path_branch list \<Rightarrow> test_socket \<Rightarrow> list_transport path_task
       \<Rightarrow> (ReceivedDatagram list_chan, bytes list_chan, list_transport, string, unit) path_turn" where
  "test_path_loop ps bs = path_loop list_mpsc list_mpsc (test_decode ps) list_tr (map Select bs)"

definition translates_enveloped_ingress_and_raw_egress :: "unit option" where
  "translates_enveloped_ingress_and_raw_egress = (let packet = UnboundedPacket_new ''egress-path-a'' (str_bytes ''incoming'') in do {
     socket \<leftarrow> test_new;
     (socket, path) \<leftarrow> test_add_path socket (test_addr 2 443);
     (case test_path_loop [packet] [PeerBranch] socket
         \<lparr>task_path = path, task_source = None, task_peer = \<lparr>lt_in = [test_envelope packet], lt_out = []\<rparr>\<rparr> of
       (socket, task, returned) \<Rightarrow>
         (case poll_recv list_mpsc socket [replicate 64 0] [\<lparr>meta_addr = SocketAddrV6 0 0 0 0, meta_len = 0, meta_stride = 0, meta_ecn = None, meta_dst_ip = None\<rparr>] of
           (socket, bufs, meta, polled) \<Rightarrow> do {
             result \<leftarrow> ready polled;
             count \<leftarrow> result_ok result;
             assert_that (count = 1);
             assert_that (take (meta_len (meta ! 0)) (bufs ! 0) = str_bytes ''incoming'');
             assert_that (meta_addr (meta ! 0) = test_addr 2 443);
             (let (socket, sent) = try_send list_mpsc socket \<lparr>destination = test_addr 2 443, contents = str_bytes ''outgoing''\<rparr> in do {
               result_ok sent;
               (case test_path_loop [packet] [OutgoingBranch, CancelledBranch] socket task of
                 (socket, task, returned) \<Rightarrow> do {
                   assert_that (lt_out (task_peer task) = [str_bytes ''outgoing'']);
                   assert_that (returned = Some (Inr PathCancelled)) }) }) })) })"

definition rejects_a_source_change_within_one_peer_path :: "unit option" where
  "rejects_a_source_change_within_one_peer_path =
     (let packets = map (\<lambda>source. UnboundedPacket_new source (str_bytes ''packet'')) [''egress-path-a'', ''egress-path-b''] in do {
     socket \<leftarrow> test_new;
     (socket, task, returned) \<leftarrow> run_consumer_path list_mpsc list_mpsc (test_decode packets) list_tr (map Select [PeerBranch, PeerBranch])
       socket (test_addr 2 443) 8 \<lparr>lt_in = map test_envelope packets, lt_out = []\<rparr>;
     assert_that (returned = Some (Inl (SourceChanged ''egress-path-a'' ''egress-path-b''))) })"

lemma consumer_path_tests:
  "allocates_distinct_cgnat_path_addresses = Some ()"
  "allocates_the_final_cgnat_address_then_reports_exhaustion = Some ()"
  "translates_enveloped_ingress_and_raw_egress = Some ()"
  "rejects_a_source_change_within_one_peer_path = Some ()"
  subgoal by (simp add: allocates_distinct_cgnat_path_addresses_def SyntheticPathAllocator_new_def FIRST_PATH_HOST_def
        allocate_free SYNTHETIC_PATH_PORT_def test_addr_def)
  subgoal by (simp add: allocates_the_final_cgnat_address_then_reports_exhaustion_def allocate_def fetch_update_def
        SYNTHETIC_PATH_PORT_def Let_def)
  subgoal by (simp add: translates_enveloped_ingress_and_raw_egress_def test_path_loop_def test_decode_def UnboundedPacket_new_def
        socket_test_defs list_tr_def admit_source_def path_deliver_def try_receive_def poll_recv_def try_send_def next_outgoing_def
        on_chan_def list_mpsc_defs)
  subgoal by (simp add: rejects_a_source_change_within_one_peer_path_def run_consumer_path_def test_decode_def UnboundedPacket_new_def
        test_envelope_def str_bytes_def char_byte_def
        socket_test_defs list_tr_def admit_source_def path_deliver_def try_receive_def on_chan_def list_mpsc_defs)
  done

section \<open>SOCKS5\<close>

text \<open>
  The server of a test: what it writes is the input of the stream, what it reads and compares is
  the output of the client.
\<close>

definition serve :: "bytes \<Rightarrow> Socks5Target \<Rightarrow> list_stream \<times> ((unit, string) ConsumerSocks5Error + unit)" where
  "serve replies target = socks5_connect list_io \<lparr>ls_in = replies, ls_out = []\<rparr> target"

definition serve_success :: "Socks5Target \<Rightarrow> bytes \<Rightarrow> unit option" where
  "serve_success target expected_request =
     (case serve ([5, 0] @ [5, 0, 0, 1, 127, 0, 0, 1, 0x1f, 0x90]) target of
       (server, result) \<Rightarrow> do {
         result_ok result;
         assert_that (take 3 (ls_out server) = [5, 1, 0]);
         assert_that (drop 3 (ls_out server) = expected_request) })"

definition handshakes_ipv4_target :: "unit option" where
  "handshakes_ipv4_target =
     serve_success (TargetIp (SocketAddrV4 0xC000020A 443)) [5, 1, 0, 1, 192, 0, 2, 10, 0x01, 0xbb]"

definition handshakes_ipv6_target_and_consumes_domain_reply :: "unit option" where
  "handshakes_ipv6_target_and_consumes_domain_reply =
     (case serve ([5, 0] @ [5, 0, 0, 3, 3] @ str_bytes ''ext'' @ [0, 80]) (TargetIp (SocketAddrV6 1 53 0 0)) of
       (server, result) \<Rightarrow> do {
         result_ok result;
         (let request = drop 3 (ls_out server) in do {
           assert_that (take 4 request = [5, 1, 0, 4]);
           assert_that (take 16 (drop 4 request) = replicate 15 0 @ [1]);
           assert_that (drop 20 request = u16_to_be_bytes 53);
           assert_that (ls_in server = []) }) })"

definition handshakes_domain_target :: "unit option" where
  "handshakes_domain_target =
     serve_success (TargetDomain ''example.com'' 8443) ([5, 1, 0, 3, 11] @ str_bytes ''example.com'' @ u16_to_be_bytes 8443)"

definition rejects_failed_connect_response :: "unit option" where
  "rejects_failed_connect_response =
     assert_that (snd (serve ([5, 0] @ [5, 5, 0, 1]) (Socks5Target_from (SocketAddrV4 0x7F000001 80))) = Inl (ConnectRejected 5))"

definition rejects_empty_domain_before_writing_connect_request :: "unit option" where
  "rejects_empty_domain_before_writing_connect_request =
     (case serve [5, 0] (TargetDomain [] 80) of
       (server, result) \<Rightarrow> do {
         assert_that (result = Inl EmptyDomain);
         assert_that (ls_out server = [5, 1, 0]) })"

lemma socks5_tests:
  "handshakes_ipv4_target = Some ()"
  "handshakes_ipv6_target_and_consumes_domain_reply = Some ()"
  "handshakes_domain_target = Some ()"
  "rejects_failed_connect_response = Some ()"
  "rejects_empty_domain_before_writing_connect_request = Some ()"
  by code_simp+

end
