(* ===== verification/Session_Tests.thy ===== *)
theory Session_Tests
  imports Transport_Tests Wire_Messages Peer_Supervision Cli
begin

text \<open>
  The unit tests of \<open>peer_proxy.rs\<close>, \<open>consumer.rs\<close>, \<open>signaling.rs\<close>, \<open>supervisor.rs\<close> and
  \<open>bin/peer-proxy.rs\<close>, run on the model as in \<open>Transport_Tests\<close>. The tests that need a WebRTC stack are
  left out.
\<close>

section \<open>Peer proxy\<close>

text \<open>A candidate as Pion writes it; the type of a candidate is its name.\<close>

definition pion_json :: "string \<Rightarrow> string \<Rightarrow> u16 \<Rightarrow> (string \<times> json) list \<Rightarrow> json" where
  "pion_json typ related_address related_port metadata = JObject
     ([(''foundation'', JString ''1234''), (''priority'', JNumber 1694498815), (''address'', JString ''203.0.113.8''),
       (''protocol'', JNumber 1), (''port'', JNumber 54321), (''type'', JString typ), (''component'', JNumber 1),
       (''relatedAddress'', JString related_address), (''relatedPort'', unsigned_value related_port), (''tcpType'', JString [])]
      @ metadata)"

text \<open>
  The description of a candidate with its metadata; \<open>to_json\<close> is the description of the WebRTC crate.
\<close>

definition candidate_init ::
    "(string RTCIceCandidate \<Rightarrow> RTCIceCandidateInit) \<Rightarrow> string PionIceCandidate \<Rightarrow> RTCIceCandidateInit" where
  "candidate_init to_json c =
     (to_json (to_rust_candidate c))\<lparr>init_sdp_mid := pion_sdp_mid c, init_sdp_mline_index := pion_sdp_mline_index c\<rparr>"

definition decodes_pion_candidate_and_builds_rust_candidate_init ::
    "(string RTCIceCandidate \<Rightarrow> RTCIceCandidateInit) \<Rightarrow> unit option" where
  "decodes_pion_candidate_and_builds_rust_candidate_init to_json = do {
     candidate \<leftarrow> PionIceCandidate_read string_read
       (pion_json ''srflx'' ''192.168.1.20'' 60000 [(''sdpMid'', JString ''0''), (''sdpMLineIndex'', JNumber 0)]);
     (let init = candidate_init to_json candidate in do {
       assert_that (prefix ''candidate:1234 1 udp'' (init_candidate init));
       assert_that (sublist ''203.0.113.8 54321 typ srflx'' (init_candidate init));
       assert_that (init_sdp_mid init = Some ''0'');
       assert_that (init_sdp_mline_index init = Some 0) }) }"

definition preserves_absent_pion_candidate_metadata ::
    "(string RTCIceCandidate \<Rightarrow> RTCIceCandidateInit) \<Rightarrow> unit option" where
  "preserves_absent_pion_candidate_metadata to_json = do {
     candidate \<leftarrow> PionIceCandidate_read string_read (pion_json ''host'' [] 0 []);
     (let init = candidate_init to_json candidate in do {
       assert_that (init_sdp_mid init = None);
       assert_that (init_sdp_mline_index init = None) }) }"

definition test_candidate :: "string \<Rightarrow> u16 \<Rightarrow> unit RTCIceCandidate" where
  "test_candidate address port =
     \<lparr>stats_id = [], ice_foundation = [], ice_priority = 0, ice_address = address, ice_protocol = ProtocolUnspecified,
      ice_port = port, ice_typ = (), ice_component = 0, ice_related_address = [], ice_related_port = 0, ice_tcp_type = []\<rparr>"

definition reads_remote_socket_addr_from_ipv4_candidate :: "unit option" where
  "reads_remote_socket_addr_from_ipv4_candidate =
     assert_that (socket_addr_from_candidate (test_candidate ''203.0.113.8'' 54321) = Some (SocketAddrV4 0xCB007108 54321))"

definition reads_remote_socket_addr_from_ipv6_candidate :: "unit option" where
  "reads_remote_socket_addr_from_ipv6_candidate =
     assert_that (socket_addr_from_candidate (test_candidate ''2001:db8::1'' 443) =
       Some (SocketAddrV6 0x20010DB8000000000000000000000001 443 0 0))"

definition unparseable_candidate_address_yields_no_remote :: "unit option" where
  "unparseable_candidate_address_yields_no_remote =
     assert_that (socket_addr_from_candidate (test_candidate ''abc-123.local'' 54321) = None)"

definition peer_connected_event_carries_session_id_and_remote :: "unit option" where
  "peer_connected_event_carries_session_id_and_remote =
     (let pair = \<lparr>pair_local = test_candidate ''192.0.2.1'' 3000, pair_remote = test_candidate ''203.0.113.8'' 54321\<rparr> in
      case peer_connected_event ''session-42'' (Some pair) of
        PeerConnected session_id rem \<Rightarrow> do {
          assert_that (session_id = ''session-42'');
          assert_that (rem = Some (SocketAddrV4 0xCB007108 54321)) }
      | _ \<Rightarrow> None)"

definition peer_connected_event_without_pair_has_no_remote :: "unit option" where
  "peer_connected_event_without_pair_has_no_remote =
     (case peer_connected_event ''session-42'' (None :: unit RTCIceCandidatePair option) of
        PeerConnected session_id rem \<Rightarrow> do {
          assert_that (session_id = ''session-42'');
          assert_that (rem = None) }
      | _ \<Rightarrow> None)"

definition peer_disconnected_event_carries_session_id :: "unit option" where
  "peer_disconnected_event_carries_session_id =
     (case peer_disconnected_event ''session-42'' of
        PeerDisconnected session_id \<Rightarrow> assert_that (session_id = ''session-42'')
      | _ \<Rightarrow> None)"

definition terminal_states :: "(RTCPeerConnectionState \<Rightarrow> bool) \<Rightarrow> unit option" where
  "terminal_states P = do {
     assert_that (list_all P [StateDisconnected, StateFailed, StateClosed]);
     assert_that (list_all (\<lambda>s. \<not> P s) [StateConnected, StateConnecting, StateNew]) }"

definition only_terminal_states_are_disconnects :: "unit option" where
  "only_terminal_states_are_disconnects = terminal_states is_disconnect_state"

definition identifies_terminal_peer_states :: "unit option" where
  "identifies_terminal_peer_states = terminal_states is_terminal_peer_state"

definition terminal_peer_state_wakes_data_channel_wait :: "unit option" where
  "terminal_peer_state_wakes_data_channel_wait =
     (let h = fail_data_channel_wait StateFailed (peer_handlers_new None :: unit peer_handlers) in
      assert_that (waiter_sent h = [Inl StateFailed]))"

definition rejects_unexpected_signaling_step :: "unit option" where
  "rejects_unexpected_signaling_step =
     (let signal = \<lparr>reply_to = ''request'', kind = Answer, signal_payload = ''{}''\<rparr> in
      assert_that (expect_signal signal Offer = (Inl (UnexpectedSignal Offer Answer) :: (unit, unit, unit, unit, unit) PeerProxyError + unit)))"

lemma test_port_text: "dec_string 54321 = ''54321''"
  by (simp add: dec_string.simps char_of_def bit_0)

lemma test_addresses:
  "parse_ip_addr ''203.0.113.8'' = Some (IpV4 0xCB007108)" "parse_ip_addr ''abc-123.local'' = None"
  by (simp_all add: ip_parser_defs Let_def)

lemmas candidate_test_defs = socket_addr_from_candidate_def test_candidate_def test_addresses parse_ipv6_examples

text \<open>
  The candidate attribute as it is standardised: foundation, component, transport, priority,
  address, port and type, and whatever follows.
\<close>

definition candidate_attribute :: "string RTCIceCandidate \<Rightarrow> string" where
  "candidate_attribute c =
     ''candidate:'' @ ice_foundation c @ '' '' @ dec_string (unat (ice_component c)) @
     (case ice_protocol c of ProtocolUdp \<Rightarrow> '' udp '' | ProtocolTcp \<Rightarrow> '' tcp '' | ProtocolUnspecified \<Rightarrow> '' unspecified '') @
     dec_string (unat (ice_priority c)) @ '' '' @ ice_address c @ '' '' @ dec_string (unat (ice_port c)) @ '' typ '' @ ice_typ c"

lemma decodes_test:
  assumes "\<And>c. prefix (candidate_attribute c) (init_candidate (to_json c))"
  shows "decodes_pion_candidate_and_builds_rust_candidate_init to_json = Some ()"
proof -
  define c :: "string PionIceCandidate" where
    "c = \<lparr>pion_foundation = ''1234'', pion_priority = 1694498815, pion_address = ''203.0.113.8'', pion_protocol = 1,
      pion_port = 54321, pion_typ = ''srflx'', pion_component = 1, pion_related_address = ''192.168.1.20'',
      pion_related_port = 60000, pion_tcp_type = [], pion_sdp_mid = Some ''0'', pion_sdp_mline_index = Some 0\<rparr>"
  obtain rest where described: "init_candidate (to_json (to_rust_candidate c)) = candidate_attribute (to_rust_candidate c) @ rest"
    using assms by (auto simp: prefix_def)
  have attribute: "candidate_attribute (to_rust_candidate c) =
      ''candidate:1234 1 udp '' @ dec_string 1694498815 @ '' '' @ ''203.0.113.8 54321 typ srflx''"
    by (simp add: candidate_attribute_def c_def to_rust_candidate_def dec_string.simps [of 1] dec_string.simps [of "Suc 0"]
        test_port_text char_of_def bit_0)
  have "prefix ''candidate:1234 1 udp'' (init_candidate (candidate_init to_json c))"
    by (simp add: candidate_init_def described attribute)
  moreover have "sublist ''203.0.113.8 54321 typ srflx'' (init_candidate (candidate_init to_json c))"
    unfolding candidate_init_def sublist_def
    by (intro exI [of _ "''candidate:1234 1 udp '' @ dec_string 1694498815 @ '' ''"] exI [of _ rest]) (simp add: described attribute)
  moreover have "PionIceCandidate_read string_read
      (pion_json ''srflx'' ''192.168.1.20'' 60000 [(''sdpMid'', JString ''0''), (''sdpMLineIndex'', JNumber 0)]) = Some c"
    by (simp add: c_def pion_json_def PionIceCandidate_read_def struct_read_defs)
  ultimately show ?thesis
    by (simp add: decodes_pion_candidate_and_builds_rust_candidate_init_def) (simp add: candidate_init_def c_def)
qed

lemma peer_proxy_tests:
  "preserves_absent_pion_candidate_metadata to_json = Some ()"
  "reads_remote_socket_addr_from_ipv4_candidate = Some ()"
  "reads_remote_socket_addr_from_ipv6_candidate = Some ()"
  "unparseable_candidate_address_yields_no_remote = Some ()"
  "peer_connected_event_carries_session_id_and_remote = Some ()"
  "peer_connected_event_without_pair_has_no_remote = Some ()"
  "peer_disconnected_event_carries_session_id = Some ()"
  "only_terminal_states_are_disconnects = Some ()"
  "identifies_terminal_peer_states = Some ()"
  "terminal_peer_state_wakes_data_channel_wait = Some ()"
  "rejects_unexpected_signaling_step = Some ()"
  subgoal by (simp add: preserves_absent_pion_candidate_metadata_def candidate_init_def pion_json_def
        PionIceCandidate_read_def struct_read_defs)
  subgoal by (simp add: reads_remote_socket_addr_from_ipv4_candidate_def candidate_test_defs)
  subgoal by (simp add: reads_remote_socket_addr_from_ipv6_candidate_def candidate_test_defs)
  subgoal by (simp add: unparseable_candidate_address_yields_no_remote_def candidate_test_defs)
  subgoal by (simp add: peer_connected_event_carries_session_id_and_remote_def peer_connected_event_def candidate_test_defs)
  subgoal by (simp add: peer_connected_event_without_pair_has_no_remote_def peer_connected_event_def)
  subgoal by (simp add: peer_disconnected_event_carries_session_id_def peer_disconnected_event_def)
  subgoal by (simp add: only_terminal_states_are_disconnects_def terminal_states_def peer_state_defs)
  subgoal by (simp add: identifies_terminal_peer_states_def terminal_states_def peer_state_defs)
  subgoal by (simp add: terminal_peer_state_wakes_data_channel_wait_def fail_data_channel_wait_def peer_handlers_new_def peer_state_defs)
  subgoal by (simp add: rejects_unexpected_signaling_step_def expect_signal_def)
  done

section \<open>Consumer\<close>

definition to_rtc_candidate :: "'ty ConsumerIceCandidate \<Rightarrow> 'ty RTCIceCandidate" where
  "to_rtc_candidate c =
     \<lparr>stats_id = [], ice_foundation = con_foundation c, ice_priority = con_priority c, ice_address = con_address c,
      ice_protocol = (if con_protocol c = 1 then ProtocolUdp
                      else if con_protocol c = 2 then ProtocolTcp else ProtocolUnspecified),
      ice_port = con_port c, ice_typ = con_typ c, ice_component = con_component c,
      ice_related_address = con_related_address c, ice_related_port = con_related_port c, ice_tcp_type = con_tcp_type c\<rparr>"

lemma to_rtc_candidate_from: "to_rtc_candidate (ConsumerIceCandidate_from c) = c\<lparr>stats_id := []\<rparr>"
  by (cases c) (simp add: to_rtc_candidate_def ConsumerIceCandidate_from_def split: RTCIceProtocol.split)

fun json_field :: "json \<Rightarrow> string \<Rightarrow> json option" where
  "json_field (JObject kvs) k = map_of kvs k"
| "json_field v k = None"

definition serializes_pion_compatible_candidate_protocol_numbers :: "unit option" where
  "serializes_pion_compatible_candidate_protocol_numbers =
     (let candidate = \<lparr>stats_id = [], ice_foundation = ''1234'', ice_priority = 1694498815, ice_address = ''203.0.113.8'',
            ice_protocol = ProtocolUdp, ice_port = 54321, ice_typ = ''srflx'', ice_component = 1,
            ice_related_address = ''192.168.1.20'', ice_related_port = 60000, ice_tcp_type = []\<rparr>;
          encoded = ConsumerIceCandidate_value JString (ConsumerIceCandidate_from candidate) in do {
       assert_that (json_field encoded ''protocol'' = Some (JNumber 1));
       assert_that (json_field encoded ''type'' = Some (JString ''srflx''));
       assert_that (json_field encoded ''relatedAddress'' = Some (JString ''192.168.1.20''));
       assert_that (json_field encoded ''sdpMid'' = None) })"

text \<open>The advertisement stream never opens, and the token is cancelled.\<close>

definition cancellation_interrupts_advertisement_stream_creation ::
    "(unit, unit) AdvertisementSource \<Rightarrow> (SignalMessage list \<Rightarrow> SignalMessage option) \<Rightarrow> unit option" where
  "cancellation_interrupts_advertisement_stream_creation nxt pick = do {
     result \<leftarrow> select_genesis nxt pick (None :: (unit + unit) option) [];
     assert_that (result = (Inl ConsumerCancelled :: (unit, unit, unit, unit) ConsumerError + SignalMessage)) }"

lemma consumer_tests:
  "serializes_pion_compatible_candidate_protocol_numbers = Some ()"
  "cancellation_interrupts_advertisement_stream_creation nxt pick = Some ()"
  by (simp_all add: serializes_pion_compatible_candidate_protocol_numbers_def ConsumerIceCandidate_value_def
      ConsumerIceCandidate_from_def unsigned_value_def cancellation_interrupts_advertisement_stream_creation_def select_genesis_def)

section \<open>Supervisor\<close>

definition test_supervisor :: "unit SupervisorConfig" where
  "test_supervisor = \<lparr>peer_proxy = (), initial_backoff = from_millis 1, max_backoff = from_millis 2, stable_session = from_secs 1\<rparr>"

type_synonym test_error = "(unit, unit, unit, unit, string) PeerProxyError"

text \<open>
  An attempt that fails, with what the test does to the token meanwhile; the durations and the
  clock are arbitrary.
\<close>

definition test_attempt :: "duration \<Rightarrow> nat \<Rightarrow> bool \<Rightarrow> test_error \<Rightarrow> test_error attempt_env" where
  "test_attempt took now cancelled error =
     \<lparr>cancelled_before = False, session_events = [], session_result = Inl error, elapsed = took,
      cancelled_after = cancelled, clock = now, cancelled_in_sleep = False\<rparr>"

definition jitter_stays_within_twenty_percent :: "unit option" where
  "jitter_stays_within_twenty_percent =
     assert_that (list_all (\<lambda>seed. from_secs 8 \<le> jittered (from_secs 10) (word_of_nat seed) \<and>
       jittered (from_secs 10) (word_of_nat seed) \<le> from_secs 12) [0..<100])"

definition zero_backoff_is_made_nonzero :: "unit option" where
  "zero_backoff_is_made_nonzero = assert_that (nonzero 0 = from_millis 1)"

definition retries_failures_and_stops_cleanly_on_cancellation :: "(nat \<Rightarrow> duration) \<Rightarrow> (nat \<Rightarrow> nat) \<Rightarrow> unit option" where
  "retries_failures_and_stops_cleanly_on_cancellation took now = do {
     summary \<leftarrow> snd (supervise_with test_supervisor (\<lambda>_. [])
       [test_attempt (took 1) (now 1) False (MissingResponse ''test response''),
        test_attempt (took 2) (now 2) False (MissingResponse ''test response''),
        test_attempt (took 3) (now 3) True SessionCancelled] None);
     assert_that (attempts summary = 3);
     assert_that (failed_attempts summary = 2);
     assert_that (completed_sessions summary = 0) }"

definition shutdown_race_does_not_count_a_transport_failure :: "duration \<Rightarrow> nat \<Rightarrow> unit option" where
  "shutdown_race_does_not_count_a_transport_failure took now = do {
     summary \<leftarrow> snd (supervise_with test_supervisor (\<lambda>_. []) [test_attempt took now True (MissingResponse ''shutdown race'')] None);
     assert_that (attempts summary = 1);
     assert_that (failed_attempts summary = 0);
     assert_that (completed_sessions summary = 0) }"

fun second_retry :: "SupervisorEvent list \<Rightarrow> duration option" where
  "second_retry [] = None"
| "second_retry (AttemptFailed attempt error took retry_in # es) =
     (case second_retry es of Some d \<Rightarrow> Some d | None \<Rightarrow> if attempt = 2 then Some retry_in else None)"
| "second_retry (e # es) = second_retry es"

definition stable_relay_resets_backoff_even_when_transport_fails :: "(nat \<Rightarrow> duration) \<Rightarrow> (nat \<Rightarrow> nat) \<Rightarrow> unit option" where
  "stable_relay_resets_backoff_even_when_transport_fails took now =
     (let config = test_supervisor\<lparr>initial_backoff := from_millis 10, max_backoff := from_millis 40, stable_session := from_secs 30\<rparr> in do {
       events \<leftarrow> fst (supervise_with config (\<lambda>_. [])
         [test_attempt (took 1) (now 1) False (RelayFailed (from_secs 31) ''test relay failure''),
          test_attempt (took 2) (now 2) False (MissingResponse ''test response''),
          test_attempt (took 3) (now 3) True SessionCancelled] (Some []));
       retry_in \<leftarrow> second_retry events;
       assert_that (retry_in \<le> from_millis 12) })"

definition pool_summary_aggregates_worker_counts :: "unit option" where
  "pool_summary_aggregates_worker_counts =
     (let summary = \<lparr>workers = [\<lparr>attempts = 4, completed_sessions = 2, failed_attempts = 2\<rparr>,
            \<lparr>attempts = 3, completed_sessions = 1, failed_attempts = 2\<rparr>]\<rparr> in do {
       assert_that (pool_attempts summary = 7);
       assert_that (pool_completed_sessions summary = 3);
       assert_that (pool_failed_attempts summary = 4) })"

lemma test_turn:
  "supervise_turn config error_text (test_attempt took now cancelled error) st =
     (if cancelled
      then (st\<lparr>summary := (summary st)\<lparr>attempts := attempts (summary st) + 1\<rparr>,
              sink := map_option (\<lambda>sent. sent @ [AttemptStarted (attempts (summary st) + 1)]) (sink st)\<rparr>, True)
      else let a = test_attempt took now cancelled error in
        (\<lparr>backoff = (if attempt_stable config a then first_delay config
                     else min (duration_saturating_mul (backoff st) 2) (delay_cap config)),
          summary = (summary st)\<lparr>attempts := attempts (summary st) + 1, failed_attempts := failed_attempts (summary st) + 1\<rparr>,
          sink = map_option (\<lambda>sent. sent @ [AttemptStarted (attempts (summary st) + 1),
            AttemptFailed (attempts (summary st) + 1) (error_text error) took (retry_delay config a st)]) (sink st)\<rparr>, False))"
  by (simp add: test_attempt_def supervise_turns abandoned_def end_event_def Let_def)

lemmas supervisor_test_defs = supervise_with_def supervision_start_def SupervisorSummary_default_def test_turn emit_def Let_def

lemma jittered_seconds: "from_secs 8 \<le> jittered (from_secs 10) e \<and> jittered (from_secs 10) e \<le> from_secs 12"
  using jittered_bounds [of "from_secs 10" e] by (simp add: duration_defs)

lemma jittered_millis: "jittered 10000000 e \<le> 12000000"
  using jittered_bounds(2) [of "10000000" e] by (simp add: duration_defs)

lemma test_stable:
  "attempt_stable config (test_attempt took now cancelled (RelayFailed d r)) \<longleftrightarrow> stable_session config \<le> d"
  "from_secs 30 \<le> from_secs 31"
  by (simp_all add: attempt_stable_def is_stable_def test_attempt_def from_secs_def)

lemma nonzero_millis: "nonzero (from_millis 10) = from_millis 10"
  by (simp add: nonzero_def from_millis_def)

lemma stable_retry:
  assumes "first_delay config = from_millis 10" and "backoff st = from_millis 10"
  shows "retry_delay config a st \<le> from_millis 12"
  using jittered_millis by (simp add: retry_delay_def assms from_millis_def min.coboundedI1)

lemma supervisor_tests:
  "jitter_stays_within_twenty_percent = Some ()"
  "zero_backoff_is_made_nonzero = Some ()"
  "retries_failures_and_stops_cleanly_on_cancellation took now = Some ()"
  "shutdown_race_does_not_count_a_transport_failure d t = Some ()"
  "stable_relay_resets_backoff_even_when_transport_fails took now = Some ()"
  "pool_summary_aggregates_worker_counts = Some ()"
  subgoal by (simp only: jitter_stays_within_twenty_percent_def jittered_seconds list_all_iff assert_that_Some) simp
  subgoal by (simp add: zero_backoff_is_made_nonzero_def nonzero_def)
  subgoal by (simp add: retries_failures_and_stops_cleanly_on_cancellation_def supervisor_test_defs)
  subgoal by (simp add: shutdown_race_does_not_count_a_transport_failure_def supervisor_test_defs)
  subgoal by (simp add: stable_relay_resets_backoff_even_when_transport_fails_def supervisor_test_defs stable_retry
        test_stable first_delay_def nonzero_millis)
  subgoal by (simp add: pool_summary_aggregates_worker_counts_def pool_attempts_def pool_completed_sessions_def pool_failed_attempts_def)
  done

section \<open>Settings\<close>

definition parses_boolean_aliases_and_preserves_default_for_unknown_values :: "unit option" where
  "parses_boolean_aliases_and_preserves_default_for_unknown_values = do {
     assert_that (list_all (\<lambda>value. parse_boolean value False) [''1'', ''true'', ''YES'', ''on'', ''enable'', ''randomize'']);
     assert_that (list_all (\<lambda>value. \<not> parse_boolean value True) [''0'', ''false'', ''NO'', ''off'', ''disable'', ''disabled'']);
     assert_that (parse_boolean ''unexpected'' True);
     assert_that (\<not> parse_boolean ''unexpected'' False) }"

lemma settings_test: "parses_boolean_aliases_and_preserves_default_for_unknown_values = Some ()"
  by (simp add: parses_boolean_aliases_and_preserves_default_for_unknown_values_def parse_boolean_def trim_graphic graphic_def
      to_ascii_lowercase_def char_of_def bit_0)

section \<open>Signaling\<close>

text \<open>
  A Freddie that answers with a status and a body, if the request is the expected one. A response
  is the status with the chunks that are left.
\<close>

type_synonym stub_response = "u16 \<times> bytes list"

fun stub_chunk :: "stub_response \<Rightarrow> stub_response \<times> (unit + bytes option)" where
  "stub_chunk (status, []) = ((status, []), Inr None)"
| "stub_chunk (status, c # cs) = ((status, cs), Inr (Some c))"

interpretation stub_response: chunked_body stub_chunk snd "\<lambda>_. None"
  by unfold_locales (auto elim: stub_chunk.elims)

definition freddie_stub ::
    "(string \<times> string \<Rightarrow> (string \<times> string) list \<Rightarrow> bool) \<Rightarrow> u16 \<Rightarrow> bytes list
       \<Rightarrow> (unit, string, unit, unit, stub_response) http_library" where
  "freddie_stub expected status body =
     \<lparr>client_build = (\<lambda>_. Inr ()), url_parse = Inr,
      http_post = (\<lambda>_ _ header form. if expected header form then Inr (status, body) else Inl ()),
      http_get = (\<lambda>_ _ header. if expected header [] then Inr (status, body) else Inl ()),
      resp_status = fst, resp_bytes = (\<lambda>r. Inr (concat (snd r))),
      resp_chunk = stub_chunk\<rparr>"

text \<open>The messages that the bodies of the tests are the text of.\<close>

definition message_text :: "SignalMessage \<Rightarrow> bytes" where
  "message_text m = str_bytes (compact (SignalMessage_value m))"

definition stub_from_slice :: "SignalMessage list \<Rightarrow> bytes \<Rightarrow> unit + SignalMessage" where
  "stub_from_slice ms raw = ok_or (find (\<lambda>m. raw = message_text m \<or> raw = message_text m @ [10]) ms) ()"

definition stub_exchange ::
    "u16 \<Rightarrow> bytes \<Rightarrow> string \<Rightarrow> SignalMessageType \<Rightarrow> ((unit, unit, unit) SignalingError + SignalMessage option) option" where
  "stub_exchange status body send_to knd = (let lib = freddie_stub (\<lambda>_ _. True) status [body] in do {
     client \<leftarrow> result_ok (FreddieClient_new lib ''http://127.0.0.1/v1/signal'' :: (unit, unit, unit) SignalingError + _);
     Some (exchange lib (stub_from_slice []) client send_to knd ''{}'') })"

definition posts_the_go_form_and_decodes_the_reply :: "unit option" where
  "posts_the_go_form_and_decodes_the_reply =
     (let message = \<lparr>reply_to = ''offer-request'', kind = Offer, signal_payload = raw_text ''{~SDP~:{}}''\<rparr>;
          lib = freddie_stub (\<lambda>header form. header = (VERSION_HEADER, PROTOCOL_VERSION) \<and>
            map_of form ''send-to'' = Some ''genesis'' \<and> map_of form ''type'' = Some ''0'' \<and>
            map_of form ''data'' = Some (raw_text
              ''{~PathAssertion~:{~Allow~:[{~Host~:~$~,~Distance~:1}],~Deny~:null,~JITUnavailable~:false}}''))
            200 [message_text message @ [10]] in do {
       client \<leftarrow> result_ok (FreddieClient_new lib ''http://127.0.0.1/v1/signal'' :: (unit, unit, unit) SignalingError + _);
       exchanged \<leftarrow> result_ok (exchange_json lib (stub_from_slice [message]) (\<lambda>g. Inr (compact (GenesisMessage_value g))) client
         ''genesis'' Genesis \<lparr>path_assertion = all_hosts_on_request\<rparr>);
       reply \<leftarrow> exchanged;
       assert_that (kind reply = Offer);
       assert_that (reply_to reply = ''offer-request'') })"

definition maps_freddie_status_codes :: "unit option" where
  "maps_freddie_status_codes = do {
     teapot \<leftarrow> stub_exchange 418 (str_bytes ''418'' @ [10]) ''genesis'' Genesis;
     assert_that (teapot = Inl (ProtocolVersion PROTOCOL_VERSION));
     missing \<leftarrow> stub_exchange 404 (str_bytes ''404'' @ [10]) ''missing'' Offer;
     assert_that (missing = Inl RecipientGone) }"

text \<open>No server: every request fails in the HTTP client.\<close>

definition preserves_native_transport_error_type :: "unit option" where
  "preserves_native_transport_error_type = (let lib = freddie_stub (\<lambda>_ _. False) 200 [] in do {
     client \<leftarrow> result_ok (FreddieClient_new lib ''http://127.0.0.1:0/v1/signal'' :: (unit, unit, unit) SignalingError + _);
     assert_that (exchange lib (stub_from_slice []) client ''genesis'' Genesis ''{}'' = (Inl (NativeTransport ()) :: (unit, unit, unit) SignalingError + _)) })"

definition empty_success_body_is_a_timeout_without_a_reply :: "unit option" where
  "empty_success_body_is_a_timeout_without_a_reply = do {
     exchanged \<leftarrow> stub_exchange 200 [10] ''request'' Ice;
     reply \<leftarrow> result_ok exchanged;
     assert_that (reply = None) }"

definition test_genesis :: "string \<Rightarrow> SignalMessage" where
  "test_genesis r = \<lparr>reply_to = r, kind = Genesis, signal_payload = ''{}''\<rparr>"

definition reads_newline_delimited_genesis_advertisements :: "unit option" where
  "reads_newline_delimited_genesis_advertisements =
     (let messages = map test_genesis [''one'', ''two''];
          lib = freddie_stub (\<lambda>header _. header = (VERSION_HEADER, PROTOCOL_VERSION)) 200 [concat (map (\<lambda>m. message_text m @ [10]) messages)] in do {
       client \<leftarrow> result_ok (FreddieClient_new lib ''http://127.0.0.1/v1/signal'' :: (unit, unit, unit) SignalingError + _);
       stream \<leftarrow> result_ok (advertisements lib client :: (unit, unit, unit) SignalingError + _);
       received \<leftarrow> next_results (resp_chunk lib) (stub_from_slice messages) 3 stream;
       replies \<leftarrow> traverse result_ok (received :: ((unit, unit, unit) SignalingError + _) list);
       assert_that (map (map_option reply_to) replies = [Some ''one'', Some ''two'', None]) })"

lemma stub_client:
  "FreddieClient_new (freddie_stub expected status body) url = Inr \<lparr>client = (), endpoint = url, version = PROTOCOL_VERSION\<rparr>"
  by (simp add: FreddieClient_new_def with_client_def freddie_stub_def)

lemma stub_stream:
  "advertisements (freddie_stub (\<lambda>header _. header = (VERSION_HEADER, v)) 200 body) \<lparr>client = (), endpoint = url, version = v\<rparr> =
     Inr \<lparr>response = (200, body), buffered = []\<rparr>"
  "resp_chunk (freddie_stub expected status body) = stub_chunk"
  by (simp_all add: advertisements_def freddie_stub_def)

lemma stub_results:
  "next_results stub_chunk from_slice n \<lparr>response = (status, chunks), buffered = []\<rparr> =
     (let lines = filter (\<lambda>l. \<not> blank l) (split_on 10 (concat chunks)) in
      Some (map (decoded_line from_slice) (take n lines) @ replicate (n - length lines) (Inr None)))"
  by (subst stub_response.next_results_pending) (simp_all add: stub_response.pending_def Let_def)

lemma genesis_texts:
  "10 \<notin> set (message_text (test_genesis ''one''))" "10 \<notin> set (message_text (test_genesis ''two''))"
  "\<not> blank (message_text (test_genesis ''one''))" "\<not> blank (message_text (test_genesis ''two''))"
  "message_text (test_genesis ''two'') \<noteq> message_text (test_genesis ''one'')"
  "reply_to (test_genesis r) = r"
  "message_text (test_genesis ''two'') \<noteq> message_text (test_genesis ''one'') @ [10]"
  by (code_simp, code_simp, code_simp, code_simp, code_simp, simp add: test_genesis_def, code_simp)

lemma signaling_tests:
  "posts_the_go_form_and_decodes_the_reply = Some ()"
  "maps_freddie_status_codes = Some ()"
  "preserves_native_transport_error_type = Some ()"
  "empty_success_body_is_a_timeout_without_a_reply = Some ()"
  "reads_newline_delimited_genesis_advertisements = Some ()"
  subgoal unfolding posts_the_go_form_and_decodes_the_reply_def Let_def stub_client by code_simp
  subgoal unfolding maps_freddie_status_codes_def stub_exchange_def Let_def stub_client by code_simp
  subgoal unfolding preserves_native_transport_error_type_def Let_def stub_client by code_simp
  subgoal unfolding empty_success_body_is_a_timeout_without_a_reply_def stub_exchange_def Let_def stub_client by code_simp
  subgoal
    unfolding reads_newline_delimited_genesis_advertisements_def Let_def stub_client result_ok.simps bind.simps stub_stream stub_results
    by (simp add: split_on_append split_on_free genesis_texts decoded_line_def stub_from_slice_def)
  done

end
