(* ===== verification/Spec2Isabelle.thy ===== *)
theory Spec2Isabelle
  imports Protocol Virtual_Udp Relay Egress_Tunnel Rtc Consumer_Path Signaling Supervisor Peer_Proxy
    Consumer_Socks5 Consumer_Supervisor Wire_Messages Program Transport_Tests Session_Tests
begin

text \<open>
  Verification of unbounded-rs, a peer-to-peer proxy. A \<^emph>\<open>consumer\<close> who cannot reach a server
  finds a \<^emph>\<open>peer\<close> through a signaling server called Freddie, opens a WebRTC data channel to it, and
  speaks QUIC over that channel; the peer relays the packets over a WebSocket to an \<^emph>\<open>egress\<close>
  server.

  \<^bold>\<open>The parts and the theories that model them.\<close>

  \<^item> \<open>protocol.rs\<close> is \<open>Protocol\<close>: messages, constants, the three entries of the WebSocket subprotocol
    header and the test that keeps a session identifier from adding a fourth. \<open>Json\<close> has the JSON
    form of the messages, field by field as the structs derive it, and \<open>Wire_Messages\<close> that of the
    messages which the consumer and the peer proxy declare separately.
  \<^item> \<open>signaling.rs\<close> is \<open>Signaling\<close>: \<open>FreddieClient\<close>, one \<open>exchange\<close> as one HTTP request, and the stream
    of advertisements as a state machine over the chunks of a response.
  \<^item> \<open>rtc.rs\<close> is \<open>Rtc\<close>: the settings of the WebRTC API, and \<open>WebRtcDatagrams\<close>, the bounded queue between
    the callbacks of a data channel and its reader, with the task that delivers a late close.
  \<^item> \<open>egress.rs\<close> is \<open>Egress_Tunnel\<close> and \<open>relay.rs\<close> is \<open>Relay\<close>: the WebSocket as a transport of
    packets, and the loop between two transports.
  \<^item> \<open>peer_proxy.rs\<close> is \<open>Peer_Types\<close> (configuration, outcome, errors), \<open>Peer_Callbacks\<close> (the closures that
    the WebRTC crate calls, as steps on the variables they share) and \<open>Peer_Proxy\<close> (the session).
  \<^item> \<open>supervisor.rs\<close> is \<open>Supervisor\<close> (the retry loop \<open>supervise_with\<close> and the pool of workers) and
    \<open>Peer_Supervision\<close> (\<open>supervise_peer_proxy\<close>, the loop over sessions of \<open>Peer_Proxy\<close>).
  \<^item> \<open>virtual_udp.rs\<close> is \<open>Virtual_Udp\<close>: the socket that gives QUIC one path per peer, with its routing
    table and its queues. \<open>consumer_path.rs\<close> is \<open>Consumer_Path\<close>: the synthetic addresses and the
    task between a peer's transport and its path.
  \<^item> \<open>consumer.rs\<close> is \<open>Consumer_Session\<close> (the choice of a peer, the callbacks, the session) and
    \<open>Consumer_Supervisor\<close> (\<open>maintain_consumer\<close>).
  \<^item> \<open>consumer_quic.rs\<close> is \<open>Consumer_Quic\<close>: the broker that accepts QUIC connections and the dialers that
    open streams on the current one. \<open>consumer_socks5.rs\<close> is \<open>Consumer_Socks5\<close>: the SOCKS5 handshake on
    such a stream.
  \<^item> \<open>bin/peer-proxy.rs\<close> is \<open>Cli\<close> (the settings that the program reads from its environment) and
    \<open>Program\<close> (\<open>main\<close>, with every line that it prints, and \<open>main\<close> of \<open>bin/wire-vectors.rs\<close>).
    \<open>Error_Text\<close> has the texts of all error types and the \<open>Debug\<close> forms that the code defines.
  \<^item> \<open>Transport_Tests\<close> and \<open>Session_Tests\<close> run the unit tests of the modules on the model.

  \<open>Prelude\<close>, \<open>Channel\<close>, \<open>Watch_Channel\<close> and \<open>Session_Calls\<close> hold what several parts share; \<open>Format\<close> and
  \<open>Ip_Text\<close> are the formatting and the IP address parser of the standard library. This theory
  composes the two programs: a consumer and a peer proxy that talk through Freddie.

  \<^bold>\<open>How the code is rendered.\<close> A struct is a \<open>record\<close>, an enum a \<open>datatype\<close>, \<open>Result\<close> a sum with the
  error on the left, a panic \<open>None\<close>; \<open>u8\<close> to \<open>u64\<close> are words, a \<open>Duration\<close> its nanoseconds, a \<open>String\<close>
  its bytes as characters. What an asynchronous function awaits is an argument: a loop over a
  \<open>select!\<close> takes the list of the branches that complete, so that a theorem for all lists covers all
  interleavings, and a result of \<open>None\<close> means that the function has not returned yet. A straight-line
  asynchronous function is the list of the calls it makes with the value it returns; a cancellation
  after any number of calls cuts that list. State that closures share is a record, and every closure
  a step on it.

  Crates are arguments: the tokio channels (\<open>mpsc_ops\<close>, \<open>watch_ops\<close>), the WebSocket, HTTP and WebRTC
  libraries, quinn, the JSON and base64 texts, the random choices. What the code relies on is a locale
  (\<open>bounded_mpsc\<close>, \<open>unbounded_mpsc\<close>, \<open>watch_channel\<close>, \<open>packet_transport\<close>, \<open>message_sink\<close>, \<open>chunked_body\<close>,
  \<open>byte_stream\<close>) which states the documented behaviour. The lemmas of the clients are proved in
  locales on top of these (\<open>socket_channels\<close>, \<open>event_queue\<close>, \<open>data_channel\<close>, \<open>websocket_sink\<close>,
  \<open>relay_pair\<close>, \<open>path_environment\<close>, \<open>pool_channels\<close>, \<open>quic_channel\<close>); \<open>message_format\<close> is the contract
  between the writer and the reader of a message, and each message is an instance; the tunnel and the data channel are
  shown to be transports by \<open>sublocale\<close>. Every interface is interpreted on a list or counter
  implementation, and the witnesses run the code on those.

  \<^bold>\<open>What is shown.\<close>

  \<^item> The virtual socket implements a lossy datagram switch operation by operation, keeps its
    invariant and delivers the oldest datagram, and dropping a replaced path leaves its successor in
    place. A turn of the path task is an operation of the same switch, and a path carries one peer's
    packets only.
  \<^item> The relay neither invents, duplicates, reorders nor silently drops packets, and ends with its
    peer. Data channel events arrive in order, and the close arrives even when the queue is full.
  \<^item> A session identifier is checked before anything of the consumer is used, and cannot inject into
    the header or into the events of a supervised proxy. Successful sessions make exactly the calls
    of the protocol; connections are closed however a session ends, with one exception on the
    consumer's side, a data channel that cannot be created.
  \<^item> The supervisors' summaries agree with their events, retries follow the capped and jittered
    back-off, and the pool forwards every event.
  \<^item> The callbacks report a disconnect at most once and only after a connect; when a
    session reconnects after its disconnect, none follows the second connect.
  \<^item> Dialers only use connections that the broker published, never miss one, and return after the
    broker's end. The SOCKS5 request parses back to its target, a handshake leaves exactly the
    application's bytes, and conforming servers are accepted.
  \<^item> The advertisement stream does not depend on how the response is cut into chunks; the status code
    decides an exchange; settings are read as they are written.
  \<^item> Messages are read back from the JSON that they are written as, and the consumer and the peer
    proxy, each with its own structs, agree on descriptions, identifier and candidates.
  \<^item> The program prints one line per event and a last line with the totals, and nothing that a remote
    party sends puts a control character into a line.
  \<^item> The unit tests that need neither a WebRTC stack nor a network pass on the model.

  \<^bold>\<open>Bounds.\<close> No fuel is used: loops recurse over what their environment supplies, so that every finite
  run is covered, and that the relay and the dialers return is shown with the number of steps it
  takes. Counters and addresses keep their width, and the addresses and the retry delays are shown
  not to wrap. \<open>usize\<close> is unbounded for lengths and has 64 bits where it is parsed.

  \<^bold>\<open>Not modelled.\<close>

  \<^item> \<open>lib.rs\<close>, which declares and exports modules; the logger of \<open>peer-proxy\<close>, which prints what other
    crates log; its signal handler only cancels a token, and a cancellation at any point is covered.
  \<^item> The tests that start a WebRTC stack or a server: their subject is the crates below.
  \<^item> The crates: JSON and base64 text, the WebRTC, WebSocket, HTTP, TLS and QUIC state machines. They are
    arguments, as described above, and so are the texts of their errors. Which characters Unicode
    counts as printable is an argument of the \<open>Debug\<close> form of a string.
  \<^item> Fairness and real time: that a scheduler runs every task is not assumed, and timers are branches
    that may complete; elapsed times are arguments.
\<close>

section \<open>The consumer and the peer proxy through Freddie\<close>

text \<open>
  Freddie hands out only what was sent: every reply to a message of the given kind carries one of
  the given payloads. Both sessions use the JSON forms of their structs.
\<close>

definition delivers :: "('sg, 'e, 'z) Signaler_scheme \<Rightarrow> 'sg \<Rightarrow> SignalMessageType \<Rightarrow> string set \<Rightarrow> bool" where
  "delivers sig sg knd payloads \<longleftrightarrow>
     (\<forall>send_to p m. exchange_op sig sg send_to knd p = Inr (Some m) \<longrightarrow> signal_payload m \<in> payloads)"

definition json_sessions ::
    "('sd, 'ty, 'j) json_library \<Rightarrow> ('sd, 'ty, 'w, 'j, 'p) consumer_env \<Rightarrow> ('sd, 'ty, 'v, 'j, 'q) peer_env \<Rightarrow> bool" where
  "json_sessions jl cenv penv \<longleftrightarrow> json_laws jl \<and> consumer_json jl cenv = cenv \<and> peer_json jl penv = penv"

lemma candidate_survives: "to_rust_candidate (received_candidate (ConsumerIceCandidate_from c)) = c\<lparr>stats_id := []\<rparr>"
  by (cases c) (simp add: to_rust_candidate_def received_candidate_def ConsumerIceCandidate_from_def split: RTCIceProtocol.split)

text \<open>The description that the peer proxy adds for a candidate of the consumer.\<close>

definition added_from :: "('sd, 'ty, 'w, 'j, 'p) peer_env \<Rightarrow> 'ty RTCIceCandidate \<Rightarrow> RTCIceCandidateInit \<Rightarrow> bool" where
  "added_from env c init \<longleftrightarrow>
     (\<exists>init0. candidate_to_json env (c\<lparr>stats_id := []\<rparr>) = Inr init0 \<and>
        init = init0\<lparr>init_sdp_mid := None, init_sdp_mline_index := None\<rparr>)"

lemma added_from_received: "added_as env (received_candidate (ConsumerIceCandidate_from c)) init = added_from env c init"
  by (simp add: added_as_def added_from_def candidate_survives) (simp add: received_candidate_def)

lemma added_all:
  "list_all2 (added_as env) (candidates (received_ice \<lparr>ice_candidates = map ConsumerIceCandidate_from cs, ice_session_id = i\<rparr>)) inits
     = list_all2 (added_from env) cs inits"
  by (simp add: received_ice_def list_all2_map1 added_from_received)

text \<open>What each side sent and received, from its calls.\<close>

lemma consumer_exchanged:
  assumes "consumer_completed_as csig nxt cenv pe cconfig calls coutcome"
  obtains offer offer_payload answer_signal answer send_to ice_payload where
    "offer_to_json cenv \<lparr>offer_sdp = offer, offer_tag = con_tag cconfig\<rparr> = Inr offer_payload"
    "exchange_op csig (con_signaler cconfig) send_to Offer offer_payload = Inr (Some answer_signal)"
    "answer_from_json cenv (signal_payload answer_signal) = Inr answer"
    "ice_to_json cenv
       \<lparr>ice_candidates = map ConsumerIceCandidate_from (List.map_filter candidate_signal (callbacks_before_ice cenv)),
        ice_session_id = con_session_id cconfig\<rparr> = Inr ice_payload"
    "ApplyLocal offer \<in> set calls" "ApplyRemote answer \<in> set calls"
    "{p. \<exists>to. SendSignal to Offer p \<in> set calls} = {offer_payload}"
    "{p. \<exists>to. SendSignal to Ice p \<in> set calls} = {ice_payload}"
  using assms unfolding consumer_completed_as_def
  apply (elim exE conjE)
  apply (rule that)
         apply assumption
        apply assumption
       apply assumption
      apply assumption
     apply (simp_all (no_asm_simp))
  done

fun added_candidates :: "'sd peer_call list \<Rightarrow> RTCIceCandidateInit list" where
  "added_candidates [] = []"
| "added_candidates (AddCandidate init # cs) = init # added_candidates cs"
| "added_candidates (c # cs) = added_candidates cs"

lemma added_candidates_map: "added_candidates (map AddCandidate inits @ cs) = inits @ added_candidates cs"
  by (induction inits) simp_all

lemma peer_exchanged:
  assumes "completed_as psig penv re pconfig calls poutcome"
  obtains genesis offer_signal offer final_sdp final_answer send_to ice_signal ice inits where
    "exchange_op psig (signaler pconfig) ''genesis'' Genesis genesis = Inr (Some offer_signal)"
    "offer_from_json penv (signal_payload offer_signal) = Inr offer"
    "local_description penv = Some final_sdp" "answer_to_json penv final_sdp = Inr final_answer"
    "exchange_op psig (signaler pconfig) send_to Answer final_answer = Inr (Some ice_signal)"
    "ice_from_json penv (signal_payload ice_signal) = Inr ice"
    "outcome_session_id poutcome = consumer_session_id ice" "list_all2 (added_as penv) (candidates ice) inits"
    "SetRemote (sdp offer) \<in> set calls" "{p. \<exists>to. Exchange to Answer p \<in> set calls} = {final_answer}"
    "added_candidates calls = inits"
  using assms unfolding completed_as_def
  apply (elim exE conjE)
  apply (rule that)
            apply assumption
           apply assumption
          apply assumption
         apply assumption
        apply assumption
       apply assumption
      apply assumption
     apply assumption
    apply (simp (no_asm_simp))
   apply (simp (no_asm_simp) add: image_iff)
  apply (simp (no_asm_simp) add: added_candidates_map)
  done

lemma added_candidates_append: "added_candidates (xs @ ys) = added_candidates xs @ added_candidates ys"
  by (induction xs rule: added_candidates.induct) simp_all

lemma delivers_only: "delivers sig sg knd {q} \<Longrightarrow> exchange_op sig sg to knd p = Inr (Some m) \<Longrightarrow> signal_payload m = q"
  by (simp add: delivers_def)

lemma json_offer:
  "json_sessions jl cenv penv \<Longrightarrow> offer_to_json cenv m = Inr t \<Longrightarrow> offer_from_json penv u = Inr x \<Longrightarrow> u = t \<Longrightarrow> sdp x = offer_sdp m"
  using offer_text_read [of jl cenv m t penv] by (auto simp: json_sessions_def received_offer_def)

lemma json_answer:
  "json_sessions jl cenv penv \<Longrightarrow> answer_to_json penv d = Inr t \<Longrightarrow> answer_from_json cenv u = Inr x \<Longrightarrow> u = t \<Longrightarrow> x = d"
  using answer_text_read [of jl penv d t cenv] by (auto simp: json_sessions_def)

lemma json_ice:
  "json_sessions jl cenv penv \<Longrightarrow> ice_to_json cenv m = Inr t \<Longrightarrow> ice_from_json penv u = Inr x \<Longrightarrow> u = t \<Longrightarrow> x = received_ice m"
  using ice_text_read [of jl cenv m t penv] by (auto simp: json_sessions_def)

text \<open>
  C15. Both ends of a handshake agree. Let a consumer session and a peer proxy session both succeed,
  let Freddie answer the peer proxy's genesis and answer messages with payloads that the consumer
  sent as its offer and its candidates, and the consumer's offer with a payload that the peer proxy
  sent as its answer, and let both sides use the JSON forms of their own structs, with a JSON
  library that reads back what it prints. Then the peer proxy applies the
  consumer's local description, the consumer applies the peer proxy's, the peer proxy runs under
  the session identifier of the consumer's configuration, which is a valid token, and it adds
  exactly the candidates that the consumer gathered, in order, without loss of a field other than
  the local statistics identifier.
\<close>

theorem handshake_agrees:
  assumes "run_consumer_session lib ss se nc cd cancel csig nxt pick ac gs cenv pe cconfig = (ccalls, Some (Inr coutcome))"
    and "run_peer_proxy_until_cancelled lib' ss' se' nc' cancel' psig penv re pconfig = (pcalls, Some (Inr poutcome))"
    and "\<And>xs x. pick xs = Some x \<Longrightarrow> x \<in> set xs" and "json_sessions jl cenv penv"
    and "delivers psig (signaler pconfig) Genesis {p. \<exists>to. SendSignal to Offer p \<in> set ccalls}"
    and "delivers csig (con_signaler cconfig) Offer {p. \<exists>to. Exchange to Answer p \<in> set pcalls}"
    and "delivers psig (signaler pconfig) Answer {p. \<exists>to. SendSignal to Ice p \<in> set ccalls}"
  shows "(\<exists>offer. ApplyLocal offer \<in> set ccalls \<and> SetRemote offer \<in> set pcalls) \<and>
    (\<exists>answer. local_description penv = Some answer \<and> ApplyRemote answer \<in> set ccalls) \<and>
    outcome_session_id poutcome = con_session_id cconfig \<and> is_subprotocol_token (con_session_id cconfig) \<and>
    list_all2 (added_from penv) (List.map_filter candidate_signal (callbacks_before_ice cenv)) (added_candidates pcalls)"
proof -
  from assms(1) assms(3) obtain cs where
    cc: "ccalls = OpenConnection (if con_stun_urls cconfig = [] then [] else [con_stun_urls cconfig]) # CreateChannel # cs @ [CloseSession]"
    and consumer: "consumer_completed_as csig nxt cenv pe cconfig cs coutcome" by (rule run_consumer_Inr)
  from assms(2) obtain ps where pc: "pcalls = NewConnection (ice_servers (stun_urls pconfig)) # ps @ [CloseConnection]"
    and peer: "completed_as psig penv re pconfig ps poutcome" by (rule run_peer_proxy_Inr)
  from consumer_exchanged [OF consumer] obtain offer offer_payload answer_signal answer ice_payload send_to where
    c: "offer_to_json cenv \<lparr>offer_sdp = offer, offer_tag = con_tag cconfig\<rparr> = Inr offer_payload"
      "exchange_op csig (con_signaler cconfig) send_to Offer offer_payload = Inr (Some answer_signal)"
      "answer_from_json cenv (signal_payload answer_signal) = Inr answer"
      "ice_to_json cenv \<lparr>ice_candidates = map ConsumerIceCandidate_from (List.map_filter candidate_signal (callbacks_before_ice cenv)),
        ice_session_id = con_session_id cconfig\<rparr> = Inr ice_payload"
      "ApplyLocal offer \<in> set cs" "ApplyRemote answer \<in> set cs"
      "{p. \<exists>to. SendSignal to Offer p \<in> set cs} = {offer_payload}" "{p. \<exists>to. SendSignal to Ice p \<in> set cs} = {ice_payload}" .
  from peer_exchanged [OF peer] obtain genesis offer_signal poffer final_sdp final_answer send_to' ice_signal ice inits where
    p: "exchange_op psig (signaler pconfig) ''genesis'' Genesis genesis = Inr (Some offer_signal)"
      "offer_from_json penv (signal_payload offer_signal) = Inr poffer"
      "local_description penv = Some final_sdp" "answer_to_json penv final_sdp = Inr final_answer"
      "exchange_op psig (signaler pconfig) send_to' Answer final_answer = Inr (Some ice_signal)"
      "ice_from_json penv (signal_payload ice_signal) = Inr ice"
      "outcome_session_id poutcome = consumer_session_id ice" "list_all2 (added_as penv) (candidates ice) inits"
      "SetRemote (sdp poffer) \<in> set ps" "{p. \<exists>to. Exchange to Answer p \<in> set ps} = {final_answer}"
      "added_candidates ps = inits" .
  have "{p. \<exists>to. SendSignal to Offer p \<in> set ccalls} = {offer_payload}" using c(7) by (simp add: cc)
  note offer_read = json_offer [OF assms(4) c(1) p(2) delivers_only [OF assms(5) [unfolded this] p(1)]]
  have "{p. \<exists>to. Exchange to Answer p \<in> set pcalls} = {final_answer}" using p(10) by (simp add: pc)
  note answer_read = json_answer [OF assms(4) p(4) c(3) delivers_only [OF assms(6) [unfolded this] c(2)]]
  have "{p. \<exists>to. SendSignal to Ice p \<in> set ccalls} = {ice_payload}" using c(8) by (simp add: cc)
  note ice_read = json_ice [OF assms(4) c(4) p(6) delivers_only [OF assms(7) [unfolded this] p(5)]]
  show ?thesis
  proof (intro conjI)
    show "\<exists>offer. ApplyLocal offer \<in> set ccalls \<and> SetRemote offer \<in> set pcalls"
      using c(5) p(9) by (intro exI [of _ offer]) (simp add: cc pc offer_read)
    show "\<exists>answer. local_description penv = Some answer \<and> ApplyRemote answer \<in> set ccalls"
      using c(6) p(3) by (intro exI [of _ final_sdp]) (simp add: cc answer_read)
    show id: "outcome_session_id poutcome = con_session_id cconfig" by (simp add: p(7) ice_read received_ice_def)
    show "is_subprotocol_token (con_session_id cconfig)" using completed_as_token [OF peer] by (simp only: id)
    show "list_all2 (added_from penv) (List.map_filter candidate_signal (callbacks_before_ice cenv)) (added_candidates pcalls)"
      using p(8) by (simp add: pc added_candidates_append p(11) ice_read added_all)
  qed
qed

text \<open>A consumer and a peer proxy over one signaling server, with one candidate.\<close>

definition paired_candidate :: "unit RTCIceCandidate" where
  "paired_candidate = \<lparr>stats_id = ''local'', ice_foundation = ''f'', ice_priority = 1, ice_address = ''10.0.0.1'',
     ice_protocol = ProtocolUdp, ice_port = 9, ice_typ = (), ice_component = 1, ice_related_address = [],
     ice_related_port = 0, ice_tcp_type = []\<rparr>"

definition paired_ice :: "unit ConsumerIceMessage" where
  "paired_ice = \<lparr>ice_candidates = [ConsumerIceCandidate_from paired_candidate], ice_session_id = ''csid''\<rparr>"

definition paired_consumer_signaler ::
    "(unit, (string, string, string) SignalingError, SignalMessage list) ConsumerSignaler" where
  "paired_consumer_signaler =
     sample_consumer_signaler\<lparr>exchange_op := (\<lambda>_ send_to k payload. Inr (if k = Offer then Some (sample_signal Answer ''answer'') else None))\<rparr>"

text \<open>A JSON library that knows the four texts of the handshake.\<close>

definition paired_values :: "(string \<times> json) list" where
  "paired_values =
     [(''genesis'', GenesisMessage_value \<lparr>path_assertion = all_hosts_on_request\<rparr>),
      (''offer'', ConsumerOfferMessage_value JString \<lparr>offer_sdp = ''offer'', offer_tag = []\<rparr>),
      (''answer'', JString ''answer''),
      (''csid'', ConsumerIceMessage_value (\<lambda>_. JString ''host'') paired_ice)]"

definition paired_json_library :: "(string, unit, string) json_library" where
  "paired_json_library =
     \<lparr>print_json = (\<lambda>v. ok_or (map_of (map (\<lambda>(t, w). (w, t)) paired_values) v) ''text''),
      parse_json = (\<lambda>t. ok_or (map_of paired_values t) ''parse''), data_error = (\<lambda>_. ''data''),
      description_value = JString, description_read = string_read,
      candidate_type_value = (\<lambda>_. JString ''host''), candidate_type_read = (\<lambda>v. if v = JString ''host'' then Some () else None)\<rparr>"

definition paired_consumer_env ::
    "(string, unit, string, string, (bytes list \<times> nat, ChannelEvent list) WebRtcDatagrams) consumer_env" where
  "paired_consumer_env = consumer_json paired_json_library
     (sample_consumer_env\<lparr>callbacks_before_ice := [ConCandidate (Some paired_candidate), ConCandidate None]\<rparr>)"

definition paired_peer_env ::
    "(string, unit, string, string, (bytes list \<times> nat, ChannelEvent list) WebRtcDatagrams) peer_env" where
  "paired_peer_env = peer_json paired_json_library sample_env"

lemma paired_laws: "json_laws paired_json_library"
  by (auto simp: json_laws_def paired_json_library_def paired_values_def json_texts_def format_iff split: if_splits)

lemma paired_json: "json_sessions paired_json_library paired_consumer_env paired_peer_env"
  by (simp add: json_sessions_def paired_laws paired_consumer_env_def paired_peer_env_def consumer_json_def peer_json_def)

lemma paired_texts:
  "offer_to_json paired_consumer_env \<lparr>offer_sdp = ''offer'', offer_tag = []\<rparr> = Inr ''offer''"
  "ice_to_json paired_consumer_env paired_ice = Inr ''csid''"
  "genesis_to_json paired_peer_env \<lparr>path_assertion = all_hosts_on_request\<rparr> = Inr ''genesis''"
  "answer_to_json paired_peer_env ''answer'' = Inr ''answer''"
  by (simp_all add: paired_consumer_env_def paired_peer_env_def session_json_defs paired_json_library_def
      paired_values_def to_string_def ConsumerOfferMessage_value_def ConsumerIceMessage_value_def GenesisMessage_value_def)

lemma paired_reads:
  "offer_from_json paired_peer_env ''offer'' = Inr \<lparr>sdp = ''offer'', tag = []\<rparr>"
  "answer_from_json paired_consumer_env ''answer'' = Inr ''answer''"
  "ice_from_json paired_peer_env ''csid'' = Inr (received_ice paired_ice)"
proof -
  note env = paired_json [unfolded json_sessions_def, THEN conjunct2, THEN conjunct1] paired_json [unfolded json_sessions_def, THEN conjunct2, THEN conjunct2]
  show "offer_from_json paired_peer_env ''offer'' = Inr \<lparr>sdp = ''offer'', tag = []\<rparr>"
    using offer_text_read [OF paired_laws, of paired_consumer_env _ "''offer''" paired_peer_env, unfolded env, OF paired_texts(1)]
    by (simp add: received_offer_def)
  show "answer_from_json paired_consumer_env ''answer'' = Inr ''answer''"
    using answer_text_read [OF paired_laws, of paired_peer_env _ "''answer''" paired_consumer_env, unfolded env, OF paired_texts(4)] .
  show "ice_from_json paired_peer_env ''csid'' = Inr (received_ice paired_ice)"
    using ice_text_read [OF paired_laws, of paired_consumer_env _ "''csid''" paired_peer_env, unfolded env, OF paired_texts(2)] .
qed

lemma paired_consumer_fields:
  "create_offer paired_consumer_env = create_offer sample_consumer_env"
  "con_set_local paired_consumer_env = con_set_local sample_consumer_env"
  "con_set_remote paired_consumer_env = con_set_remote sample_consumer_env"
  "channel_wait paired_consumer_env = channel_wait sample_consumer_env"
  "callbacks_before_ice paired_consumer_env = [ConCandidate (Some paired_candidate), ConCandidate None]"
  by (simp_all add: paired_consumer_env_def consumer_json_def)

lemma paired_peer_fields:
  "set_remote_description paired_peer_env = set_remote_description sample_env"
  "create_answer paired_peer_env = create_answer sample_env"
  "set_local_description paired_peer_env = set_local_description sample_env"
  "local_description paired_peer_env = local_description sample_env"
  "candidate_to_json paired_peer_env = candidate_to_json sample_env"
  "add_ice_candidate paired_peer_env = add_ice_candidate sample_env"
  "data_channel_wait paired_peer_env = data_channel_wait sample_env"
  by (simp_all add: paired_peer_env_def peer_json_def)

lemma paired_consumer_session:
  "consumer_session paired_consumer_signaler list_next sample_pick False [NextReady, NextReady, NextReady, PatienceOver]
     paired_consumer_env sample_path_env sample_consumer_config =
     ([SelectGenesis, CreateOffer, SendSignal ''two'' Offer ''offer'', AwaitPromise, ApplyLocal ''offer'',
       ApplyRemote ''answer'', AwaitGathering, SendSignal ''tx'' Ice ''csid'', AwaitChannel (from_secs 5), AllocatePath,
       RunPath (SocketAddrV4 (CGNAT_BASE + FIRST_PATH_HOST) SYNTHETIC_PATH_PORT)],
      Some (Inr \<lparr>outcome_remote = SocketAddrV4 (CGNAT_BASE + FIRST_PATH_HOST) SYNTHETIC_PATH_PORT, path_end = PathPeerClosed\<rparr>))"
proof -
  have adv: "advertisements_op paired_consumer_signaler () = advertisements_op sample_consumer_signaler ()"
    by (simp add: paired_consumer_signaler_def)
  have ex: "exchange_op paired_consumer_signaler () to k p = Inr (if k = Offer then Some (sample_signal Answer ''answer'') else None)" for to k p
    by (simp add: paired_consumer_signaler_def)
  have gathered: "gathered_candidates (consumer_callbacks_run (callbacks_before_ice paired_consumer_env) consumer_handlers_new) = [paired_candidate]"
    by (simp add: paired_consumer_fields consumer_callbacks_once map_filter_simps)
  show ?thesis
    unfolding consumer_session_def path_phase_def sample_consumer_config_def ConsumerConfig_new_def gathered
    by (simp add: adv ex sample_select sample_allocated sample_path_result perform_opt_def perform_def attempt_pure_def
        paired_consumer_fields paired_texts(1,2) [unfolded paired_ice_def] paired_reads sample_consumer_env_def decode_payload_def consumer_expect_signal_def
        await_channel_def sample_signal_def sample_advert_def del: cgnat_values)
qed

lemma paired_peer_session:
  "peer_session (sample_signaler ''csid'') paired_peer_env sample_relay_env sample_peer_config =
     ([Exchange ''genesis'' Genesis ''genesis'', SetRemote ''offer'', CreateAnswer, GatheringPromise,
       SetLocal ''answer'', GatheringDone, LocalDescription, Exchange ''tx'' Answer ''answer'',
       PublishSessionId ''csid'', AddCandidate (sample_init\<lparr>init_sdp_mid := None, init_sdp_mline_index := None\<rparr>),
       AwaitDataChannel (from_secs 10), EgressConnect ''ws://x/ws'' ''csid'', RunRelay],
      Some (Inr \<lparr>outcome_session_id = ''csid'', relay_end = PeerClosed, outcome_relay_duration = from_secs 3\<rparr>))"
  by (simp add: peer_session_def sample_signaler_def paired_peer_fields paired_texts paired_reads sample_env_def sample_peer_config_def sample_signal_def
      perform_def attempt_pure_def expect_signal_def decode_payload_def validate_session_id_def sample_token
      await_data_channel_def sample_relay received_ice_def paired_ice_def candidate_survives sample_init_def)
    (simp add: received_candidate_def paired_candidate_def)

lemma paired_consumer_run:
  "run_consumer_session sample_rtc id id (\<lambda>_ _. Inr ()) (\<lambda>_ _ _. Inr ()) None paired_consumer_signaler list_next sample_pick False
     [NextReady, NextReady, NextReady, PatienceOver] paired_consumer_env sample_path_env sample_consumer_config =
   (let s = consumer_session paired_consumer_signaler list_next sample_pick False [NextReady, NextReady, NextReady, PatienceOver]
       paired_consumer_env sample_path_env sample_consumer_config
    in (OpenConnection [] # CreateChannel # fst s @ [CloseSession], snd s))"
  unfolding run_consumer_session_def paired_consumer_session
  by (simp add: build_api_with_options_def sample_rtc_def attempt_pure_def perform_def sample_consumer_config_def
      ConsumerConfig_new_def until_cancelled_def close_after_def create_unreliable_data_channel_def)

lemma paired_peer_run:
  "run_peer_proxy_until_cancelled sample_rtc id id (\<lambda>_ _. Inr ()) None (sample_signaler ''csid'') paired_peer_env
     sample_relay_env sample_peer_config =
   (let s = peer_session (sample_signaler ''csid'') paired_peer_env sample_relay_env sample_peer_config
    in (NewConnection [[''stun:s'']] # fst s @ [CloseConnection], snd s))"
  unfolding run_peer_proxy_until_cancelled_def paired_peer_session
  by (simp add: build_api_with_options_def sample_rtc_def attempt_pure_def
      perform_def ice_servers_def sample_peer_config_def until_cancelled_def close_after_def)

theorem handshake_agrees_witness:
  "\<exists>init. list_all2 (added_from paired_peer_env) [paired_candidate] [init] \<and> init_candidate init = ''10.0.0.1'' \<and>
     is_subprotocol_token ''csid''"
proof -
  let ?c = "fst (run_consumer_session sample_rtc id id (\<lambda>_ _. Inr ()) (\<lambda>_ _ _. Inr ()) None paired_consumer_signaler list_next sample_pick False
     [NextReady, NextReady, NextReady, PatienceOver] paired_consumer_env sample_path_env sample_consumer_config)"
  let ?p = "fst (run_peer_proxy_until_cancelled sample_rtc id id (\<lambda>_ _. Inr ()) None (sample_signaler ''csid'') paired_peer_env
     sample_relay_env sample_peer_config)"
  note consumer = paired_consumer_run [unfolded paired_consumer_session Let_def fst_conv snd_conv]
  note peer = paired_peer_run [unfolded paired_peer_session Let_def fst_conv snd_conv]
  have d: "delivers (sample_signaler ''csid'') (signaler sample_peer_config) Genesis {p. \<exists>to. SendSignal to Offer p \<in> set ?c}"
    "delivers paired_consumer_signaler (con_signaler sample_consumer_config) Offer {p. \<exists>to. Exchange to Answer p \<in> set ?p}"
    "delivers (sample_signaler ''csid'') (signaler sample_peer_config) Answer {p. \<exists>to. SendSignal to Ice p \<in> set ?c}"
    unfolding consumer peer
    by (auto simp: delivers_def sample_signaler_def sample_signal_def paired_consumer_signaler_def)
  from handshake_agrees [OF consumer peer sample_pick_in paired_json d [unfolded consumer peer fst_conv]]
  show ?thesis by (intro exI [of _ "sample_init\<lparr>init_sdp_mid := None, init_sdp_mline_index := None\<rparr>"])
    (simp add: paired_consumer_fields map_filter_simps sample_consumer_config_def ConsumerConfig_new_def sample_init_def)
qed

end
